(* ===== verification/Prelude.thy ===== *)
theory Prelude
  imports Main "HOL-Library.Sublist"
begin

text \<open>
  Shared vocabulary of the development: the collections that the component proofs pass to the
  simplifier, conditional rendering (\<open>showIf\<close>), lists of resources addressed by their id, results
  that are an error or a value, and page machines: a React component with its outstanding
  promises is a partial step function on a state, and the locale \<open>page_machine\<close> is the
  invariant argument every page instantiates.
\<close>

named_theorems page_defs \<open>definitions of page handlers and derived values\<close>
named_theorems view_defs \<open>definitions of rendered views\<close>
named_theorems wire_defs \<open>definitions of client requests and response handling\<close>

section \<open>Conditional rendering\<close>

text \<open>\<open>{cond ? xs : null}\<close> and \<open>{cond && xs}\<close> as a list of children.\<close>

definition showIf :: "bool \<Rightarrow> 'a list \<Rightarrow> 'a list" where
  "showIf b xs = (if b then xs else [])"

lemma showIf_simps [simp]: "showIf True xs = xs" "showIf False xs = []"
  by (simp_all add: showIf_def)

lemma set_showIf [simp]: "set (showIf b xs) = (if b then set xs else {})"
  by (simp add: showIf_def)

lemma map_showIf [simp]: "map f (showIf b xs) = showIf b (map f xs)"
  by (simp add: showIf_def)

lemma concat_showIf [simp]: "concat (showIf b xss) = showIf b (concat xss)"
  by (simp add: showIf_def)

lemma filter_showIf [simp]: "filter P (showIf b xs) = showIf b (filter P xs)"
  by (simp add: showIf_def)

lemma showIf_Nil [simp]: "showIf b [] = []"
  by (simp add: showIf_def)

lemma map_if [simp]: "map f (if b then xs else ys) = (if b then map f xs else map f ys)"
  by simp

lemma concat_if [simp]: "concat (if b then xss else yss) = (if b then concat xss else concat yss)"
  by simp

lemma concat_nothing [simp]: "concat (map (\<lambda>x. []) xs) = []"
  by (induction xs) simp_all

lemma concat_showIf_single: "concat (map (\<lambda>x. showIf (P x) [f x]) xs) = map f (filter P xs)"
  by (induction xs) (simp_all add: showIf_def)

section \<open>Lists of resources addressed by id\<close>

text \<open>
  \<open>update_by key i f xs\<close> is \<open>xs.map((x) => x.id === i ? f(x) : x)\<close> and
  \<open>remove_by key i xs\<close> is \<open>xs.filter((x) => x.id !== i)\<close>.
\<close>

definition update_by :: "('a \<Rightarrow> 'i) \<Rightarrow> 'i \<Rightarrow> ('a \<Rightarrow> 'a) \<Rightarrow> 'a list \<Rightarrow> 'a list" where
  "update_by key i f xs = map (\<lambda>x. if key x = i then f x else x) xs"

definition remove_by :: "('a \<Rightarrow> 'i) \<Rightarrow> 'i \<Rightarrow> 'a list \<Rightarrow> 'a list" where
  "remove_by key i xs = filter (\<lambda>x. key x \<noteq> i) xs"

lemma length_update_by [simp]: "length (update_by key i f xs) = length xs"
  by (simp add: update_by_def)

lemma map_key_update_by:
  assumes "\<And>x. key (f x) = key x"
  shows "map key (update_by key i f xs) = map key xs"
  using assms by (simp add: update_by_def)

lemma update_by_absent: "i \<notin> key ` set xs \<Longrightarrow> update_by key i f xs = xs"
  unfolding update_by_def by (induction xs) auto

lemma set_update_by:
  "set (update_by key i f xs) = {x \<in> set xs. key x \<noteq> i} \<union> f ` {x \<in> set xs. key x = i}"
  by (auto simp: update_by_def)

lemma in_update_by_other: "key x \<noteq> i \<Longrightarrow> x \<in> set xs \<Longrightarrow> x \<in> set (update_by key i f xs)"
  by (auto simp: set_update_by)

lemma set_remove_by [simp]: "set (remove_by key i xs) = {x \<in> set xs. key x \<noteq> i}"
  by (auto simp: remove_by_def)

lemma remove_by_idem [simp]: "remove_by key i (remove_by key i xs) = remove_by key i xs"
  by (simp add: remove_by_def)

lemma remove_by_commute: "remove_by key i (remove_by key j xs) = remove_by key j (remove_by key i xs)"
  by (simp add: remove_by_def conj_commute)

lemma length_remove_by_distinct:
  assumes "distinct (map key xs)" "i \<in> key ` set xs"
  shows "Suc (length (remove_by key i xs)) = length xs"
  using assms
proof (induction xs)
  case (Cons x xs)
  show ?case
  proof (cases "key x = i")
    case True
    with Cons.prems have "remove_by key i xs = xs"
      by (auto simp: remove_by_def filter_id_conv) (metis image_eqI)
    with True show ?thesis by (simp add: remove_by_def)
  next
    case False
    with Cons show ?thesis by (force simp: remove_by_def)
  qed
qed simp

text \<open>\<open>drop_nth i ps\<close>: the promises in flight after the one at position \<open>i\<close> has settled.\<close>

definition drop_nth :: "nat \<Rightarrow> 'a list \<Rightarrow> 'a list" where
  "drop_nth n xs = take n xs @ drop (Suc n) xs"

lemma drop_nth_subset: "set (drop_nth n xs) \<subseteq> set xs"
  by (auto simp: drop_nth_def dest: in_set_takeD in_set_dropD)

lemma length_drop_nth [simp]: "n < length xs \<Longrightarrow> length (drop_nth n xs) = length xs - 1"
  by (simp add: drop_nth_def)

lemma drop_nth_0 [simp]: "drop_nth 0 xs = tl xs"
  by (cases xs) (simp_all add: drop_nth_def)

lemma drop_nth_one: "i < length xs \<Longrightarrow> length xs \<le> 1 \<Longrightarrow> i = 0 \<and> drop_nth i xs = []"
  by (cases xs) auto

section \<open>Results\<close>

text \<open>A settled promise is \<open>Inl\<close> of the rejection reason or \<open>Inr\<close> of the value.\<close>

fun on_value :: "('a \<Rightarrow> 'b) \<Rightarrow> 'e + 'a \<Rightarrow> 'e + 'b" where
  "on_value f (Inl e) = Inl e"
| "on_value f (Inr x) = Inr (f x)"

fun and_then :: "'e + 'a \<Rightarrow> ('a \<Rightarrow> 'e + 'b) \<Rightarrow> 'e + 'b" where
  "and_then (Inl e) f = Inl e"
| "and_then (Inr x) f = f x"

lemma and_then_assoc: "and_then (and_then r f) g = and_then r (\<lambda>x. and_then (f x) g)"
  by (cases r) simp_all

lemma on_value_eq_Inr [simp]: "on_value f r = Inr y \<longleftrightarrow> (\<exists>x. r = Inr x \<and> y = f x)"
  by (cases r) auto

lemma on_value_eq_Inl [simp]: "on_value f r = Inl e \<longleftrightarrow> r = Inl e"
  by (cases r) auto

section \<open>Page machines\<close>

text \<open>
  A step is a user event or the settlement of an outstanding promise; \<open>None\<close> says the event
  cannot happen in this state (the control is disabled or absent, or no such promise is pending).
\<close>

type_synonym ('s, 'e) machine = "'s \<Rightarrow> 'e \<Rightarrow> 's option"

fun run :: "('s, 'e) machine \<Rightarrow> 's \<Rightarrow> 'e list \<Rightarrow> 's option" where
  "run step s [] = Some s"
| "run step s (e # es) = (case step s e of None \<Rightarrow> None | Some t \<Rightarrow> run step t es)"

inductive reach :: "('s, 'e) machine \<Rightarrow> 's \<Rightarrow> 's \<Rightarrow> bool" for step s0 where
  reach_start: "reach step s0 s0"
| reach_step: "reach step s0 s \<Longrightarrow> step s e = Some t \<Longrightarrow> reach step s0 t"

lemma run_append:
  "run step s (es @ fs) = (case run step s es of None \<Rightarrow> None | Some t \<Rightarrow> run step t fs)"
  by (induction es arbitrary: s) (auto split: option.splits)

lemma reach_run: "reach step s0 s \<Longrightarrow> \<exists>es. run step s0 es = Some s"
proof (induction rule: reach.induct)
  case reach_start
  have "run step s0 [] = Some s0" by simp
  then show ?case ..
next
  case (reach_step s e t)
  then obtain es where "run step s0 es = Some s" by blast
  with reach_step.hyps have "run step s0 (es @ [e]) = Some t" by (simp add: run_append)
  then show ?case ..
qed

lemma run_reach: "reach step s0 s \<Longrightarrow> run step s es = Some t \<Longrightarrow> reach step s0 t"
  by (induction es arbitrary: s) (auto split: option.splits intro: reach.reach_step)

lemma reach_iff_run: "reach step s0 t \<longleftrightarrow> (\<exists>es. run step s0 es = Some t)"
  using reach_run run_reach reach.reach_start by metis

locale page_machine =
  fixes step :: "('s, 'e) machine"
    and start :: 's
    and inv :: "'s \<Rightarrow> bool"
  assumes inv_start: "inv start"
    and inv_step: "inv s \<Longrightarrow> step s e = Some t \<Longrightarrow> inv t"
begin

lemma reach_inv: "reach step start s \<Longrightarrow> inv s"
  by (induction rule: reach.induct) (auto intro: inv_start inv_step)

lemma run_inv: "run step start es = Some s \<Longrightarrow> inv s"
  using reach_inv reach_iff_run by metis

lemma run_inv_from: "inv s \<Longrightarrow> run step s es = Some t \<Longrightarrow> inv t"
  by (induction es arbitrary: s) (auto split: option.splits intro: inv_step)

end

end
