(* ===== verification/JsText.thy ===== *)
theory JsText
  imports Prelude
begin

text \<open>
  Text of the TypeScript and Go sources. A string of the model is the UTF-8 encoding of the
  text, one \<open>char\<close> per byte: Go counts bytes, and the JavaScript code never takes the length
  of a string or a substring by position, so its UTF-16 units need no model of their own. The file
  holds the string operations the sources use: \<open>trim\<close> and \<open>strings.TrimSpace\<close> with their
  two white-space sets, \<open>startsWith\<close>, \<open>split\<close>, \<open>replace\<close>, ASCII case mapping, the word
  capitalisation of \<open>formatLabel\<close>, and decimal printing. Interface texts that are not ASCII are
  written with HTML entities and decoded by \<open>tr\<close>.
\<close>

section \<open>Entities\<close>

definition entity :: "string \<Rightarrow> string option" where
  "entity = map_of
     [(''Idot'', [CHR 0xC4, CHR 0xB0]), (''imath'', [CHR 0xC4, CHR 0xB1]),
      (''Scedil'', [CHR 0xC5, CHR 0x9E]), (''scedil'', [CHR 0xC5, CHR 0x9F]),
      (''gbreve'', [CHR 0xC4, CHR 0x9F]), (''Ccedil'', [CHR 0xC3, CHR 0x87]),
      (''ccedil'', [CHR 0xC3, CHR 0xA7]), (''Ouml'', [CHR 0xC3, CHR 0x96]),
      (''ouml'', [CHR 0xC3, CHR 0xB6]), (''Uuml'', [CHR 0xC3, CHR 0x9C]),
      (''uuml'', [CHR 0xC3, CHR 0xBC]), (''mdash'', [CHR 0xE2, CHR 0x80, CHR 0x94]),
      (''rsquo'', [CHR 0xE2, CHR 0x80, CHR 0x99]),
      (''apos'', [CHR 0x27]), (''quot'', [CHR 0x22])]"

function tr :: "string \<Rightarrow> string" where
  "tr [] = []"
| "tr (c # cs) =
     (if c = CHR ''&''
      then let name = takeWhile (\<lambda>d. d \<noteq> CHR '';'') cs;
               rest = drop 1 (dropWhile (\<lambda>d. d \<noteq> CHR '';'') cs)
           in (case entity name of Some bs \<Rightarrow> bs @ tr rest | None \<Rightarrow> c # tr cs)
      else c # tr cs)"
  by pat_completeness auto
termination
  by (relation "measure length")
    (auto intro!: le_imp_less_Suc intro: order_trans [OF diff_le_self length_dropWhile_le])

lemma entity_ne: "entity n = Some bs \<Longrightarrow> bs \<noteq> []"
  by (auto simp: entity_def split: if_splits)

lemma tr_eq_Nil [simp]: "tr s = [] \<longleftrightarrow> s = []"
  by (cases s) (auto simp: Let_def split: option.splits dest: entity_ne)

declare tr.simps(2) [simp del]

section \<open>White space\<close>

text \<open>\<open>strip ws s\<close> removes, from the front, encodings of the white space \<open>ws\<close> while there are any.\<close>

function strip :: "string list \<Rightarrow> string \<Rightarrow> string" where
  "strip ws s = (case find (\<lambda>w. w \<noteq> [] \<and> prefix w s) ws of
       None \<Rightarrow> s
     | Some w \<Rightarrow> strip ws (drop (length w) s))"
  by pat_completeness auto
termination
  by (relation "measure (\<lambda>(ws, s). length s)") (auto simp: find_Some_iff prefix_def)

declare strip.simps [simp del]

lemma strip_None: "find (\<lambda>w. w \<noteq> [] \<and> prefix w s) ws = None \<Longrightarrow> strip ws s = s"
  by (subst strip.simps) simp

lemma strip_Some:
  "find (\<lambda>w. w \<noteq> [] \<and> prefix w s) ws = Some w \<Longrightarrow> strip ws s = strip ws (drop (length w) s)"
  by (subst strip.simps) simp

definition ascii_ws :: "string list" where
  "ascii_ws = [[CHR 0x09], [CHR 0x0A], [CHR 0x0B], [CHR 0x0C], [CHR 0x0D], [CHR 0x20]]"

text \<open>The space separators (category Zs) beyond ASCII, U+2028 and U+2029.\<close>

definition unicode_ws :: "string list" where
  "unicode_ws =
     [[CHR 0xC2, CHR 0xA0], [CHR 0xE1, CHR 0x9A, CHR 0x80],
      [CHR 0xE2, CHR 0x80, CHR 0x80], [CHR 0xE2, CHR 0x80, CHR 0x81], [CHR 0xE2, CHR 0x80, CHR 0x82],
      [CHR 0xE2, CHR 0x80, CHR 0x83], [CHR 0xE2, CHR 0x80, CHR 0x84], [CHR 0xE2, CHR 0x80, CHR 0x85],
      [CHR 0xE2, CHR 0x80, CHR 0x86], [CHR 0xE2, CHR 0x80, CHR 0x87], [CHR 0xE2, CHR 0x80, CHR 0x88],
      [CHR 0xE2, CHR 0x80, CHR 0x89], [CHR 0xE2, CHR 0x80, CHR 0x8A], [CHR 0xE2, CHR 0x80, CHR 0xA8],
      [CHR 0xE2, CHR 0x80, CHR 0xA9], [CHR 0xE2, CHR 0x80, CHR 0xAF], [CHR 0xE2, CHR 0x81, CHR 0x9F],
      [CHR 0xE3, CHR 0x80, CHR 0x80]]"

text \<open>JavaScript also trims U+FEFF; Go also trims U+0085.\<close>

definition js_ws :: "string list" where
  "js_ws = ascii_ws @ unicode_ws @ [[CHR 0xEF, CHR 0xBB, CHR 0xBF]]"

definition go_ws :: "string list" where
  "go_ws = ascii_ws @ unicode_ws @ [[CHR 0xC2, CHR 0x85]]"

definition trim_with :: "string list \<Rightarrow> string \<Rightarrow> string" where
  "trim_with ws s = rev (strip (map rev ws) (rev (strip ws s)))"

definition trim :: "string \<Rightarrow> string" where
  "trim = trim_with js_ws"

definition TrimSpace :: "string \<Rightarrow> string" where
  "TrimSpace = trim_with go_ws"

lemma strip_suffix: "suffix (strip ws s) s"
proof (induction ws s rule: strip.induct)
  case (1 ws s)
  show ?case
  proof (cases "find (\<lambda>w. w \<noteq> [] \<and> prefix w s) ws")
    case None
    then show ?thesis by (simp add: strip_None)
  next
    case (Some w)
    with 1 have "suffix (strip ws (drop (length w) s)) (drop (length w) s)" by simp
    then have "suffix (strip ws (drop (length w) s)) s"
      using suffix_drop suffix_order.trans by blast
    with Some show ?thesis by (simp add: strip_Some)
  qed
qed

lemma strip_clean: "w \<in> set ws \<Longrightarrow> w \<noteq> [] \<Longrightarrow> \<not> prefix w (strip ws s)"
proof (induction ws s rule: strip.induct)
  case (1 ws s)
  show ?case
  proof (cases "find (\<lambda>w. w \<noteq> [] \<and> prefix w s) ws")
    case None
    with 1 show ?thesis by (auto simp: strip_None find_None_iff)
  next
    case (Some w')
    with 1 show ?thesis by (simp add: strip_Some)
  qed
qed

lemma strip_id: "(\<And>w. w \<in> set ws \<Longrightarrow> w \<noteq> [] \<Longrightarrow> \<not> prefix w s) \<Longrightarrow> strip ws s = s"
  by (subst strip.simps) (auto split: option.splits simp: find_Some_iff)

lemma strip_idem [simp]: "strip ws (strip ws s) = strip ws s"
  by (rule strip_id) (rule strip_clean)

lemma strip_Nil [simp]: "strip ws [] = []"
  by (rule strip_id) simp

lemma trim_with_clean:
  assumes "w \<in> set ws" "w \<noteq> []"
  shows "\<not> prefix w (trim_with ws s)" "\<not> suffix w (trim_with ws s)"
proof -
  let ?t = "strip ws s"
  have "suffix (strip (map rev ws) (rev ?t)) (rev ?t)" by (rule strip_suffix)
  then have p: "prefix (trim_with ws s) ?t"
    by (metis rev_rev_ident suffix_to_prefix trim_with_def)
  show "\<not> prefix w (trim_with ws s)"
    using p strip_clean [OF assms] prefix_order.trans by blast
  have "\<not> prefix (rev w) (strip (map rev ws) (rev ?t))"
    using assms by (intro strip_clean) auto
  then show "\<not> suffix w (trim_with ws s)"
    by (simp add: trim_with_def suffix_to_prefix)
qed

text \<open>Trimming twice is trimming once, for either white-space set.\<close>

lemma trim_with_idem [simp]: "trim_with ws (trim_with ws s) = trim_with ws s"
proof -
  let ?u = "trim_with ws s"
  have 1: "strip ws ?u = ?u"
    by (rule strip_id) (rule trim_with_clean(1))
  have 2: "strip (map rev ws) (rev ?u) = rev ?u"
  proof (rule strip_id)
    fix w assume "w \<in> set (map rev ws)" "w \<noteq> []"
    then have "rev w \<in> set ws" "rev w \<noteq> []" by auto
    then have "\<not> suffix (rev w) ?u" by (rule trim_with_clean(2))
    then show "\<not> prefix w (rev ?u)" by (simp add: suffix_to_prefix)
  qed
  from 1 2 show ?thesis by (simp add: trim_with_def [of ws ?u])
qed

lemma trim_idem [simp]: "trim (trim s) = trim s"
  by (simp add: trim_def)

lemma TrimSpace_idem [simp]: "TrimSpace (TrimSpace s) = TrimSpace s"
  by (simp add: TrimSpace_def)

text \<open>A text that shares no leading byte with the white space is left alone.\<close>

lemma trim_with_id:
  assumes "\<And>w. w \<in> set ws \<Longrightarrow> w \<noteq> [] \<and> hd w \<notin> set s"
  shows "trim_with ws s = s"
proof -
  have sub: "set w \<subseteq> set s" if "prefix w s \<or> suffix w s" for w
    using that by (auto dest: set_mono_prefix set_mono_suffix)
  have no: "\<not> prefix w s" "\<not> suffix w s" if "w \<in> set ws" for w
    using assms [OF that] sub [of w] hd_in_set [of w] by blast+
  have 1: "strip ws s = s"
    by (rule strip_id) (auto dest: no)
  have 2: "strip (map rev ws) (rev s) = rev s"
  proof (rule strip_id)
    fix w assume "w \<in> set (map rev ws)"
    then have "rev w \<in> set ws" by auto
    then have "\<not> suffix (rev w) s" by (rule no(2))
    then show "\<not> prefix w (rev s)" by (simp add: suffix_to_prefix)
  qed
  from 1 2 show ?thesis by (simp add: trim_with_def)
qed

lemma trim_Nil [simp]: "trim [] = []" and TrimSpace_Nil [simp]: "TrimSpace [] = []"
  by (simp_all add: trim_def TrimSpace_def trim_with_def)

section \<open>Character classes, case and replacement\<close>

text \<open>
  The regular expressions of \<open>formatLabel\<close> run without the \<open>u\<close> flag: \<open>\w\<close> is an ASCII letter,
  digit or underscore, so no byte of a longer UTF-8 sequence is one. Case mapping is the ASCII part
  of \<open>toLowerCase\<close> and \<open>toUpperCase\<close>, the identity on every other byte.
\<close>

definition byte_in :: "char \<Rightarrow> char \<Rightarrow> char \<Rightarrow> bool" where
  "byte_in lo hi c \<longleftrightarrow> (of_char lo :: nat) \<le> of_char c \<and> (of_char c :: nat) \<le> of_char hi"

definition is_lower :: "char \<Rightarrow> bool" where "is_lower = byte_in (CHR ''a'') (CHR ''z'')"
definition is_upper :: "char \<Rightarrow> bool" where "is_upper = byte_in (CHR ''A'') (CHR ''Z'')"
definition is_digit :: "char \<Rightarrow> bool" where "is_digit = byte_in (CHR ''0'') (CHR ''9'')"

definition is_word :: "char \<Rightarrow> bool" where
  "is_word c \<longleftrightarrow> is_lower c \<or> is_upper c \<or> is_digit c \<or> c = CHR ''_''"

definition to_upper :: "char \<Rightarrow> char" where
  "to_upper c = (if is_lower c then char_of ((of_char c :: nat) - 32) else c)"

definition to_lower :: "char \<Rightarrow> char" where
  "to_lower c = (if is_upper c then char_of ((of_char c :: nat) + 32) else c)"

definition lowercase :: "string \<Rightarrow> string" where
  "lowercase = map to_lower"

text \<open>\<open>capitalise p s\<close> is \<open>s.replace(/\b\w/g, upper)\<close> where \<open>p\<close> says that a word character
  stands before \<open>s\<close>.\<close>

fun capitalise :: "bool \<Rightarrow> string \<Rightarrow> string" where
  "capitalise p [] = []"
| "capitalise p (c # cs) = (if is_word c \<and> \<not> p then to_upper c else c) # capitalise (is_word c) cs"

definition replace_char :: "char \<Rightarrow> char \<Rightarrow> string \<Rightarrow> string" where
  "replace_char a b = map (\<lambda>c. if c = a then b else c)"

text \<open>\<open>s.split(a)[0]\<close>, and \<open>len(strings.Split(s, a))\<close> for a separator of one byte.\<close>

definition before_char :: "char \<Rightarrow> string \<Rightarrow> string" where
  "before_char a s = takeWhile (\<lambda>c. c \<noteq> a) s"

definition count_fields :: "char \<Rightarrow> string \<Rightarrow> nat" where
  "count_fields a s = Suc (count_list s a)"

text \<open>\<open>x || d\<close> for a string or null.\<close>

definition or_else :: "string option \<Rightarrow> string \<Rightarrow> string" where
  "or_else x d = (case x of None \<Rightarrow> d | Some s \<Rightarrow> if s = [] then d else s)"

definition or_text :: "string \<Rightarrow> string \<Rightarrow> string" where
  "or_text s d = (if s = [] then d else s)"

definition truthy :: "string option \<Rightarrow> bool" where
  "truthy x \<longleftrightarrow> x \<noteq> None \<and> x \<noteq> Some []"

text \<open>\<open>xs.join(sep)\<close>.\<close>

fun join :: "string \<Rightarrow> string list \<Rightarrow> string" where
  "join sep [] = []"
| "join sep [x] = x"
| "join sep (x # y # xs) = x @ sep @ join sep (y # xs)"

lemma or_text_ne [simp]: "or_text s d = [] \<longleftrightarrow> s = [] \<and> d = []" "[] = or_text s d \<longleftrightarrow> s = [] \<and> d = []"
  by (auto simp: or_text_def)

lemma length_capitalise [simp]: "length (capitalise p s) = length s"
  by (induction s arbitrary: p) simp_all

lemma of_char_to_upper:
  "(of_char (to_upper c) :: nat) = (if is_lower c then of_char c - 32 else of_char c)"
proof (cases "is_lower c")
  case True
  then have "(of_char c :: nat) - 32 < 256"
    by (auto simp: is_lower_def byte_in_def)
  with True show ?thesis by (simp add: to_upper_def)
qed (simp add: to_upper_def)

lemma is_lower_to_upper [simp]: "\<not> is_lower (to_upper c)"
  using of_char_to_upper [of c] by (auto simp: is_lower_def byte_in_def split: if_splits)

lemma to_upper_idem [simp]: "to_upper (to_upper c) = to_upper c"
  by (simp add: to_upper_def [of "to_upper c"])

lemma is_word_to_upper [simp]: "is_word (to_upper c) = is_word c"
proof (cases "is_lower c")
  case True
  with of_char_to_upper [of c] have "is_upper (to_upper c)"
    by (auto simp: is_lower_def is_upper_def byte_in_def)
  with True show ?thesis by (simp add: is_word_def)
qed (simp add: to_upper_def)

lemma capitalise_idem [simp]: "capitalise p (capitalise p s) = capitalise p s"
  by (induction s arbitrary: p) auto

section \<open>Decimal printing\<close>

definition digit_char :: "nat \<Rightarrow> char" where
  "digit_char d = char_of (48 + d)"

fun show_nat :: "nat \<Rightarrow> string" where
  "show_nat n = (if n < 10 then [digit_char n] else show_nat (n div 10) @ [digit_char (n mod 10)])"

declare show_nat.simps [simp del]

definition show_int :: "int \<Rightarrow> string" where
  "show_int i = (if i < 0 then CHR ''-'' # show_nat (nat (- i)) else show_nat (nat i))"

lemma show_nat_ne [simp]: "show_nat n \<noteq> []"
  by (subst show_nat.simps) simp

lemma show_int_ne [simp]: "show_int i \<noteq> []"
  by (simp add: show_int_def)

lemma digit_char_is_digit: "d < 10 \<Longrightarrow> is_digit (digit_char d)"
  by (simp add: is_digit_def byte_in_def digit_char_def)

lemma show_nat_digits: "c \<in> set (show_nat n) \<Longrightarrow> is_digit c"
proof (induction n rule: show_nat.induct)
  case (1 n)
  then show ?case
    by (subst (asm) show_nat.simps) (auto simp: digit_char_is_digit split: if_splits)
qed

lemma show_int_chars: "c \<in> set (show_int i) \<Longrightarrow> is_digit c \<or> c = CHR ''-''"
  by (auto simp: show_int_def dest: show_nat_digits split: if_splits)

lemma ws_heads:
  "\<forall>w \<in> set (js_ws @ go_ws). w \<noteq> [] \<and> \<not> is_digit (hd w) \<and> hd w \<noteq> CHR ''-''"
  by (simp add: js_ws_def go_ws_def ascii_ws_def unicode_ws_def is_digit_def byte_in_def)

lemma trim_show_int [simp]: "trim (show_int i) = show_int i"
  unfolding trim_def by (rule trim_with_id) (use ws_heads show_int_chars in fastforce)

lemma TrimSpace_show_int [simp]: "TrimSpace (show_int i) = show_int i"
  unfolding TrimSpace_def by (rule trim_with_id) (use ws_heads show_int_chars in fastforce)

end
