(* ===== verification/Html.thy ===== *)
theory Html
  imports JsText
begin

text \<open>
  What a React component returns: a tree of elements and texts. \<open>'e\<close> is the component's event
  type; a handler attribute carries the event it raises. A component of the repository that keeps
  state of its own (\<open>CopyBox\<close>) stays an element of the tree under its name; a stateless one is
  expanded by calling its model. The queries are what the properties talk about: the events a user
  can raise from a rendered tree, its links, and its text.
\<close>

datatype 'e attr =
    Attr string string
  | Flag string bool
  | OnClick 'e
  | OnSubmit 'e
  | OnChange "string \<Rightarrow> 'e"
  | OnCheck "bool \<Rightarrow> 'e"

datatype 'e html =
    Txt string
  | Elem string "'e attr list" "'e html list"

abbreviation cls :: "string \<Rightarrow> 'e attr" where
  "cls c \<equiv> Attr ''className'' c"

section \<open>Attributes\<close>

fun attr_of :: "string \<Rightarrow> 'e attr list \<Rightarrow> string option" where
  "attr_of n [] = None"
| "attr_of n (Attr m v # as) = (if m = n then Some v else attr_of n as)"
| "attr_of n (_ # as) = attr_of n as"

fun flag_of :: "string \<Rightarrow> 'e attr list \<Rightarrow> bool" where
  "flag_of n [] = False"
| "flag_of n (Flag m b # as) = (if m = n then b else flag_of n as)"
| "flag_of n (_ # as) = flag_of n as"

fun click_of :: "'e attr list \<Rightarrow> 'e list" where
  "click_of [] = []"
| "click_of (OnClick e # as) = e # click_of as"
| "click_of (_ # as) = click_of as"

fun submit_of :: "'e attr list \<Rightarrow> 'e list" where
  "submit_of [] = []"
| "submit_of (OnSubmit e # as) = e # submit_of as"
| "submit_of (_ # as) = submit_of as"

section \<open>Queries\<close>

text \<open>The events that clicking raises; a disabled control raises none.\<close>

fun clicks :: "'e html \<Rightarrow> 'e list" where
  "clicks (Txt s) = []"
| "clicks (Elem t as hs) =
     (if flag_of ''disabled'' as then [] else click_of as) @ concat (map clicks hs)"

text \<open>A form can be submitted when it holds a submit button that is not disabled, and every
  required field in it is filled in (a required checkbox: checked).\<close>

fun has_submit :: "'e html \<Rightarrow> bool" where
  "has_submit (Txt s) = False"
| "has_submit (Elem t as hs) =
     (t = ''button'' \<and> attr_of ''type'' as = Some ''submit'' \<and> \<not> flag_of ''disabled'' as
      \<or> (\<exists>h \<in> set hs. has_submit h))"

definition field_ok :: "'e attr list \<Rightarrow> bool" where
  "field_ok as \<longleftrightarrow>
     (flag_of ''required'' as \<longrightarrow>
        (if attr_of ''type'' as = Some ''checkbox'' then flag_of ''checked'' as
         else attr_of ''value'' as \<noteq> Some []))"

fun fields_ok :: "'e html \<Rightarrow> bool" where
  "fields_ok (Txt s) = True"
| "fields_ok (Elem t as hs) = (field_ok as \<and> (\<forall>h \<in> set hs. fields_ok h))"

fun submits :: "'e html \<Rightarrow> 'e list" where
  "submits (Txt s) = []"
| "submits (Elem t as hs) =
     (if submit_of as = [] then []
      else if (\<exists>h \<in> set hs. has_submit h) \<and> (\<forall>h \<in> set hs. fields_ok h) then submit_of as
      else [])
     @ concat (map submits hs)"

text \<open>The targets of links, in document order.\<close>

fun links :: "'e html \<Rightarrow> string list" where
  "links (Txt s) = []"
| "links (Elem t as hs) =
     (case attr_of ''href'' as of Some u \<Rightarrow> [u] | None \<Rightarrow> []) @ concat (map links hs)"

text \<open>Every text the tree shows: text nodes and the value of each copy box.\<close>

fun shown :: "'e html \<Rightarrow> string list" where
  "shown (Txt s) = [s]"
| "shown (Elem t as hs) =
     (if t = ''CopyBox'' then (case attr_of ''value'' as of Some v \<Rightarrow> [v] | None \<Rightarrow> []) else [])
     @ concat (map shown hs)"

section \<open>Queries on lists of siblings\<close>

abbreviation all_clicks :: "'e html list \<Rightarrow> 'e list" where
  "all_clicks hs \<equiv> concat (map clicks hs)"

abbreviation all_submits :: "'e html list \<Rightarrow> 'e list" where
  "all_submits hs \<equiv> concat (map submits hs)"

abbreviation all_links :: "'e html list \<Rightarrow> string list" where
  "all_links hs \<equiv> concat (map links hs)"

text \<open>Elements without handlers or flags of their own: the common case of the views.\<close>

lemma clicks_plain [simp]: "clicks (Elem t [] hs) = all_clicks hs"
  by simp

text \<open>A tree raises the events of its stateless children whatever their event type is.\<close>

fun silent :: "'e html \<Rightarrow> bool" where
  "silent (Txt s) = True"
| "silent (Elem t as hs) = (click_of as = [] \<and> submit_of as = [] \<and> (\<forall>h \<in> set hs. silent h))"

lemma silent_clicks: "silent h \<Longrightarrow> clicks h = []"
  by (induction h) auto

lemma silent_submits: "silent h \<Longrightarrow> submits h = []"
  by (induction h) auto

lemma all_clicks_silent: "\<forall>h \<in> set hs. silent h \<Longrightarrow> all_clicks hs = []"
  by (simp add: silent_clicks)

end
