(* ===== verification/Session.thy ===== *)
theory Session
  imports JsText
begin

text \<open>
  \<open>apps/web/lib/session.ts\<close>: the signed-in user and the access token in the browser's local
  storage. The storage is a map; the interface the rest of the client relies on is the locale
  \<open>token_store\<close>, interpreted on the three functions of the file.
\<close>

record user =
  u_id :: string
  u_email :: string
  u_display_name :: string
  u_role :: string

type_synonym storage = "string \<rightharpoonup> string"

definition tokenKey :: string where
  "tokenKey = ''nuvonode_dashboard_token''"

text \<open>\<open>browser\<close> is \<open>typeof window !== "undefined"\<close>: during server rendering there is no storage.\<close>

definition getToken :: "bool \<Rightarrow> storage \<Rightarrow> string" where
  "getToken browser st = (if \<not> browser then [] else or_else (st tokenKey) [])"

definition setToken :: "string \<Rightarrow> storage \<Rightarrow> storage" where
  "setToken token st = st(tokenKey \<mapsto> token)"

definition clearToken :: "storage \<Rightarrow> storage" where
  "clearToken st = st(tokenKey := None)"

locale token_store =
  fixes get :: "'s \<Rightarrow> string"
    and put :: "string \<Rightarrow> 's \<Rightarrow> 's"
    and drop_token :: "'s \<Rightarrow> 's"
  assumes get_put: "get (put t s) = t"
    and get_drop: "get (drop_token s) = []"
    and put_put: "put t (put u s) = put t s"
    and drop_put: "drop_token (put t s) = drop_token s"
begin

text \<open>After any sequence of sign-ins and sign-outs the token is that of the last one.\<close>

definition apply_all :: "string option list \<Rightarrow> 's \<Rightarrow> 's" where
  "apply_all ops s = fold (\<lambda>op s. case op of Some t \<Rightarrow> put t s | None \<Rightarrow> drop_token s) ops s"

lemma apply_all_last:
  "get (apply_all (ops @ [op]) s) = (case op of Some t \<Rightarrow> t | None \<Rightarrow> [])"
  by (simp add: apply_all_def get_put get_drop split: option.splits)

lemma signed_out: "get (drop_token (put t s)) = []"
  by (rule get_drop)

end

interpretation local_storage: token_store "getToken True" setToken clearToken
  by unfold_locales (auto simp: getToken_def setToken_def clearToken_def or_else_def)

lemma getToken_server [simp]: "getToken False st = []"
  by (simp add: getToken_def)

lemmas token_simps = local_storage.get_put local_storage.get_drop

text \<open>The token functions touch no other key.\<close>

lemma setToken_frame: "k \<noteq> tokenKey \<Longrightarrow> setToken t st k = st k"
  by (simp add: setToken_def)

lemma clearToken_frame: "k \<noteq> tokenKey \<Longrightarrow> clearToken st k = st k"
  by (simp add: clearToken_def)

section \<open>Properties\<close>

text \<open>After any sequence of sign-ins and sign-outs the token that the client reads is that of the last
  one (none after a sign-out), and no other key of the local storage has changed.\<close>

theorem session_last:
  "let change = (\<lambda>op st. case op of Some t \<Rightarrow> setToken t st | None \<Rightarrow> clearToken st);
       final = fold change (ops @ [op]) st
   in getToken True final = (case op of Some t \<Rightarrow> t | None \<Rightarrow> [])
      \<and> (\<forall>k. k \<noteq> tokenKey \<longrightarrow> final k = st k)"
proof -
  have "\<forall>k. k \<noteq> tokenKey \<longrightarrow>
      fold (\<lambda>op st. case op of Some t \<Rightarrow> setToken t st | None \<Rightarrow> clearToken st) os st k = st k" for os
    by (induction os rule: rev_induct) (auto simp: setToken_frame clearToken_frame split: option.split)
  then show ?thesis
    using local_storage.apply_all_last [of ops op st]
    by (simp add: local_storage.apply_all_def Let_def del: fold_append)
qed

theorem session_last_witness:
  "getToken True (clearToken (setToken ''b'' (setToken ''a'' (Map.empty(''theme'' \<mapsto> ''dark''))))) = []
   \<and> clearToken (setToken ''b'' (setToken ''a'' (Map.empty(''theme'' \<mapsto> ''dark'')))) ''theme'' = Some ''dark''"
  using session_last [of "[Some ''a'', Some ''b'']" None "Map.empty(''theme'' \<mapsto> ''dark'')"]
  by (auto simp: Let_def tokenKey_def)

end
