(* ===== verification/JsNumber.thy ===== *)
theory JsNumber
  imports Complex_Main JsText
begin

text \<open>
  \<open>Number(s)\<close> and \<open>Number.isFinite\<close>, which the forms apply to what the user typed. A finite
  number is the exact rational its text denotes: the rounding to 53 bits is not modelled, the
  overflow to infinity is (a magnitude of at least \<open>2^1024 - 2^970\<close> rounds to infinity). The sign
  of zero is not kept.
\<close>

datatype number = Finite rat | Infinity bool | NaN

fun isFinite :: "number \<Rightarrow> bool" where
  "isFinite (Finite r) = True"
| "isFinite _ = False"

definition overflow_bound :: rat where
  "overflow_bound = 2 ^ 1024 - 2 ^ 970"

definition of_rat_value :: "rat \<Rightarrow> number" where
  "of_rat_value r = (if overflow_bound \<le> \<bar>r\<bar> then Infinity (r < 0) else Finite r)"

section \<open>Digits\<close>

definition digit_value :: "char \<Rightarrow> nat" where
  "digit_value c =
     (if is_digit c then of_char c - 48
      else if is_lower c then of_char c - 87
      else of_char c - 55)"

definition is_radix_digit :: "nat \<Rightarrow> char \<Rightarrow> bool" where
  "is_radix_digit b c \<longleftrightarrow> (is_digit c \<or> is_lower c \<or> is_upper c) \<and> digit_value c < b"

fun digits_value :: "nat \<Rightarrow> nat \<Rightarrow> string \<Rightarrow> nat" where
  "digits_value b acc [] = acc"
| "digits_value b acc (c # cs) = digits_value b (b * acc + digit_value c) cs"

definition radix_literal :: "nat \<Rightarrow> string \<Rightarrow> number" where
  "radix_literal b s =
     (if s \<noteq> [] \<and> list_all (is_radix_digit b) s then of_rat_value (of_nat (digits_value b 0 s)) else NaN)"

section \<open>Decimal literals\<close>

text \<open>The exponent part: nothing, or \<open>e\<close> or \<open>E\<close>, an optional sign and at least one digit.\<close>

definition exponent_part :: "string \<Rightarrow> int option" where
  "exponent_part s = (case s of
       [] \<Rightarrow> Some 0
     | c # cs \<Rightarrow>
         if c = CHR ''e'' \<or> c = CHR ''E'' then
           (let (sign, ds) = (case cs of
                  [] \<Rightarrow> (1, [])
                | d # ds \<Rightarrow> if d = CHR ''-'' then (- 1, ds) else if d = CHR ''+'' then (1, ds) else (1, cs))
            in if ds \<noteq> [] \<and> list_all is_digit ds then Some (sign * int (digits_value 10 0 ds)) else None)
         else None)"

definition scale10 :: "nat \<Rightarrow> int \<Rightarrow> rat" where
  "scale10 m e = (if 0 \<le> e then of_nat m * 10 ^ nat e else of_nat m / 10 ^ nat (- e))"

definition unsigned_decimal :: "string \<Rightarrow> rat option" where
  "unsigned_decimal s =
     (let ip = takeWhile is_digit s; r = dropWhile is_digit s;
          (fp, r') = (case r of
              [] \<Rightarrow> ([], r)
            | c # cs \<Rightarrow> if c = CHR ''.'' then (takeWhile is_digit cs, dropWhile is_digit cs) else ([], r))
      in if ip = [] \<and> fp = [] then None
         else map_option (\<lambda>e. scale10 (digits_value 10 0 (ip @ fp)) (e - int (length fp))) (exponent_part r'))"

definition signed_decimal :: "bool \<Rightarrow> string \<Rightarrow> number" where
  "signed_decimal neg s =
     (if s = ''Infinity'' then Infinity neg
      else case unsigned_decimal s of
        None \<Rightarrow> NaN
      | Some r \<Rightarrow> of_rat_value (if neg then - r else r))"

definition toNumber :: "string \<Rightarrow> number" where
  "toNumber text =
     (let s = trim text in
      if s = [] then Finite 0
      else if prefix ''0x'' s \<or> prefix ''0X'' s then radix_literal 16 (drop 2 s)
      else if prefix ''0o'' s \<or> prefix ''0O'' s then radix_literal 8 (drop 2 s)
      else if prefix ''0b'' s \<or> prefix ''0B'' s then radix_literal 2 (drop 2 s)
      else if prefix ''-'' s then signed_decimal True (drop 1 s)
      else if prefix ''+'' s then signed_decimal False (drop 1 s)
      else signed_decimal False s)"

section \<open>Printing and reading back\<close>

lemma digits_value_append: "digits_value b acc (xs @ ys) = digits_value b (digits_value b acc xs) ys"
  by (induction xs arbitrary: acc) simp_all

lemma digit_value_char [simp]: "d < 10 \<Longrightarrow> digit_value (digit_char d) = d"
  using digit_char_is_digit [of d] by (simp add: digit_value_def) (simp add: digit_char_def)

lemma digits_value_show_nat: "digits_value 10 0 (show_nat n) = n"
proof (induction n rule: show_nat.induct)
  case (1 n)
  show ?case
  proof (cases "n < 10")
    case True
    then show ?thesis by (simp add: show_nat.simps)
  next
    case False
    with 1 show ?thesis by (subst show_nat.simps) (simp add: digits_value_append)
  qed
qed

lemma takeWhile_show_nat [simp]:
  "takeWhile is_digit (show_nat n) = show_nat n" "dropWhile is_digit (show_nat n) = []"
  by (auto simp: takeWhile_eq_all_conv dropWhile_eq_Nil_conv show_nat_digits)

lemma unsigned_decimal_show_nat: "unsigned_decimal (show_nat n) = Some (of_nat n)"
  by (simp add: unsigned_decimal_def Let_def exponent_part_def scale10_def digits_value_show_nat)

lemma hd_show_nat: "is_digit (hd (show_nat n))"
  using show_nat_digits [of "hd (show_nat n)" n] by simp

lemma show_nat_not_special:
  "show_nat n \<noteq> ''Infinity''" "\<not> prefix ''-'' (show_nat n)" "\<not> prefix ''+'' (show_nat n)"
  "\<not> prefix (a # CHR ''x'' # r) (show_nat n)" "\<not> prefix (a # CHR ''X'' # r) (show_nat n)"
  "\<not> prefix (a # CHR ''o'' # r) (show_nat n)" "\<not> prefix (a # CHR ''O'' # r) (show_nat n)"
  "\<not> prefix (a # CHR ''b'' # r) (show_nat n)" "\<not> prefix (a # CHR ''B'' # r) (show_nat n)"
  using show_nat_digits [of _ n]
  by (force simp: prefix_def is_digit_def byte_in_def)+

text \<open>Reading back a printed integer gives the integer, below the overflow bound.\<close>

lemma toNumber_show_int:
  assumes "of_int \<bar>i\<bar> < overflow_bound"
  shows "toNumber (show_int i) = Finite (of_int i)"
proof (cases "i < 0")
  case True
  then have s: "show_int i = CHR ''-'' # show_nat (nat (- i))" by (simp add: show_int_def)
  with trim_show_int [of i] have t: "trim (CHR ''-'' # show_nat (nat (- i))) = CHR ''-'' # show_nat (nat (- i))"
    by simp
  have "(of_nat (nat (- i)) :: rat) = - of_int i" using True by simp
  then show ?thesis using assms True
    by (simp add: s t toNumber_def Let_def signed_decimal_def show_nat_not_special
        unsigned_decimal_show_nat of_rat_value_def)
next
  case False
  then have s: "show_int i = show_nat (nat i)" by (simp add: show_int_def)
  with trim_show_int [of i] have t: "trim (show_nat (nat i)) = show_nat (nat i)" by simp
  have "(of_nat (nat i) :: rat) = of_int i" using False by simp
  then show ?thesis using assms False
    by (simp add: s t toNumber_def Let_def signed_decimal_def show_nat_not_special
        unsigned_decimal_show_nat of_rat_value_def)
qed

end
