(* ===== verification/Api.thy ===== *)
theory Api
  imports Session JsNumber
begin

text \<open>
  \<open>apps/web/lib/api.ts\<close>: the fetch wrapper, the resource types and one call per endpoint. The
  network is the environment: what \<open>fetch\<close> and \<open>JSON.parse\<close> deliver for a request is a value of
  \<open>http\<close>, and the wrapper is the function from that value to the settled promise. A resource type
  of the file becomes a record whose fields carry a prefix; \<open>T | null\<close> becomes an option; the counts
  and credits that the API sends as integers are \<open>int\<close>, timestamps stay texts.
\<close>

section \<open>Errors and the fetch wrapper\<close>

record error_detail =
  ed_code :: "string option"
  ed_message :: "string option"
  ed_request_id :: "string option"

text \<open>A rejection reason: the file's own error class, the three errors the platform raises inside
  the wrapper (their messages come from the platform), an \<open>Error\<close> a form throws, and a value that is
  no \<open>Error\<close>.\<close>

datatype js_error =
    APIError string string string nat
  | NetworkError string
  | SyntaxError string
  | TypeError
  | FormError string
  | NotAnError

text \<open>The body as \<open>JSON.parse(text) as APIErrorBody & T\<close>; \<open>'a\<close> is what the caller reads of \<open>T\<close>.\<close>

datatype 'a payload =
    EmptyText
  | NotJson string
  | JsonNull
  | JsonBody "error_detail option" 'a

datatype 'a http = NetworkFailure string | Response nat "'a payload"

definition res_ok :: "nat \<Rightarrow> bool" where
  "res_ok status \<longleftrightarrow> 200 \<le> status \<and> status \<le> 299"

definition no_detail :: error_detail where
  "no_detail = \<lparr>ed_code = None, ed_message = None, ed_request_id = None\<rparr>"

definition api_error :: "error_detail option \<Rightarrow> nat \<Rightarrow> js_error" where
  "api_error err status =
     (let detail = (case err of None \<Rightarrow> no_detail | Some d \<Rightarrow> d)
      in APIError (or_else (ed_message detail) (tr ''&Idot;stek ba&scedil;ar&imath;s&imath;z oldu.''))
           (or_else (ed_code detail) ''request_failed'')
           (or_else (ed_request_id detail) ''req_unknown'') status)"

text \<open>\<open>absent\<close> is \<open>{} as T\<close>, what the caller reads of an empty object. \<open>Inr None\<close> is a promise
  fulfilled with \<open>undefined\<close> (status 204) or \<open>null\<close>.\<close>

fun apiFetch :: "'a \<Rightarrow> 'a http \<Rightarrow> js_error + 'a option" where
  "apiFetch absent (NetworkFailure m) = Inl (NetworkError m)"
| "apiFetch absent (Response status body) =
     (if status = 204 then Inr None
      else case body of
        NotJson m \<Rightarrow> Inl (SyntaxError m)
      | EmptyText \<Rightarrow> if res_ok status then Inr (Some absent) else Inl (api_error None status)
      | JsonNull \<Rightarrow> if res_ok status then Inr None else Inl TypeError
      | JsonBody err v \<Rightarrow> if res_ok status then Inr (Some v) else Inl (api_error err status))"

section \<open>Requests\<close>

datatype json = JNull | JBool bool | JNum rat | JStr string | JObj "(string \<times> json) list"

record init =
  in_method :: "string option"
  in_headers :: "(string \<times> string) list"
  in_body :: "json option"

record request =
  rq_url :: string
  rq_method :: string
  rq_headers :: "(string \<times> string) list"
  rq_body :: "json option"

text \<open>Header names compare without case; \<open>set\<close> replaces.\<close>

definition has_header :: "string \<Rightarrow> (string \<times> string) list \<Rightarrow> bool" where
  "has_header n hs \<longleftrightarrow> (\<exists>(m, v) \<in> set hs. lowercase m = lowercase n)"

definition set_header :: "string \<Rightarrow> string \<Rightarrow> (string \<times> string) list \<Rightarrow> (string \<times> string) list" where
  "set_header n v hs = filter (\<lambda>(m, w). lowercase m \<noteq> lowercase n) hs @ [(n, v)]"

definition get_header :: "string \<Rightarrow> (string \<times> string) list \<Rightarrow> string option" where
  "get_header n hs = map_option snd (find (\<lambda>(m, v). lowercase m = lowercase n) hs)"

definition baseURL :: "string option \<Rightarrow> string" where
  "baseURL env = or_else env ''http://localhost:18080''"

definition api_request :: "string option \<Rightarrow> string \<Rightarrow> string \<Rightarrow> init \<Rightarrow> request" where
  "api_request env token path i =
     (let h0 = in_headers i;
          h1 = (if \<not> has_header ''Content-Type'' h0 \<and> in_body i \<noteq> None
                then set_header ''Content-Type'' ''application/json'' h0 else h0);
          h2 = (if token \<noteq> [] then set_header ''Authorization'' (''Bearer '' @ token) h1 else h1)
      in \<lparr>rq_url = baseURL env @ path,
          rq_method = (case in_method i of Some m \<Rightarrow> m | None \<Rightarrow> ''GET''),
          rq_headers = h2, rq_body = in_body i\<rparr>)"

definition get_init :: init where
  "get_init = \<lparr>in_method = None, in_headers = [], in_body = None\<rparr>"

definition send_init :: "string \<Rightarrow> json option \<Rightarrow> init" where
  "send_init m b = \<lparr>in_method = Some m, in_headers = [], in_body = b\<rparr>"

section \<open>Settling a call\<close>

text \<open>\<open>.then((res) => ({ xs: arrayOrEmpty(res.xs) }))\<close> on a list field, and reading a field of
  an object result: on \<open>undefined\<close> both raise a \<open>TypeError\<close>.\<close>

definition arrayOrEmpty :: "'a list option \<Rightarrow> 'a list" where
  "arrayOrEmpty items = (case items of None \<Rightarrow> [] | Some xs \<Rightarrow> xs)"

definition list_result :: "'a list option http \<Rightarrow> js_error + 'a list" where
  "list_result h = and_then (apiFetch None h)
     (\<lambda>res. case res of None \<Rightarrow> Inl TypeError | Some items \<Rightarrow> Inr (arrayOrEmpty items))"

definition field_result :: "'a option http \<Rightarrow> js_error + 'a option" where
  "field_result h = and_then (apiFetch None h)
     (\<lambda>res. case res of None \<Rightarrow> Inl TypeError | Some v \<Rightarrow> Inr v)"

definition void_result :: "unit http \<Rightarrow> js_error + unit" where
  "void_result h = on_value (\<lambda>_. ()) (apiFetch () h)"

lemma api_error_status [simp]: "\<exists>m c r. api_error err status = APIError m c r status"
  by (simp add: api_error_def Let_def)

lemma apiFetch_Inr:
  "apiFetch absent h = Inr r \<Longrightarrow> \<exists>status body. h = Response status body \<and> res_ok status"
  by (cases h) (auto simp: res_ok_def split: if_splits payload.splits)

lemma list_result_Inr:
  "list_result h = Inr xs \<longleftrightarrow>
     (\<exists>status body. h = Response status body \<and> res_ok status \<and> status \<noteq> 204 \<and>
        (body = EmptyText \<and> xs = [] \<or> (\<exists>err v. body = JsonBody err v \<and> xs = arrayOrEmpty v)))"
proof (cases h)
  case (Response status body)
  then show ?thesis
    by (cases body) (auto simp: list_result_def res_ok_def arrayOrEmpty_def)
qed (simp add: list_result_def)

lemma field_result_Inr:
  "field_result h = Inr v \<longleftrightarrow>
     (\<exists>status body. h = Response status body \<and> res_ok status \<and> status \<noteq> 204 \<and>
        (body = EmptyText \<and> v = None \<or> (\<exists>err. body = JsonBody err v)))"
proof (cases h)
  case (Response status body)
  then show ?thesis
    by (cases body) (auto simp: field_result_def res_ok_def)
qed (simp add: field_result_def)

lemma void_result_Inr:
  "void_result h = Inr u \<longleftrightarrow>
     (\<exists>status body. h = Response status body \<and> res_ok status \<and>
        (status = 204 \<or> (\<forall>m. body \<noteq> NotJson m)))"
proof (cases h)
  case (Response status body)
  then show ?thesis
    by (cases body) (auto simp: void_result_def res_ok_def)
qed (simp add: void_result_def)

section \<open>Properties\<close>

text \<open>How the fetch wrapper settles: a value is delivered only for an accepted status with a JSON body
  (nothing for 204 and null, the empty object for an empty body); a refused status with a JSON object
  becomes the client's own error carrying that status and a non-empty message, code and request id.\<close>

theorem apiFetch_settles:
  "(apiFetch absent (Response status (JsonBody err v)) =
      (if status = 204 then Inr None else if res_ok status then Inr (Some v)
       else Inl (api_error err status)))
   \<and> (\<exists>m c r. api_error err status = APIError m c r status \<and> m \<noteq> [] \<and> c \<noteq> [] \<and> r \<noteq> [])
   \<and> (apiFetch absent h = Inr (Some w) \<longrightarrow>
        (\<exists>st b. h = Response st b \<and> res_ok st \<and> st \<noteq> 204 \<and> (b = EmptyText \<and> w = absent \<or> (\<exists>e. b = JsonBody e w))))"
proof -
  have "\<exists>m c r. api_error err status = APIError m c r status \<and> m \<noteq> [] \<and> c \<noteq> [] \<and> r \<noteq> []"
    by (simp add: api_error_def or_else_def Let_def split: option.split)
  moreover have "apiFetch absent h = Inr (Some w) \<longrightarrow>
      (\<exists>st b. h = Response st b \<and> res_ok st \<and> st \<noteq> 204 \<and> (b = EmptyText \<and> w = absent \<or> (\<exists>e. b = JsonBody e w)))"
    by (cases h) (auto split: if_splits payload.splits)
  ultimately show ?thesis by simp
qed

theorem apiFetch_settles_witness:
  "apiFetch (0 :: int) (Response 200 (JsonBody None 7)) = Inr (Some 7)"
  using apiFetch_settles [of "0 :: int" 200 None 7] by (simp add: res_ok_def)

lemma find_append: "find P (xs @ ys) = (case find P xs of None \<Rightarrow> find P ys | Some x \<Rightarrow> Some x)"
  by (induction xs) auto

lemma get_set_header: "get_header n (set_header m v hs) = (if lowercase m = lowercase n then Some v else get_header n hs)"
proof (cases "lowercase m = lowercase n")
  case True
  then have "find (\<lambda>(k, w). lowercase k = lowercase n) (filter (\<lambda>(k, w). lowercase k \<noteq> lowercase m) hs) = None"
    by (auto simp: find_None_iff)
  with True show ?thesis by (simp add: get_header_def set_header_def find_append)
next
  case False
  then have "find (\<lambda>(k, w). lowercase k = lowercase n) (filter (\<lambda>(k, w). lowercase k \<noteq> lowercase m) hs)
      = find (\<lambda>(k, w). lowercase k = lowercase n) hs"
    by (induction hs) auto
  with False show ?thesis by (simp add: get_header_def set_header_def find_append split: option.split)
qed

lemma header_names: "lowercase ''Content-Type'' \<noteq> lowercase ''Authorization''"
  by (simp add: lowercase_def to_lower_def is_upper_def byte_in_def)

text \<open>Every request goes to the configured base address and carries the token, and nothing else, in its
  Authorization header exactly when there is a token; a body, and only a body, makes it JSON, unless
  the caller has named another content type.\<close>

theorem request_headers:
  "let r = api_request env token path i in
     rq_url r = baseURL env @ path \<and> rq_body r = in_body i
   \<and> get_header ''Authorization'' (rq_headers r) =
       (if token \<noteq> [] then Some (''Bearer '' @ token) else get_header ''Authorization'' (in_headers i))
   \<and> get_header ''Content-Type'' (rq_headers r) =
       (if \<not> has_header ''Content-Type'' (in_headers i) \<and> in_body i \<noteq> None then Some ''application/json''
        else get_header ''Content-Type'' (in_headers i))"
  using header_names header_names [symmetric]
  by (simp add: api_request_def Let_def get_set_header)

end
