(* ===== verification/Widgets.thy ===== *)
theory Widgets
  imports Html Api
begin

text \<open>
  The components without a page of their own (\<open>apps/web/components\<close>): labels and status pills
  (\<open>Display.tsx\<close>), the four messages (\<open>State.tsx\<close>), the two notices, and \<open>CopyBox.tsx\<close>, which is a
  small state machine. \<open>env\<close> gathers what the components take from the JavaScript engine: date and
  number formatting under the user's locale and the text of a \<open>TypeError\<close>.
\<close>

record env =
  toLocaleString :: "string \<Rightarrow> string"
  toLocaleDateString :: "string \<Rightarrow> string"
  toISOString :: "string \<Rightarrow> string option"
  numberText :: "rat \<Rightarrow> string"
  typeErrorText :: string

section \<open>Labels\<close>

datatype display_value = DText string | DBool bool | DNumber int | DNull | DUndefined

definition dash :: string where
  "dash = tr ''&mdash;''"

fun formatLabel :: "display_value \<Rightarrow> string" where
  "formatLabel DNull = dash"
| "formatLabel DUndefined = dash"
| "formatLabel (DBool b) = (if b then ''Evet'' else tr ''Hay&imath;r'')"
| "formatLabel (DNumber n) = capitalise False (replace_char (CHR ''_'') (CHR '' '') (show_int n))"
| "formatLabel (DText s) =
     (if s = [] then dash
      else capitalise False (replace_char (CHR ''_'') (CHR '' '') s))"

definition text_value :: "string option \<Rightarrow> display_value" where
  "text_value v = (case v of None \<Rightarrow> DNull | Some s \<Rightarrow> DText s)"

definition pill_class :: "string option \<Rightarrow> string" where
  "pill_class value =
     (let normalized = lowercase (or_else value [])
      in if normalized \<in> set [''active'', ''approved'', ''completed'', ''success'', ''succeeded'',
              ''allowed'', ''community_allowed'', ''local_allowed''] then ''pill ok''
         else if normalized \<in> set [''pending'', ''paused'', ''queued'', ''running'', ''created'',
              ''medium'', ''reservation'', ''reserve'', ''release'', ''external_only''] then ''pill warn''
         else if normalized \<in> set [''rejected'', ''disabled'', ''failed'', ''revoked'', ''error'',
              ''debit'', ''not_allowed'', ''community_blocked''] then ''pill danger''
         else ''pill'')"

definition StatusPill :: "string option \<Rightarrow> 'e html" where
  "StatusPill value = Elem ''span'' [cls (pill_class value)] [Txt (formatLabel (text_value value))]"

section \<open>Messages and notices\<close>

definition message_box :: "string \<Rightarrow> string option \<Rightarrow> 'e html" where
  "message_box label hint =
     Elem ''div'' [cls ''notice stack compact-notice'']
       ([Elem ''strong'' [] [Txt label]]
        @ showIf (truthy hint) [Elem ''div'' [cls ''muted''] [Txt (or_else hint [])]])"

definition Loading :: "string option \<Rightarrow> string option \<Rightarrow> 'e html" where
  "Loading label hint =
     message_box (case label of None \<Rightarrow> tr ''Y&uuml;kleniyor...'' | Some l \<Rightarrow> l) hint"

definition Empty :: "string \<Rightarrow> string option \<Rightarrow> 'e html" where
  "Empty label hint = message_box label hint"

definition SuccessMessage :: "string \<Rightarrow> string option \<Rightarrow> 'e html" where
  "SuccessMessage message hint = message_box message hint"

fun error_text :: "env \<Rightarrow> js_error \<Rightarrow> string" where
  "error_text env (APIError message code requestID status) = message"
| "error_text env (NetworkError message) = message"
| "error_text env (SyntaxError message) = message"
| "error_text env TypeError = typeErrorText env"
| "error_text env (FormError message) = message"
| "error_text env NotAnError = tr ''Bir &scedil;ey yanl&imath;&scedil; gitti.''"

definition default_hint :: string where
  "default_hint = tr ''Birka&ccedil; saniye sonra yeniden dene. Sorun s&uuml;rerse sayfay&imath; yenile veya tekrar giri&scedil; yap.''"

definition ErrorMessage :: "env \<Rightarrow> js_error option \<Rightarrow> string option \<Rightarrow> 'e html" where
  "ErrorMessage env err hint =
     Elem ''div'' [cls ''error stack compact-notice'']
       [Elem ''strong'' [] [Txt (error_text env (case err of None \<Rightarrow> NotAnError | Some e \<Rightarrow> e))],
        Elem ''div'' [cls ''muted''] [Txt (case hint of None \<Rightarrow> default_hint | Some h \<Rightarrow> h)]]"

definition CreditNotice :: "'e html" where
  "CreditNotice = Elem ''div'' [cls ''notice'']
     [Txt (tr ''Node kazanc&imath; da ayn&imath; bakiyeye eklenir. API kullan&imath;m&imath;nda harcan&imath;r.'')]"

definition PrivacyNotice :: "'e html" where
  "PrivacyNotice = Elem ''div'' [cls ''notice warn'']
     [Txt (tr ''Topluluk node&apos;lar&imath;na y&ouml;nlendirilen istekler topluluk makinelerinde i&scedil;lenebilir. Hassas veri g&ouml;nderme.'')]"

text \<open>None of them raises an event or holds a form, so a page's events are its own.\<close>

lemma widgets_silent [simp]:
  "clicks (StatusPill v) = []" "clicks (message_box l h) = []"
  "clicks (ErrorMessage en e h') = []" "clicks CreditNotice = []" "clicks PrivacyNotice = []"
  "submits (StatusPill v) = []" "submits (message_box l h) = []"
  "submits (ErrorMessage en e h') = []" "submits CreditNotice = []" "submits PrivacyNotice = []"
  "links (StatusPill v) = []" "links (message_box l h) = []"
  "links (ErrorMessage en e h') = []" "links CreditNotice = []" "links PrivacyNotice = []"
  "\<not> has_submit (StatusPill v)" "\<not> has_submit (message_box l h)"
  "\<not> has_submit (ErrorMessage en e h')" "\<not> has_submit CreditNotice" "\<not> has_submit PrivacyNotice"
  "fields_ok (StatusPill v)" "fields_ok (message_box l h)"
  "fields_ok (ErrorMessage en e h')" "fields_ok CreditNotice" "fields_ok PrivacyNotice"
  by (simp_all add: StatusPill_def message_box_def ErrorMessage_def CreditNotice_def
      PrivacyNotice_def showIf_def field_ok_def)

lemma messages_silent [simp]:
  "clicks (Loading l h) = []" "clicks (Empty l' h) = []" "clicks (SuccessMessage l' h) = []"
  "submits (Loading l h) = []" "submits (Empty l' h) = []" "submits (SuccessMessage l' h) = []"
  "links (Loading l h) = []" "links (Empty l' h) = []" "links (SuccessMessage l' h) = []"
  "\<not> has_submit (Loading l h)" "\<not> has_submit (Empty l' h)" "\<not> has_submit (SuccessMessage l' h)"
  "fields_ok (Loading l h)" "fields_ok (Empty l' h)" "fields_ok (SuccessMessage l' h)"
  by (simp_all add: Loading_def Empty_def SuccessMessage_def)

lemma capitalise_nonempty: "s \<noteq> [] \<Longrightarrow> capitalise False (replace_char a b s) \<noteq> []"
  by (metis length_0_conv length_capitalise length_map replace_char_def)

lemma formatLabel_nonempty [simp]: "formatLabel v \<noteq> []"
  using capitalise_nonempty by (cases v) (simp_all add: dash_def)

lemma pill_class_cases:
  "pill_class w = ''pill ok'' \<or> pill_class w = ''pill warn'' \<or> pill_class w = ''pill danger''
   \<or> pill_class w = ''pill''"
proof -
  have "(if a then x else if b then y else if c then z else u) = x
      \<or> (if a then x else if b then y else if c then z else u) = y
      \<or> (if a then x else if b then y else if c then z else u) = z
      \<or> (if a then x else if b then y else if c then z else u) = u"
    for a b c and x y z u :: string
    by simp
  from this show ?thesis unfolding pill_class_def Let_def by this
qed

lemma formatLabel_stable: "s \<noteq> [] \<Longrightarrow> formatLabel (DText (formatLabel (DText s))) = formatLabel (DText s)"
proof -
  have "map (\<lambda>c. if c = CHR ''_'' then CHR '' '' else c) (capitalise p t) = capitalise p t"
    if "CHR ''_'' \<notin> set t" for p t
    using that
  proof (induction t arbitrary: p)
    case (Cons c t)
    have "to_upper c \<noteq> CHR ''_''"
      using Cons.prems of_char_to_upper [of c]
      by (auto simp: is_lower_def byte_in_def split: if_splits)
    with Cons show ?case by auto
  qed simp
  then have "replace_char (CHR ''_'') (CHR '' '') (capitalise False t) = capitalise False t"
    if "CHR ''_'' \<notin> set t" for t
    using that by (simp add: replace_char_def)
  moreover have "CHR ''_'' \<notin> set (replace_char (CHR ''_'') (CHR '' '') s)"
    by (auto simp: replace_char_def)
  moreover assume "s \<noteq> []"
  moreover have "capitalise False (replace_char (CHR ''_'') (CHR '' '') s) \<noteq> []"
    using \<open>s \<noteq> []\<close> by (metis length_0_conv length_capitalise length_map replace_char_def)
  ultimately show ?thesis by simp
qed

section \<open>The copy box\<close>

text \<open>
  \<open>cb_pending\<close> are the clipboard writes in flight, oldest first, each with the text it writes;
  \<open>cb_clipboard\<close> is the text of the last write that succeeded. A write settles by its position.
\<close>

datatype copy_status = Idle | Copied | CopyError

record copy_box =
  cb_value :: string
  cb_status :: copy_status
  cb_pending :: "string list"
  cb_clipboard :: "string option"

datatype copy_event = Copy | Written nat bool | NewValue string

definition copy_start :: "string \<Rightarrow> copy_box" where
  "copy_start v = \<lparr>cb_value = v, cb_status = Idle, cb_pending = [], cb_clipboard = None\<rparr>"

fun copy_step :: "copy_box \<Rightarrow> copy_event \<Rightarrow> copy_box option" where
  "copy_step s Copy = Some (s\<lparr>cb_pending := cb_pending s @ [cb_value s]\<rparr>)"
| "copy_step s (Written i ok) =
     (if i < length (cb_pending s)
      then Some (s\<lparr>cb_status := (if ok then Copied else CopyError),
                   cb_clipboard := (if ok then Some (cb_pending s ! i) else cb_clipboard s),
                   cb_pending := drop_nth i (cb_pending s)\<rparr>)
      else None)"
| "copy_step s (NewValue v) =
     Some (if v = cb_value s then s else s\<lparr>cb_value := v, cb_status := Idle\<rparr>)"

definition copy_view :: "copy_box \<Rightarrow> copy_event html" where
  "copy_view s =
     Elem ''div'' [cls ''stack'']
       [Elem ''pre'' [] [Txt (cb_value s)],
        Elem ''button'' [cls ''button secondary'', Attr ''type'' ''button'', OnClick Copy]
          [Txt (case cb_status s of Copied \<Rightarrow> tr ''Kopyaland&imath;''
                | CopyError \<Rightarrow> tr ''Kopyalama ba&scedil;ar&imath;s&imath;z'' | Idle \<Rightarrow> ''Kopyala'')],
        Elem ''div'' [Attr ''aria-live'' ''polite'', cls ''muted'']
          [Txt (case cb_status s of Copied \<Rightarrow> tr ''Panoya kopyaland&imath;.''
                | CopyError \<Rightarrow> tr ''Panoya eri&scedil;ilemedi. Metni se&ccedil;ip elle kopyala.''
                | Idle \<Rightarrow> [])]]"

text \<open>While the value does not change under a write in flight, the box says ''copied'' only of the
  text the clipboard holds.\<close>

definition copy_inv :: "copy_box \<Rightarrow> bool" where
  "copy_inv s \<longleftrightarrow> (\<forall>v \<in> set (cb_pending s). v = cb_value s) \<and>
     (cb_status s = Copied \<longrightarrow> cb_clipboard s = Some (cb_value s))"

fun calm_copy_step :: "copy_box \<Rightarrow> copy_event \<Rightarrow> copy_box option" where
  "calm_copy_step s (NewValue v) = (if cb_pending s = [] then copy_step s (NewValue v) else None)"
| "calm_copy_step s e = copy_step s e"

interpretation copy_page: page_machine calm_copy_step "copy_start v" copy_inv
proof
  show "copy_inv (copy_start v)" by (simp add: copy_inv_def copy_start_def)
next
  fix s e t
  assume "copy_inv s" "calm_copy_step s e = Some t"
  then show "copy_inv t"
    by (cases e) (use drop_nth_subset in \<open>fastforce simp: copy_inv_def split: if_splits\<close>)+
qed

section \<open>Properties\<close>

text \<open>As long as the text of a copy box does not change under a write in flight, the box says that it
  was copied only if the clipboard holds the text it shows.\<close>

theorem copy_truthful:
  assumes "run calm_copy_step (copy_start v) es = Some s"
    "tr ''Panoya kopyaland&imath;.'' \<in> set (shown (copy_view s))"
    "cb_value s \<noteq> tr ''Panoya kopyaland&imath;.''"
  shows "cb_clipboard s = Some (cb_value s)"
proof -
  have "copy_inv s" using assms(1) by (rule copy_page.run_inv)
  moreover have "cb_status s = Copied"
    using assms(2,3) by (cases "cb_status s") (auto simp: copy_view_def entity_def tr.simps(2) Let_def)
  ultimately show ?thesis by (simp add: copy_inv_def)
qed

theorem copy_truthful_witness:
  "\<exists>s. run calm_copy_step (copy_start ''k'') [Copy, Written 0 True] = Some s \<and> cb_clipboard s = Some ''k''"
proof -
  let ?s = "(copy_start ''k'')\<lparr>cb_status := Copied, cb_clipboard := Some ''k''\<rparr>"
  have r: "run calm_copy_step (copy_start ''k'') [Copy, Written 0 True] = Some ?s"
    by (simp add: copy_start_def)
  have v: "cb_value ?s \<noteq> tr ''Panoya kopyaland&imath;.''"
    by (simp add: copy_start_def tr.simps(2))
  have "tr ''Panoya kopyaland&imath;.'' \<in> set (shown (copy_view ?s))"
    by (simp add: copy_view_def)
  from copy_truthful [OF r this v] r show ?thesis by (auto simp: copy_start_def)
qed

text \<open>When the text changes while a write is in flight, the box says ''copied'' under a text that the
  clipboard does not hold: the effect that resets the status does not reach the pending write.\<close>

theorem copy_stale:
  assumes "new \<noteq> old"
  shows "map_option (\<lambda>s. (cb_value s, cb_status s, cb_clipboard s))
     (run copy_step (copy_start old) [Copy, NewValue new, Written 0 True]) = Some (new, Copied, Some old)"
  using assms by (simp add: copy_start_def)

theorem copy_stale_witness:
  "map_option (\<lambda>s. (cb_value s, cb_status s, cb_clipboard s))
     (run copy_step (copy_start ''old'') [Copy, NewValue ''new'', Written 0 True])
   = Some (''new'', Copied, Some ''old'')"
  by (rule copy_stale) simp

text \<open>A label is stable: formatting what the page shows for a status shows the same text again, no
  label is empty, and a pill is one of the four styles whatever the status is.\<close>

theorem label_stable:
  "(s \<noteq> [] \<longrightarrow> formatLabel (DText (formatLabel (DText s))) = formatLabel (DText s))
   \<and> formatLabel v \<noteq> [] \<and> pill_class w \<in> {''pill'', ''pill ok'', ''pill warn'', ''pill danger''}
   \<and> (\<exists>t. StatusPill w = Elem ''span'' [cls (pill_class w)] [Txt t] \<and> t \<noteq> [])"
  using formatLabel_stable formatLabel_nonempty pill_class_cases [of w]
  unfolding StatusPill_def by blast

theorem label_stable_witness:
  "formatLabel (DText (formatLabel (DText ''timed_out''))) = formatLabel (DText ''timed_out'')"
  using label_stable [of "''timed_out''" DNull None] by blast

end
