(* ===== verification/Endpoints.thy ===== *)
theory Endpoints
  imports Api
begin

text \<open>
  The resource types and the endpoint functions of \<open>apps/web/lib/api.ts\<close>. An endpoint function is a
  \<open>call\<close>: the path and the init it hands to the fetch wrapper, and how it turns what the network
  delivers into its promise. \<open>'w\<close> is what the wrapper reads of the body, \<open>'r\<close> the value.
\<close>

record ('w, 'r) call =
  c_path :: string
  c_init :: init
  c_settle :: "'w http \<Rightarrow> js_error + 'r"

section \<open>Resources\<close>

record auth_response =
  ar_user :: "user option"
  ar_access_token :: "string option"

record project =
  pr_id :: string
  pr_name :: string
  pr_status :: string
  pr_monthly_credit_limit :: "int option"
  pr_current_month_spend :: int
  pr_spend_period :: string
  pr_created_at :: string

record wallet =
  w_balance :: "int option"
  w_disclaimer :: "string option"

text \<open>\<open>ProviderCreateResponse\<close> carries a provider without the three instance fields.\<close>

record provider_base =
  pv_id :: string
  pv_name :: string
  pv_region_hint :: "string option"
  pv_trust_level :: string
  pv_approval_status :: string
  pv_status :: string
  pv_allow_auto_model_pull :: bool
  pv_token_prefix :: "string option"
  pv_created_at :: string

record provider = provider_base +
  pv_instance_status :: "string option"
  pv_last_heartbeat_at :: "string option"
  pv_model_names :: "string list"

record model =
  md_id :: string
  md_slug :: string
  md_display_name :: string
  md_description :: string
  md_family :: string
  md_modality :: string
  md_status :: string
  md_context_length :: int
  md_default_max_output_tokens :: int
  md_input_credit_per_1k :: int
  md_output_credit_per_1k :: int
  md_provider_reward_ratio :: rat
  md_min_vram_mb :: int
  md_recommended_vram_mb :: int
  md_license_name :: string
  md_license_url :: "string option"
  md_license_notes :: string
  md_community_allowed :: bool
  md_external_only :: bool
  md_created_at :: string

record usage_record =
  us_id :: string
  us_job_id :: string
  us_project_id :: string
  us_model_id :: string
  us_model_slug :: string
  us_provider_id :: "string option"
  us_provider_instance_id :: "string option"
  us_input_tokens :: int
  us_output_tokens :: int
  us_total_tokens :: int
  us_token_source :: string
  us_cost_credits :: int
  us_latency_ms :: "int option"
  us_status :: string
  us_created_at :: string

record admin_usage_record = usage_record +
  us_user_id :: string
  us_provider_reward_credits :: int

record api_key =
  k_id :: string
  k_name :: string
  k_prefix :: string
  k_status :: string
  k_created_at :: string

record ledger_entry =
  le_id :: string
  le_entry_type :: string
  le_amount_credits :: int
  le_reserved_delta :: int
  le_balance_after :: int
  le_reserved_after :: int
  le_reason :: "string option"
  le_created_at :: string

record provider_create_response =
  pc_provider :: "provider_base option"
  pc_plaintext_token :: "string option"

record api_key_create_response =
  kc_api_key :: "api_key option"
  kc_plaintext_key :: "string option"

record usage_filter =
  uf_projectID :: string
  uf_from :: string
  uf_to :: string
  uf_model :: string

record advertisement =
  ad_id :: string
  ad_provider_id :: string
  ad_runtime :: string
  ad_runtime_model_name :: string
  ad_local_digest :: "string option"
  ad_status :: string
  ad_created_at :: string

record admin_job =
  jb_id :: string
  jb_project_id :: string
  jb_user_id :: string
  jb_model_id :: string
  jb_model_slug :: string
  jb_provider_id :: "string option"
  jb_provider_instance_id :: "string option"
  jb_status :: string
  jb_request_id :: string
  jb_estimated_input_tokens :: int
  jb_estimated_output_tokens :: int
  jb_reserved_credits :: int
  jb_actual_cost_credits :: int
  jb_provider_reward_credits :: int
  jb_error_code :: "string option"
  jb_error_message :: "string option"
  jb_created_at :: string
  jb_dispatched_at :: "string option"
  jb_completed_at :: "string option"

text \<open>A field of the partial payload is absent (\<open>None\<close>) or given; \<open>license_url\<close> can be given as null.\<close>

record model_payload =
  mp_slug :: "string option"
  mp_display_name :: "string option"
  mp_description :: "string option"
  mp_family :: "string option"
  mp_modality :: "string option"
  mp_status :: "string option"
  mp_context_length :: "rat option"
  mp_default_max_output_tokens :: "rat option"
  mp_input_credit_per_1k :: "rat option"
  mp_output_credit_per_1k :: "rat option"
  mp_provider_reward_ratio :: "rat option"
  mp_min_vram_mb :: "rat option"
  mp_recommended_vram_mb :: "rat option"
  mp_license_name :: "string option"
  mp_license_url :: "string option option"
  mp_license_notes :: "string option"
  mp_community_allowed :: "bool option"
  mp_external_only :: "bool option"

record adjusted_wallet =
  aw_id :: string
  aw_owner_type :: string
  aw_balance :: int

record audit_entry =
  au_id :: string
  au_actor_user_id :: string
  au_action :: string
  au_target_type :: "string option"
  au_target_id :: "string option"
  au_created_at :: string

section \<open>Bodies and queries\<close>

definition json_opt :: "('a \<Rightarrow> json) \<Rightarrow> 'a option \<Rightarrow> json" where
  "json_opt f x = (case x of None \<Rightarrow> JNull | Some v \<Rightarrow> f v)"

text \<open>\<open>JSON.stringify\<close> leaves out a member whose value is undefined.\<close>

definition member :: "string \<Rightarrow> ('a \<Rightarrow> json) \<Rightarrow> 'a option \<Rightarrow> (string \<times> json) list" where
  "member n f x = (case x of None \<Rightarrow> [] | Some v \<Rightarrow> [(n, f v)])"

definition payload_json :: "model_payload \<Rightarrow> json" where
  "payload_json m = JObj
     (member ''slug'' JStr (mp_slug m) @ member ''display_name'' JStr (mp_display_name m)
      @ member ''description'' JStr (mp_description m) @ member ''family'' JStr (mp_family m)
      @ member ''modality'' JStr (mp_modality m) @ member ''status'' JStr (mp_status m)
      @ member ''context_length'' JNum (mp_context_length m)
      @ member ''default_max_output_tokens'' JNum (mp_default_max_output_tokens m)
      @ member ''input_credit_per_1k'' JNum (mp_input_credit_per_1k m)
      @ member ''output_credit_per_1k'' JNum (mp_output_credit_per_1k m)
      @ member ''provider_reward_ratio'' JNum (mp_provider_reward_ratio m)
      @ member ''min_vram_mb'' JNum (mp_min_vram_mb m)
      @ member ''recommended_vram_mb'' JNum (mp_recommended_vram_mb m)
      @ member ''license_name'' JStr (mp_license_name m)
      @ member ''license_url'' (json_opt JStr) (mp_license_url m)
      @ member ''license_notes'' JStr (mp_license_notes m)
      @ member ''community_allowed'' JBool (mp_community_allowed m)
      @ member ''external_only'' JBool (mp_external_only m))"

text \<open>\<open>URLSearchParams.toString\<close>: the form encoding of each byte of a name or a value.\<close>

definition hex_char :: "nat \<Rightarrow> char" where
  "hex_char d = (if d < 10 then digit_char d else char_of (55 + d))"

definition form_byte :: "char \<Rightarrow> string" where
  "form_byte c =
     (if is_word c \<or> c = CHR ''*'' \<or> c = CHR ''-'' \<or> c = CHR ''.'' then [c]
      else if c = CHR '' '' then ''+''
      else [CHR 0x25, hex_char (of_char c div 16), hex_char (of_char c mod 16)])"

definition form_encode :: "string \<Rightarrow> string" where
  "form_encode s = concat (map form_byte s)"

definition params_text :: "(string \<times> string) list \<Rightarrow> string" where
  "params_text ps = join ''&'' (map (\<lambda>(n, v). form_encode n @ ''='' @ form_encode v) ps)"

definition usage_params :: "usage_filter \<Rightarrow> (string \<times> string) list" where
  "usage_params f =
     showIf (uf_projectID f \<noteq> []) [(''project_id'', uf_projectID f)]
     @ showIf (uf_from f \<noteq> []) [(''from'', uf_from f)]
     @ showIf (uf_to f \<noteq> []) [(''to'', uf_to f)]
     @ showIf (uf_model f \<noteq> []) [(''model'', uf_model f)]"

definition no_filter :: usage_filter where
  "no_filter = \<lparr>uf_projectID = [], uf_from = [], uf_to = [], uf_model = []\<rparr>"

section \<open>Calls\<close>

definition get_list :: "string \<Rightarrow> ('a list option, 'a list) call" where
  "get_list path = \<lparr>c_path = path, c_init = get_init, c_settle = list_result\<rparr>"

definition post_void :: "string \<Rightarrow> (unit, unit) call" where
  "post_void path = \<lparr>c_path = path, c_init = send_init ''POST'' None, c_settle = void_result\<rparr>"

definition object_result :: "'a \<Rightarrow> 'a http \<Rightarrow> js_error + 'a" where
  "object_result absent h = and_then (apiFetch absent h)
     (\<lambda>res. case res of None \<Rightarrow> Inl TypeError | Some v \<Rightarrow> Inr v)"

definition no_auth :: auth_response where
  "no_auth = \<lparr>ar_user = None, ar_access_token = None\<rparr>"

definition me :: "(user option, user option) call" where
  "me = \<lparr>c_path = ''/api/me'', c_init = get_init, c_settle = field_result\<rparr>"

definition login :: "string \<Rightarrow> string \<Rightarrow> (auth_response, auth_response) call" where
  "login email password =
     \<lparr>c_path = ''/api/auth/login'',
      c_init = send_init ''POST'' (Some (JObj [(''email'', JStr email), (''password'', JStr password)])),
      c_settle = object_result no_auth\<rparr>"

definition register :: "string \<Rightarrow> string \<Rightarrow> string \<Rightarrow> (auth_response, auth_response) call" where
  "register displayName email password =
     \<lparr>c_path = ''/api/auth/register'',
      c_init = send_init ''POST'' (Some (JObj [(''display_name'', JStr displayName),
                 (''email'', JStr email), (''password'', JStr password)])),
      c_settle = object_result no_auth\<rparr>"

definition getWallet :: "(wallet, wallet option) call" where
  "getWallet = \<lparr>c_path = ''/api/wallet'', c_init = get_init,
     c_settle = apiFetch \<lparr>w_balance = None, w_disclaimer = None\<rparr>\<rparr>"

definition listProjects :: "(project list option, project list) call" where
  "listProjects = get_list ''/api/projects''"

definition createProject :: "string \<Rightarrow> rat option \<Rightarrow> (project option, project option) call" where
  "createProject name monthlyCreditLimit =
     \<lparr>c_path = ''/api/projects'',
      c_init = send_init ''POST'' (Some (JObj [(''name'', JStr name),
                 (''monthly_credit_limit'', json_opt JNum monthlyCreditLimit)])),
      c_settle = field_result\<rparr>"

definition listAPIKeys :: "string \<Rightarrow> (api_key list option, api_key list) call" where
  "listAPIKeys projectID = get_list (''/api/projects/'' @ projectID @ ''/api-keys'')"

definition createAPIKey ::
  "string \<Rightarrow> string \<Rightarrow> (api_key_create_response, api_key_create_response) call" where
  "createAPIKey projectID name =
     \<lparr>c_path = ''/api/projects/'' @ projectID @ ''/api-keys'',
      c_init = send_init ''POST'' (Some (JObj [(''name'', JStr name)])),
      c_settle = object_result \<lparr>kc_api_key = None, kc_plaintext_key = None\<rparr>\<rparr>"

definition revokeAPIKey :: "string \<Rightarrow> string \<Rightarrow> (unit, unit) call" where
  "revokeAPIKey projectID keyID =
     \<lparr>c_path = ''/api/projects/'' @ projectID @ ''/api-keys/'' @ keyID,
      c_init = send_init ''DELETE'' None, c_settle = void_result\<rparr>"

definition listProviders :: "(provider list option, provider list) call" where
  "listProviders = get_list ''/api/providers''"

definition createProvider ::
  "string \<Rightarrow> string option \<Rightarrow> bool \<Rightarrow> (provider_create_response, provider_create_response) call" where
  "createProvider name regionHint allowAutoModelPull =
     \<lparr>c_path = ''/api/providers'',
      c_init = send_init ''POST'' (Some (JObj [(''name'', JStr name),
                 (''region_hint'', json_opt JStr regionHint),
                 (''allow_auto_model_pull'', JBool allowAutoModelPull)])),
      c_settle = object_result \<lparr>pc_provider = None, pc_plaintext_token = None\<rparr>\<rparr>"

definition listModels :: "(model list option, model list) call" where
  "listModels = get_list ''/api/models''"

definition listLedger :: "(ledger_entry list option, ledger_entry list) call" where
  "listLedger = get_list ''/api/wallet/ledger''"

definition listUsage :: "usage_filter \<Rightarrow> (usage_record list option, usage_record list) call" where
  "listUsage flt =
     (let query = params_text (usage_params flt)
      in get_list (''/api/usage'' @ (if query \<noteq> [] then ''?'' @ query else [])))"

definition listAdminProviders :: "(provider list option, provider list) call" where
  "listAdminProviders = get_list ''/api/admin/providers''"

definition approveProvider :: "string \<Rightarrow> (unit, unit) call" where
  "approveProvider providerID = post_void (''/api/admin/providers/'' @ providerID @ ''/approve'')"

definition rejectProvider :: "string \<Rightarrow> (unit, unit) call" where
  "rejectProvider providerID = post_void (''/api/admin/providers/'' @ providerID @ ''/reject'')"

definition disableProvider :: "string \<Rightarrow> (unit, unit) call" where
  "disableProvider providerID = post_void (''/api/admin/providers/'' @ providerID @ ''/disable'')"

definition listPendingProviderModels :: "(advertisement list option, advertisement list) call" where
  "listPendingProviderModels = get_list ''/api/admin/provider-models/pending''"

definition approveProviderModel :: "string \<Rightarrow> (unit, unit) call" where
  "approveProviderModel adID = post_void (''/api/admin/provider-models/'' @ adID @ ''/approve'')"

definition rejectProviderModel :: "string \<Rightarrow> (unit, unit) call" where
  "rejectProviderModel adID = post_void (''/api/admin/provider-models/'' @ adID @ ''/reject'')"

definition listAdminModels :: "(model list option, model list) call" where
  "listAdminModels = get_list ''/api/admin/models''"

definition createAdminModel :: "model_payload \<Rightarrow> (model option, model option) call" where
  "createAdminModel m =
     \<lparr>c_path = ''/api/admin/models'', c_init = send_init ''POST'' (Some (payload_json m)),
      c_settle = field_result\<rparr>"

definition updateAdminModel :: "string \<Rightarrow> model_payload \<Rightarrow> (model option, model option) call" where
  "updateAdminModel modelID m =
     \<lparr>c_path = ''/api/admin/models/'' @ modelID, c_init = send_init ''PATCH'' (Some (payload_json m)),
      c_settle = field_result\<rparr>"

definition pauseAdminModel :: "string \<Rightarrow> (unit, unit) call" where
  "pauseAdminModel modelID = post_void (''/api/admin/models/'' @ modelID @ ''/pause'')"

definition listAdminJobs :: "(admin_job list option, admin_job list) call" where
  "listAdminJobs = get_list ''/api/admin/jobs''"

definition listAdminUsage :: "(admin_usage_record list option, admin_usage_record list) call" where
  "listAdminUsage = get_list ''/api/admin/usage''"

definition listAdminAuditLog :: "(audit_entry list option, audit_entry list) call" where
  "listAdminAuditLog = get_list ''/api/admin/audit-log''"

definition adjustAdminWallet ::
  "string \<Rightarrow> rat \<Rightarrow> string \<Rightarrow> (adjusted_wallet option, adjusted_wallet option option) call" where
  "adjustAdminWallet userID amountCredits reason =
     \<lparr>c_path = ''/api/admin/wallets/'' @ userID @ ''/adjust'',
      c_init = send_init ''POST'' (Some (JObj [(''amount_credits'', JNum amountCredits),
                 (''reason'', JStr reason)])),
      c_settle = apiFetch None\<rparr>"

section \<open>Facts the pages use\<close>

lemma settle_list [simp]: "c_settle (get_list p) = list_result" "c_path (get_list p) = p"
  "c_init (get_list p) = get_init"
  by (simp_all add: get_list_def)

lemma settle_void [simp]: "c_settle (post_void p) = void_result" "c_path (post_void p) = p"
  "c_init (post_void p) = send_init ''POST'' None"
  by (simp_all add: post_void_def)

lemmas list_calls = listProjects_def listAPIKeys_def listProviders_def listModels_def listLedger_def
  listUsage_def listAdminProviders_def listPendingProviderModels_def listAdminModels_def
  listAdminJobs_def listAdminUsage_def listAdminAuditLog_def

lemmas void_calls = approveProvider_def rejectProvider_def disableProvider_def
  approveProviderModel_def rejectProviderModel_def pauseAdminModel_def revokeAPIKey_def

lemma object_result_Inr:
  "object_result absent h = Inr v \<longleftrightarrow>
     (\<exists>status body. h = Response status body \<and> res_ok status \<and> status \<noteq> 204 \<and>
        (body = EmptyText \<and> v = absent \<or> (\<exists>err. body = JsonBody err v)))"
proof (cases h)
  case (Response status body)
  then show ?thesis
    by (cases body) (auto simp: object_result_def res_ok_def)
qed (simp add: object_result_def)

end
