(* ===== verification/Pages.thy ===== *)
theory Pages
  imports Widgets Endpoints
begin

text \<open>
  What the pages share: how a page loads its data on mount. A page calls one endpoint, or joins
  several with \<open>Promise.all\<close>, stores the values, catches the first rejection in its error state and
  then ends its loading state. \<open>outcome2\<close> (and \<open>4\<close>, \<open>5\<close>) is how a joined promise settles: all
  responses arrived and were accepted, or the call with the given number was the first to be
  rejected; an outcome that does not fit the responses it carries cannot happen.
\<close>

section \<open>Joined promises\<close>

datatype ('a, 'b) outcome2 = All2 'a 'b | First2_1 'a | First2_2 'b

definition rejected :: "js_error + 'a \<Rightarrow> (js_error + 'b) option" where
  "rejected r = (case r of Inl e \<Rightarrow> Some (Inl e) | Inr _ \<Rightarrow> None)"

fun settle2 :: "('a \<Rightarrow> js_error + 'x) \<Rightarrow> ('b \<Rightarrow> js_error + 'y) \<Rightarrow> ('a, 'b) outcome2
    \<Rightarrow> (js_error + 'x \<times> 'y) option" where
  "settle2 f g (All2 a b) = (case (f a, g b) of (Inr x, Inr y) \<Rightarrow> Some (Inr (x, y)) | _ \<Rightarrow> None)"
| "settle2 f g (First2_1 a) = rejected (f a)"
| "settle2 f g (First2_2 b) = rejected (g b)"

datatype ('a, 'b, 'c, 'd) outcome4 =
    All4 'a 'b 'c 'd | First4_1 'a | First4_2 'b | First4_3 'c | First4_4 'd

fun settle4 :: "('a \<Rightarrow> js_error + 'x) \<Rightarrow> ('b \<Rightarrow> js_error + 'y) \<Rightarrow> ('c \<Rightarrow> js_error + 'z)
    \<Rightarrow> ('d \<Rightarrow> js_error + 'w) \<Rightarrow> ('a, 'b, 'c, 'd) outcome4 \<Rightarrow> (js_error + 'x \<times> 'y \<times> 'z \<times> 'w) option" where
  "settle4 f g h k (All4 a b c d) =
     (case (f a, g b, h c, k d) of
        (Inr x, Inr y, Inr z, Inr w) \<Rightarrow> Some (Inr (x, y, z, w)) | _ \<Rightarrow> None)"
| "settle4 f g h k (First4_1 a) = rejected (f a)"
| "settle4 f g h k (First4_2 b) = rejected (g b)"
| "settle4 f g h k (First4_3 c) = rejected (h c)"
| "settle4 f g h k (First4_4 d) = rejected (k d)"

datatype ('a, 'b, 'c, 'd, 'e) outcome5 =
    All5 'a 'b 'c 'd 'e | First5_1 'a | First5_2 'b | First5_3 'c | First5_4 'd | First5_5 'e

fun settle5 :: "('a \<Rightarrow> js_error + 'x) \<Rightarrow> ('b \<Rightarrow> js_error + 'y) \<Rightarrow> ('c \<Rightarrow> js_error + 'z)
    \<Rightarrow> ('d \<Rightarrow> js_error + 'w) \<Rightarrow> ('e \<Rightarrow> js_error + 'v) \<Rightarrow> ('a, 'b, 'c, 'd, 'e) outcome5
    \<Rightarrow> (js_error + 'x \<times> 'y \<times> 'z \<times> 'w \<times> 'v) option" where
  "settle5 f g h k l (All5 a b c d e) =
     (case (f a, g b, h c, k d, l e) of
        (Inr x, Inr y, Inr z, Inr w, Inr v) \<Rightarrow> Some (Inr (x, y, z, w, v)) | _ \<Rightarrow> None)"
| "settle5 f g h k l (First5_1 a) = rejected (f a)"
| "settle5 f g h k l (First5_2 b) = rejected (g b)"
| "settle5 f g h k l (First5_3 c) = rejected (h c)"
| "settle5 f g h k l (First5_4 d) = rejected (k d)"
| "settle5 f g h k l (First5_5 e) = rejected (l e)"

text \<open>\<open>Promise.all(xs.map(call))\<close>: one accepted value per call, or the rejection of the \<open>i\<close>-th.\<close>

datatype 'a outcomes = AllOf "'a list" | FirstOf nat 'a

fun accepted :: "(js_error + 'x) list \<Rightarrow> 'x list option" where
  "accepted [] = Some []"
| "accepted (Inl e # rs) = None"
| "accepted (Inr x # rs) = map_option (\<lambda>xs. x # xs) (accepted rs)"

fun settle_each :: "('c \<Rightarrow> 'a \<Rightarrow> js_error + 'x) \<Rightarrow> 'c list \<Rightarrow> 'a outcomes
    \<Rightarrow> (js_error + 'x list) option" where
  "settle_each f cs (AllOf hs) =
     (if length hs = length cs then map_option Inr (accepted (map2 f cs hs)) else None)"
| "settle_each f cs (FirstOf i h) = (if i < length cs then rejected (f (cs ! i) h) else None)"

lemma rejected_Some [simp]: "rejected r = Some q \<longleftrightarrow> (\<exists>e. r = Inl e \<and> q = Inl e)"
  by (cases r) (auto simp: rejected_def)

lemma settle2_Inr:
  "settle2 f g o2 = Some (Inr (x, y)) \<longleftrightarrow> (\<exists>a b. o2 = All2 a b \<and> f a = Inr x \<and> g b = Inr y)"
  by (cases o2) (auto split: sum.splits)

lemma accepted_Some: "accepted rs = Some xs \<longleftrightarrow> rs = map Inr xs"
proof (induction rs arbitrary: xs)
  case (Cons r rs)
  then show ?case by (cases r) (auto simp: Cons_eq_map_conv)
qed auto

section \<open>Accepted responses\<close>

definition ok_body :: "'a \<Rightarrow> 'a http" where
  "ok_body v = Response 200 (JsonBody None v)"

lemma ok_body_results [simp]:
  "list_result (ok_body (Some xs)) = Inr xs" "field_result (ok_body w) = Inr w"
  "object_result a (ok_body v) = Inr v" "void_result (ok_body ()) = Inr ()"
  "apiFetch a (ok_body v) = Inr (Some v)"
  by (simp_all add: ok_body_def list_result_def field_result_def object_result_def void_result_def
      res_ok_def arrayOrEmpty_def)

section \<open>A page that loads one list\<close>

text \<open>
  \<open>useEffect(() => { listX().then((res) => setX(res.x)).catch(setError).finally(() =>
  setLoading(false)); }, [])\<close>, the whole behaviour of the model list, the request list, the admin
  usage list and the audit log. \<open>lp_pending\<close> says that the promise has not settled.
\<close>

record 'a list_page =
  lp_items :: "'a list"
  lp_error :: "js_error option"
  lp_loading :: bool
  lp_pending :: bool

definition list_start :: "'a list_page" where
  "list_start = \<lparr>lp_items = [], lp_error = None, lp_loading = True, lp_pending = True\<rparr>"

definition list_step :: "('w, 'a list) call \<Rightarrow> ('a list_page, 'w http) machine" where
  "list_step c s h =
     (if lp_pending s
      then (let s' = s\<lparr>lp_pending := False, lp_loading := False\<rparr>
            in Some (case c_settle c h of
                 Inl e \<Rightarrow> s'\<lparr>lp_error := Some e\<rparr>
               | Inr xs \<Rightarrow> s'\<lparr>lp_items := xs\<rparr>))
      else None)"

text \<open>A list page shows exactly one of: the loading state, an error without items, or the items of
  one accepted response.\<close>

definition list_inv :: "('w, 'a list) call \<Rightarrow> 'a list_page \<Rightarrow> bool" where
  "list_inv c s \<longleftrightarrow> (lp_loading s = lp_pending s) \<and>
     (if lp_pending s then lp_items s = [] \<and> lp_error s = None
      else (\<exists>h. (case c_settle c h of
                   Inl e \<Rightarrow> lp_error s = Some e \<and> lp_items s = []
                 | Inr xs \<Rightarrow> lp_error s = None \<and> lp_items s = xs)))"

lemma list_step_inv: "list_inv c s \<Longrightarrow> list_step c s h = Some t \<Longrightarrow> list_inv c t"
  by (auto simp: list_inv_def list_step_def Let_def split: if_splits sum.splits intro!: exI [of _ h])

lemma list_start_inv: "list_inv c list_start"
  by (simp add: list_inv_def list_start_def)

interpretation list_pages: page_machine "list_step c" list_start "list_inv c"
  by unfold_locales (auto intro: list_start_inv list_step_inv)

text \<open>It settles once: after the response no further event is possible.\<close>

lemma list_run_end: "list_step c s h = Some t \<Longrightarrow> list_step c t h' = None"
  by (auto simp: list_step_def Let_def split: if_splits sum.splits)

section \<open>Properties\<close>

text \<open>A page that loads one list takes exactly one answer: it is loading and empty before it, and after
  it, whatever the answer was, it has stopped loading and shows either the rejection and no items or
  the items of that answer and no error; no later answer can change it.\<close>

theorem list_page_outcome:
  assumes "run (list_step c) list_start hs = Some s"
  shows "(hs = [] \<longrightarrow> lp_loading s \<and> lp_items s = [] \<and> lp_error s = None)
     \<and> (hs \<noteq> [] \<longrightarrow> length hs = 1 \<and> \<not> lp_loading s \<and> (\<forall>h. list_step c s h = None)
          \<and> (case c_settle c (hd hs) of
               Inl e \<Rightarrow> lp_error s = Some e \<and> lp_items s = []
             | Inr xs \<Rightarrow> lp_error s = None \<and> lp_items s = xs))"
proof (cases hs)
  case Nil
  with assms have "s = list_start" by simp
  with Nil show ?thesis by (simp add: list_start_def)
next
  case (Cons h hs')
  with assms obtain t where t: "list_step c list_start h = Some t" "run (list_step c) t hs' = Some s"
    by (auto split: option.splits)
  have "hs' = []"
    using t list_run_end [OF t(1)] by (cases hs') auto
  with Cons t show ?thesis
    using list_run_end [OF t(1)]
    by (auto simp: list_step_def list_start_def Let_def split: sum.splits)
qed

theorem list_page_outcome_witness:
  "\<exists>s. run (list_step (get_list ''/x'')) list_start [ok_body (Some [1 :: nat])] = Some s
     \<and> lp_items s = [1] \<and> \<not> lp_loading s"
proof -
  have "\<exists>s. run (list_step (get_list ''/x'')) list_start [ok_body (Some [1 :: nat])] = Some s"
    by (simp add: list_step_def list_start_def get_list_def Let_def)
  then obtain s where s: "run (list_step (get_list ''/x'')) list_start [ok_body (Some [1 :: nat])] = Some s" ..
  from list_page_outcome [OF this] have "lp_items s = [1] \<and> \<not> lp_loading s"
    by (simp add: get_list_def)
  with s show ?thesis by blast
qed

end
