(* ===== verification/ApiKeysPage.thy ===== *)
theory ApiKeysPage
  imports Pages
begin

text \<open>
  \<open>apps/web/app/dashboard/api-keys/page.tsx\<close>: choose a project, create a key, copy it once, revoke
  keys. Beside the React state the record holds the promises in flight with what their callbacks
  captured: \<open>ky_listing\<close> the project of each unanswered key list (oldest first), \<open>ky_creating\<close> the
  project and name of each unanswered creation, \<open>ky_revoking\<close> the project and key of each unanswered
  revocation. A settlement names the promise by its position. A click that asks for confirmation
  carries the answer; the rendered buttons carry the answer yes. \<open>ky_crashed\<close> is the state after
  rendering has thrown: React removes the page.
\<close>

record keys_page =
  ky_projects :: "project list"
  ky_projectID :: string
  ky_keys :: "api_key list"
  ky_models :: "model list"
  ky_name :: string
  ky_plaintextKey :: string
  ky_error :: "js_error option"
  ky_success :: string
  ky_loading :: bool
  ky_saving :: bool
  ky_mounting :: bool
  ky_listing :: "string list"
  ky_creating :: "(string \<times> string) list"
  ky_revoking :: "(string \<times> string) list"
  ky_crashed :: bool

datatype keys_event =
    Loaded "(project list option http, model list option http) outcome2"
  | KeysListed nat "api_key list option http"
  | SelectProject string
  | SetName string
  | Submit
  | Created nat "api_key_create_response http"
  | Revoke string bool
  | Revoked nat "unit http"

definition keys_start :: keys_page where
  "keys_start = \<lparr>ky_projects = [], ky_projectID = [], ky_keys = [], ky_models = [], ky_name = [],
     ky_plaintextKey = [], ky_error = None, ky_success = [], ky_loading = True, ky_saving = False,
     ky_mounting = True, ky_listing = [], ky_creating = [], ky_revoking = [], ky_crashed = False\<rparr>"

section \<open>Derived values\<close>

definition keys_selected :: "keys_page \<Rightarrow> project option" where
  "keys_selected s = find (\<lambda>project. pr_id project = ky_projectID s) (ky_projects s)"

definition keys_active :: "keys_page \<Rightarrow> api_key list" where
  "keys_active s = filter (\<lambda>key. k_status key = ''active'') (ky_keys s)"

definition keys_starter :: "keys_page \<Rightarrow> string" where
  "keys_starter s = or_else (case ky_models s of [] \<Rightarrow> None | m # _ \<Rightarrow> Some (md_slug m)) ''qwen-7b-instruct''"

definition keys_example :: "keys_page \<Rightarrow> string" where
  "keys_example s =
     (''curl http://localhost:18080/v1/chat/completions ''
     @ [CHR 0x5C]
     @ [CHR 0x0A]
     @ tr ''  -H &quot;Authorization: Bearer '')
     @ (or_text (ky_plaintextKey s) ''pvn_kopyaladigin_anahtar'')
     @ (tr ''&quot; ''
     @ [CHR 0x5C]
     @ [CHR 0x0A]
     @ tr ''  -H &quot;Content-Type: application/json&quot; ''
     @ [CHR 0x5C]
     @ [CHR 0x0A]
     @ tr ''  -d &apos;{&quot;model&quot;:&quot;'')
     @ (keys_starter s)
     @ tr ''&quot;,&quot;messages&quot;:[{&quot;role&quot;:&quot;user&quot;,&quot;content&quot;:&quot;Merhaba&quot;}]}&apos;''"

definition keys_picker :: "keys_page \<Rightarrow> bool" where
  "keys_picker s \<longleftrightarrow> length (ky_projects s) > 1"

section \<open>Handlers\<close>

text \<open>\<open>setProjectID(p)\<close> with the effect on \<open>[projectID]\<close> that follows it.\<close>

definition keys_project :: "string \<Rightarrow> keys_page \<Rightarrow> keys_page" where
  "keys_project p s =
     (if p = ky_projectID s then s
      else if p = [] then s\<lparr>ky_projectID := p, ky_keys := []\<rparr>
      else s\<lparr>ky_projectID := p, ky_listing := ky_listing s @ [p]\<rparr>)"

definition keys_loaded :: "js_error + project list \<times> model list \<Rightarrow> keys_page \<Rightarrow> keys_page" where
  "keys_loaded r s =
     (let s' = s\<lparr>ky_mounting := False, ky_loading := False\<rparr>
      in case r of
        Inl e \<Rightarrow> s'\<lparr>ky_error := Some e\<rparr>
      | Inr (projects, models) \<Rightarrow>
          keys_project (case projects of [] \<Rightarrow> [] | p # _ \<Rightarrow> pr_id p)
            (s'\<lparr>ky_projects := projects, ky_models := models\<rparr>))"

definition keys_listed :: "nat \<Rightarrow> js_error + api_key list \<Rightarrow> keys_page \<Rightarrow> keys_page" where
  "keys_listed i r s =
     (let s' = s\<lparr>ky_listing := drop_nth i (ky_listing s)\<rparr>
      in case r of Inl e \<Rightarrow> s'\<lparr>ky_error := Some e\<rparr> | Inr ks \<Rightarrow> s'\<lparr>ky_keys := ks\<rparr>)"

definition keys_submit :: "keys_page \<Rightarrow> keys_page" where
  "keys_submit s = s\<lparr>ky_saving := True, ky_error := None, ky_success := [], ky_plaintextKey := [],
     ky_creating := ky_creating s @ [(ky_projectID s, or_text (ky_name s) (tr ''Varsay&imath;lan''))]\<rparr>"

definition keys_created :: "nat \<Rightarrow> js_error + api_key_create_response \<Rightarrow> keys_page \<Rightarrow> keys_page" where
  "keys_created i r s =
     (let s' = s\<lparr>ky_creating := drop_nth i (ky_creating s), ky_saving := False\<rparr>
      in case r of
        Inl e \<Rightarrow> s'\<lparr>ky_error := Some e\<rparr>
      | Inr res \<Rightarrow> (case kc_api_key res of
            None \<Rightarrow> s'\<lparr>ky_crashed := True\<rparr>
          | Some k \<Rightarrow> s'\<lparr>ky_keys := k # ky_keys s', ky_plaintextKey := or_else (kc_plaintext_key res) [],
                          ky_success := tr ''Anahtar olu&scedil;turuldu.'', ky_name := []\<rparr>))"

definition keys_revoke :: "string \<Rightarrow> bool \<Rightarrow> keys_page \<Rightarrow> keys_page" where
  "keys_revoke keyID confirmed s =
     (if \<not> confirmed then s
      else s\<lparr>ky_error := None, ky_success := [],
             ky_revoking := ky_revoking s @ [(ky_projectID s, keyID)]\<rparr>)"

definition keys_revoked :: "nat \<Rightarrow> js_error + unit \<Rightarrow> keys_page \<Rightarrow> keys_page" where
  "keys_revoked i r s =
     (let keyID = snd (ky_revoking s ! i); s' = s\<lparr>ky_revoking := drop_nth i (ky_revoking s)\<rparr>
      in case r of
        Inl e \<Rightarrow> s'\<lparr>ky_error := Some e\<rparr>
      | Inr _ \<Rightarrow> s'\<lparr>ky_keys := update_by k_id keyID (\<lambda>k. k\<lparr>k_status := ''revoked''\<rparr>) (ky_keys s'),
                    ky_success := ''Anahtar iptal edildi.''\<rparr>)"

text \<open>The form is enabled, the picker and the revocation buttons are rendered.\<close>

definition can_submit :: "keys_page \<Rightarrow> bool" where
  "can_submit s \<longleftrightarrow> ky_projects s \<noteq> [] \<and> \<not> ky_saving s \<and> ky_projectID s \<noteq> []"

definition can_select :: "string \<Rightarrow> keys_page \<Rightarrow> bool" where
  "can_select p s \<longleftrightarrow> keys_picker s \<and> p \<in> pr_id ` set (ky_projects s)"

definition can_revoke :: "string \<Rightarrow> keys_page \<Rightarrow> bool" where
  "can_revoke i s \<longleftrightarrow> ky_projects s \<noteq> [] \<and> (\<exists>k \<in> set (keys_active s). k_id k = i)"

fun keys_handle :: "keys_page \<Rightarrow> keys_event \<Rightarrow> keys_page option" where
  "keys_handle s (Loaded r) =
     (if ky_mounting s
      then map_option (\<lambda>r. keys_loaded r s) (settle2 (c_settle listProjects) (c_settle listModels) r)
      else None)"
| "keys_handle s (KeysListed i h) =
     (if i < length (ky_listing s)
      then Some (keys_listed i (c_settle (listAPIKeys (ky_listing s ! i)) h) s) else None)"
| "keys_handle s (SelectProject p) = (if can_select p s then Some (keys_project p s) else None)"
| "keys_handle s (SetName v) =
     (if ky_projects s \<noteq> [] then Some (s\<lparr>ky_name := v\<rparr>) else None)"
| "keys_handle s Submit = (if can_submit s then Some (keys_submit s) else None)"
| "keys_handle s (Created i h) =
     (if i < length (ky_creating s)
      then Some (keys_created i
             (c_settle (createAPIKey (fst (ky_creating s ! i)) (snd (ky_creating s ! i))) h) s)
      else None)"
| "keys_handle s (Revoke i b) = (if can_revoke i s then Some (keys_revoke i b s) else None)"
| "keys_handle s (Revoked i h) =
     (if i < length (ky_revoking s)
      then Some (keys_revoked i
             (c_settle (revokeAPIKey (fst (ky_revoking s ! i)) (snd (ky_revoking s ! i))) h) s)
      else None)"

definition keys_step :: "(keys_page, keys_event) machine" where
  "keys_step s e = (if ky_crashed s then None else keys_handle s e)"

lemmas keys_handlers = keys_loaded_def keys_listed_def keys_submit_def keys_created_def
  keys_revoke_def keys_revoked_def keys_project_def

section \<open>View\<close>

definition keys_head :: "keys_page \<Rightarrow> keys_event html" where
  "keys_head s =
    Elem ''section'' [cls ''card stack'', Attr ''style'' ''padding: 32'']
      [Elem ''div'' [cls ''split-panel'']
         [Elem ''div'' [cls ''stack'']
            [Elem ''span'' [cls ''eyebrow''] [Txt ''API''],
             Elem ''h1'' [] [Txt (tr ''Anahtar olu&scedil;tur, istek g&ouml;nder.'')],
             Elem ''p'' [cls ''muted'', Attr ''style'' ''maxWidth: 620'']
               [Txt (tr ''Proje se&ccedil;. Anahtar&imath; kopyala. &Idot;lk iste&gbreve;ini ayn&imath; yerden ba&scedil;lat.'')],
             Elem ''div'' [cls ''row'']
               [Elem ''Link''
                  [cls ''button'',
                   Attr ''href'' (if ky_projects s \<noteq> [] then ''#create-key'' else ''/dashboard/projects'')]
                  (if ky_projects s \<noteq> []
                   then [Txt (tr ''Anahtar olu&scedil;tur'')]
                   else [Txt (tr ''Proje olu&scedil;tur'')]),
                Elem ''Link'' [cls ''button secondary'', Attr ''href'' ''/dashboard/usage'']
                  [Txt (tr ''&Idot;stekleri g&ouml;r'')]]],
          Elem ''div'' [cls ''card stack secondary-card'', Attr ''style'' ''padding: 22'']
            [Elem ''div'' [cls ''surface-head'']
               [Elem ''div'' []
                  [Elem ''h2'' [] [Txt (tr ''&Idot;lk komut'')],
                   Elem ''p'' [cls ''muted'']
                     (if ky_plaintextKey s \<noteq> []
                      then [Txt (tr ''Anahtar haz&imath;r. Komutu &scedil;imdi kopyalayabilirsin.'')]
                      else [Txt (tr ''Anahtar haz&imath;r olunca &ouml;rnek komut burada g&ouml;r&uuml;n&uuml;r.'')])],
                Elem ''span'' [cls ''pill''] [Txt ''API'']],
             Elem ''CopyBox'' [Attr ''value'' (keys_example s)] [],
             Elem ''div'' [cls ''grid stat-strip'']
               [Elem ''div'' [cls ''metric'']
                  [Elem ''strong'' [] [Txt (show_nat (length (ky_projects s)))],
                   Elem ''span'' [cls ''muted''] [Txt ''Proje'']],
                Elem ''div'' [cls ''metric'']
                  [Elem ''strong'' [] [Txt (show_nat (length (keys_active s)))],
                   Elem ''span'' [cls ''muted''] [Txt ''Aktif anahtar'']]]]]]"

definition keys_forms :: "keys_page \<Rightarrow> keys_event html" where
  "keys_forms s =
    Elem ''section'' [cls ''split-panel'']
      [Elem ''div'' [cls ''card stack'']
         ([Elem ''div'' [cls ''surface-head'']
             [Elem ''div'' []
                [Elem ''h2'' []
                   (if keys_picker s
                    then [Txt (tr ''Proje se&ccedil;'')]
                    else [Txt (tr ''Se&ccedil;ili proje'')]),
                 Elem ''p'' [cls ''muted''] [Txt (tr ''&Idot;lk istek i&ccedil;in tek proje yeter.'')]]]]
          @ (if keys_picker s
             then [Elem ''div'' [cls ''field'']
                  [Elem ''label'' [Attr ''htmlFor'' ''project''] [Txt ''Proje''],
                   Elem ''select''
                     [Attr ''id'' ''project'',
                      Attr ''value'' (ky_projectID s),
                      OnChange SelectProject]
                     (map (\<lambda>project.
                          Elem ''option'' [Attr ''value'' (pr_id project)] [Txt (pr_name project)])
                        (ky_projects s))]]
             else [Elem ''div'' [cls ''metric'']
                  [Elem ''strong'' []
                     [Txt (or_else (map_option pr_name (keys_selected s)) (tr ''&mdash;''))],
                   Elem ''span'' [cls ''muted'']
                     [Txt ''Bu ay '',
                      Txt (show_int (case map_option pr_current_month_spend (keys_selected s) of None \<Rightarrow> 0 | Some i \<Rightarrow> i)),
                      Txt (tr '' kredi harcad&imath;.'')]]])
          @ [Elem ''div'' [cls ''row'']
               [Elem ''Link'' [cls ''button secondary'', Attr ''href'' ''/dashboard/projects'']
                  [Txt ''Yeni proje'']]]),
       Elem ''div'' [Attr ''id'' ''create-key'', cls ''card stack secondary-card'']
         [Elem ''div'' [cls ''surface-head'']
            ([Elem ''div'' []
                [Elem ''h2'' [] [Txt (tr ''Anahtar olu&scedil;tur'')],
                 Elem ''p'' [cls ''muted'']
                   [Txt (tr ''Secret yaln&imath;zca bir kez g&ouml;r&uuml;n&uuml;r.'')]]]
             @ (if keys_active s \<noteq> []
                then [Elem ''span'' [cls ''pill ok'']
                     [Txt (show_nat (length (keys_active s))), Txt '' aktif'']]
                else [Elem ''span'' [cls ''pill warn''] [Txt (tr ''Hen&uuml;z yok'')]])),
          Elem ''form'' [cls ''stack'', OnSubmit Submit]
            [Elem ''div'' [cls ''field'']
               [Elem ''label'' [Attr ''htmlFor'' ''key-name''] [Txt (tr ''Anahtar ad&imath;'')],
                Elem ''input''
                  [Attr ''id'' ''key-name'',
                   Attr ''value'' (ky_name s),
                   OnChange SetName,
                   Attr ''placeholder'' (tr ''Varsay&imath;lan'')]
                  []],
             Elem ''button''
               [cls ''button'',
                Flag ''disabled'' (ky_saving s \<or> ky_projectID s = []),
                Attr ''type'' ''submit'']
               (if ky_saving s
                then [Txt (tr ''Olu&scedil;turuluyor...'')]
                else [Txt (tr ''Anahtar olu&scedil;tur'')])]]]"

definition keys_secret :: "keys_page \<Rightarrow> keys_event html list" where
  "keys_secret s =
    showIf (ky_plaintextKey s \<noteq> [])
      [Elem ''section'' [cls ''notice warn stack'']
         [Elem ''strong'' []
            [Txt (tr ''Bu anahtar&imath; &scedil;imdi kopyala. Bir daha g&ouml;r&uuml;nmez.'')],
          Elem ''CopyBox'' [Attr ''value'' (ky_plaintextKey s)] [],
          Elem ''div'' [cls ''card stack'']
            [Elem ''strong'' [] [Txt (tr ''&Ouml;rnek komut'')],
             Elem ''CopyBox'' [Attr ''value'' (keys_example s)] [],
             Elem ''div'' [cls ''row'']
               [Elem ''Link'' [cls ''button'', Attr ''href'' ''/dashboard/usage'']
                  [Txt (tr ''&Idot;stekleri g&ouml;r'')],
                Elem ''Link'' [cls ''button secondary'', Attr ''href'' ''/dashboard/credits'']
                  [Txt (tr ''Bakiyeyi g&ouml;r'')]]]]]"

definition key_row :: "env \<Rightarrow> api_key \<Rightarrow> keys_event html" where
  "key_row env key =
    Elem ''tr'' []
      [Elem ''td'' [] [Txt (k_name key)],
       Elem ''td'' [] [Txt (k_prefix key)],
       Elem ''td'' [] [StatusPill (Some (k_status key))],
       Elem ''td'' [] [Txt (toLocaleString env (k_created_at key))],
       Elem ''td'' []
         (showIf (k_status key = ''active'')
            [Elem ''button''
               [cls ''button danger'',
                Attr ''type'' ''button'',
                OnClick (Revoke (k_id key) True)]
               [Txt (tr ''&Idot;ptal et'')]])]"

definition key_item :: "env \<Rightarrow> api_key \<Rightarrow> keys_event html" where
  "key_item env key =
    Elem ''div'' [cls ''mobile-item'']
      ([Elem ''div'' [cls ''row'']
          [Elem ''strong'' [] [Txt (k_name key)], StatusPill (Some (k_status key))],
        Elem ''div'' [cls ''meta muted'']
          [Elem ''div'' [] [Txt (tr ''&Ouml;n ek: ''), Txt (k_prefix key)],
           Elem ''div'' [] [Txt (toLocaleString env (k_created_at key))]]]
       @ showIf (k_status key = ''active'')
           [Elem ''button''
              [cls ''button danger'',
               Attr ''type'' ''button'',
               OnClick (Revoke (k_id key) True)]
              [Txt (tr ''&Idot;ptal et'')]])"

definition starter_model :: "model \<Rightarrow> keys_event html" where
  "starter_model model =
    Elem ''div'' [cls ''metric'']
      [Elem ''strong'' [] [Txt (md_display_name model)],
       Elem ''span'' [cls ''muted''] [Txt (tr ''API ad&imath;: ''), Txt (md_slug model)],
       Elem ''span'' [cls ''muted''] [Txt (md_description model)],
       Elem ''div'' [cls ''row'', Attr ''style'' ''marginTop: 8'']
         ([Elem ''span'' [cls ''muted'']
             [Txt (tr ''Giri&scedil; ''),
              Txt (show_int (md_input_credit_per_1k model)),
              Txt (tr '' / &Ccedil;&imath;k&imath;&scedil; ''),
              Txt (show_int (md_output_credit_per_1k model))]]
          @ showIf (md_status model \<noteq> ''active'')
              [StatusPill (Some (md_status model))])]"

definition keys_lists :: "env \<Rightarrow> keys_page \<Rightarrow> keys_event html" where
  "keys_lists env s =
    Elem ''section'' [cls ''split-panel'']
      [Elem ''div'' [cls ''card stack'']
         ([Elem ''div'' [cls ''surface-head'']
             [Elem ''div'' []
                [Elem ''h2'' [] [Txt ''Mevcut anahtarlar''],
                 Elem ''p'' [cls ''muted'']
                   [Txt (tr ''Secret yaln&imath;zca olu&scedil;tururken g&ouml;r&uuml;n&uuml;r.'')]]]]
          @ (if ky_keys s \<noteq> []
             then [Elem ''div'' [cls ''surface desktop-only'']
                  [Elem ''table'' []
                     [Elem ''thead'' []
                        [Elem ''tr'' []
                           [Elem ''th'' [] [Txt ''Ad''],
                            Elem ''th'' [] [Txt (tr ''&Ouml;n ek'')],
                            Elem ''th'' [] [Txt ''Durum''],
                            Elem ''th'' [] [Txt (tr ''Olu&scedil;turulma'')],
                            Elem ''th'' [] []]],
                      Elem ''tbody'' [] (map (\<lambda>key. key_row env key) (ky_keys s))]],
                Elem ''div'' [cls ''mobile-only mobile-list'']
                  (map (\<lambda>key. key_item env key) (ky_keys s))]
             else showIf (ky_plaintextKey s = [])
                 [Empty (tr ''Hen&uuml;z anahtar yok.'') (Some (tr ''&Idot;lk anahtar&imath;n&imath; olu&scedil;turup komutu hemen kopyalayabilirsin.''))])),
       Elem ''div'' [cls ''card stack secondary-card'']
         ([Elem ''div'' [cls ''surface-head'']
             [Elem ''div'' []
                [Elem ''h2'' [] [Txt (tr ''Ba&scedil;lamak i&ccedil;in modeller'')],
                 Elem ''p'' [cls ''muted'']
                   [Txt (tr ''K&imath;sa bir model se&ccedil;. Sonra ayn&imath; ad&imath; &ouml;rnek komutta kullan.'')]]]]
          @ (if ky_models s \<noteq> []
             then [Elem ''div'' [cls ''stack'']
                  (map (\<lambda>model. starter_model model) (take 4 (ky_models s))
                   @ [Elem ''div'' [cls ''row'']
                        [Elem ''Link'' [cls ''button secondary'', Attr ''href'' ''/dashboard/models'']
                           [Txt (tr ''T&uuml;m modelleri g&ouml;r'')]]])]
             else [Empty (tr ''&Scedil;u anda model g&ouml;r&uuml;nm&uuml;yor.'') (Some ''Biraz sonra tekrar kontrol et.'')]))]"

definition keys_body :: "env \<Rightarrow> keys_page \<Rightarrow> keys_event html list" where
  "keys_body env s =
    showIf (ky_projects s \<noteq> [])
      ([keys_forms s]
      @ keys_secret s
      @ [keys_lists env s])"

definition keys_view :: "env \<Rightarrow> keys_page \<Rightarrow> keys_event html" where
  "keys_view env s =
    Elem ''div'' [cls ''stack'']
      ([keys_head s]
       @ showIf (ky_error s \<noteq> None)
           [ErrorMessage env (ky_error s) (Some (tr ''API verileri al&imath;namad&imath;. Sayfay&imath; yenileyip tekrar dene.''))]
       @ showIf (ky_success s \<noteq> [])
           [SuccessMessage (ky_success s) (Some (tr ''Secret yaln&imath;zca bu ekranda bir kez g&ouml;r&uuml;n&uuml;r.''))]
       @ showIf (ky_loading s)
           [Loading (Some (tr ''API haz&imath;rlan&imath;yor...'')) (Some (tr ''Projeler, anahtarlar ve modeller y&uuml;kleniyor.''))]
       @ [PrivacyNotice]
       @ showIf (\<not> (ky_loading s) \<and> ky_projects s = [])
           [Elem ''div'' [cls ''card stack'']
              [Empty (tr ''&Ouml;nce proje olu&scedil;tur.'') (Some (tr ''&Idot;lk anahtar i&ccedil;in tek proje yeter.'')),
               Elem ''div'' [cls ''row'']
                 [Elem ''Link'' [cls ''button'', Attr ''href'' ''/dashboard/projects'']
                    [Txt (tr ''Proje olu&scedil;tur'')]]]]
       @ keys_body env s)"

lemmas keys_views = keys_head_def keys_forms_def keys_secret_def keys_lists_def keys_body_def keys_view_def

section \<open>What the page offers\<close>

lemma key_row_clicks [simp]:
  "clicks (key_row env key) = showIf (k_status key = ''active'') [Revoke (k_id key) True]"
  "clicks (key_item env key) = showIf (k_status key = ''active'') [Revoke (k_id key) True]"
  by (simp_all add: key_row_def key_item_def)

lemma key_row_links [simp]: "links (key_row env key) = []" "links (key_item env key) = []"
  "links (starter_model m) = []" "clicks (starter_model m) = []"
  "submits (key_row env key) = []" "submits (key_item env key) = []" "submits (starter_model m) = []"
  by (simp_all add: key_row_def key_item_def starter_model_def)

lemma keys_parts_clicks [simp]:
  "clicks (keys_head s) = []" "all_clicks (keys_secret s) = []" "clicks (keys_forms s) = []"
  by (simp_all add: keys_head_def keys_secret_def keys_forms_def comp_def)

text \<open>The buttons of the page are one revocation per active key, in the table and in the mobile list.\<close>

abbreviation revocations :: "keys_page \<Rightarrow> keys_event list" where
  "revocations s \<equiv> map (\<lambda>k. Revoke (k_id k) True) (keys_active s)"

lemma keys_lists_clicks [simp]: "clicks (keys_lists env s) = revocations s @ revocations s"
  by (simp add: keys_lists_def comp_def concat_showIf_single keys_active_def)

lemma keys_clicks:
  "clicks (keys_view env s) = showIf (ky_projects s \<noteq> []) (revocations s @ revocations s)"
  by (simp add: keys_view_def keys_body_def)

lemma keys_parts_submits [simp]:
  "submits (keys_head s) = []" "all_submits (keys_secret s) = []" "submits (keys_lists env s) = []"
  by (simp_all add: keys_head_def keys_secret_def keys_lists_def comp_def)

lemma keys_forms_submits [simp]:
  "submits (keys_forms s) = showIf (\<not> ky_saving s \<and> ky_projectID s \<noteq> []) [Submit]"
  by (simp add: keys_forms_def field_ok_def comp_def showIf_def)

lemma keys_submits:
  "submits (keys_view env s) = showIf (can_submit s) [Submit]"
  by (simp add: keys_view_def keys_body_def can_submit_def showIf_def)

section \<open>Invariants\<close>

text \<open>The create button is disabled exactly while a creation is in flight, and there is at most one;
  the loading state lasts until the mount requests settle.\<close>

definition keys_inv :: "keys_page \<Rightarrow> bool" where
  "keys_inv s \<longleftrightarrow> ky_saving s = (ky_creating s \<noteq> []) \<and> length (ky_creating s) \<le> 1
     \<and> (\<forall>(p, n) \<in> set (ky_creating s). p \<noteq> [] \<and> n \<noteq> [])
     \<and> ky_loading s = ky_mounting s
     \<and> (ky_mounting s \<longrightarrow> ky_projects s = [] \<and> ky_projectID s = [] \<and> ky_listing s = [])"

lemma keys_inv_project: "keys_inv s \<Longrightarrow> \<not> ky_mounting s \<Longrightarrow> keys_inv (keys_project p s)"
  by (simp add: keys_inv_def keys_project_def)

lemma keys_inv_loaded: "keys_inv s \<Longrightarrow> keys_inv (keys_loaded r s)"
  by (auto simp: keys_inv_def keys_loaded_def keys_project_def Let_def split: sum.splits)

lemma keys_inv_created:
  assumes "keys_inv s" "i < length (ky_creating s)"
  shows "keys_inv (keys_created i r s)"
proof -
  have "drop_nth i (ky_creating s) = []"
    using assms drop_nth_one unfolding keys_inv_def by blast
  with assms(1) show ?thesis
    by (simp add: keys_inv_def keys_created_def Let_def split: sum.split option.split)
qed

lemma keys_inv_listed: "keys_inv s \<Longrightarrow> i < length (ky_listing s) \<Longrightarrow> keys_inv (keys_listed i r s)"
  by (auto simp: keys_inv_def keys_listed_def Let_def split: sum.split)

lemma keys_inv_submit: "keys_inv s \<Longrightarrow> can_submit s \<Longrightarrow> keys_inv (keys_submit s)"
  by (auto simp: keys_inv_def keys_submit_def can_submit_def)

lemma keys_inv_revoke: "keys_inv s \<Longrightarrow> keys_inv (keys_revoke i b s)"
  by (simp add: keys_inv_def keys_revoke_def)

lemma keys_inv_revoked: "keys_inv s \<Longrightarrow> keys_inv (keys_revoked i r s)"
  by (simp add: keys_inv_def keys_revoked_def Let_def split: sum.split)

lemma keys_inv_name: "keys_inv s \<Longrightarrow> keys_inv (s\<lparr>ky_name := v\<rparr>)"
  by (simp add: keys_inv_def)

lemma keys_inv_select: "keys_inv s \<Longrightarrow> can_select p s \<Longrightarrow> keys_inv (keys_project p s)"
  by (rule keys_inv_project) (auto simp: keys_inv_def can_select_def keys_picker_def)

lemmas keys_inv_intros = keys_inv_loaded keys_inv_listed keys_inv_submit
  keys_inv_created keys_inv_revoke keys_inv_revoked keys_inv_name keys_inv_select

lemma keys_inv_step: "keys_inv s \<Longrightarrow> keys_step s e = Some t \<Longrightarrow> keys_inv t"
  by (cases e) (auto simp: keys_step_def intro: keys_inv_intros split: if_splits)

lemma keys_inv_start: "keys_inv keys_start"
  by (simp add: keys_inv_def keys_start_def)

interpretation keys_page: page_machine keys_step keys_start keys_inv
  by unfold_locales (auto intro: keys_inv_step keys_inv_start)

text \<open>When key lists are answered in the order they were asked for, the last one in flight is that
  of the selected project.\<close>

fun keys_fifo_step :: "keys_page \<Rightarrow> keys_event \<Rightarrow> keys_page option" where
  "keys_fifo_step s (KeysListed i h) = (if i = 0 then keys_step s (KeysListed i h) else None)"
| "keys_fifo_step s e = keys_step s e"

definition keys_current :: "keys_page \<Rightarrow> bool" where
  "keys_current s \<longleftrightarrow> (ky_listing s \<noteq> [] \<and> ky_projectID s \<noteq> [] \<longrightarrow> last (ky_listing s) = ky_projectID s)"

lemma keys_current_project: "keys_current s \<Longrightarrow> keys_current (keys_project p s)"
  by (simp add: keys_current_def keys_project_def)

lemma keys_current_loaded: "keys_current s \<Longrightarrow> keys_current (keys_loaded r s)"
  by (auto simp: keys_loaded_def Let_def intro!: keys_current_project split: sum.splits)
    (simp_all add: keys_current_def)

lemma keys_current_listed: "keys_current s \<Longrightarrow> keys_current (keys_listed 0 r s)"
  by (cases "ky_listing s") (auto simp: keys_current_def keys_listed_def Let_def split: sum.split)

lemma keys_current_same:
  "keys_current s \<Longrightarrow> keys_current (keys_submit s)" "keys_current s \<Longrightarrow> keys_current (keys_created i r' s)"
  "keys_current s \<Longrightarrow> keys_current (keys_revoke k b s)" "keys_current s \<Longrightarrow> keys_current (keys_revoked i r s)"
  "keys_current s \<Longrightarrow> keys_current (s\<lparr>ky_name := v\<rparr>)"
  by (simp_all add: keys_current_def keys_submit_def keys_created_def keys_revoke_def keys_revoked_def
      Let_def split: sum.split option.split)

lemma keys_current_step: "keys_current s \<Longrightarrow> keys_fifo_step s e = Some t \<Longrightarrow> keys_current t"
  by (cases e) (auto simp: keys_step_def intro: keys_current_project keys_current_loaded
      keys_current_listed keys_current_same split: if_splits)

lemma keys_current_start: "keys_current keys_start"
  by (simp add: keys_current_def keys_start_def)

interpretation keys_fifo: page_machine keys_fifo_step keys_start keys_current
  by unfold_locales (auto intro: keys_current_step keys_current_start)

section \<open>Properties\<close>

text \<open>A customer with two projects; the key list of the first one answers late.\<close>

definition demo_project :: "string \<Rightarrow> project" where
  "demo_project i = \<lparr>pr_id = i, pr_name = i, pr_status = ''active'', pr_monthly_credit_limit = None,
     pr_current_month_spend = 0, pr_spend_period = [], pr_created_at = []\<rparr>"

definition demo_key :: "string \<Rightarrow> api_key" where
  "demo_key i = \<lparr>k_id = i, k_name = i, k_prefix = i, k_status = ''active'', k_created_at = []\<rparr>"

abbreviation mount_keys :: "string list \<Rightarrow> keys_event" where
  "mount_keys ps \<equiv> Loaded (All2 (ok_body (Some (map demo_project ps))) (ok_body (Some [])))"

lemmas keys_eval = keys_step_def keys_handlers keys_start_def can_select_def can_submit_def
  can_revoke_def keys_picker_def keys_active_def demo_project_def demo_key_def list_calls get_list_def
  createAPIKey_def drop_nth_def or_text_def

text \<open>In every reachable state of the key page at most one creation is in flight, it belongs to a
  chosen project, and while it is in flight the rendered form cannot be sent.\<close>

theorem keys_single_creation:
  assumes "run keys_step keys_start es = Some s"
  shows "length (ky_creating s) \<le> 1 \<and> (\<forall>(p, n) \<in> set (ky_creating s). p \<noteq> [] \<and> n \<noteq> [])
    \<and> (ky_creating s \<noteq> [] \<longleftrightarrow> ky_saving s) \<and> (ky_creating s \<noteq> [] \<longrightarrow> submits (keys_view env s) = [])"
proof -
  have "keys_inv s" using assms by (rule keys_page.run_inv)
  then show ?thesis by (simp add: keys_inv_def keys_submits can_submit_def showIf_def)
qed

theorem keys_single_creation_witness:
  "\<exists>s. run keys_step keys_start [mount_keys [''a''], Submit] = Some s
     \<and> (\<forall>env. submits (keys_view env s) = []) \<and> ky_creating s = [(''a'', tr ''Varsay&imath;lan'')]"
proof -
  let ?s = "the (run keys_step keys_start [mount_keys [''a''], Submit])"
  have r: "run keys_step keys_start [mount_keys [''a''], Submit] = Some ?s"
    and c: "ky_creating ?s = [(''a'', tr ''Varsay&imath;lan'')]"
    by (simp_all add: keys_eval)
  from keys_single_creation [OF r] c have "\<forall>env. submits (keys_view env ?s) = []" by simp
  with r c show ?thesis by blast
qed



text \<open>When a confirmed revocation is answered, the page shows the key as revoked without a button
  and leaves every other key as it was; when it is refused, no key changes.\<close>

theorem keys_revocation:
  assumes "keys_step s (Revoked n h) = Some t" "ky_revoking s ! n = (p, i)"
  shows "(case c_settle (revokeAPIKey p i) h of
      Inl e \<Rightarrow> ky_keys t = ky_keys s \<and> ky_error t = Some e
    | Inr _ \<Rightarrow> Revoke i True \<notin> set (clicks (keys_view env t))
        \<and> filter (\<lambda>k. k_id k \<noteq> i) (ky_keys t) = filter (\<lambda>k. k_id k \<noteq> i) (ky_keys s)
        \<and> map k_id (ky_keys t) = map k_id (ky_keys s))"
proof -
  let ?r = "c_settle (revokeAPIKey p i) h"
  have t: "t = keys_revoked n ?r s"
    using assms by (auto simp: keys_step_def split: if_splits)
  have f: "filter (\<lambda>k. k_id k \<noteq> i) (update_by k_id i (\<lambda>k. k\<lparr>k_status := ''revoked''\<rparr>) ks)
      = filter (\<lambda>k. k_id k \<noteq> i) ks" for ks
    by (induction ks) (simp_all add: update_by_def)
  show ?thesis
  proof (cases ?r)
    case (Inl e)
    have "ky_keys t = ky_keys s \<and> ky_error t = Some e"
      unfolding t Inl by (simp add: keys_revoked_def Let_def)
    then show ?thesis by (simp only: Inl sum.case)
  next
    case (Inr u)
    have k: "ky_keys t = update_by k_id i (\<lambda>k. k\<lparr>k_status := ''revoked''\<rparr>) (ky_keys s)"
      unfolding t Inr by (simp add: keys_revoked_def Let_def assms(2))
    have "k_id x \<noteq> i" if x: "x \<in> set (keys_active t)" for x
    proof
      assume "k_id x = i"
      moreover from x have "x \<in> set (ky_keys t)" "k_status x = ''active''"
        by (simp_all add: keys_active_def)
      ultimately obtain y where "x = y\<lparr>k_status := ''revoked''\<rparr>"
        unfolding k set_update_by by blast
      with \<open>k_status x = ''active''\<close> show False by simp
    qed
    then have "Revoke i True \<notin> set (clicks (keys_view env t))"
      unfolding keys_clicks by (auto simp: showIf_def)
    moreover have "map k_id (ky_keys t) = map k_id (ky_keys s)"
      unfolding k by (rule map_key_update_by) simp
    moreover have "filter (\<lambda>k. k_id k \<noteq> i) (ky_keys t) = filter (\<lambda>k. k_id k \<noteq> i) (ky_keys s)"
      unfolding k by (rule f)
    ultimately show ?thesis by (simp only: Inr sum.case simp_thms)
  qed
qed

theorem keys_revocation_witness:
  "\<forall>env. Revoke ''k'' True \<notin> set (clicks (keys_view env
     (the (keys_step (keys_start\<lparr>ky_projects := [demo_project ''a''], ky_keys := [demo_key ''k''],
        ky_revoking := [(''a'', ''k'')]\<rparr>) (Revoked 0 (ok_body ()))))))"
proof -
  let ?s = "keys_start\<lparr>ky_projects := [demo_project ''a''], ky_keys := [demo_key ''k''],
    ky_revoking := [(''a'', ''k'')]\<rparr>"
  have "keys_step ?s (Revoked 0 (ok_body ())) = Some (the (keys_step ?s (Revoked 0 (ok_body ()))))"
    by (simp add: keys_step_def keys_start_def)
  from keys_revocation [OF this, of "''a''" "''k''"] show ?thesis
    by (simp add: revokeAPIKey_def)
qed

text \<open>When key lists are answered in the order they were asked for, the last list in flight is the
  one of the selected project, so the page ends with that project's keys.\<close>

theorem keys_in_order:
  assumes "run keys_fifo_step keys_start es = Some s" "ky_listing s = [p]" "ky_projectID s \<noteq> []"
    "c_settle (listAPIKeys p) h = Inr ks" "keys_step s (KeysListed 0 h) = Some t"
  shows "ky_projectID t = p \<and> ky_keys t = ks \<and> ky_listing t = []"
proof -
  have "keys_current s" using assms(1) by (rule keys_fifo.run_inv)
  with assms show ?thesis
    by (auto simp: keys_current_def keys_step_def keys_listed_def split: if_splits)
qed

theorem keys_in_order_witness:
  "\<exists>s t. run keys_fifo_step keys_start [mount_keys [''a'', ''b''], SelectProject ''b'',
       KeysListed 0 (ok_body (Some [demo_key ''1'']))] = Some s
     \<and> keys_step s (KeysListed 0 (ok_body (Some [demo_key ''2'']))) = Some t
     \<and> ky_projectID t = ''b'' \<and> ky_keys t = [demo_key ''2'']"
proof -
  let ?es = "[mount_keys [''a'', ''b''], SelectProject ''b'', KeysListed 0 (ok_body (Some [demo_key ''1'']))]"
  let ?s = "the (run keys_fifo_step keys_start ?es)"
  let ?h = "ok_body (Some [demo_key ''2''])"
  have r: "run keys_fifo_step keys_start ?es = Some ?s" and l: "ky_listing ?s = [''b'']"
    and p: "ky_projectID ?s \<noteq> []" and c: "\<not> ky_crashed ?s"
    by (simp_all add: keys_eval)
  have q: "c_settle (listAPIKeys ''b'') ?h = Inr [demo_key ''2'']" by (simp add: listAPIKeys_def)
  from l c have t: "keys_step ?s (KeysListed 0 ?h) = Some (the (keys_step ?s (KeysListed 0 ?h)))"
    by (simp add: keys_step_def)
  from keys_in_order [OF r l p q t] r t show ?thesis by blast
qed

text \<open>When key lists are answered out of order, the page ends with the keys of a project that is not
  the selected one and no answer left to correct it: whatever the two lists are, the callback of the
  key list does not check which project is selected when it arrives.\<close>

theorem keys_stale_list:
  assumes "p \<noteq> []" "q \<noteq> []" "p \<noteq> q"
  shows "map_option (\<lambda>s. (ky_projectID s, ky_keys s, ky_listing s, ky_error s))
     (run keys_step keys_start [mount_keys [p, q], SelectProject q,
        KeysListed 1 (ok_body (Some of_q)), KeysListed 0 (ok_body (Some of_p))])
   = Some (q, of_p, [], None)"
  using assms by (simp add: keys_eval)

theorem keys_stale_list_witness:
  "map_option ky_keys (run keys_step keys_start [mount_keys [''a'', ''b''], SelectProject ''b'',
        KeysListed 1 (ok_body (Some [])), KeysListed 0 (ok_body (Some [demo_key ''of-a'']))])
   = Some [demo_key ''of-a'']"
proof -
  have map_snd: "map_option (\<lambda>s. (f s, g s, h s, k s)) r = Some (a, b, c, d) \<Longrightarrow> map_option g r = Some b"
    for f g h k r a b c d
    by (cases r) auto
  show ?thesis
    by (rule map_snd, rule keys_stale_list) simp_all
qed

end
