(* ===== verification/ProjectsPage.thy ===== *)
theory ProjectsPage
  imports Pages
begin

text \<open>
  \<open>apps/web/app/dashboard/projects/page.tsx\<close>: the list of projects and the form that creates one.
  \<open>pj_creating\<close> holds the name and limit of the creation in flight; a limit that is not a finite
  number ends the handler before any request.
\<close>

record projects_page =
  pj_projects :: "project list"
  pj_name :: string
  pj_limit :: string
  pj_error :: "js_error option"
  pj_success :: string
  pj_loading :: bool
  pj_saving :: bool
  pj_mounting :: bool
  pj_creating :: "(string \<times> rat option) list"
  pj_crashed :: bool

datatype project_event =
    ProjectsLoaded "project list option http"
  | SetProjectName string
  | SetLimit string
  | SubmitProject
  | ProjectCreated nat "project option http"

definition projects_start :: projects_page where
  "projects_start = \<lparr>pj_projects = [], pj_name = [], pj_limit = [], pj_error = None, pj_success = [],
     pj_loading = True, pj_saving = False, pj_mounting = True, pj_creating = [], pj_crashed = False\<rparr>"

section \<open>Handlers\<close>

definition projects_loaded :: "js_error + project list \<Rightarrow> projects_page \<Rightarrow> projects_page" where
  "projects_loaded r s =
     (let s' = s\<lparr>pj_mounting := False, pj_loading := False\<rparr>
      in case r of Inl e \<Rightarrow> s'\<lparr>pj_error := Some e\<rparr> | Inr ps \<Rightarrow> s'\<lparr>pj_projects := ps\<rparr>)"

text \<open>\<open>limit.trim() ? Number(limit) : null\<close> and the check that follows it.\<close>

definition monthly_limit :: "string \<Rightarrow> js_error + rat option" where
  "monthly_limit limit =
     (if trim limit = [] then Inr None
      else case toNumber limit of
        Finite q \<Rightarrow> Inr (Some q)
      | _ \<Rightarrow> Inl (FormError (tr ''Ge&ccedil;erli bir ayl&imath;k limit gir.'')))"

definition projects_submit :: "projects_page \<Rightarrow> projects_page" where
  "projects_submit s =
     (let s' = s\<lparr>pj_saving := True, pj_error := None, pj_success := []\<rparr>
      in case monthly_limit (pj_limit s) of
        Inl e \<Rightarrow> s'\<lparr>pj_error := Some e, pj_saving := False\<rparr>
      | Inr limit \<Rightarrow> s'\<lparr>pj_creating := pj_creating s @ [(pj_name s, limit)]\<rparr>)"

definition projects_created :: "nat \<Rightarrow> js_error + project option \<Rightarrow> projects_page \<Rightarrow> projects_page" where
  "projects_created i r s =
     (let s' = s\<lparr>pj_creating := drop_nth i (pj_creating s), pj_saving := False\<rparr>
      in case r of
        Inl e \<Rightarrow> s'\<lparr>pj_error := Some e\<rparr>
      | Inr None \<Rightarrow> s'\<lparr>pj_crashed := True\<rparr>
      | Inr (Some p) \<Rightarrow> s'\<lparr>pj_projects := p # pj_projects s, pj_name := [], pj_limit := [],
                          pj_success := tr ''Proje olu&scedil;turuldu.''\<rparr>)"

definition can_create_project :: "projects_page \<Rightarrow> bool" where
  "can_create_project s \<longleftrightarrow> \<not> pj_saving s \<and> pj_name s \<noteq> []"

fun projects_handle :: "projects_page \<Rightarrow> project_event \<Rightarrow> projects_page option" where
  "projects_handle s (ProjectsLoaded h) =
     (if pj_mounting s then Some (projects_loaded (c_settle listProjects h) s) else None)"
| "projects_handle s (SetProjectName v) = Some (s\<lparr>pj_name := v\<rparr>)"
| "projects_handle s (SetLimit v) = Some (s\<lparr>pj_limit := v\<rparr>)"
| "projects_handle s SubmitProject =
     (if can_create_project s then Some (projects_submit s) else None)"
| "projects_handle s (ProjectCreated i h) =
     (if i < length (pj_creating s)
      then Some (projects_created i
             (c_settle (createProject (fst (pj_creating s ! i)) (snd (pj_creating s ! i))) h) s)
      else None)"

definition projects_step :: "(projects_page, project_event) machine" where
  "projects_step s e = (if pj_crashed s then None else projects_handle s e)"

section \<open>View\<close>

definition projects_head :: "project_event html" where
  "projects_head =
    Elem ''section'' [cls ''card stack split-panel'', Attr ''style'' ''padding: 32'']
      [Elem ''div'' [cls ''stack'']
         [Elem ''span'' [cls ''eyebrow''] [Txt ''Projeler''],
          Elem ''h1'' [] [Txt (tr ''&Ouml;nce proje olu&scedil;tur.'')],
          Elem ''p'' [cls ''muted'', Attr ''style'' ''maxWidth: 620'']
            [Txt (tr ''Tek proje yeter. Sonra anahtar olu&scedil;turup ilk iste&gbreve;ini g&ouml;nder.'')],
          Elem ''div'' [cls ''row'']
            [Elem ''Link'' [cls ''button'', Attr ''href'' ''#new-project'']
               [Txt (tr ''Proje olu&scedil;tur'')],
             Elem ''Link'' [cls ''button secondary'', Attr ''href'' ''/dashboard/api-keys'']
               [Txt (tr ''API&apos;ye d&ouml;n'')]]],
       Elem ''div'' [cls ''card stack secondary-card'', Attr ''style'' ''padding: 22'']
         [Elem ''h2'' [] [Txt (tr ''K&imath;sa s&imath;ra'')],
          Elem ''ul'' [cls ''checklist'']
            [Elem ''li'' []
               [Elem ''strong'' [] [Txt (tr ''Ad&imath; ver'')],
                Elem ''span'' [cls ''muted''] [Txt (tr ''Projeni ay&imath;r.'')]],
             Elem ''li'' []
               [Elem ''strong'' [] [Txt (tr ''&Idot;stersen limit koy'')],
                Elem ''span'' [cls ''muted''] [Txt (tr ''Bo&scedil; b&imath;rakabilirsin.'')]],
             Elem ''li'' []
               [Elem ''strong'' [] [Txt (tr ''Anahtar olu&scedil;tur'')],
                Elem ''span'' [cls ''muted''] [Txt (tr ''Sonra ilk iste&gbreve;ini g&ouml;nder.'')]]]]]"

definition projects_form :: "projects_page \<Rightarrow> project_event html" where
  "projects_form s =
    Elem ''form'' [Attr ''id'' ''new-project'', cls ''card stack'', OnSubmit SubmitProject]
      [Elem ''h2'' [] [Txt ''Yeni proje''],
       Elem ''div'' [cls ''field'']
         [Elem ''label'' [Attr ''htmlFor'' ''project-name''] [Txt (tr ''Proje ad&imath;'')],
          Elem ''input''
            [Attr ''id'' ''project-name'',
             Flag ''required'' True,
             Attr ''value'' (pj_name s),
             OnChange SetProjectName,
             Attr ''placeholder'' (tr ''&Ouml;rn: Demo API'')]
            []],
       Elem ''div'' [cls ''field'']
         [Elem ''label'' [Attr ''htmlFor'' ''project-limit''] [Txt (tr ''Ayl&imath;k limit'')],
          Elem ''input''
            [Attr ''id'' ''project-limit'',
             Attr ''min'' ''0'',
             Attr ''type'' ''number'',
             Attr ''value'' (pj_limit s),
             OnChange SetLimit,
             Attr ''placeholder'' (tr ''&Idot;stersen bo&scedil; b&imath;rak'')]
            []],
       Elem ''button'' [cls ''button'', Flag ''disabled'' (pj_saving s), Attr ''type'' ''submit'']
         (if pj_saving s
          then [Txt (tr ''Olu&scedil;turuluyor...'')]
          else [Txt (tr ''Proje olu&scedil;tur'')])]"

definition projects_success :: "projects_page \<Rightarrow> project_event html list" where
  "projects_success s =
    showIf (pj_success s \<noteq> [])
      [Elem ''div'' [cls ''stack'']
         [SuccessMessage (pj_success s) (Some (tr ''S&imath;radaki i&scedil;: ayn&imath; proje i&ccedil;in anahtar olu&scedil;tur.'')),
          Elem ''div'' [cls ''row'']
            [Elem ''Link'' [cls ''button'', Attr ''href'' ''/dashboard/api-keys'']
               [Txt (tr ''Anahtar olu&scedil;tur'')]]]]"

definition project_row :: "env \<Rightarrow> project \<Rightarrow> project_event html" where
  "project_row env project =
    Elem ''tr'' []
      [Elem ''td'' [] [Txt (pr_name project)],
       Elem ''td'' [] [StatusPill (Some (pr_status project))],
       Elem ''td'' []
         [Txt (case pr_monthly_credit_limit project of None \<Rightarrow> tr ''S&imath;n&imath;r yok'' | Some i \<Rightarrow> show_int i)],
       Elem ''td'' [] [Txt (show_int (pr_current_month_spend project))],
       Elem ''td'' [] [Txt (toLocaleString env (pr_created_at project))]]"

definition project_item :: "env \<Rightarrow> project \<Rightarrow> project_event html" where
  "project_item env project =
    Elem ''div'' [cls ''mobile-item'']
      [Elem ''div'' [cls ''row'']
         [Elem ''strong'' [] [Txt (pr_name project)],
          StatusPill (Some (pr_status project))],
       Elem ''div'' [cls ''meta muted'']
         [Elem ''div'' []
            [Txt (tr ''Ayl&imath;k limit: ''),
             Txt (case pr_monthly_credit_limit project of None \<Rightarrow> tr ''S&imath;n&imath;r yok'' | Some i \<Rightarrow> show_int i)],
          Elem ''div'' [] [Txt ''Bu ay: '', Txt (show_int (pr_current_month_spend project))],
          Elem ''div'' [] [Txt (toLocaleString env (pr_created_at project))]]]"

definition projects_list :: "env \<Rightarrow> projects_page \<Rightarrow> project_event html list" where
  "projects_list env s =
    showIf (pj_projects s \<noteq> [])
      [Elem ''section'' [cls ''card stack'']
         [Elem ''div'' [cls ''surface-head'']
            [Elem ''div'' []
               [Elem ''h2'' [] [Txt ''Mevcut projeler''],
                Elem ''p'' [cls ''muted'']
                  [Txt (tr ''Birini se&ccedil;ip API taraf&imath;na d&ouml;nebilirsin.'')]],
             Elem ''Link'' [cls ''button secondary'', Attr ''href'' ''/dashboard/api-keys'']
               [Txt (tr ''API&apos;ye d&ouml;n'')]],
          Elem ''div'' [cls ''surface desktop-only'']
            [Elem ''table'' []
               [Elem ''thead'' []
                  [Elem ''tr'' []
                     [Elem ''th'' [] [Txt ''Proje''],
                      Elem ''th'' [] [Txt ''Durum''],
                      Elem ''th'' [] [Txt (tr ''Ayl&imath;k limit'')],
                      Elem ''th'' [] [Txt ''Bu ay''],
                      Elem ''th'' [] [Txt (tr ''Olu&scedil;turulma'')]]],
                Elem ''tbody'' [] (map (\<lambda>project. project_row env project) (pj_projects s))]],
          Elem ''div'' [cls ''mobile-only mobile-list'']
            (map (\<lambda>project. project_item env project) (pj_projects s))]]"

definition projects_view :: "env \<Rightarrow> projects_page \<Rightarrow> project_event html" where
  "projects_view env s =
    Elem ''div'' [cls ''stack'']
      ([projects_head, projects_form s]
       @ showIf (pj_error s \<noteq> None)
           [ErrorMessage env (pj_error s) (Some (tr ''Projeler al&imath;namad&imath;. Sayfay&imath; yenileyip tekrar dene.''))]
       @ projects_success s
       @ showIf (pj_loading s)
           [Loading (Some (tr ''Projeler y&uuml;kleniyor...'')) (Some (tr ''Mevcut projelerin haz&imath;rlan&imath;yor.''))]
       @ showIf (\<not> (pj_loading s) \<and> pj_projects s = [])
           [Empty (tr ''Hen&uuml;z proje yok.'') (Some (tr ''&Idot;lk proje burada g&ouml;r&uuml;necek.''))]
       @ projects_list env s)"

lemmas projects_views = projects_head_def projects_form_def projects_success_def projects_list_def projects_view_def

lemma project_row_silent [simp]:
  "clicks (project_row env p) = []" "clicks (project_item env p) = []"
  "submits (project_row env p) = []" "submits (project_item env p) = []"
  "links (project_row env p) = []" "links (project_item env p) = []"
  by (simp_all add: project_row_def project_item_def)

lemma projects_parts [simp]:
  "clicks projects_head = []" "submits projects_head = []" "clicks (projects_form s) = []"
  "all_clicks (projects_success s) = []" "all_submits (projects_success s) = []"
  "all_clicks (projects_list env s) = []" "all_submits (projects_list env s) = []"
  by (simp_all add: projects_head_def projects_form_def projects_success_def projects_list_def comp_def)

lemma projects_clicks: "clicks (projects_view env s) = []"
  by (simp add: projects_view_def)

lemma projects_submits:
  "submits (projects_view env s) = showIf (can_create_project s) [SubmitProject]"
  by (simp add: projects_view_def projects_form_def field_ok_def can_create_project_def showIf_def)

section \<open>Invariant\<close>

definition projects_inv :: "projects_page \<Rightarrow> bool" where
  "projects_inv s \<longleftrightarrow> pj_saving s = (pj_creating s \<noteq> []) \<and> length (pj_creating s) \<le> 1
     \<and> (\<forall>(n, l) \<in> set (pj_creating s). n \<noteq> []) \<and> pj_loading s = pj_mounting s"

lemma projects_inv_created:
  assumes "projects_inv s" "i < length (pj_creating s)"
  shows "projects_inv (projects_created i r s)"
proof -
  have "drop_nth i (pj_creating s) = []"
    using assms drop_nth_one unfolding projects_inv_def by blast
  with assms(1) show ?thesis
    by (simp add: projects_inv_def projects_created_def Let_def split: sum.split option.split)
qed

lemma projects_inv_others:
  "projects_inv s \<Longrightarrow> projects_inv (projects_loaded r s)"
  "projects_inv s \<Longrightarrow> can_create_project s \<Longrightarrow> projects_inv (projects_submit s)"
  "projects_inv s \<Longrightarrow> projects_inv (s\<lparr>pj_name := v\<rparr>)" "projects_inv s \<Longrightarrow> projects_inv (s\<lparr>pj_limit := v\<rparr>)"
  by (auto simp: projects_inv_def projects_loaded_def projects_submit_def can_create_project_def Let_def
      split: sum.split)

lemma projects_inv_start: "projects_inv projects_start"
  by (simp add: projects_inv_def projects_start_def)

lemma projects_inv_step: "projects_inv s \<Longrightarrow> projects_step s e = Some t \<Longrightarrow> projects_inv t"
  by (cases e) (auto simp: projects_step_def intro: projects_inv_created projects_inv_others split: if_splits)

interpretation projects_page: page_machine projects_step projects_start projects_inv
  by unfold_locales (auto intro: projects_inv_step projects_inv_start)

section \<open>The limit field\<close>

lemma monthly_limit_blank: "trim limit = [] \<Longrightarrow> monthly_limit limit = Inr None"
  by (simp add: monthly_limit_def)

lemma monthly_limit_integer:
  "\<bar>of_int i\<bar> < overflow_bound \<Longrightarrow> monthly_limit (show_int i) = Inr (Some (of_int i))"
  by (simp add: monthly_limit_def toNumber_show_int)

lemma monthly_limit_error:
  "monthly_limit limit = Inl e \<longleftrightarrow> trim limit \<noteq> [] \<and> (\<forall>q. toNumber limit \<noteq> Finite q)
     \<and> e = FormError (tr ''Ge&ccedil;erli bir ayl&imath;k limit gir.'')"
  by (auto simp: monthly_limit_def split: number.splits)

section \<open>Properties\<close>

text \<open>A limit typed as an integer is sent as exactly that integer, with the typed name; it is one
  request, and the form is locked until it is answered.\<close>

theorem projects_integer_limit:
  assumes "run projects_step projects_start es = Some s" "\<not> pj_crashed s" "can_create_project s"
    "pj_limit s = show_int i" "of_int \<bar>i\<bar> < overflow_bound"
  shows "\<exists>t. projects_step s SubmitProject = Some t \<and> pj_creating t = [(pj_name s, Some (of_int i))]
     \<and> submits (projects_view env t) = []
     \<and> in_body (c_init (createProject (pj_name s) (Some (of_int i))))
         = Some (JObj [(''name'', JStr (pj_name s)), (''monthly_credit_limit'', JNum (of_int i))])"
proof -
  have "projects_inv s" using assms(1) by (rule projects_page.run_inv)
  with assms(3) have "pj_creating s = []" by (auto simp: projects_inv_def can_create_project_def)
  moreover have "monthly_limit (pj_limit s) = Inr (Some (of_int i))"
    using assms(4,5) by (simp add: monthly_limit_integer)
  ultimately show ?thesis
    using assms(2,3) by (simp add: projects_step_def projects_submit_def projects_submits
        can_create_project_def createProject_def send_init_def json_opt_def)
qed

theorem projects_integer_limit_witness:
  "\<exists>s t. run projects_step projects_start [SetProjectName ''p'', SetLimit (show_int 250)] = Some s
     \<and> projects_step s SubmitProject = Some t \<and> pj_creating t = [(''p'', Some 250)]"
proof -
  let ?es = "[SetProjectName ''p'', SetLimit (show_int 250)]"
  let ?s = "projects_start\<lparr>pj_name := ''p'', pj_limit := show_int 250\<rparr>"
  have r: "run projects_step projects_start ?es = Some ?s"
    by (simp add: projects_step_def projects_start_def)
  have "of_int \<bar>250\<bar> < overflow_bound" by (simp add: overflow_bound_def)
  from projects_integer_limit [OF r _ _ _ this, where env = undefined]
  obtain t where "projects_step ?s SubmitProject = Some t" "pj_creating t = [(''p'', Some 250)]"
    by (auto simp: projects_start_def can_create_project_def)
  with r show ?thesis by blast
qed

text \<open>A limit that is neither blank nor a finite number never reaches the API: nothing is sent, the
  form's own message is shown, and the form stays open with what was typed.\<close>

theorem projects_bad_limit:
  assumes "run projects_step projects_start es = Some s" "projects_step s SubmitProject = Some t"
    "trim (pj_limit s) \<noteq> []" "\<forall>q. toNumber (pj_limit s) \<noteq> Finite q"
  shows "pj_creating t = [] \<and> \<not> pj_saving t \<and> pj_name t = pj_name s \<and> pj_limit t = pj_limit s
     \<and> submits (projects_view env t) = [SubmitProject]
     \<and> pj_error t = Some (FormError (tr ''Ge&ccedil;erli bir ayl&imath;k limit gir.''))"
proof -
  have "projects_inv s" using assms(1) by (rule projects_page.run_inv)
  moreover have c: "can_create_project s" and t: "t = projects_submit s"
    using assms(2) by (auto simp: projects_step_def split: if_splits)
  ultimately have "pj_creating s = []" by (auto simp: projects_inv_def can_create_project_def)
  moreover have "monthly_limit (pj_limit s) = Inl (FormError (tr ''Ge&ccedil;erli bir ayl&imath;k limit gir.''))"
    using assms(3,4) by (simp add: monthly_limit_error)
  ultimately show ?thesis
    using c by (simp add: t projects_submit_def projects_submits can_create_project_def)
qed

theorem projects_bad_limit_witness:
  "\<exists>s t. run projects_step projects_start [SetProjectName ''p'', SetLimit ''x''] = Some s
     \<and> projects_step s SubmitProject = Some t \<and> pj_creating t = []"
proof -
  let ?s = "projects_start\<lparr>pj_name := ''p'', pj_limit := ''x''\<rparr>"
  have r: "run projects_step projects_start [SetProjectName ''p'', SetLimit ''x''] = Some ?s"
    by (simp add: projects_step_def projects_start_def)
  have t: "projects_step ?s SubmitProject = Some (projects_submit ?s)"
    by (simp add: projects_step_def projects_start_def can_create_project_def)
  have "trim ''x'' \<noteq> []" "toNumber ''x'' = NaN" by code_simp+
  with projects_bad_limit [OF r t] r t show ?thesis by auto
qed

end
