(* ===== verification/ProvidersPage.thy ===== *)
theory ProvidersPage
  imports Pages
begin

text \<open>
  \<open>apps/web/app/dashboard/providers/page.tsx\<close>: a customer's own nodes. Creating one shows its token
  once, together with the commands that install it; the card of a node says whether it is ready,
  connected without an approved model, or offline.
\<close>

record nodes_page =
  nd_providers :: "provider list"
  nd_name :: string
  nd_token :: string
  nd_commands :: string
  nd_error :: "js_error option"
  nd_success :: string
  nd_loading :: bool
  nd_saving :: bool
  nd_showCreate :: bool
  nd_mounting :: bool
  nd_creating :: "string list"

datatype node_event =
    NodesLoaded "provider list option http"
  | SetNodeName string
  | ShowCreate
  | SubmitNode
  | NodeCreated nat "provider_create_response http"

definition nodes_start :: nodes_page where
  "nodes_start = \<lparr>nd_providers = [], nd_name = [], nd_token = [], nd_commands = [], nd_error = None,
     nd_success = [], nd_loading = True, nd_saving = False, nd_showCreate = False, nd_mounting = True,
     nd_creating = []\<rparr>"

definition setupCommand :: "string \<Rightarrow> string \<Rightarrow> string" where
  "setupCommand name token =
     (''cd apps/provider-node''
     @ [CHR 0x0A]
     @ ''go run ./cmd/provider-node init --server http://localhost:18080 --token '')
     @ token
     @ tr '' --name &quot;''
     @ name
     @ (tr ''&quot;''
     @ [CHR 0x0A]
     @ ''go run ./cmd/provider-node doctor''
     @ [CHR 0x0A]
     @ ''go run ./cmd/provider-node serve'')"

definition nodes_online :: "nodes_page \<Rightarrow> nat" where
  "nodes_online s = length (filter (\<lambda>p. pv_instance_status p = Some ''online'') (nd_providers s))"

definition nodes_approved :: "nodes_page \<Rightarrow> nat" where
  "nodes_approved s = length (filter (\<lambda>p. pv_approval_status p = ''approved'') (nd_providers s))"

section \<open>Handlers\<close>

definition nodes_loaded :: "js_error + provider list \<Rightarrow> nodes_page \<Rightarrow> nodes_page" where
  "nodes_loaded r s =
     (let s' = s\<lparr>nd_mounting := False, nd_loading := False\<rparr>
      in case r of Inl e \<Rightarrow> s'\<lparr>nd_error := Some e\<rparr> | Inr ps \<Rightarrow> s'\<lparr>nd_providers := ps\<rparr>)"

definition nodes_submit :: "nodes_page \<Rightarrow> nodes_page" where
  "nodes_submit s = s\<lparr>nd_saving := True, nd_error := None, nd_success := [], nd_token := [],
     nd_commands := [], nd_creating := nd_creating s @ [nd_name s]\<rparr>"

text \<open>\<open>{ ...res.provider, instance_status: null, last_heartbeat_at: null, model_names: [] }\<close>; a response
  without a provider spreads to an object without texts, which renders like empty ones.\<close>

definition no_provider :: provider_base where
  "no_provider = \<lparr>pv_id = [], pv_name = [], pv_region_hint = None, pv_trust_level = [],
     pv_approval_status = [], pv_status = [], pv_allow_auto_model_pull = False, pv_token_prefix = None,
     pv_created_at = []\<rparr>"

definition fresh_provider :: "provider_base option \<Rightarrow> provider" where
  "fresh_provider p = provider_base.extend (case p of None \<Rightarrow> no_provider | Some b \<Rightarrow> b)
     (provider.fields None None [])"

definition nodes_created :: "nat \<Rightarrow> js_error + provider_create_response \<Rightarrow> nodes_page \<Rightarrow> nodes_page" where
  "nodes_created i r s =
     (let name = nd_creating s ! i; s' = s\<lparr>nd_creating := drop_nth i (nd_creating s), nd_saving := False\<rparr>
      in case r of
        Inl e \<Rightarrow> s'\<lparr>nd_error := Some e\<rparr>
      | Inr res \<Rightarrow> s'\<lparr>nd_providers := fresh_provider (pc_provider res) # nd_providers s,
                     nd_token := or_else (pc_plaintext_token res) [],
                     nd_commands := setupCommand name
                       (case pc_plaintext_token res of None \<Rightarrow> ''undefined'' | Some t \<Rightarrow> t),
                     nd_name := [],
                     nd_success := tr ''Node olu&scedil;turuldu. Anahtar&imath; kopyala, komutu &ccedil;al&imath;&scedil;t&imath;r.''\<rparr>)"

text \<open>The form is rendered after \<open>setShowCreate(true)\<close>; its name field is required.\<close>

definition can_create_node :: "nodes_page \<Rightarrow> bool" where
  "can_create_node s \<longleftrightarrow> nd_showCreate s \<and> \<not> nd_saving s \<and> nd_name s \<noteq> []"

fun nodes_step :: "nodes_page \<Rightarrow> node_event \<Rightarrow> nodes_page option" where
  "nodes_step s (NodesLoaded h) =
     (if nd_mounting s then Some (nodes_loaded (c_settle listProviders h) s) else None)"
| "nodes_step s (SetNodeName v) = (if nd_showCreate s then Some (s\<lparr>nd_name := v\<rparr>) else None)"
| "nodes_step s ShowCreate = Some (s\<lparr>nd_showCreate := True\<rparr>)"
| "nodes_step s SubmitNode = (if can_create_node s then Some (nodes_submit s) else None)"
| "nodes_step s (NodeCreated i h) =
     (if i < length (nd_creating s)
      then Some (nodes_created i (c_settle (createProvider (nd_creating s ! i) None False) h) s)
      else None)"

section \<open>View\<close>

definition card_ready :: "env \<Rightarrow> provider \<Rightarrow> 'e html" where
  "card_ready env provider =
    Elem ''div'' [cls ''card stack'']
      [Elem ''div'' [cls ''row'']
         [Elem ''strong'' [] [Txt (pv_name provider)],
          StatusPill (pv_instance_status provider),
          StatusPill (Some (pv_approval_status provider))],
       Elem ''div'' [cls ''muted''] [Txt (tr ''Haz&imath;r. &Idot;stek alabilir.'')],
       Elem ''div'' [cls ''row muted'']
         [Elem ''span'' [] [Txt ''Modeller: '', Txt (join '', '' (pv_model_names provider))],
          Elem ''span'' []
            ([Txt ''Son sinyal: '']
             @ (if truthy (pv_last_heartbeat_at provider)
                then [Txt (toLocaleString env (or_else (pv_last_heartbeat_at provider) []))]
                else [Txt (tr ''&mdash;'')]))]]"

definition card_connected :: "env \<Rightarrow> provider \<Rightarrow> 'e html" where
  "card_connected env provider =
    Elem ''div'' [cls ''card stack secondary-card'']
      [Elem ''div'' [cls ''row'']
         [Elem ''strong'' [] [Txt (pv_name provider)],
          StatusPill (pv_instance_status provider),
          StatusPill (Some (pv_approval_status provider))],
       Elem ''div'' [cls ''muted'']
         [Txt (tr ''Ba&gbreve;l&imath;. Model onay&imath; bekleniyor.'')],
       Elem ''div'' [cls ''muted'']
         ([Txt ''Son sinyal: '']
          @ (if truthy (pv_last_heartbeat_at provider)
             then [Txt (toLocaleString env (or_else (pv_last_heartbeat_at provider) []))]
             else [Txt (tr ''&mdash;'')]))]"

definition card_offline :: "env \<Rightarrow> provider \<Rightarrow> 'e html" where
  "card_offline env provider =
    Elem ''div'' [cls ''card stack secondary-card'']
      [Elem ''div'' [cls ''row'']
         [Elem ''strong'' [] [Txt (pv_name provider)],
          Elem ''span'' [cls ''pill warn''] [Txt (tr ''Ba&gbreve;l&imath; de&gbreve;il'')],
          StatusPill (Some (pv_approval_status provider))],
       Elem ''div'' [cls ''muted'']
         [Txt (tr ''&Scedil;u an ba&gbreve;l&imath; de&gbreve;il. Son kurulum komutunu yeniden &ccedil;al&imath;&scedil;t&imath;r.'')],
       Elem ''div'' [cls ''muted'']
         ([Txt ''Son sinyal: '']
          @ (if truthy (pv_last_heartbeat_at provider)
             then [Txt (toLocaleString env (or_else (pv_last_heartbeat_at provider) []))]
             else [Txt (tr ''Hen&uuml;z yok'')]))]"

definition NodeCard :: "env \<Rightarrow> provider \<Rightarrow> 'e html" where
  "NodeCard env provider =
     (if pv_instance_status provider = Some ''online'' \<and> pv_model_names provider \<noteq> [] then card_ready env provider
      else if pv_instance_status provider = Some ''online'' then card_connected env provider
      else card_offline env provider)"

definition nodes_head :: "nodes_page \<Rightarrow> node_event html" where
  "nodes_head s =
    Elem ''section'' [cls ''card stack'', Attr ''style'' ''padding: 32'']
      [Elem ''div'' [cls ''split-panel'']
         [Elem ''div'' [cls ''stack'']
            [Elem ''span'' [cls ''eyebrow''] [Txt ''Node''],
             Elem ''h1'' []
               [Txt (tr ''Node olu&scedil;tur, komutu &ccedil;al&imath;&scedil;t&imath;r.'')],
             Elem ''p'' [cls ''muted'', Attr ''style'' ''maxWidth: 620'']
               [Txt (tr ''&Ouml;nce node olu&scedil;tur. Anahtar&imath; bir kez kopyala. Komutu &ccedil;al&imath;&scedil;t&imath;r. Sonra durumu burada g&ouml;r.'')],
             Elem ''div'' [cls ''row'']
               [Elem ''button'' [cls ''button'', Attr ''type'' ''button'', OnClick ShowCreate]
                  [Txt (tr ''Node olu&scedil;tur'')],
                Elem ''a'' [cls ''button secondary'', Attr ''href'' ''#node-status'']
                  [Txt (tr ''Durumu g&ouml;r'')]]],
          Elem ''div'' [cls ''grid stat-strip'']
            [Elem ''div'' [cls ''metric'']
               [Elem ''strong'' [] [Txt (show_nat (length (nd_providers s)))],
                Elem ''span'' [cls ''muted''] [Txt ''Toplam node'']],
             Elem ''div'' [cls ''metric'']
               [Elem ''strong'' [] [Txt (show_nat (nodes_online s))],
                Elem ''span'' [cls ''muted''] [Txt (tr ''&Ccedil;evrimi&ccedil;i'')]],
             Elem ''div'' [cls ''metric'']
               [Elem ''strong'' [] [Txt (show_nat (nodes_approved s))],
                Elem ''span'' [cls ''muted''] [Txt (tr ''Onayl&imath;'')]]]]]"

definition nodes_steps :: "node_event html" where
  "nodes_steps =
    Elem ''section'' [cls ''split-panel'']
      [Elem ''div'' [cls ''card stack'']
         [Elem ''div'' [cls ''surface-head'']
            [Elem ''div'' []
               [Elem ''h2'' [] [Txt (tr ''K&imath;sa s&imath;ra'')],
                Elem ''p'' [cls ''muted''] [Txt (tr ''&Idot;lk kurulum i&ccedil;in gerekenler.'')]]],
          Elem ''ol'' [cls ''checklist'']
            [Elem ''li'' []
               [Elem ''strong'' [] [Txt (tr ''Node olu&scedil;tur'')],
                Elem ''span'' [cls ''muted''] [Txt (tr ''Ad&imath;n&imath; ver.'')]],
             Elem ''li'' []
               [Elem ''strong'' [] [Txt (tr ''Anahtar&imath; kopyala'')],
                Elem ''span'' [cls ''muted''] [Txt (tr ''Bir kez g&ouml;r&uuml;n&uuml;r.'')]],
             Elem ''li'' []
               [Elem ''strong'' [] [Txt (tr ''Komutu &ccedil;al&imath;&scedil;t&imath;r'')],
                Elem ''span'' [cls ''muted''] [Txt (tr ''Ba&gbreve;lant&imath;y&imath; a&ccedil;.'')]],
             Elem ''li'' []
               [Elem ''strong'' [] [Txt ''Durumu kontrol et''],
                Elem ''span'' [cls ''muted'']
                  [Txt (tr ''Ba&gbreve;l&imath; m&imath;, onay bekliyor mu, haz&imath;r m&imath; g&ouml;r.'')]]]],
       Elem ''div'' [cls ''stack''] [CreditNotice, PrivacyNotice]]"

definition nodes_form :: "nodes_page \<Rightarrow> node_event html list" where
  "nodes_form s =
    (if nd_showCreate s
     then [Elem ''form'' [cls ''card stack'', OnSubmit SubmitNode]
          [Elem ''h2'' [] [Txt ''Yeni node''],
           Elem ''div'' [cls ''field'']
             [Elem ''label'' [Attr ''htmlFor'' ''node-name''] [Txt (tr ''Node ad&imath;'')],
              Elem ''input''
                [Attr ''id'' ''node-name'',
                 Flag ''required'' True,
                 Attr ''value'' (nd_name s),
                 OnChange SetNodeName,
                 Attr ''placeholder'' (tr ''&Ouml;rn: Ev Bilgisayar&imath;'')]
                []],
           Elem ''button''
             [cls ''button'',
              Flag ''disabled'' (nd_saving s),
              Attr ''type'' ''submit'']
             (if nd_saving s
              then [Txt (tr ''Olu&scedil;turuluyor...'')]
              else [Txt (tr ''Node olu&scedil;tur'')])]]
     else [Elem ''div'' [cls ''row'']
          [Elem ''button'' [cls ''button secondary'', Attr ''type'' ''button'', OnClick ShowCreate]
             [Txt ''Yeni node'']]])"

definition nodes_secret :: "nodes_page \<Rightarrow> node_event html list" where
  "nodes_secret s =
    showIf (nd_token s \<noteq> [])
      [Elem ''section'' [cls ''notice warn stack'']
         [Elem ''strong'' []
            [Txt (tr ''Bu anahtar&imath; &scedil;imdi kopyala. Bir daha g&ouml;r&uuml;nmez.'')],
          Elem ''CopyBox'' [Attr ''value'' (nd_token s)] [],
          Elem ''div'' [cls ''card stack'']
            [Elem ''strong'' [] [Txt ''Kurulum komutu''],
             Elem ''CopyBox'' [Attr ''value'' (nd_commands s)] [],
             Elem ''div'' [cls ''muted'']
               [Txt (tr ''Komutu &ccedil;al&imath;&scedil;t&imath;r. Sonra bu sayfaya d&ouml;n&uuml;p durumu kontrol et.'')]]]]"

definition nodes_status :: "env \<Rightarrow> nodes_page \<Rightarrow> node_event html list" where
  "nodes_status env s =
    showIf (nd_providers s \<noteq> [])
      [Elem ''section'' [Attr ''id'' ''node-status'', cls ''card stack'']
         [Elem ''div'' [cls ''surface-head'']
            [Elem ''div'' []
               [Elem ''h2'' [] [Txt ''Node durumu''],
                Elem ''p'' [cls ''muted'']
                  [Txt (tr ''Yeni node&apos;lar &uuml;stte g&ouml;r&uuml;n&uuml;r.'')]]],
          Elem ''div'' [cls ''stack'']
            (map (\<lambda>provider. NodeCard env provider) (nd_providers s))]]"

definition nodes_body :: "env \<Rightarrow> nodes_page \<Rightarrow> node_event html list" where
  "nodes_body env s =
    showIf (nd_showCreate s \<or> nd_providers s \<noteq> [])
      (nodes_form s
      @ nodes_secret s
      @ nodes_status env s)"

definition nodes_view :: "env \<Rightarrow> nodes_page \<Rightarrow> node_event html" where
  "nodes_view env s =
    Elem ''div'' [cls ''stack'']
      ([nodes_head s, nodes_steps]
       @ showIf (nd_error s \<noteq> None)
           [ErrorMessage env (nd_error s) (Some (tr ''Node bilgileri al&imath;namad&imath;. Sayfay&imath; yenileyip tekrar dene.''))]
       @ showIf (nd_success s \<noteq> [])
           [SuccessMessage (nd_success s) (Some (tr ''S&imath;radaki i&scedil;: anahtar&imath; kopyala, komutu &ccedil;al&imath;&scedil;t&imath;r, sonra bu sayfaya d&ouml;n.''))]
       @ showIf (nd_loading s)
           [Loading (Some (tr ''Node&apos;lar y&uuml;kleniyor...'')) (Some (tr ''Ba&gbreve;lant&imath; ve onay durumu haz&imath;rlan&imath;yor.''))]
       @ showIf (\<not> (nd_loading s) \<and> nd_providers s = [] \<and> \<not> (nd_showCreate s))
           [Elem ''div'' [cls ''card stack'']
              [Empty (tr ''Hen&uuml;z node yok.'') (Some (tr ''Haz&imath;rsan bir node olu&scedil;tur. Sonra komutu &ccedil;al&imath;&scedil;t&imath;r.'')),
               Elem ''div'' [cls ''row'']
                 [Elem ''button'' [cls ''button'', Attr ''type'' ''button'', OnClick ShowCreate]
                    [Txt (tr ''Node olu&scedil;tur'')]]]]
       @ nodes_body env s)"

lemma NodeCard_silent [simp]: "clicks (NodeCard env p) = []" "submits (NodeCard env p) = []"
  "links (NodeCard env p) = []"
  by (simp_all add: NodeCard_def card_ready_def card_connected_def card_offline_def)

lemma nodes_parts [simp]:
  "clicks (nodes_head s) = [ShowCreate]" "submits (nodes_head s) = []"
  "clicks nodes_steps = []" "submits nodes_steps = []"
  "all_clicks (nodes_secret s) = []" "all_submits (nodes_secret s) = []"
  "all_clicks (nodes_status env s) = []" "all_submits (nodes_status env s) = []"
  by (simp_all add: nodes_head_def nodes_steps_def nodes_secret_def nodes_status_def comp_def)

lemma nodes_submits:
  "submits (nodes_view env s) = showIf (can_create_node s) [SubmitNode]"
  by (simp add: nodes_view_def nodes_body_def nodes_form_def field_ok_def can_create_node_def showIf_def)

text \<open>There is always a way to open the form, and no other button.\<close>

lemma nodes_clicks: "set (clicks (nodes_view env s)) = {ShowCreate}"
  by (simp add: nodes_view_def nodes_body_def nodes_form_def)

section \<open>Invariant\<close>

definition nodes_inv :: "nodes_page \<Rightarrow> bool" where
  "nodes_inv s \<longleftrightarrow> nd_saving s = (nd_creating s \<noteq> []) \<and> length (nd_creating s) \<le> 1
     \<and> [] \<notin> set (nd_creating s) \<and> nd_loading s = nd_mounting s
     \<and> (nd_token s \<noteq> [] \<longrightarrow> (\<exists>n. n \<noteq> [] \<and> nd_commands s = setupCommand n (nd_token s)))
     \<and> ((nd_saving s \<or> nd_token s \<noteq> []) \<longrightarrow> nd_showCreate s)"

lemma nodes_inv_created:
  assumes "nodes_inv s" "i < length (nd_creating s)"
  shows "nodes_inv (nodes_created i r s)"
proof -
  have d: "drop_nth i (nd_creating s) = []"
    using assms drop_nth_one unfolding nodes_inv_def by blast
  have "nd_creating s ! i \<noteq> []"
    using assms nth_mem unfolding nodes_inv_def by metis
  moreover have "nd_creating s \<noteq> []" using assms(2) by auto
  ultimately show ?thesis
    using assms(1) d
    by (auto simp: nodes_inv_def nodes_created_def Let_def or_else_def split: sum.split option.split)
qed

lemma nodes_inv_others:
  "nodes_inv s \<Longrightarrow> nodes_inv (nodes_loaded r s)"
  "nodes_inv s \<Longrightarrow> can_create_node s \<Longrightarrow> nodes_inv (nodes_submit s)"
  "nodes_inv s \<Longrightarrow> nodes_inv (s\<lparr>nd_name := v\<rparr>)" "nodes_inv s \<Longrightarrow> nodes_inv (s\<lparr>nd_showCreate := True\<rparr>)"
  by (auto simp: nodes_inv_def nodes_loaded_def nodes_submit_def can_create_node_def Let_def
      split: sum.split)

lemma nodes_inv_start: "nodes_inv nodes_start"
  by (simp add: nodes_inv_def nodes_start_def)

lemma nodes_inv_step: "nodes_inv s \<Longrightarrow> nodes_step s e = Some t \<Longrightarrow> nodes_inv t"
  by (cases e) (auto intro: nodes_inv_created nodes_inv_others split: if_splits)

interpretation nodes_page: page_machine nodes_step nodes_start nodes_inv
  by unfold_locales (auto intro: nodes_inv_step nodes_inv_start)

section \<open>Properties\<close>

text \<open>Whenever the page shows a node token, the setup commands beside it install that very token
  under a name the customer has typed, and the form that produced it is open.\<close>

theorem nodes_commands_match:
  assumes "run nodes_step nodes_start es = Some s" "nd_token s \<noteq> []"
  shows "nd_showCreate s \<and> (\<exists>n. n \<noteq> [] \<and> nd_commands s = setupCommand n (nd_token s))
     \<and> set [nd_token s, nd_commands s] \<subseteq> set (shown (nodes_view env s))"
proof -
  have "nodes_inv s" using assms(1) by (rule nodes_page.run_inv)
  then show ?thesis
    using assms(2) by (simp add: nodes_inv_def nodes_view_def nodes_body_def nodes_secret_def)
qed

theorem nodes_commands_match_witness:
  "\<exists>s. run nodes_step nodes_start [ShowCreate, SetNodeName ''n'', SubmitNode,
       NodeCreated 0 (ok_body \<lparr>pc_provider = None, pc_plaintext_token = Some ''tok''\<rparr>)] = Some s
     \<and> nd_commands s = setupCommand ''n'' ''tok'' \<and> (\<forall>env. ''tok'' \<in> set (shown (nodes_view env s)))"
proof -
  let ?es = "[ShowCreate, SetNodeName ''n'', SubmitNode,
       NodeCreated 0 (ok_body \<lparr>pc_provider = None, pc_plaintext_token = Some ''tok''\<rparr>)]"
  let ?s = "the (run nodes_step nodes_start ?es)"
  have r: "run nodes_step nodes_start ?es = Some ?s" and k: "nd_token ?s = ''tok''"
    and c: "nd_commands ?s = setupCommand ''n'' ''tok''"
    by (simp_all add: nodes_start_def can_create_node_def nodes_submit_def nodes_created_def
        createProvider_def Let_def or_else_def)
  from nodes_commands_match [OF r] k have "\<forall>env. ''tok'' \<in> set (shown (nodes_view env ?s))" by simp
  with r c show ?thesis by blast
qed

end
