(* ===== verification/CreditsPage.thy ===== *)
theory CreditsPage
  imports Pages
begin

text \<open>
  \<open>apps/web/app/dashboard/credits/page.tsx\<close>: the wallet balance and the ledger, with the texts that
  name each movement and the two totals the page derives from it.
\<close>

record credits_page =
  cr_wallet :: "wallet option"
  cr_ledger :: "ledger_entry list"
  cr_error :: "js_error option"
  cr_loading :: bool
  cr_pending :: bool

type_synonym credits_event = "(wallet http, ledger_entry list option http) outcome2"

definition credits_start :: credits_page where
  "credits_start = \<lparr>cr_wallet = None, cr_ledger = [], cr_error = None, cr_loading = True, cr_pending = True\<rparr>"

definition credits_loaded :: "js_error + wallet option \<times> ledger_entry list \<Rightarrow> credits_page \<Rightarrow> credits_page" where
  "credits_loaded r s =
     (let s' = s\<lparr>cr_pending := False, cr_loading := False\<rparr>
      in case r of
        Inl e \<Rightarrow> s'\<lparr>cr_error := Some e\<rparr>
      | Inr (wallet, ledger) \<Rightarrow> s'\<lparr>cr_wallet := wallet, cr_ledger := ledger\<rparr>)"

definition credits_step :: "(credits_page, credits_event) machine" where
  "credits_step s r =
     (if cr_pending s
      then map_option (\<lambda>r. credits_loaded r s) (settle2 (c_settle getWallet) (c_settle listLedger) r)
      else None)"

section \<open>Movements\<close>

definition movementLabel :: "string \<Rightarrow> string" where
  "movementLabel entryType =
     (if entryType = ''grant'' then tr ''Ba&scedil;lang&imath;&ccedil; kredisi''
      else if entryType = ''reserve'' then tr ''&Idot;stek bekliyor''
      else if entryType = ''release_reserve'' then tr ''Kullan&imath;lmayan kredi geri d&ouml;nd&uuml;''
      else if entryType = ''debit_usage'' then tr ''API kullan&imath;m&imath;''
      else if entryType = ''credit_provider_reward'' then tr ''Node kazanc&imath;''
      else if entryType = ''admin_adjustment'' then tr ''Y&ouml;netici d&uuml;zenlemesi''
      else if entryType = ''refund'' then tr ''&Idot;ade''
      else ''Kredi hareketi'')"

definition admin_prefix :: string where
  "admin_prefix = ''admin_adjustment:''"

definition reason_note :: "string \<Rightarrow> string" where
  "reason_note reason =
     (if reason = [] then dash
      else if prefix admin_prefix reason then
        tr ''Y&ouml;netici notu: ''
        @ or_text (trim (drop (length admin_prefix) reason)) (tr ''D&uuml;zenleme'')
      else if reason = ''starting_free_credits'' then tr ''Hesap a&ccedil;&imath;l&imath;&scedil;&imath;nda verilen kredi''
      else if reason = ''chat_completion_reservation'' then
        tr ''&Idot;stek tamamlanana kadar ge&ccedil;ici olarak ayr&imath;ld&imath;''
      else if reason \<in> set [''release_usage_reservation'', ''provider_unavailable_release'',
                ''provider_failed_release'', ''settlement_failed_release''] then
        tr ''Kullan&imath;lmayan k&imath;s&imath;m tekrar bakiyeye d&ouml;nd&uuml;''
      else if reason = ''chat_completion_usage'' then tr ''Tamamlanan API iste&gbreve;inin maliyeti''
      else reason)"

definition movementNote :: "ledger_entry \<Rightarrow> string" where
  "movementNote entry = (case le_reason entry of None \<Rightarrow> dash | Some r \<Rightarrow> reason_note r)"

definition formatCredits :: "int \<Rightarrow> string" where
  "formatCredits value = (if value > 0 then ''+'' @ show_int value else show_int value)"

definition counts_as_earned :: "ledger_entry \<Rightarrow> bool" where
  "counts_as_earned entry \<longleftrightarrow>
     le_entry_type entry \<in> set [''grant'', ''credit_provider_reward'', ''admin_adjustment'', ''refund'']
     \<and> le_amount_credits entry > 0"

definition counts_as_spent :: "ledger_entry \<Rightarrow> bool" where
  "counts_as_spent entry \<longleftrightarrow> le_entry_type entry = ''debit_usage'' \<and> le_amount_credits entry < 0"

text \<open>The loop over the ledger with its two accumulators.\<close>

fun earned_spent :: "int \<Rightarrow> int \<Rightarrow> ledger_entry list \<Rightarrow> int \<times> int" where
  "earned_spent totalEarned totalSpent [] = (totalEarned, totalSpent)"
| "earned_spent totalEarned totalSpent (entry # ledger) =
     earned_spent
       (if counts_as_earned entry then totalEarned + le_amount_credits entry else totalEarned)
       (if counts_as_spent entry then totalSpent + \<bar>le_amount_credits entry\<bar> else totalSpent)
       ledger"

definition total_earned :: "ledger_entry list \<Rightarrow> int" where
  "total_earned ledger = fst (earned_spent 0 0 ledger)"

definition total_spent :: "ledger_entry list \<Rightarrow> int" where
  "total_spent ledger = snd (earned_spent 0 0 ledger)"

record history_row = ledger_entry +
  hr_label :: string
  hr_note :: string
  hr_credits :: string
  hr_at :: string

definition historyRows :: "env \<Rightarrow> credits_page \<Rightarrow> history_row list" where
  "historyRows env s = map (\<lambda>entry. ledger_entry.extend entry
      (history_row.fields (movementLabel (le_entry_type entry)) (movementNote entry)
         (formatCredits (le_amount_credits entry)) (toLocaleString env (le_created_at entry)))) (cr_ledger s)"

section \<open>View\<close>

definition credits_head :: "credits_page \<Rightarrow> 'e html" where
  "credits_head s =
    Elem ''section'' [cls ''card stack'', Attr ''style'' ''padding: 32'']
      [Elem ''div'' [cls ''split-panel'']
         [Elem ''div'' [cls ''stack'']
            [Elem ''span'' [cls ''eyebrow''] [Txt ''Bakiye''],
             Elem ''h1'' [] [Txt (tr ''Bakiyeni ve son hareketleri g&ouml;r.'')],
             Elem ''p'' [cls ''muted'', Attr ''style'' ''maxWidth: 620'']
               [Txt (tr ''Kazand&imath;&gbreve;&imath;n kredi de kulland&imath;&gbreve;&imath;n kredi de ayn&imath; ge&ccedil;mi&scedil;te g&ouml;r&uuml;n&uuml;r.'')],
             Elem ''div'' [cls ''row'']
               [Elem ''Link'' [cls ''button'', Attr ''href'' ''/dashboard/api-keys'']
                  [Txt (tr ''API&apos;yi a&ccedil;'')],
                Elem ''Link'' [cls ''button secondary'', Attr ''href'' ''/dashboard/providers'']
                  [Txt (tr ''Node&apos;u a&ccedil;'')]]],
          Elem ''div'' [cls ''grid stat-strip'']
            [Elem ''div'' [cls ''metric'']
               [Elem ''strong'' []
                  [Txt (show_int (case Option.bind (cr_wallet s) w_balance of None \<Rightarrow> 0 | Some i \<Rightarrow> i))],
                Elem ''span'' [cls ''muted''] [Txt ''Harcanabilir'']],
             Elem ''div'' [cls ''metric'']
               [Elem ''strong'' [] [Txt (show_int (total_earned (cr_ledger s)))],
                Elem ''span'' [cls ''muted''] [Txt (tr ''Toplam kazan&ccedil;'')]],
             Elem ''div'' [cls ''metric'']
               [Elem ''strong'' [] [Txt (show_int (total_spent (cr_ledger s)))],
                Elem ''span'' [cls ''muted''] [Txt (tr ''Toplam kullan&imath;m'')]]]]]"

definition movement_row :: "history_row \<Rightarrow> 'e html" where
  "movement_row entry =
    Elem ''tr'' []
      [Elem ''td'' []
         [Elem ''strong'' [] [Txt (hr_label entry)],
          Elem ''div'' [cls ''muted'']
            [Txt (tr ''Hareket sonras&imath; bakiye ''),
             Txt (show_int (le_balance_after entry))]],
       Elem ''td'' [] [Txt (hr_credits entry)],
       Elem ''td'' [] [Txt (hr_note entry)],
       Elem ''td'' [] [Txt (hr_at entry)]]"

definition movement_item :: "history_row \<Rightarrow> 'e html" where
  "movement_item entry =
    Elem ''div'' [cls ''mobile-item'']
      [Elem ''div'' [cls ''row'']
         [Elem ''strong'' [] [Txt (hr_label entry)],
          Elem ''span'' [] [Txt (hr_credits entry)]],
       Elem ''div'' [cls ''meta muted'']
         [Elem ''div'' [] [Txt (hr_note entry)],
          Elem ''div'' []
            [Txt (tr ''Hareket sonras&imath; bakiye ''),
             Txt (show_int (le_balance_after entry))],
          Elem ''div'' [] [Txt (hr_at entry)]]]"

definition credits_history :: "env \<Rightarrow> credits_page \<Rightarrow> 'e html list" where
  "credits_history env s =
    showIf (\<not> (cr_loading s) \<and> cr_error s = None)
      ((if cr_ledger s = []
       then [Elem ''div'' [cls ''card stack'']
            [Empty (tr ''Hen&uuml;z hareket yok.'') (Some (tr ''&Idot;lk istek ya da ilk node i&scedil;i burada g&ouml;r&uuml;n&uuml;r.'')),
             Elem ''div'' [cls ''row'']
               [Elem ''Link'' [cls ''button'', Attr ''href'' ''/dashboard/api-keys'']
                  [Txt (tr ''API&apos;yi a&ccedil;'')]]]]
       else [Elem ''section'' [cls ''card stack'']
            [Elem ''div'' [cls ''surface-head'']
               [Elem ''div'' []
                  [Elem ''h2'' [] [Txt ''Son hareketler''],
                   Elem ''p'' [cls ''muted'']
                     [Txt (tr ''Yeni hareketler &uuml;stte g&ouml;r&uuml;n&uuml;r.'')]]],
             Elem ''div'' [cls ''surface desktop-only'']
               [Elem ''table'' []
                  [Elem ''thead'' []
                     [Elem ''tr'' []
                        [Elem ''th'' [] [Txt ''Hareket''],
                         Elem ''th'' [] [Txt ''Kredi''],
                         Elem ''th'' [] [Txt (tr ''A&ccedil;&imath;klama'')],
                         Elem ''th'' [] [Txt ''Tarih'']]],
                   Elem ''tbody'' [] (map (\<lambda>entry. movement_row entry) (historyRows env s))]],
             Elem ''div'' [cls ''mobile-only mobile-list'']
               (map (\<lambda>entry. movement_item entry) (historyRows env s))]]))"

definition credits_view :: "env \<Rightarrow> credits_page \<Rightarrow> 'e html" where
  "credits_view env s =
    Elem ''div'' [cls ''stack'']
      ([credits_head s,
        CreditNotice,
        Elem ''div'' [cls ''muted''] [Txt (tr ''Bu kredi nakit de&gbreve;ildir.'')]]
       @ showIf (cr_error s \<noteq> None)
           [ErrorMessage env (cr_error s) (Some (tr ''Bakiye bilgisi al&imath;namad&imath;. Sayfay&imath; yenileyip tekrar dene.''))]
       @ showIf (cr_loading s)
           [Loading (Some (tr ''Bakiye y&uuml;kleniyor...'')) (Some (tr ''Son hareketlerin haz&imath;rlan&imath;yor.''))]
       @ credits_history env s)"

lemma movement_silent [simp]: "links (movement_row e) = []" "links (movement_item e) = []"
  "clicks (movement_row e) = []" "clicks (movement_item e) = []"
  by (simp_all add: movement_row_def movement_item_def)

lemma credits_history_links [simp]:
  "all_links (credits_history env s) =
     showIf (\<not> cr_loading s \<and> cr_error s = None \<and> cr_ledger s = []) [''/dashboard/api-keys'']"
  by (simp add: credits_history_def comp_def showIf_def)

lemma credits_links:
  "links (credits_view env s) = [''/dashboard/api-keys'', ''/dashboard/providers'']
     @ showIf (\<not> cr_loading s \<and> cr_error s = None \<and> cr_ledger s = []) [''/dashboard/api-keys'']"
  by (simp add: credits_view_def credits_head_def)

section \<open>Facts\<close>

lemma earned_spent_sums:
  "earned_spent a b ledger =
     (a + sum_list (map le_amount_credits (filter counts_as_earned ledger)),
      b - sum_list (map le_amount_credits (filter counts_as_spent ledger)))"
proof (induction ledger arbitrary: a b)
  case (Cons e ledger)
  have "\<bar>le_amount_credits e\<bar> = - le_amount_credits e" if "counts_as_spent e"
    using that by (simp add: counts_as_spent_def)
  with Cons show ?case by simp
qed simp

lemma totals_nonneg: "0 \<le> total_earned ledger" "0 \<le> total_spent ledger"
proof -
  have "0 \<le> sum_list (map le_amount_credits (filter counts_as_earned ledger))"
    by (rule sum_list_nonneg) (auto simp: counts_as_earned_def)
  moreover have "sum_list (map le_amount_credits (filter counts_as_spent ledger)) \<le> 0"
    by (induction ledger) (auto simp: counts_as_spent_def)
  ultimately show "0 \<le> total_earned ledger" "0 \<le> total_spent ledger"
    by (simp_all add: total_earned_def total_spent_def earned_spent_sums)
qed

lemma never_both: "counts_as_earned e \<Longrightarrow> \<not> counts_as_spent e"
  by (simp add: counts_as_earned_def counts_as_spent_def)

lemma dash_ne [simp]: "dash \<noteq> []"
  by (simp add: dash_def)

lemma movementNote_ne: "movementNote entry \<noteq> []"
  by (simp add: movementNote_def reason_note_def split: option.split)

definition credits_inv :: "credits_page \<Rightarrow> bool" where
  "credits_inv s \<longleftrightarrow> cr_loading s = cr_pending s
     \<and> (cr_pending s \<or> cr_error s \<noteq> None \<longrightarrow> cr_wallet s = None \<and> cr_ledger s = [])"

lemma credits_inv_loaded: "credits_inv s \<Longrightarrow> cr_pending s \<Longrightarrow> cr_error s = None \<Longrightarrow> credits_inv (credits_loaded r s)"
  by (simp add: credits_inv_def credits_loaded_def Let_def split: sum.split prod.split)

interpretation credits_page: page_machine credits_step credits_start
  "\<lambda>s. credits_inv s \<and> (cr_pending s \<longrightarrow> cr_error s = None)"
proof
  show "credits_inv credits_start \<and> (cr_pending credits_start \<longrightarrow> cr_error credits_start = None)"
    by (simp add: credits_inv_def credits_start_def)
next
  fix s e t
  assume s: "credits_inv s \<and> (cr_pending s \<longrightarrow> cr_error s = None)" and "credits_step s e = Some t"
  then obtain r where p: "cr_pending s" and t: "t = credits_loaded r s"
    by (auto simp: credits_step_def split: if_splits)
  with s have "credits_inv t" by (auto intro: credits_inv_loaded)
  moreover have "\<not> cr_pending t"
    by (simp add: t credits_loaded_def Let_def split: sum.split prod.split)
  ultimately show "credits_inv t \<and> (cr_pending t \<longrightarrow> cr_error t = None)" by simp
qed

section \<open>Properties\<close>

text \<open>The two totals of the page are the sum of the credits that came in and the sum of the credits
  that usage took; both are never negative, no entry counts for both, and reservations and their
  release count for neither.\<close>

theorem credits_totals:
  "total_earned ledger = sum_list (map le_amount_credits (filter counts_as_earned ledger))
   \<and> total_spent ledger = - sum_list (map le_amount_credits (filter counts_as_spent ledger))
   \<and> 0 \<le> total_earned ledger \<and> 0 \<le> total_spent ledger
   \<and> (\<forall>e. le_entry_type e = ''reserve'' \<or> le_entry_type e = ''release_reserve''
        \<or> counts_as_earned e \<and> counts_as_spent e
        \<longrightarrow> total_earned (e # ledger) = total_earned ledger \<and> total_spent (e # ledger) = total_spent ledger)"
proof -
  have "total_earned (e # ledger) = total_earned ledger \<and> total_spent (e # ledger) = total_spent ledger"
    if "le_entry_type e = ''reserve'' \<or> le_entry_type e = ''release_reserve''
        \<or> counts_as_earned e \<and> counts_as_spent e" for e
    using that never_both [of e]
    by (auto simp: total_earned_def total_spent_def counts_as_earned_def counts_as_spent_def)
  then show ?thesis
    using totals_nonneg by (simp add: total_earned_def total_spent_def earned_spent_sums)
qed

theorem credits_totals_witness:
  "let e = \<lparr>le_id = [], le_entry_type = ''reserve'', le_amount_credits = - 5, le_reserved_delta = 5,
        le_balance_after = 0, le_reserved_after = 5, le_reason = None, le_created_at = []\<rparr>
   in total_spent [e] = 0"
  using credits_totals [of "[]"] by (simp add: total_spent_def)

lemma find_space: "find (\<lambda>w. w \<noteq> [] \<and> prefix w (CHR '' '' # s)) js_ws = Some '' ''"
  by (simp add: js_ws_def ascii_ws_def)

lemma trim_space: "trim (CHR '' '' # s) = trim s"
proof -
  have "strip js_ws (CHR '' '' # s) = strip js_ws s"
    using strip_Some [OF find_space] by simp
  then show ?thesis by (simp add: trim_def trim_with_def)
qed

text \<open>The note of an adjustment shows the administrator's reason: from the ledger text
  \<open>admin_adjustment: \<close> followed by the reason the API stores, the page strips exactly the prefix and
  the surrounding white space.\<close>

theorem adjustment_note:
  "reason_note (''admin_adjustment: '' @ reason) =
     tr ''Y&ouml;netici notu: '' @ or_text (trim reason) (tr ''D&uuml;zenleme'')"
proof -
  have p: "''admin_adjustment: '' @ reason = admin_prefix @ CHR '' '' # reason"
    by (simp add: admin_prefix_def)
  have "admin_prefix @ CHR '' '' # reason \<noteq> []" by simp
  moreover have "prefix admin_prefix (admin_prefix @ CHR '' '' # reason)" by simp
  moreover have "drop (length admin_prefix) (admin_prefix @ CHR '' '' # reason) = CHR '' '' # reason"
    by simp
  ultimately show ?thesis unfolding p reason_note_def by (simp only: if_False if_True trim_space)
qed

end
