(* ===== verification/AdminJobs.thy ===== *)
theory AdminJobs
  imports Pages
begin

text \<open>
  \<open>apps/web/app/admin/jobs/page.tsx\<close>: the administrator's list of requests with the three counts
  of the page head.
\<close>

definition jobs_step :: "(admin_job list_page, admin_job list option http) machine" where
  "jobs_step = list_step listAdminJobs"

definition is_queued :: "admin_job \<Rightarrow> bool" where
  "is_queued job \<longleftrightarrow> jb_status job \<in> set [''queued'', ''running'', ''dispatched'']"

definition is_failed :: "admin_job \<Rightarrow> bool" where
  "is_failed job \<longleftrightarrow> jb_status job \<in> set [''failed'', ''error'', ''cancelled'']"

definition is_settled :: "string \<Rightarrow> bool" where
  "is_settled status \<longleftrightarrow> status \<in> set [''settled'', ''completed'', ''success'', ''succeeded'']"

definition jobs_queued :: "admin_job list_page \<Rightarrow> nat" where
  "jobs_queued s = length (filter is_queued (lp_items s))"

definition jobs_failed :: "admin_job list_page \<Rightarrow> nat" where
  "jobs_failed s = length (filter is_failed (lp_items s))"

definition jobs_settled :: "admin_job list_page \<Rightarrow> nat" where
  "jobs_settled s = length (filter (\<lambda>job. is_settled (jb_status job)) (lp_items s))"

section \<open>View\<close>

definition jobs_head :: "admin_job list_page \<Rightarrow> 'e html" where
  "jobs_head s =
    Elem ''section'' [cls ''card stack split-panel'', Attr ''style'' ''padding: 32'']
      [Elem ''div'' [cls ''stack'']
         [Elem ''span'' [cls ''eyebrow''] [Txt (tr ''&Idot;stekler'')],
          Elem ''h1'' [] [Txt (tr ''&Idot;stek, hata ve &ouml;deme izini g&ouml;r.'')],
          Elem ''p'' [cls ''muted'', Attr ''style'' ''maxWidth: 620'']
            [Txt (tr ''Bu ekran ger&ccedil;ek istek durumunu, hata kodlar&imath;n&imath; ve kredi sonucunu birlikte g&ouml;sterir.'')]],
       Elem ''div'' [cls ''grid stat-strip'']
         [Elem ''div'' [cls ''metric'']
            [Elem ''strong'' [] [Txt (show_nat (length (lp_items s)))],
             Elem ''span'' [cls ''muted''] [Txt ''Toplam istek'']],
          Elem ''div'' [cls ''metric'']
            [Elem ''strong'' [] [Txt (show_nat (jobs_queued s))],
             Elem ''span'' [cls ''muted''] [Txt ''Aktif'']],
          Elem ''div'' [cls ''metric'']
            [Elem ''strong'' [] [Txt (show_nat (jobs_failed s))],
             Elem ''span'' [cls ''muted''] [Txt ''Hata'']],
          Elem ''div'' [cls ''metric'']
            [Elem ''strong'' [] [Txt (show_nat (jobs_settled s))],
             Elem ''span'' [cls ''muted''] [Txt ''Tamamlanan'']]]]"

definition job_row :: "env \<Rightarrow> admin_job \<Rightarrow> 'e html" where
  "job_row env job =
    Elem ''tr'' []
      [Elem ''td'' []
         [Elem ''strong'' [] [Txt (jb_model_slug job)],
          Elem ''div'' [cls ''muted''] [Txt ''job '', Txt (jb_id job)],
          Elem ''div'' [cls ''muted''] [Txt ''request '', Txt (jb_request_id job)]],
       Elem ''td'' []
         ([Elem ''strong'' [] [Txt (jb_user_id job)],
           Elem ''div'' [cls ''muted''] [Txt ''project '', Txt (jb_project_id job)]]
          @ showIf (truthy (jb_provider_id job))
              [Elem ''div'' [cls ''muted''] [Txt ''provider '', Txt (or_else (jb_provider_id job) [])]]),
       Elem ''td'' [] [StatusPill (Some (jb_status job))],
       Elem ''td'' []
         [Txt (show_int (jb_actual_cost_credits job)),
          Elem ''div'' [cls ''muted'']
            [Txt ''node '', Txt (show_int (jb_provider_reward_credits job))]],
       Elem ''td'' []
         ([Txt (or_else (jb_error_code job) (tr ''&mdash;''))]
          @ showIf (truthy (jb_error_message job))
              [Elem ''div'' [cls ''muted''] [Txt (or_else (jb_error_message job) [])]]),
       Elem ''td'' []
         ([Txt (toLocaleString env (jb_created_at job))]
          @ showIf (truthy (jb_completed_at job))
              [Elem ''div'' [cls ''muted'']
                 [Txt ''bitti '', Txt (toLocaleString env (or_else (jb_completed_at job) []))]])]"

definition job_item :: "env \<Rightarrow> admin_job \<Rightarrow> 'e html" where
  "job_item env job =
    Elem ''div'' [cls ''mobile-item'']
      [Elem ''div'' [cls ''row'']
         [Elem ''strong'' [] [Txt (jb_model_slug job)], StatusPill (Some (jb_status job))],
       Elem ''div'' [cls ''meta muted'']
         ([Elem ''div'' [] [Txt ''job '', Txt (jb_id job)],
           Elem ''div'' [] [Txt ''request '', Txt (jb_request_id job)],
           Elem ''div'' [] [Txt ''user '', Txt (jb_user_id job)],
           Elem ''div'' [] [Txt ''project '', Txt (jb_project_id job)]]
          @ showIf (truthy (jb_provider_id job))
              [Elem ''div'' [] [Txt ''provider '', Txt (or_else (jb_provider_id job) [])]]
          @ showIf (truthy (jb_provider_instance_id job))
              [Elem ''div'' [] [Txt ''instance '', Txt (or_else (jb_provider_instance_id job) [])]]
          @ [Elem ''div'' [] [Txt ''Hata '', Txt (or_else (jb_error_code job) (tr ''&mdash;''))]]
          @ showIf (truthy (jb_error_message job))
              [Elem ''div'' [] [Txt (or_else (jb_error_message job) [])]]
          @ [Elem ''div'' [] [Txt (toLocaleString env (jb_created_at job))]]),
       Elem ''div'' [cls ''row'']
         [Elem ''span'' [] [Txt ''Kredi '', Txt (show_int (jb_actual_cost_credits job))],
          Elem ''span'' [cls ''muted'']
            [Txt ''node '', Txt (show_int (jb_provider_reward_credits job))]]]"

definition jobs_view :: "env \<Rightarrow> admin_job list_page \<Rightarrow> 'e html" where
  "jobs_view env s =
    Elem ''div'' [cls ''stack'']
      ([jobs_head s]
       @ showIf (lp_error s \<noteq> None)
           [ErrorMessage env (lp_error s) (Some (tr ''&Idot;stek listesi al&imath;namad&imath;. Sayfay&imath; yenileyip tekrar dene.''))]
       @ showIf (lp_loading s)
           [Loading (Some (tr ''&Idot;stekler y&uuml;kleniyor...'')) (Some (tr ''Son istekler haz&imath;rlan&imath;yor.''))]
       @ showIf (\<not> (lp_loading s) \<and> lp_items s = [])
           [Empty (tr ''Hen&uuml;z istek yok.'') (Some (tr ''&Idot;lk istekten sonra burada g&ouml;r&uuml;n&uuml;r.''))]
       @ showIf (lp_items s \<noteq> [])
           [Elem ''section'' [cls ''card stack'']
              [Elem ''div'' [cls ''surface desktop-only'']
                 [Elem ''table'' []
                    [Elem ''thead'' []
                       [Elem ''tr'' []
                          [Elem ''th'' [] [Txt ''Model''],
                           Elem ''th'' [] [Txt (tr ''Kullan&imath;c&imath;'')],
                           Elem ''th'' [] [Txt ''Durum''],
                           Elem ''th'' [] [Txt ''Kredi''],
                           Elem ''th'' [] [Txt ''Hata''],
                           Elem ''th'' [] [Txt ''Tarih'']]],
                     Elem ''tbody'' [] (map (\<lambda>job. job_row env job) (lp_items s))]],
               Elem ''div'' [cls ''mobile-only mobile-list'']
                 (map (\<lambda>job. job_item env job) (lp_items s))]])"

lemmas jobs_views = jobs_head_def jobs_view_def

text \<open>The three counts are counts of disjoint sets of rows.\<close>

lemma job_classes_disjoint:
  "is_queued j \<Longrightarrow> \<not> is_failed j" "is_queued j \<Longrightarrow> \<not> is_settled (jb_status j)"
  "is_failed j \<Longrightarrow> \<not> is_settled (jb_status j)"
  by (auto simp: is_queued_def is_failed_def is_settled_def)

lemma jobs_counts_rest:
  "jobs_queued s + jobs_failed s + jobs_settled s
     + length (filter (\<lambda>j. \<not> is_queued j \<and> \<not> is_failed j \<and> \<not> is_settled (jb_status j)) (lp_items s))
   = length (lp_items s)"
proof -
  have "length (filter is_queued xs) + length (filter is_failed xs)
        + length (filter (\<lambda>j. is_settled (jb_status j)) xs)
        + length (filter (\<lambda>j. \<not> is_queued j \<and> \<not> is_failed j \<and> \<not> is_settled (jb_status j)) xs)
        = length xs" for xs
    by (induction xs) (auto dest: job_classes_disjoint)
  then show ?thesis by (simp add: jobs_queued_def jobs_failed_def jobs_settled_def)
qed

lemma job_row_silent [simp]: "links (job_row env j) = []" "clicks (job_row env j) = []"
  "links (job_item env j) = []" "clicks (job_item env j) = []"
  by (simp_all add: job_row_def job_item_def showIf_def)

lemma jobs_links: "links (jobs_view env s) = []"
  by (simp add: jobs_views comp_def)

section \<open>Properties\<close>

text \<open>The three counts above the request list never overlap, and together they leave out exactly the
  requests whose status is in none of the three lists, such as \<open>timed_out\<close>.\<close>

theorem jobs_counted:
  "jobs_queued s + jobs_failed s + jobs_settled s + length (filter (\<lambda>j.
       jb_status j \<notin> set [''queued'', ''running'', ''dispatched'', ''failed'', ''error'', ''cancelled'',
         ''settled'', ''completed'', ''success'', ''succeeded'']) (lp_items s)) = length (lp_items s)"
proof -
  have "(\<not> is_queued j \<and> \<not> is_failed j \<and> \<not> is_settled (jb_status j)) =
      (jb_status j \<notin> set [''queued'', ''running'', ''dispatched'', ''failed'', ''error'', ''cancelled'',
         ''settled'', ''completed'', ''success'', ''succeeded''])" for j
    by (auto simp: is_queued_def is_failed_def is_settled_def)
  with jobs_counts_rest [of s] show ?thesis by simp
qed

end
