(* ===== verification/AdminUsage.thy ===== *)
theory AdminUsage
  imports Pages
begin

text \<open>
  \<open>apps/web/app/admin/usage/page.tsx\<close>: all usage records with their total cost and total provider
  reward.
\<close>

definition admin_usage_step :: "(admin_usage_record list_page, admin_usage_record list option http) machine" where
  "admin_usage_step = list_step listAdminUsage"

definition usage_credits :: "'a usage_record_scheme list \<Rightarrow> int" where
  "usage_credits rows = fold (\<lambda>row sum. sum + us_cost_credits row) rows 0"

definition usage_rewards :: "admin_usage_record list \<Rightarrow> int" where
  "usage_rewards rows = fold (\<lambda>row sum. sum + us_provider_reward_credits row) rows 0"

lemma fold_sum: "fold (\<lambda>row sum. sum + f row) rows (a :: int) = a + sum_list (map f rows)"
  by (induction rows arbitrary: a) simp_all

lemma usage_totals:
  "usage_credits rows = sum_list (map us_cost_credits rows)"
  "usage_rewards rows' = sum_list (map us_provider_reward_credits rows')"
  by (simp_all add: usage_credits_def usage_rewards_def fold_sum)

section \<open>View\<close>

definition admin_usage_head :: "admin_usage_record list_page \<Rightarrow> 'e html" where
  "admin_usage_head s =
    Elem ''section'' [cls ''card stack split-panel'', Attr ''style'' ''padding: 32'']
      [Elem ''div'' [cls ''stack'']
         [Elem ''span'' [cls ''eyebrow''] [Txt (tr ''Kullan&imath;m'')],
          Elem ''h1'' [] [Txt (tr ''Kullan&imath;m ve node kazanc&imath;n&imath; g&ouml;r.'')],
          Elem ''p'' [cls ''muted'', Attr ''style'' ''maxWidth: 620'']
            [Txt (tr ''Bu kay&imath;tlar kullan&imath;c&imath; maliyetini ve node kazanc&imath;n&imath; birlikte g&ouml;sterir.'')]],
       Elem ''div'' [cls ''grid stat-strip'']
         [Elem ''div'' [cls ''metric'']
            [Elem ''strong'' [] [Txt (show_nat (length (lp_items s)))],
             Elem ''span'' [cls ''muted''] [Txt (tr ''Kay&imath;t'')]],
          Elem ''div'' [cls ''metric'']
            [Elem ''strong'' [] [Txt (show_int (usage_credits (lp_items s)))],
             Elem ''span'' [cls ''muted''] [Txt ''Toplam maliyet'']],
          Elem ''div'' [cls ''metric'']
            [Elem ''strong'' [] [Txt (show_int (usage_rewards (lp_items s)))],
             Elem ''span'' [cls ''muted''] [Txt (tr ''Toplam node kazanc&imath;'')]]]]"

definition usage_row :: "env \<Rightarrow> admin_usage_record \<Rightarrow> 'e html" where
  "usage_row env row =
    Elem ''tr'' []
      [Elem ''td'' []
         [Elem ''strong'' [] [Txt (us_model_slug row)],
          Elem ''div'' [cls ''muted''] [Txt ''model '', Txt (us_model_id row)],
          Elem ''div'' [cls ''muted''] [Txt (tr ''kay&imath;t ''), Txt (us_id row)]],
       Elem ''td'' []
         [Elem ''strong'' [] [Txt (us_user_id row)],
          Elem ''div'' [cls ''muted''] [Txt ''project '', Txt (us_project_id row)],
          Elem ''div'' [cls ''muted''] [Txt ''job '', Txt (us_job_id row)]],
       Elem ''td'' []
         ([Txt (or_else (us_provider_id row) (tr ''&mdash;''))]
          @ showIf (truthy (us_provider_instance_id row))
              [Elem ''div'' [cls ''muted'']
                 [Txt ''instance '', Txt (or_else (us_provider_instance_id row) [])]]),
       Elem ''td'' []
         [Txt (show_int (us_total_tokens row)),
          Elem ''div'' [cls ''muted'']
            [Txt (tr ''giri&scedil; ''),
             Txt (show_int (us_input_tokens row)),
             Txt (tr '' / &ccedil;&imath;k&imath;&scedil; ''),
             Txt (show_int (us_output_tokens row))]],
       Elem ''td'' []
         [Txt (show_int (us_cost_credits row)),
          Elem ''div'' [cls ''muted'']
            [Txt ''node '', Txt (show_int (us_provider_reward_credits row))]],
       Elem ''td'' [] [StatusPill (Some (us_status row))],
       Elem ''td'' [] [Txt (toLocaleString env (us_created_at row))]]"

definition usage_item :: "env \<Rightarrow> admin_usage_record \<Rightarrow> 'e html" where
  "usage_item env row =
    Elem ''div'' [cls ''mobile-item'']
      [Elem ''div'' [cls ''row'']
         [Elem ''strong'' [] [Txt (us_model_slug row)], StatusPill (Some (us_status row))],
       Elem ''div'' [cls ''meta muted'']
         ([Elem ''div'' [] [Txt ''user '', Txt (us_user_id row)],
           Elem ''div'' [] [Txt ''project '', Txt (us_project_id row)],
           Elem ''div'' [] [Txt ''job '', Txt (us_job_id row)],
           Elem ''div'' [] [Txt ''provider '', Txt (or_else (us_provider_id row) (tr ''&mdash;''))]]
          @ showIf (truthy (us_provider_instance_id row))
              [Elem ''div'' [] [Txt ''instance '', Txt (or_else (us_provider_instance_id row) [])]]
          @ [Elem ''div'' [] [Txt (show_int (us_total_tokens row)), Txt '' token''],
             Elem ''div'' []
               [Txt (tr ''giri&scedil; ''),
                Txt (show_int (us_input_tokens row)),
                Txt (tr '' / &ccedil;&imath;k&imath;&scedil; ''),
                Txt (show_int (us_output_tokens row))],
             Elem ''div'' [] [Txt (toLocaleString env (us_created_at row))]]),
       Elem ''div'' [cls ''row'']
         [Elem ''span'' [] [Txt ''Kredi '', Txt (show_int (us_cost_credits row))],
          Elem ''span'' [cls ''muted'']
            [Txt ''node '', Txt (show_int (us_provider_reward_credits row))]]]"

definition admin_usage_view :: "env \<Rightarrow> admin_usage_record list_page \<Rightarrow> 'e html" where
  "admin_usage_view env s =
    Elem ''div'' [cls ''stack'']
      ([admin_usage_head s]
       @ showIf (lp_error s \<noteq> None)
           [ErrorMessage env (lp_error s) (Some (tr ''Kullan&imath;m kay&imath;tlar&imath; al&imath;namad&imath;. Sayfay&imath; yenileyip tekrar dene.''))]
       @ showIf (lp_loading s)
           [Loading (Some (tr ''Kullan&imath;m kay&imath;tlar&imath; y&uuml;kleniyor...'')) (Some (tr ''Son kay&imath;tlar haz&imath;rlan&imath;yor.''))]
       @ showIf (\<not> (lp_loading s) \<and> lp_items s = [])
           [Empty (tr ''Hen&uuml;z kullan&imath;m kayd&imath; yok.'') (Some (tr ''&Idot;lk tamamlanan istekten sonra burada g&ouml;r&uuml;n&uuml;r.''))]
       @ showIf (lp_items s \<noteq> [])
           [Elem ''section'' [cls ''card stack'']
              [Elem ''div'' [cls ''surface-head'']
                 [Elem ''div'' []
                    [Elem ''h2'' [] [Txt (tr ''Kullan&imath;m kay&imath;tlar&imath;'')],
                     Elem ''p'' [cls ''muted'']
                       [Txt (tr ''Model, maliyet, node ve durum birlikte g&ouml;r&uuml;n&uuml;r.'')]]],
               Elem ''div'' [cls ''surface desktop-only'']
                 [Elem ''table'' []
                    [Elem ''thead'' []
                       [Elem ''tr'' []
                          [Elem ''th'' [] [Txt ''Model''],
                           Elem ''th'' [] [Txt (tr ''Kullan&imath;c&imath; / Proje'')],
                           Elem ''th'' [] [Txt ''Node''],
                           Elem ''th'' [] [Txt ''Token''],
                           Elem ''th'' [] [Txt ''Kredi''],
                           Elem ''th'' [] [Txt ''Durum''],
                           Elem ''th'' [] [Txt ''Tarih'']]],
                     Elem ''tbody'' [] (map (\<lambda>row. usage_row env row) (lp_items s))]],
               Elem ''div'' [cls ''mobile-only mobile-list'']
                 (map (\<lambda>row. usage_item env row) (lp_items s))]])"

lemmas admin_usage_views = admin_usage_head_def admin_usage_view_def

lemma usage_row_silent [simp]: "links (usage_row env r) = []" "clicks (usage_row env r) = []"
  "links (usage_item env r) = []" "clicks (usage_item env r) = []"
  by (simp_all add: usage_row_def usage_item_def showIf_def)

lemma admin_usage_links: "links (admin_usage_view env s) = []"
  by (simp add: admin_usage_views comp_def)

end
