(* ===== verification/UsagePage.thy ===== *)
theory UsagePage
  imports AdminJobs AdminUsage
begin

text \<open>
  \<open>apps/web/app/dashboard/usage/page.tsx\<close>: the request history with its filter form.
  \<open>up_listing\<close> holds the filter of every unanswered search, oldest first: the button stays enabled
  while a search runs, so several can be in flight.
\<close>

record usage_page =
  up_projects :: "project list"
  up_usage :: "usage_record list"
  up_projectID :: string
  up_model :: string
  up_from :: string
  up_to :: string
  up_error :: "js_error option"
  up_loading :: bool
  up_mounting :: bool
  up_listing :: "usage_filter list"

datatype usage_event =
    UsageMounted "(project list option http, usage_record list option http) outcome2"
  | SetProject string
  | SetModel string
  | SetFrom string
  | SetTo string
  | Filter
  | UsageListed nat "usage_record list option http"

definition usage_start :: usage_page where
  "usage_start = \<lparr>up_projects = [], up_usage = [], up_projectID = [], up_model = [], up_from = [],
     up_to = [], up_error = None, up_loading = True, up_mounting = True, up_listing = []\<rparr>"

section \<open>Handlers\<close>

text \<open>\<open>new Date(value).toISOString()\<close> raises a \<open>RangeError\<close> on a text that is no date.\<close>

definition toRFC3339 :: "env \<Rightarrow> string \<Rightarrow> string option" where
  "toRFC3339 env value = (if value \<noteq> [] then toISOString env value else Some [])"

definition usage_request :: "env \<Rightarrow> usage_page \<Rightarrow> usage_filter option" where
  "usage_request env s =
     (case (toRFC3339 env (up_from s), toRFC3339 env (up_to s)) of
        (Some a, Some b) \<Rightarrow>
          Some \<lparr>uf_projectID = up_projectID s, uf_from = a, uf_to = b, uf_model = up_model s\<rparr>
      | _ \<Rightarrow> None)"

text \<open>\<open>load\<close>: when the dates do not convert, the exception leaves the handler after its first two
  assignments.\<close>

definition usage_load :: "env \<Rightarrow> usage_page \<Rightarrow> usage_page" where
  "usage_load env s =
     (let s' = s\<lparr>up_loading := True, up_error := None\<rparr>
      in case usage_request env s of
        None \<Rightarrow> s'
      | Some flt \<Rightarrow> s'\<lparr>up_listing := up_listing s @ [flt]\<rparr>)"

definition usage_mounted :: "js_error + project list \<times> usage_record list \<Rightarrow> usage_page \<Rightarrow> usage_page" where
  "usage_mounted r s =
     (let s' = s\<lparr>up_mounting := False, up_loading := False\<rparr>
      in case r of
        Inl e \<Rightarrow> s'\<lparr>up_error := Some e\<rparr>
      | Inr (projects, usage) \<Rightarrow> s'\<lparr>up_projects := projects, up_usage := usage\<rparr>)"

definition usage_listed :: "nat \<Rightarrow> js_error + usage_record list \<Rightarrow> usage_page \<Rightarrow> usage_page" where
  "usage_listed i r s =
     (let s' = s\<lparr>up_listing := drop_nth i (up_listing s), up_loading := False\<rparr>
      in case r of Inl e \<Rightarrow> s'\<lparr>up_error := Some e\<rparr> | Inr us \<Rightarrow> s'\<lparr>up_usage := us\<rparr>)"

fun usage_step :: "env \<Rightarrow> usage_page \<Rightarrow> usage_event \<Rightarrow> usage_page option" where
  "usage_step env s (UsageMounted r) =
     (if up_mounting s
      then map_option (\<lambda>r. usage_mounted r s)
             (settle2 (c_settle listProjects) (c_settle (listUsage no_filter)) r)
      else None)"
| "usage_step env s (SetProject v) =
     (if v = [] \<or> v \<in> pr_id ` set (up_projects s) then Some (s\<lparr>up_projectID := v\<rparr>) else None)"
| "usage_step env s (SetModel v) = Some (s\<lparr>up_model := v\<rparr>)"
| "usage_step env s (SetFrom v) = Some (s\<lparr>up_from := v\<rparr>)"
| "usage_step env s (SetTo v) = Some (s\<lparr>up_to := v\<rparr>)"
| "usage_step env s Filter = Some (usage_load env s)"
| "usage_step env s (UsageListed i h) =
     (if i < length (up_listing s)
      then Some (usage_listed i (c_settle (listUsage (up_listing s ! i)) h) s)
      else None)"

section \<open>Derived values\<close>

text \<open>\<open>Object.fromEntries\<close>: the last entry of a name wins.\<close>

definition projectNames :: "project list \<Rightarrow> string \<rightharpoonup> string" where
  "projectNames projects = map_of (rev (map (\<lambda>p. (pr_id p, pr_name p)) projects))"

definition usage_settled :: "usage_page \<Rightarrow> nat" where
  "usage_settled s = length (filter (\<lambda>row. is_settled (us_status row)) (up_usage s))"

definition usage_latest :: "usage_page \<Rightarrow> string option" where
  "usage_latest s = (case up_usage s of [] \<Rightarrow> None | row # _ \<Rightarrow> Some (us_created_at row))"

section \<open>View\<close>

definition usage_head :: "env \<Rightarrow> usage_page \<Rightarrow> usage_event html" where
  "usage_head env s =
    Elem ''section'' [cls ''card stack'', Attr ''style'' ''padding: 32'']
      [Elem ''div'' [cls ''split-panel'']
         [Elem ''div'' [cls ''stack'']
            [Elem ''span'' [cls ''eyebrow''] [Txt (tr ''&Idot;stekler'')],
             Elem ''h1'' [] [Txt (tr ''&Idot;steklerini g&ouml;r.'')],
             Elem ''p'' [cls ''muted'', Attr ''style'' ''maxWidth: 620'']
               [Txt (tr ''Model, durum, tarih ve kredi burada g&ouml;r&uuml;n&uuml;r.'')],
             Elem ''div'' [cls ''row'']
               [Elem ''Link'' [cls ''button'', Attr ''href'' ''/dashboard/api-keys'']
                  [Txt (tr ''API&apos;ye d&ouml;n'')],
                Elem ''Link'' [cls ''button secondary'', Attr ''href'' ''/dashboard/credits'']
                  [Txt (tr ''Bakiyeyi g&ouml;r'')]]],
          Elem ''div'' [cls ''grid stat-strip'']
            [Elem ''div'' [cls ''metric'']
               [Elem ''strong'' [] [Txt (show_nat (length (up_usage s)))],
                Elem ''span'' [cls ''muted''] [Txt (tr ''Toplam kay&imath;t'')]],
             Elem ''div'' [cls ''metric'']
               [Elem ''strong'' [] [Txt (show_nat (usage_settled s))],
                Elem ''span'' [cls ''muted''] [Txt ''Tamamlanan'']],
             Elem ''div'' [cls ''metric'']
               [Elem ''strong'' [] [Txt (show_int (usage_credits (up_usage s)))],
                Elem ''span'' [cls ''muted''] [Txt ''Toplam kredi'']],
             Elem ''div'' [cls ''metric'']
               [Elem ''strong'' []
                  (if truthy (usage_latest s)
                   then [Txt (toLocaleDateString env (or_else (usage_latest s) []))]
                   else [Txt (tr ''&mdash;'')]),
                Elem ''span'' [cls ''muted''] [Txt (tr ''Son kay&imath;t'')]]]]]"

definition usage_form :: "usage_page \<Rightarrow> usage_event html" where
  "usage_form s =
    Elem ''form'' [cls ''card stack'', OnSubmit Filter]
      [Elem ''div'' [cls ''surface-head'']
         [Elem ''div'' []
            [Elem ''h2'' [] [Txt ''Filtreler''],
             Elem ''p'' [cls ''muted''] [Txt (tr ''Gerekirse proje, model veya tarih se&ccedil;.'')]]],
       Elem ''div'' [cls ''grid'']
         [Elem ''div'' [cls ''field'']
            [Elem ''label'' [Attr ''htmlFor'' ''project''] [Txt ''Proje''],
             Elem ''select''
               [Attr ''id'' ''project'',
                Attr ''value'' (up_projectID s),
                OnChange SetProject]
               ([Elem ''option'' [Attr ''value'' []] [Txt (tr ''T&uuml;m&uuml;'')]]
                @ map (\<lambda>project.
                      Elem ''option'' [Attr ''value'' (pr_id project)] [Txt (pr_name project)])
                    (up_projects s))],
          Elem ''div'' [cls ''field'']
            [Elem ''label'' [Attr ''htmlFor'' ''model''] [Txt (tr ''Model ad&imath;'')],
             Elem ''input''
               [Attr ''id'' ''model'',
                Attr ''value'' (up_model s),
                OnChange SetModel,
                Attr ''placeholder'' (tr ''T&uuml;m modeller'')]
               []],
          Elem ''div'' [cls ''field'']
            [Elem ''label'' [Attr ''htmlFor'' ''from''] [Txt (tr ''Ba&scedil;lang&imath;&ccedil;'')],
             Elem ''input''
               [Attr ''id'' ''from'',
                Attr ''type'' ''datetime-local'',
                Attr ''value'' (up_from s),
                OnChange SetFrom]
               []],
          Elem ''div'' [cls ''field'']
            [Elem ''label'' [Attr ''htmlFor'' ''to''] [Txt (tr ''Biti&scedil;'')],
             Elem ''input''
               [Attr ''id'' ''to'',
                Attr ''type'' ''datetime-local'',
                Attr ''value'' (up_to s),
                OnChange SetTo]
               []]],
       Elem ''div'' [cls ''row'']
         [Elem ''button'' [cls ''button'', Attr ''type'' ''submit''] [Txt ''Filtrele'']]]"

definition usage_none :: "usage_page \<Rightarrow> usage_event html list" where
  "usage_none s =
    showIf (\<not> (up_loading s) \<and> up_usage s = [])
      [Elem ''div'' [cls ''card stack'']
         [Empty (tr ''Hen&uuml;z istek yok.'') (Some (tr ''&Idot;lk iste&gbreve;i g&ouml;nderdikten sonra kay&imath;tlar burada g&ouml;r&uuml;n&uuml;r.'')),
          Elem ''div'' [cls ''row'']
            [Elem ''Link'' [cls ''button'', Attr ''href'' ''/dashboard/api-keys'']
               [Txt (tr ''API&apos;ye git'')]]]]"

definition request_row :: "env \<Rightarrow> usage_page \<Rightarrow> usage_record \<Rightarrow> usage_event html" where
  "request_row env s row =
    Elem ''tr'' []
      [Elem ''td'' []
         [Txt (or_else (projectNames (up_projects s) (us_project_id row)) (tr ''&mdash;''))],
       Elem ''td'' []
         ([Elem ''strong'' [] [Txt (us_model_slug row)],
           Elem ''div'' [cls ''muted'']
             [Txt ''Toplam '', Txt (show_int (us_total_tokens row)), Txt '' token'']]
          @ showIf ((us_latency_ms row) \<noteq> None \<and> (us_latency_ms row) \<noteq> Some 0)
              [Elem ''div'' [cls ''muted'']
                 [Txt (tr ''Yan&imath;t ''),
                  Txt (case us_latency_ms row of None \<Rightarrow> [] | Some i \<Rightarrow> show_int i),
                  Txt '' ms'']]),
       Elem ''td'' [] [StatusPill (Some (us_status row))],
       Elem ''td'' [] [Txt (show_int (us_cost_credits row))],
       Elem ''td'' [] [Txt (toLocaleString env (us_created_at row))]]"

definition request_item :: "env \<Rightarrow> usage_page \<Rightarrow> usage_record \<Rightarrow> usage_event html" where
  "request_item env s row =
    Elem ''div'' [cls ''mobile-item'']
      [Elem ''div'' [cls ''row'']
         [Elem ''strong'' [] [Txt (us_model_slug row)], StatusPill (Some (us_status row))],
       Elem ''div'' [cls ''meta muted'']
         ([Elem ''div'' []
             [Txt ''Proje: '',
              Txt (or_else (projectNames (up_projects s) (us_project_id row)) (tr ''&mdash;''))],
           Elem ''div'' [] [Txt (toLocaleString env (us_created_at row))],
           Elem ''div'' [] [Txt ''Toplam '', Txt (show_int (us_total_tokens row)), Txt '' token'']]
          @ showIf ((us_latency_ms row) \<noteq> None \<and> (us_latency_ms row) \<noteq> Some 0)
              [Elem ''div'' []
                 [Txt (tr ''Yan&imath;t ''),
                  Txt (case us_latency_ms row of None \<Rightarrow> [] | Some i \<Rightarrow> show_int i),
                  Txt '' ms'']]),
       Elem ''div'' [cls ''row'']
         [Elem ''span'' [] [Txt ''Kredi '', Txt (show_int (us_cost_credits row))]]]"

definition usage_table :: "env \<Rightarrow> usage_page \<Rightarrow> usage_event html list" where
  "usage_table env s =
    showIf (up_usage s \<noteq> [])
      [Elem ''section'' [cls ''card stack'']
         [Elem ''div'' [cls ''surface-head'']
            [Elem ''div'' []
               [Elem ''h2'' [] [Txt (tr ''&Idot;stek ge&ccedil;mi&scedil;i'')],
                Elem ''p'' [cls ''muted''] [Txt (tr ''Yeni kay&imath;tlar &uuml;stte.'')]]],
          Elem ''div'' [cls ''surface desktop-only'']
            [Elem ''table'' []
               [Elem ''thead'' []
                  [Elem ''tr'' []
                     [Elem ''th'' [] [Txt ''Proje''],
                      Elem ''th'' [] [Txt ''Model''],
                      Elem ''th'' [] [Txt ''Durum''],
                      Elem ''th'' [] [Txt ''Kredi''],
                      Elem ''th'' [] [Txt ''Tarih'']]],
                Elem ''tbody'' [] (map (\<lambda>row. request_row env s row) (up_usage s))]],
          Elem ''div'' [cls ''mobile-only mobile-list'']
            (map (\<lambda>row. request_item env s row) (up_usage s))]]"

definition usage_view :: "env \<Rightarrow> usage_page \<Rightarrow> usage_event html" where
  "usage_view env s =
    Elem ''div'' [cls ''stack'']
      ([usage_head env s, usage_form s]
       @ showIf (up_error s \<noteq> None)
           [ErrorMessage env (up_error s) (Some (tr ''&Idot;stek listesi al&imath;namad&imath;. Sayfay&imath; yenileyip tekrar dene.''))]
       @ showIf (up_loading s)
           [Loading (Some (tr ''&Idot;stekler y&uuml;kleniyor...'')) (Some (tr ''Son isteklerin haz&imath;rlan&imath;yor.''))]
       @ usage_none s
       @ usage_table env s)"

lemma request_row_silent [simp]:
  "clicks (request_row env s r) = []" "clicks (request_item env s r) = []"
  "submits (request_row env s r) = []" "submits (request_item env s r) = []"
  "links (request_row env s r) = []" "links (request_item env s r) = []"
  by (simp_all add: request_row_def request_item_def)

lemma usage_parts [simp]:
  "clicks (usage_head env s) = []" "submits (usage_head env s) = []"
  "all_clicks (usage_none s) = []" "all_submits (usage_none s) = []"
  "all_clicks (usage_table env s) = []" "all_submits (usage_table env s) = []"
  by (simp_all add: usage_head_def usage_none_def usage_table_def comp_def)

text \<open>The filter form can be sent in every state.\<close>

lemma usage_submits: "submits (usage_view env s) = [Filter]"
  by (simp add: usage_view_def usage_form_def field_ok_def)

section \<open>Invariant\<close>

text \<open>With dates that convert, no search in flight means that the page is not loading; the project
  filter is a loaded project.\<close>

definition usage_inv :: "env \<Rightarrow> usage_page \<Rightarrow> bool" where
  "usage_inv env s \<longleftrightarrow>
     (up_loading s \<longrightarrow> up_mounting s \<or> up_listing s \<noteq> [] \<or> (\<exists>v. v \<noteq> [] \<and> toISOString env v = None))
     \<and> (up_projectID s = [] \<or> up_projectID s \<in> pr_id ` set (up_projects s))
     \<and> (up_mounting s \<longrightarrow> up_projects s = [])"

lemma usage_inv_load: "usage_inv env s \<Longrightarrow> usage_inv env (usage_load env s)"
proof -
  assume "usage_inv env s"
  moreover have "\<exists>v. v \<noteq> [] \<and> toISOString env v = None" if "usage_request env s = None"
    using that by (auto simp: usage_request_def toRFC3339_def split: option.splits if_splits)
  ultimately show ?thesis
    by (simp add: usage_inv_def usage_load_def Let_def split: option.split)
qed

lemma usage_inv_others:
  "usage_inv env s \<Longrightarrow> up_mounting s \<Longrightarrow> usage_inv env (usage_mounted r s)"
  "usage_inv env s \<Longrightarrow> usage_inv env (usage_listed i q s)"
  "usage_inv env s \<Longrightarrow> v = [] \<or> v \<in> pr_id ` set (up_projects s) \<Longrightarrow> usage_inv env (s\<lparr>up_projectID := v\<rparr>)"
  "usage_inv env s \<Longrightarrow> usage_inv env (s\<lparr>up_model := v\<rparr>)" "usage_inv env s \<Longrightarrow> usage_inv env (s\<lparr>up_from := v\<rparr>)"
  "usage_inv env s \<Longrightarrow> usage_inv env (s\<lparr>up_to := v\<rparr>)"
  by (auto simp: usage_inv_def usage_mounted_def usage_listed_def Let_def split: sum.splits)

lemma usage_inv_start: "usage_inv env usage_start"
  by (simp add: usage_inv_def usage_start_def)

lemma usage_inv_step: "usage_inv env s \<Longrightarrow> usage_step env s e = Some t \<Longrightarrow> usage_inv env t"
  by (cases e) (auto intro: usage_inv_load usage_inv_others split: if_splits)

interpretation usage_page: page_machine "usage_step env" usage_start "usage_inv env"
  by unfold_locales (auto intro: usage_inv_step usage_inv_start)

section \<open>Properties\<close>

text \<open>A search that is sent while the first load is unanswered is overwritten by it: whatever the
  answers are, the page then shows the unfiltered requests under the chosen model, says that it has
  loaded, and has no search left in flight.\<close>

theorem usage_stale_mount:
  "map_option (\<lambda>s. (up_model s, up_usage s, up_listing s, up_loading s))
     (run (usage_step env) usage_start [SetModel m, Filter, UsageListed 0 (ok_body (Some found)),
        UsageMounted (All2 (ok_body (Some ps)) (ok_body (Some everything)))])
   = Some (m, everything, [], False)"
  by (simp add: usage_start_def usage_load_def usage_request_def toRFC3339_def usage_listed_def
      usage_mounted_def list_calls get_list_def Let_def)

text \<open>A search asks for exactly the four texts of the form, its two dates converted, it is the last
  of the unanswered ones, and it clears an old error; in a state reached from the start the loading
  display can outlast all requests only when a date did not convert.\<close>

theorem usage_search:
  assumes "run (usage_step env) usage_start es = Some s" "usage_step env s Filter = Some t"
    "toRFC3339 env (up_from s) = Some a" "toRFC3339 env (up_to s) = Some b"
  shows "up_listing t = up_listing s @ [\<lparr>uf_projectID = up_projectID s, uf_from = a, uf_to = b, uf_model = up_model s\<rparr>]
     \<and> up_error t = None \<and> up_loading t
     \<and> (up_projectID s = [] \<or> up_projectID s \<in> pr_id ` set (up_projects s))
     \<and> ((\<forall>v. v \<noteq> [] \<longrightarrow> toISOString env v \<noteq> None) \<and> \<not> up_mounting s \<and> up_listing s = [] \<longrightarrow> \<not> up_loading s)"
proof -
  have "usage_inv env s" using assms(1) by (rule usage_page.run_inv)
  moreover have "t = usage_load env s" using assms(2) by simp
  ultimately show ?thesis
    using assms(3,4) by (auto simp: usage_inv_def usage_load_def usage_request_def Let_def)
qed

theorem usage_search_witness:
  "\<exists>t. usage_step \<lparr>toLocaleString = id, toLocaleDateString = id, toISOString = Some,
       numberText = (\<lambda>_. []), typeErrorText = []\<rparr> (usage_start\<lparr>up_model := ''m''\<rparr>) Filter = Some t
     \<and> up_listing t = [\<lparr>uf_projectID = [], uf_from = [], uf_to = [], uf_model = ''m''\<rparr>]"
proof -
  let ?env = "\<lparr>toLocaleString = id, toLocaleDateString = id, toISOString = Some,
       numberText = (\<lambda>_. []), typeErrorText = []\<rparr>"
  let ?s = "usage_start\<lparr>up_model := ''m''\<rparr>"
  have r: "run (usage_step ?env) usage_start [SetModel ''m''] = Some ?s" by simp
  have t: "usage_step ?env ?s Filter = Some (usage_load ?env ?s)" by simp
  from usage_search [OF r t, of "[]" "[]"] t show ?thesis
    by (simp add: toRFC3339_def usage_start_def)
qed

end
