(* ===== verification/ModelsPage.thy ===== *)
theory ModelsPage
  imports Pages
begin

text \<open>
  \<open>apps/web/app/dashboard/models/page.tsx\<close>: the catalog a customer chooses a model from. The page
  has no event but the settlement of \<open>listModels\<close>.
\<close>

definition models_step :: "(model list_page, model list option http) machine" where
  "models_step = list_step listModels"

section \<open>View\<close>

definition models_head :: "'e html" where
  "models_head =
    Elem ''section'' [cls ''card stack'', Attr ''style'' ''padding: 32'']
      [Elem ''div'' [cls ''split-panel'']
         [Elem ''div'' [cls ''stack'']
            [Elem ''span'' [cls ''eyebrow''] [Txt ''Modeller''],
             Elem ''h1'' [] [Txt (tr ''&Idot;lk iste&gbreve;in i&ccedil;in model se&ccedil;.'')],
             Elem ''p'' [cls ''muted'', Attr ''style'' ''maxWidth: 620'']
               [Txt (tr ''API ad&imath;, k&imath;sa a&ccedil;&imath;klama ve temel kredi bilgisi burada g&ouml;r&uuml;n&uuml;r.'')],
             Elem ''div'' [cls ''row'']
               [Elem ''Link'' [cls ''button'', Attr ''href'' ''/dashboard/api-keys'']
                  [Txt (tr ''API&apos;ye d&ouml;n'')],
                Elem ''Link'' [cls ''button secondary'', Attr ''href'' ''/dashboard/usage'']
                  [Txt (tr ''&Idot;stekleri g&ouml;r'')]]],
          Elem ''div'' [cls ''card stack secondary-card'', Attr ''style'' ''padding: 22'']
            [Elem ''h2'' [] [Txt (tr ''Ne laz&imath;m?'')],
             Elem ''ul'' [cls ''checklist'']
               [Elem ''li'' []
                  [Elem ''strong'' [] [Txt (tr ''API ad&imath;'')],
                   Elem ''span'' [cls ''muted''] [Txt (tr ''&Idot;stekte bu ad&imath; kullan.'')]],
                Elem ''li'' []
                  [Elem ''strong'' [] [Txt (tr ''K&imath;sa a&ccedil;&imath;klama'')],
                   Elem ''span'' [cls ''muted''] [Txt (tr ''H&imath;zl&imath;ca se&ccedil;im yap.'')]],
                Elem ''li'' []
                  [Elem ''strong'' [] [Txt ''Kredi bilgisi''],
                   Elem ''span'' [cls ''muted''] [Txt (tr ''Tahmini maliyeti g&ouml;r.'')]]]]]]"

definition model_card :: "env \<Rightarrow> model \<Rightarrow> 'e html" where
  "model_card env model =
    Elem ''div'' [cls ''card stack'']
      [Elem ''div'' [cls ''surface-head'']
         ([Elem ''div'' []
             [Elem ''h2'' [] [Txt (md_display_name model)],
              Elem ''p'' [cls ''muted''] [Txt (tr ''API ad&imath;: ''), Txt (md_slug model)]]]
          @ showIf (md_status model \<noteq> ''active'')
              [StatusPill (Some (md_status model))]),
       Elem ''p'' [cls ''muted''] [Txt (md_description model)],
       Elem ''div'' [cls ''row'']
         [Elem ''span'' [cls ''pill'']
            [Txt (tr ''Giri&scedil; ''), Txt (show_int (md_input_credit_per_1k model))],
          Elem ''span'' [cls ''pill'']
            [Txt (tr ''&Ccedil;&imath;k&imath;&scedil; ''),
             Txt (show_int (md_output_credit_per_1k model))]],
       Elem ''div'' [cls ''stack muted'']
         [Elem ''div'' [] [Txt (tr ''Ba&gbreve;lam: ''), Txt (show_int (md_context_length model))],
          Elem ''div'' []
            (if md_community_allowed model
             then [Txt (tr ''Topluluk node&apos;lar&imath;nda &ccedil;al&imath;&scedil;abilir.'')]
             else [Txt (tr ''Sadece onayl&imath; node&apos;larda &ccedil;al&imath;&scedil;&imath;r.'')])]]"

definition models_view :: "env \<Rightarrow> model list_page \<Rightarrow> 'e html" where
  "models_view env s =
    Elem ''div'' [cls ''stack'']
      ([models_head]
       @ showIf (lp_error s \<noteq> None)
           [ErrorMessage env (lp_error s) (Some (tr ''Model listesi al&imath;namad&imath;. Biraz sonra tekrar dene.''))]
       @ showIf (lp_loading s)
           [Loading (Some (tr ''Modeller y&uuml;kleniyor...'')) (Some (tr ''Kullan&imath;labilir modeller haz&imath;rlan&imath;yor.''))]
       @ showIf (\<not> (lp_loading s) \<and> lp_items s = [])
           [Empty (tr ''&Scedil;u anda kullan&imath;labilir model g&ouml;r&uuml;nm&uuml;yor.'') (Some ''Biraz sonra tekrar kontrol et.'')]
       @ showIf (lp_items s \<noteq> [])
           [Elem ''section'' [cls ''grid summary-grid'']
              (map (\<lambda>model. model_card env model) (lp_items s))])"

lemmas models_views = models_head_def models_view_def

text \<open>Whatever the list holds, the page links only to the key page and the usage page.\<close>

lemma model_card_links [simp]: "links (model_card env m) = []" "clicks (model_card env m) = []"
  by (simp_all add: model_card_def)

lemma models_links:
  "links (models_view env s) = [''/dashboard/api-keys'', ''/dashboard/usage'']"
  by (simp add: models_views comp_def)

end
