(* ===== verification/AppShell.thy ===== *)
theory AppShell
  imports Pages
begin

text \<open>
  \<open>apps/web/components/AppShell.tsx\<close>: the frame of the dashboard and admin pages. On mount it looks
  for a token, asks the API who is signed in, and sends the visitor to the login page when either
  fails. \<open>sh_storage\<close> is the browser's local storage, \<open>sh_visits\<close> the targets of the navigations the
  shell has started, oldest first.
\<close>

section \<open>Navigation items\<close>

record nav_item =
  nv_label :: string
  nv_href :: string
  nv_matches :: "string list"
  nv_note :: "string option"

definition mk_nav :: "string \<Rightarrow> string \<Rightarrow> string list \<Rightarrow> string option \<Rightarrow> nav_item" where
  "mk_nav label href ms note = \<lparr>nv_label = label, nv_href = href, nv_matches = ms, nv_note = note\<rparr>"

lemma mk_nav_sel [simp]:
  "nv_label (mk_nav l h ms n) = l" "nv_href (mk_nav l h ms n) = h"
  "nv_matches (mk_nav l h ms n) = ms" "nv_note (mk_nav l h ms n) = n"
  by (simp_all add: mk_nav_def)

definition dashboardLinks :: "nav_item list" where
  "dashboardLinks =
     [mk_nav (tr ''Ba&scedil;lang&imath;&ccedil;'') ''/dashboard''
        [] (Some (tr ''&Idot;lk ba&scedil;ar&imath;'')),
      mk_nav (''API'') ''/dashboard/api-keys''
        [''/dashboard/projects'', ''/dashboard/api-keys'', ''/dashboard/models''] (Some (''Anahtar ve istek'')),
      mk_nav (tr ''&Idot;stekler'') ''/dashboard/usage''
        [] (Some (tr ''Ge&ccedil;mi&scedil;'')),
      mk_nav (''Bakiye'') ''/dashboard/credits''
        [] (Some (''Kredi'')),
      mk_nav (''Node'') ''/dashboard/providers''
        [] (Some (''Kurulum''))]"

definition adminLinks :: "nav_item list" where
  "adminLinks =
     [mk_nav (tr ''&Idot;nceleme'') ''/admin/providers''
        [''/admin'', ''/admin/providers'', ''/admin/provider-models''] (Some (tr ''Bekleyen i&scedil;ler'')),
      mk_nav (''Modeller'') ''/admin/models''
        [] (Some (''Katalog'')),
      mk_nav (tr ''&Idot;stekler'') ''/admin/jobs''
        [''/admin/jobs'', ''/admin/usage''] (Some (''Sinyaller'')),
      mk_nav (''Krediler'') ''/admin/wallets''
        [] (Some (tr ''D&uuml;zeltme'')),
      mk_nav (''Denetim'') ''/admin/audit-log''
        [] (Some (tr ''Kay&imath;t''))]"

definition isActive :: "string \<Rightarrow> string \<Rightarrow> string list \<Rightarrow> bool" where
  "isActive pathname href ms \<longleftrightarrow>
     pathname = href \<or> (\<exists>m \<in> set ms. pathname = m \<or> prefix (m @ ''/'') pathname)"

definition nav_class :: "nav_item \<Rightarrow> string \<Rightarrow> bool \<Rightarrow> string" where
  "nav_class item pathname mobile =
     (let active = isActive pathname (nv_href item) (nv_matches item)
      in if mobile then trim (''app-mobile-link '' @ (if active then ''active'' else []))
         else trim (''app-nav-link '' @ (if active then ''active'' else [])))"

section \<open>Gate\<close>

datatype shell_mode = DashboardMode | AdminMode

fun mode_text :: "shell_mode \<Rightarrow> string" where
  "mode_text DashboardMode = ''dashboard''"
| "mode_text AdminMode = ''admin''"

record shell =
  sh_mode :: shell_mode
  sh_pathname :: string
  sh_user :: "user option"
  sh_error :: "js_error option"
  sh_storage :: storage
  sh_visits :: "string list"
  sh_pending :: bool
  sh_cancelled :: bool

datatype shell_event = MeSettled "user option http" | Logout | ShellUnmount

text \<open>The first render with the effect that follows it.\<close>

definition shell_start :: "shell_mode \<Rightarrow> string \<Rightarrow> storage \<Rightarrow> shell" where
  "shell_start mode pathname st =
     (let s = \<lparr>sh_mode = mode, sh_pathname = pathname, sh_user = None, sh_error = None,
               sh_storage = st, sh_visits = [], sh_pending = False, sh_cancelled = False\<rparr>
      in if getToken True st = [] then s\<lparr>sh_visits := [''/login'']\<rparr> else s\<lparr>sh_pending := True\<rparr>)"

definition shell_rejected :: "js_error \<Rightarrow> shell \<Rightarrow> shell" where
  "shell_rejected e s =
     (if sh_cancelled s then s
      else s\<lparr>sh_error := Some e, sh_storage := clearToken (sh_storage s),
             sh_visits := sh_visits s @ [''/login'']\<rparr>)"

text \<open>A response without a user: in admin mode reading its role raises a \<open>TypeError\<close> that the catch
  receives; otherwise the user stays absent.\<close>

definition shell_accepted :: "user option \<Rightarrow> shell \<Rightarrow> shell" where
  "shell_accepted u s =
     (if sh_cancelled s then s
      else let s' = s\<lparr>sh_user := u\<rparr>
           in if sh_mode s \<noteq> AdminMode then s'
              else case u of
                None \<Rightarrow> shell_rejected TypeError s'
              | Some v \<Rightarrow> if u_role v \<noteq> ''admin'' then s'\<lparr>sh_visits := sh_visits s @ [''/dashboard'']\<rparr>
                          else s')"

definition shell_settled :: "js_error + user option \<Rightarrow> shell \<Rightarrow> shell" where
  "shell_settled r s =
     (let s' = s\<lparr>sh_pending := False\<rparr>
      in case r of Inl e \<Rightarrow> shell_rejected e s' | Inr u \<Rightarrow> shell_accepted u s')"

definition shell_logout :: "shell \<Rightarrow> shell" where
  "shell_logout s = s\<lparr>sh_storage := clearToken (sh_storage s), sh_visits := sh_visits s @ [''/login'']\<rparr>"

text \<open>Whether the pages inside the shell are rendered.\<close>

definition children_shown :: "shell \<Rightarrow> bool" where
  "children_shown s \<longleftrightarrow> sh_error s = None \<and> sh_user s \<noteq> None"

fun shell_step :: "shell \<Rightarrow> shell_event \<Rightarrow> shell option" where
  "shell_step s (MeSettled h) =
     (if sh_pending s then Some (shell_settled (c_settle me h) s) else None)"
| "shell_step s Logout =
     (if children_shown s \<and> \<not> sh_cancelled s then Some (shell_logout s) else None)"
| "shell_step s ShellUnmount =
     (if sh_cancelled s then None else Some (s\<lparr>sh_cancelled := True\<rparr>))"

section \<open>Texts\<close>

definition nav_items :: "shell_mode \<Rightarrow> nav_item list" where
  "nav_items mode = (if mode = AdminMode then adminLinks else dashboardLinks)"

definition section_label :: "shell_mode \<Rightarrow> string" where
  "section_label mode = (if mode = AdminMode then tr ''Y&ouml;netim'' else tr ''&Uuml;r&uuml;n'')"

definition section_note :: "shell_mode \<Rightarrow> string" where
  "section_note mode =
     (if mode = AdminMode then tr ''Bekleyen i&scedil;leri kapat. Sonra kay&imath;tlar&imath; kontrol et.''
      else tr ''&Ouml;nce API. Node sonra.'')"

definition display_name :: "user \<Rightarrow> string" where
  "display_name user =
     (if u_display_name user \<noteq> [] \<and> u_display_name user \<noteq> ''User'' then u_display_name user
      else before_char (CHR ''@'') (u_email user))"

section \<open>View\<close>

definition NavLink :: "nav_item \<Rightarrow> string \<Rightarrow> bool \<Rightarrow> 'e html" where
  "NavLink item pathname mobile =
    Elem ''Link'' [cls (nav_class item pathname mobile), Attr ''href'' (nv_href item)]
      ([Elem ''span'' [] [Txt (nv_label item)]]
       @ showIf (\<not> mobile \<and> truthy (nv_note item))
           [Elem ''small'' [] [Txt (or_else (nv_note item) [])]])"

definition shell_failed :: "env \<Rightarrow> shell \<Rightarrow> shell_event html" where
  "shell_failed env s =
    Elem ''main'' [cls ''page app-loading-shell'']
      [ErrorMessage env (sh_error s) (Some (tr ''Oturum yenilenemedi. Tekrar giri&scedil; yap&imath;p devam et.''))]"

definition shell_waiting :: "shell_event html" where
  "shell_waiting =
    Elem ''main'' [cls ''page app-loading-shell'']
      [Loading (Some (tr ''Panel haz&imath;rlan&imath;yor...'')) (Some (tr ''Hesap bilgilerin y&uuml;kleniyor.''))]"

definition shell_sidebar :: "shell_mode \<Rightarrow> string \<Rightarrow> shell_event html" where
  "shell_sidebar mode pathname =
    Elem ''aside'' [cls ''app-sidebar desktop-only'']
      [Elem ''div'' [cls ''app-sidebar-inner'']
         [Elem ''Link''
            [Attr ''href'' (if mode_text mode = ''admin'' then ''/admin'' else ''/dashboard''),
             cls ''app-brand'']
            [Elem ''span'' [cls ''app-brand-mark''] [Txt ''N''],
             Elem ''span'' [cls ''app-brand-copy'']
               [Elem ''strong'' [] [Txt ''Nuvonode''],
                Elem ''small'' [] [Txt (section_note mode)]]],
          Elem ''div'' [cls ''app-nav-section'']
            [Elem ''span'' [cls ''app-nav-label''] [Txt (section_label mode)],
             Elem ''nav'' [cls ''app-nav'', Attr ''aria-label'' ''Ana gezinme'']
               (map (\<lambda>item. NavLink item pathname False) (nav_items mode))]]]"

definition shell_header :: "shell_mode \<Rightarrow> user \<Rightarrow> shell_event html" where
  "shell_header mode user =
    Elem ''header'' [cls ''app-topbar'']
      [Elem ''div'' [cls ''app-topbar-inner'']
         [Elem ''div'' [cls ''app-topbar-left'']
            [Elem ''Link''
               [Attr ''href'' (if mode_text mode = ''admin'' then ''/admin'' else ''/dashboard''),
                cls ''app-brand mobile-only'']
               [Elem ''span'' [cls ''app-brand-mark''] [Txt ''N''],
                Elem ''span'' [cls ''app-brand-copy'']
                  [Elem ''strong'' [] [Txt ''Nuvonode''],
                   Elem ''small'' [] [Txt (section_note mode)]]],
             Elem ''div'' [cls ''app-topbar-copy desktop-only'']
               [Elem ''span'' [cls ''eyebrow''] [Txt (section_label mode)],
                Elem ''p'' [cls ''muted''] [Txt (section_note mode)]]],
          Elem ''div'' [cls ''app-user-card'']
            [Elem ''div'' [cls ''app-user-copy'']
               [Elem ''strong'' [] [Txt (display_name user)],
                Elem ''small'' [] [Txt (u_email user)]],
             Elem ''span'' [cls (if mode_text mode = ''admin'' then ''pill ok'' else ''pill'')]
               (if mode_text mode = ''admin'' then [Txt ''Admin''] else [Txt ''Hesap'']),
             Elem ''button''
               [cls ''button secondary app-logout'',
                Attr ''type'' ''button'',
                OnClick Logout]
               [Txt (tr ''&Ccedil;&imath;k&imath;&scedil; yap'')]]]]"

definition shell_frame :: "shell_mode \<Rightarrow> user \<Rightarrow> string \<Rightarrow> shell_event html list \<Rightarrow> shell_event html" where
  "shell_frame mode user pathname children =
    Elem ''div'' [cls (''app-shell '' @ (mode_text mode) @ ''-shell'')]
      [shell_sidebar mode pathname,
       Elem ''div'' [cls ''app-main-shell'']
         [shell_header mode user, Elem ''main'' [cls ''app-content''] (children)],
       Elem ''nav'' [cls ''app-mobile-nav mobile-only'', Attr ''aria-label'' ''Mobil gezinme'']
         (map (\<lambda>item. NavLink item pathname True) (nav_items mode))]"

definition shell_view :: "env \<Rightarrow> shell \<Rightarrow> shell_event html list \<Rightarrow> shell_event html" where
  "shell_view env s children =
     (if sh_error s \<noteq> None then shell_failed env s
      else case sh_user s of
        None \<Rightarrow> shell_waiting
      | Some user \<Rightarrow> shell_frame (sh_mode s) user (sh_pathname s) children)"
lemma mode_text_admin [simp]: "mode_text mode = ''admin'' \<longleftrightarrow> mode = AdminMode"
  by (cases mode) simp_all

lemma NavLink_queries [simp]: "clicks (NavLink item p m) = []" "links (NavLink item p m) = [nv_href item]"
  "submits (NavLink item p m) = []"
  by (simp_all add: NavLink_def)

text \<open>The frame offers the logout button and the clicks of its children.\<close>

lemma shell_frame_clicks: "clicks (shell_frame mode user p children) = Logout # all_clicks children"
  by (simp add: shell_frame_def shell_sidebar_def shell_header_def comp_def)

lemma shell_clicks:
  "clicks (shell_view env s children) = showIf (children_shown s) (Logout # all_clicks children)"
  by (simp add: shell_view_def shell_failed_def shell_waiting_def shell_frame_clicks
      children_shown_def showIf_def split: option.split)

definition shell_home :: "shell_mode \<Rightarrow> string" where
  "shell_home mode = (if mode = AdminMode then ''/admin'' else ''/dashboard'')"

lemma concat_singletons [simp]: "concat (map (\<lambda>x. [f x]) xs) = map f xs"
  by (induction xs) simp_all

lemma shell_links:
  "links (shell_frame mode user p children) =
     shell_home mode # map nv_href (nav_items mode) @ shell_home mode # all_links children
     @ map nv_href (nav_items mode)"
  by (simp add: shell_frame_def shell_sidebar_def shell_header_def shell_home_def comp_def)

section \<open>Invariant\<close>

text \<open>A visitor sees the pages only when a token was there and the API has accepted it; a failed
  check leaves no token behind and a navigation to the login page.\<close>

definition shell_inv :: "storage \<Rightarrow> shell \<Rightarrow> bool" where
  "shell_inv st s \<longleftrightarrow>
     (sh_user s \<noteq> None \<or> sh_error s \<noteq> None \<or> sh_pending s \<longrightarrow> getToken True st \<noteq> [])
     \<and> (sh_pending s \<longrightarrow> sh_user s = None \<and> sh_error s = None \<and> sh_visits s = [] \<and> sh_storage s = st)
     \<and> (sh_error s \<noteq> None \<longrightarrow> getToken True (sh_storage s) = [] \<and> ''/login'' \<in> set (sh_visits s))
     \<and> (getToken True (sh_storage s) = [] \<longrightarrow> ''/login'' \<in> set (sh_visits s))
     \<and> (sh_mode s = AdminMode \<and> (\<exists>u. sh_user s = Some u \<and> u_role u \<noteq> ''admin'')
          \<longrightarrow> ''/dashboard'' \<in> set (sh_visits s))"

lemma shell_inv_rejected:
  "shell_inv st s \<Longrightarrow> sh_pending s \<Longrightarrow> shell_inv st (shell_rejected e (s\<lparr>sh_pending := False\<rparr>))"
  by (auto simp: shell_inv_def shell_rejected_def local_storage.get_drop)

lemma shell_inv_accepted:
  "shell_inv st s \<Longrightarrow> sh_pending s \<Longrightarrow> shell_inv st (shell_accepted u (s\<lparr>sh_pending := False\<rparr>))"
  by (auto simp: shell_inv_def shell_accepted_def shell_rejected_def local_storage.get_drop Let_def
      split: option.splits)

lemma shell_inv_settled: "shell_inv st s \<Longrightarrow> sh_pending s \<Longrightarrow> shell_inv st (shell_settled r s)"
  by (simp add: shell_settled_def shell_inv_rejected shell_inv_accepted Let_def split: sum.split)

lemma shell_inv_logout: "shell_inv st s \<Longrightarrow> children_shown s \<Longrightarrow> shell_inv st (shell_logout s)"
  by (auto simp: shell_inv_def shell_logout_def children_shown_def local_storage.get_drop)

lemma shell_inv_unmount: "shell_inv st s \<Longrightarrow> shell_inv st (s\<lparr>sh_cancelled := True\<rparr>)"
  by (simp add: shell_inv_def)

lemma shell_inv_start: "shell_inv st (shell_start mode p st)"
  by (simp add: shell_inv_def shell_start_def Let_def)

lemma shell_inv_step: "shell_inv st s \<Longrightarrow> shell_step s e = Some t \<Longrightarrow> shell_inv st t"
  by (cases e) (auto intro: shell_inv_settled shell_inv_logout shell_inv_unmount split: if_splits)

interpretation shell_page: page_machine shell_step "shell_start mode p st" "shell_inv st"
  by unfold_locales (auto intro: shell_inv_step shell_inv_start)

section \<open>Properties\<close>


definition demo_user :: "string \<Rightarrow> user" where
  "demo_user role = \<lparr>u_id = ''u'', u_email = ''u@x'', u_display_name = ''U'', u_role = role\<rparr>"

lemma demo_user_role [simp]: "u_role (demo_user r) = r"
  by (simp add: demo_user_def)

lemma shell_shows: "children_shown s \<Longrightarrow> set (clicks c) \<subseteq> set (clicks (shell_view env s [c]))"
  by (auto simp: shell_clicks)


text \<open>The admin gate lets the pages in before the role is settled: when the API answers with a user
  who is no administrator, the shell starts the navigation away but renders the admin pages, whose
  own requests then start.\<close>

theorem shell_renders_for_non_admin:
  assumes "u_role u \<noteq> ''admin''" "tok \<noteq> []"
  shows "\<exists>s. shell_step (shell_start AdminMode p (setToken tok st)) (MeSettled (ok_body (Some u))) = Some s
     \<and> children_shown s \<and> sh_visits s = [''/dashboard'']
     \<and> (\<forall>env c. set (clicks c) \<subseteq> set (clicks (shell_view env s [c])))"
proof -
  let ?init = "shell_start AdminMode p (setToken tok st)"
  let ?s = "shell_settled (Inr (Some u)) ?init"
  have "shell_step ?init (MeSettled (ok_body (Some u))) = Some ?s" "children_shown ?s"
    "sh_visits ?s = [''/dashboard'']"
    using assms by (simp_all add: shell_start_def local_storage.get_put shell_settled_def
        shell_accepted_def me_def children_shown_def)
  with shell_shows show ?thesis by blast
qed

theorem shell_renders_for_non_admin_witness:
  "\<exists>s. shell_step (shell_start AdminMode ''/admin'' (setToken ''t'' Map.empty))
        (MeSettled (ok_body (Some (demo_user ''user'')))) = Some s \<and> children_shown s"
  using shell_renders_for_non_admin [of "demo_user ''user''" "''t''" "''/admin''" Map.empty]
    by (simp del: shell_step.simps) blast

text \<open>Logging out removes the token, leaves every other key of the storage alone, sends the visitor to
  the login page, and a shell mounted on the storage it leaves renders no page and asks the API
  nothing.\<close>

theorem shell_logout_closes:
  assumes "shell_step s Logout = Some t"
  shows "getToken True (sh_storage t) = [] \<and> last (sh_visits t) = ''/login''
     \<and> (\<forall>k. k \<noteq> tokenKey \<longrightarrow> sh_storage t k = sh_storage s k)
     \<and> sh_visits (shell_start mode p (sh_storage t)) = [''/login'']
     \<and> (\<forall>h. shell_step (shell_start mode p (sh_storage t)) (MeSettled h) = None)
     \<and> \<not> children_shown (shell_start mode p (sh_storage t))"
proof -
  have t: "t = shell_logout s" using assms by (auto split: if_splits)
  then have "getToken True (sh_storage t) = []"
    by (simp add: shell_logout_def local_storage.get_drop)
  then show ?thesis
    by (simp add: shell_start_def Let_def children_shown_def) (simp add: t shell_logout_def clearToken_frame)
qed

theorem shell_logout_closes_witness:
  "\<exists>t. shell_step (shell_start DashboardMode ''/dashboard'' Map.empty\<lparr>sh_user := Some (demo_user ''user'')\<rparr>) Logout = Some t
     \<and> getToken True (sh_storage t) = []"
proof -
  let ?s = "shell_start DashboardMode ''/dashboard'' Map.empty\<lparr>sh_user := Some (demo_user ''user'')\<rparr>"
  have "shell_step ?s Logout = Some (shell_logout ?s)"
    by (simp add: shell_start_def Let_def children_shown_def)
  from shell_logout_closes [OF this] this show ?thesis by blast
qed

text \<open>On each page of the dashboard at most one item of its navigation is marked, and it is the one
  the page belongs to; the home page of the dashboard marks its own item only.\<close>

lemma dashboard_navigation:
  "map (\<lambda>p. map nv_href (filter (\<lambda>i. isActive p (nv_href i) (nv_matches i)) dashboardLinks))
     [''/dashboard'', ''/dashboard/api-keys'', ''/dashboard/projects'', ''/dashboard/models'',
      ''/dashboard/usage'', ''/dashboard/credits'', ''/dashboard/providers'']
   = [[''/dashboard''], [''/dashboard/api-keys''], [''/dashboard/api-keys''], [''/dashboard/api-keys''],
      [''/dashboard/usage''], [''/dashboard/credits''], [''/dashboard/providers'']]"
  by (simp add: dashboardLinks_def isActive_def)

text \<open>In the admin area the review item is marked on every page below \<open>/admin\<close>, beside the page's
  own item: its list of matches holds \<open>/admin\<close>, which is a path prefix of all of them.\<close>

theorem admin_navigation_double:
  "isActive (''/admin/'' @ rest) ''/admin/providers'' [''/admin'', ''/admin/providers'', ''/admin/provider-models'']
   \<and> map (\<lambda>p. map nv_href (filter (\<lambda>i. isActive p (nv_href i) (nv_matches i)) adminLinks))
       [''/admin/models'', ''/admin/jobs'', ''/admin/wallets'']
     = [[''/admin/providers'', ''/admin/models''], [''/admin/providers'', ''/admin/jobs''],
        [''/admin/providers'', ''/admin/wallets'']]"
  by (simp add: adminLinks_def isActive_def)

end
