(* ===== verification/PublicPages.thy ===== *)
theory PublicPages
  imports Widgets
begin

text \<open>
  \<open>apps/web/components/PublicShell.tsx\<close> and the landing page \<open>apps/web/app/page.tsx\<close>: no state, only
  texts and links.
\<close>

section \<open>View\<close>

definition PublicShell :: "'e html list \<Rightarrow> 'e html" where
  "PublicShell children =
    Elem ''div'' [cls ''public-shell'']
      [Elem ''header'' [cls ''public-topbar'']
         [Elem ''Link'' [Attr ''href'' ''/'', cls ''public-brand'']
            [Elem ''span'' [cls ''public-brand-mark''] [Txt ''N''],
             Elem ''span'' []
               [Elem ''strong'' [] [Txt ''Nuvonode''],
                Elem ''small'' [] [Txt (tr ''&Ouml;nce API. Node sonra.'')]]],
          Elem ''nav'' [cls ''public-nav desktop-only'', Attr ''aria-label'' ''Ana gezinme'']
            [Elem ''Link'' [Attr ''href'' ''/#api''] [Txt ''API''],
             Elem ''Link'' [Attr ''href'' ''/#node''] [Txt ''Node''],
             Elem ''Link'' [Attr ''href'' ''/#limits''] [Txt (tr ''S&imath;n&imath;rlar'')]],
          Elem ''div'' [cls ''public-actions'']
            [Elem ''Link'' [cls ''button secondary'', Attr ''href'' ''/login'']
               [Txt (tr ''Giri&scedil; yap'')],
             Elem ''Link'' [cls ''button'', Attr ''href'' ''/register'']
               [Txt (tr ''Hesap olu&scedil;tur'')]]],
       Elem ''main'' [cls ''public-main''] (children),
       Elem ''footer'' [cls ''public-footer'']
         [Elem ''div'' [cls ''public-footer-row'']
            [Elem ''div'' [cls ''stack'']
               [Elem ''strong'' [] [Txt ''Nuvonode''],
                Elem ''p'' [cls ''muted'']
                  [Txt (tr ''Tek API ile ba&scedil;la. Node&apos;u sonra eklersin.'')]],
             Elem ''div'' [cls ''public-footer-links'']
               [Elem ''Link'' [Attr ''href'' ''/#api''] [Txt ''API''],
                Elem ''Link'' [Attr ''href'' ''/#node''] [Txt ''Node''],
                Elem ''Link'' [Attr ''href'' ''/login''] [Txt (tr ''Giri&scedil; yap'')],
                Elem ''a''
                  [Attr ''href'' ''https://github.com/burhanettinerkent/Nuvonode'',
                   Attr ''target'' ''_blank'',
                   Attr ''rel'' ''noreferrer'']
                  [Txt ''GitHub'']]],
          Elem ''div'' [cls ''public-footer-note muted'']
            [Txt (tr ''Dahili kredi kullan&imath;l&imath;r. Baz&imath; istekler topluluk node&apos;lar&imath;nda i&scedil;lenebilir.'')]]]"

definition landing_hero :: "'e html" where
  "landing_hero =
    Elem ''section'' [cls ''public-hero'']
      [Elem ''div'' [cls ''public-hero-copy stack'']
         [Elem ''span'' [cls ''eyebrow''] [Txt ''API''],
          Elem ''h1'' [] [Txt (tr ''A&ccedil;&imath;k modellere tek API.'')],
          Elem ''p'' [cls ''public-lead muted'']
            [Txt (tr ''Hesap a&ccedil;, anahtar&imath;n&imath; olu&scedil;tur, ilk iste&gbreve;ini hemen g&ouml;nder.'')],
          Elem ''div'' [cls ''row'']
            [Elem ''Link'' [cls ''button'', Attr ''href'' ''/register'']
               [Txt (tr ''API anahtar&imath; al'')],
             Elem ''Link'' [cls ''button secondary'', Attr ''href'' ''/login'']
               [Txt (tr ''Giri&scedil; yap'')]],
          Elem ''div'' [cls ''public-hero-proof muted'']
            [Txt (tr ''Node &ccedil;al&imath;&scedil;t&imath;rmak istersen sonra eklersin.'')]],
       Elem ''div'' [cls ''public-hero-panel stack'']
         [Elem ''div'' [cls ''surface-head'']
            [Elem ''div'' []
               [Elem ''h2'' [] [Txt (tr ''&Idot;lk istek'')],
                Elem ''p'' [cls ''muted'']
                  [Txt (tr ''Anahtar&imath; olu&scedil;tur. Sonra bunu &ccedil;al&imath;&scedil;t&imath;r.'')]],
             Elem ''span'' [cls ''pill''] [Txt ''API'']],
          Elem ''pre'' []
            [Txt (tr ''curl http://localhost:18080/v1/chat/completions   -H &quot;Authorization: Bearer pvn_xxx&quot;   -H &quot;Content-Type: application/json&quot;   -d &apos;{&quot;model&quot;:&quot;qwen-7b-instruct&quot;,&quot;messages&quot;:[{&quot;role&quot;:&quot;user&quot;,&quot;content&quot;:&quot;Merhaba&quot;}]}&apos;'')],
          Elem ''div'' [cls ''public-node-steps'']
            [Elem ''span'' [] [Txt (tr ''Hesap a&ccedil;'')],
             Elem ''span'' [] [Txt (tr ''Anahtar olu&scedil;tur'')],
             Elem ''span'' [] [Txt (tr ''&Idot;ste&gbreve;i g&ouml;nder'')]]]]"

definition landing_api :: "'e html" where
  "landing_api =
    Elem ''section'' [Attr ''id'' ''api'', cls ''public-section'']
      [Elem ''div'' [cls ''public-section-head stack'']
         [Elem ''span'' [cls ''eyebrow''] [Txt ''API''],
          Elem ''h2'' [] [Txt (tr ''Ba&scedil;lamak k&imath;sa s&uuml;rer.'')],
          Elem ''p'' [cls ''muted'']
            [Txt (tr ''Tek hesap, tek anahtar, tek &ouml;rnek istek yeter.'')]],
       Elem ''div'' [cls ''public-node-steps'']
         [Elem ''span'' [] [Txt (tr ''Hesap a&ccedil;'')],
          Elem ''span'' [] [Txt (tr ''&Idot;lk anahtar&imath; olu&scedil;tur'')],
          Elem ''span'' [] [Txt (tr ''&Idot;ste&gbreve;i g&ouml;nder'')]]]"

definition landing_node :: "'e html" where
  "landing_node =
    Elem ''section'' [Attr ''id'' ''node'', cls ''public-section'']
      [Elem ''div'' [cls ''public-section-head stack'']
         [Elem ''span'' [cls ''eyebrow''] [Txt ''Node''],
          Elem ''h2'' [] [Txt (tr ''&Idot;stersen sonra node &ccedil;al&imath;&scedil;t&imath;r.'')],
          Elem ''p'' [cls ''muted'']
            [Txt (tr ''Node olu&scedil;tur, komutu &ccedil;al&imath;&scedil;t&imath;r, durumu panelden g&ouml;r.'')]],
       Elem ''div'' [cls ''public-node-strip stack'']
         [Elem ''div'' [cls ''public-node-steps'']
            [Elem ''span'' [] [Txt (tr ''Node olu&scedil;tur'')],
             Elem ''span'' [] [Txt (tr ''Anahtar&imath; kopyala'')],
             Elem ''span'' [] [Txt (tr ''Komutu &ccedil;al&imath;&scedil;t&imath;r'')],
             Elem ''span'' [] [Txt (tr ''Durumu g&ouml;r'')]],
          Elem ''div'' [cls ''muted'']
            [Txt (tr ''Node yolu sekonder. &Ouml;nce API ile ba&scedil;la.'')]]]"

definition landing_view :: "'e html" where
  "landing_view =
    PublicShell
      [landing_hero,
       landing_api,
       landing_node,
       Elem ''section'' [Attr ''id'' ''limits'', cls ''public-section'']
         [Elem ''div'' [cls ''public-section-head stack'']
            [Elem ''span'' [cls ''eyebrow''] [Txt (tr ''S&imath;n&imath;rlar'')],
             Elem ''h2'' [] [Txt (tr ''Kredi i&ccedil;eride kal&imath;r.'')],
             Elem ''p'' [cls ''muted'']
               [Txt (tr ''Dahili kredi kullan&imath;l&imath;r. Hassas veri i&ccedil;in topluluk node&apos;lar&imath;n&imath; se&ccedil;me.'')]]],
       Elem ''section'' [cls ''public-band'']
         [Elem ''div'' [cls ''stack'']
            [Elem ''span'' [cls ''eyebrow''] [Txt (tr ''&Scedil;imdi ba&scedil;la'')],
             Elem ''h2'' [] [Txt (tr ''Haz&imath;rsan &scedil;imdi ba&scedil;la.'')]],
          Elem ''div'' [cls ''row'']
            [Elem ''Link'' [cls ''button'', Attr ''href'' ''/register'']
               [Txt (tr ''Hesap olu&scedil;tur'')],
             Elem ''Link'' [cls ''button secondary'', Attr ''href'' ''/login'']
               [Txt (tr ''Giri&scedil; yap'')]]]]"

text \<open>The frame adds seven internal links and the repository's address to those of its children.\<close>

lemma PublicShell_links:
  "links (PublicShell children) =
     [''/'', ''/#api'', ''/#node'', ''/#limits'', ''/login'', ''/register''] @ all_links children
     @ [''/#api'', ''/#node'', ''/login'', ''https://github.com/burhanettinerkent/Nuvonode'']"
  by (simp add: PublicShell_def)

lemma PublicShell_events:
  "clicks (PublicShell children) = all_clicks children"
  "submits (PublicShell children) = all_submits children"
  by (simp_all add: PublicShell_def)

lemma landing_links:
  "links (landing_view :: 'e html) =
     links (PublicShell [Elem ''Link'' [Attr ''href'' u] []. u \<leftarrow> [''/register'', ''/login'', ''/register'', ''/login'']] :: 'e html)"
  by (simp add: landing_view_def PublicShell_links landing_hero_def landing_api_def landing_node_def)

end
