(* ===== verification/AuthPages.thy ===== *)
theory AuthPages
  imports PublicPages Pages
begin

text \<open>
  \<open>apps/web/app/login/page.tsx\<close> and \<open>apps/web/app/register/page.tsx\<close>: the two forms that obtain a
  token. They share their code up to the call, so one machine takes the call as a parameter.
  \<open>lg_pending\<close> holds the credentials of the request in flight.
\<close>

record auth_page =
  lg_email :: string
  lg_password :: string
  lg_error :: "js_error option"
  lg_loading :: bool
  lg_pending :: "(string \<times> string) list"
  lg_storage :: storage
  lg_visits :: "string list"

datatype auth_event =
    SetEmail string
  | SetPassword string
  | SubmitAuth
  | AuthSettled nat "auth_response http"

definition auth_start :: "storage \<Rightarrow> auth_page" where
  "auth_start st = \<lparr>lg_email = [], lg_password = [], lg_error = None, lg_loading = False,
     lg_pending = [], lg_storage = st, lg_visits = []\<rparr>"

definition auth_submit :: "auth_page \<Rightarrow> auth_page" where
  "auth_submit s = s\<lparr>lg_error := None, lg_loading := True,
     lg_pending := lg_pending s @ [(lg_email s, lg_password s)]\<rparr>"

text \<open>\<open>localStorage\<close> turns an absent token into the text \<open>undefined\<close>.\<close>

definition auth_settled :: "nat \<Rightarrow> js_error + auth_response \<Rightarrow> auth_page \<Rightarrow> auth_page" where
  "auth_settled i r s =
     (let s' = s\<lparr>lg_pending := drop_nth i (lg_pending s), lg_loading := False\<rparr>
      in case r of
        Inl e \<Rightarrow> s'\<lparr>lg_error := Some e\<rparr>
      | Inr res \<Rightarrow>
          s'\<lparr>lg_storage := setToken (case ar_access_token res of None \<Rightarrow> ''undefined'' | Some t \<Rightarrow> t)
                             (lg_storage s),
             lg_visits := lg_visits s @ [''/dashboard'']\<rparr>)"

definition can_authenticate :: "auth_page \<Rightarrow> bool" where
  "can_authenticate s \<longleftrightarrow> \<not> lg_loading s \<and> lg_email s \<noteq> [] \<and> lg_password s \<noteq> []"

fun auth_step :: "(string \<Rightarrow> string \<Rightarrow> (auth_response, auth_response) call)
    \<Rightarrow> auth_page \<Rightarrow> auth_event \<Rightarrow> auth_page option" where
  "auth_step c s (SetEmail v) = Some (s\<lparr>lg_email := v\<rparr>)"
| "auth_step c s (SetPassword v) = Some (s\<lparr>lg_password := v\<rparr>)"
| "auth_step c s SubmitAuth = (if can_authenticate s then Some (auth_submit s) else None)"
| "auth_step c s (AuthSettled i h) =
     (if i < length (lg_pending s)
      then Some (auth_settled i (c_settle (c (fst (lg_pending s ! i)) (snd (lg_pending s ! i))) h) s)
      else None)"

definition login_step :: "(auth_page, auth_event) machine" where
  "login_step = auth_step login"

definition register_step :: "(auth_page, auth_event) machine" where
  "register_step = auth_step (register ''User'')"

section \<open>View\<close>

definition login_form :: "env \<Rightarrow> auth_page \<Rightarrow> auth_event html" where
  "login_form env s =
    Elem ''form'' [cls ''auth-card stack'', OnSubmit SubmitAuth]
      ([Elem ''div'' [cls ''stack'']
          [Elem ''h2'' [] [Txt (tr ''Giri&scedil; yap'')],
           Elem ''p'' [cls ''muted''] [Txt (tr ''Sadece e-posta ve &scedil;ifre.'')]]]
       @ showIf (lg_error s \<noteq> None)
           [ErrorMessage env (lg_error s) (Some ''Bilgileri kontrol edip tekrar dene.'')]
       @ [Elem ''div'' [cls ''field'']
            [Elem ''label'' [Attr ''htmlFor'' ''login-email''] [Txt ''E-posta''],
             Elem ''input''
               [Attr ''id'' ''login-email'',
                Flag ''required'' True,
                Attr ''type'' ''email'',
                Attr ''value'' (lg_email s),
                OnChange SetEmail]
               []],
          Elem ''div'' [cls ''field'']
            [Elem ''label'' [Attr ''htmlFor'' ''login-password''] [Txt (tr ''&Scedil;ifre'')],
             Elem ''input''
               [Attr ''id'' ''login-password'',
                Flag ''required'' True,
                Attr ''type'' ''password'',
                Attr ''value'' (lg_password s),
                OnChange SetPassword]
               []],
          Elem ''button'' [cls ''button'', Attr ''type'' ''submit'', Flag ''disabled'' (lg_loading s)]
            (if lg_loading s
             then [Txt (tr ''Giri&scedil; yap&imath;l&imath;yor...'')]
             else [Txt ''Devam et'']),
          Elem ''p'' [cls ''muted'']
            [Txt (tr ''Hesab&imath;n yok mu? ''),
             Elem ''Link'' [Attr ''href'' ''/register''] [Txt (tr ''Hesap olu&scedil;tur'')]]])"

definition login_view :: "env \<Rightarrow> auth_page \<Rightarrow> auth_event html" where
  "login_view env s =
    PublicShell
      [Elem ''section'' [cls ''auth-stage'']
         [Elem ''div'' [cls ''auth-copy stack'']
            [Elem ''span'' [cls ''eyebrow''] [Txt (tr ''Giri&scedil; yap'')],
             Elem ''h1'' [] [Txt (tr ''Hesab&imath;na d&ouml;n.'')],
             Elem ''p'' [cls ''muted'']
               [Txt (tr ''&Idot;&ccedil;eri gir. API anahtar&imath;n&imath; g&ouml;r. Kald&imath;&gbreve;&imath;n yerden devam et.'')]],
          login_form env s]]"

definition register_form :: "env \<Rightarrow> auth_page \<Rightarrow> auth_event html" where
  "register_form env s =
    Elem ''form'' [cls ''auth-card stack'', OnSubmit SubmitAuth]
      ([Elem ''div'' [cls ''stack'']
          [Elem ''h2'' [] [Txt (tr ''Hesap olu&scedil;tur'')],
           Elem ''p'' [cls ''muted''] [Txt (tr ''Sadece e-posta ve &scedil;ifre yeter.'')]]]
       @ showIf (lg_error s \<noteq> None)
           [ErrorMessage env (lg_error s) (Some ''Bilgileri kontrol edip tekrar dene.'')]
       @ [Elem ''div'' [cls ''field'']
            [Elem ''label'' [Attr ''htmlFor'' ''register-email''] [Txt ''E-posta''],
             Elem ''input''
               [Attr ''id'' ''register-email'',
                Flag ''required'' True,
                Attr ''type'' ''email'',
                Attr ''value'' (lg_email s),
                OnChange SetEmail]
               []],
          Elem ''div'' [cls ''field'']
            [Elem ''label'' [Attr ''htmlFor'' ''register-password''] [Txt (tr ''&Scedil;ifre'')],
             Elem ''input''
               [Attr ''id'' ''register-password'',
                Flag ''required'' True,
                Attr ''minLength'' ''8'',
                Attr ''type'' ''password'',
                Attr ''value'' (lg_password s),
                OnChange SetPassword]
               []],
          Elem ''button'' [cls ''button'', Attr ''type'' ''submit'', Flag ''disabled'' (lg_loading s)]
            (if lg_loading s
             then [Txt (tr ''Hesap a&ccedil;&imath;l&imath;yor...'')]
             else [Txt (tr ''Hesab&imath; a&ccedil;'')]),
          Elem ''p'' [cls ''muted'']
            [Txt (tr ''Zaten hesab&imath;n var m&imath;? ''),
             Elem ''Link'' [Attr ''href'' ''/login''] [Txt (tr ''Giri&scedil; yap'')]]])"

definition register_view :: "env \<Rightarrow> auth_page \<Rightarrow> auth_event html" where
  "register_view env s =
    PublicShell
      [Elem ''section'' [cls ''auth-stage'']
         [Elem ''div'' [cls ''auth-copy stack'']
            [Elem ''span'' [cls ''eyebrow''] [Txt (tr ''Hesap a&ccedil;'')],
             Elem ''h1'' [] [Txt (tr ''Hemen ba&scedil;la.'')],
             Elem ''p'' [cls ''muted'']
               [Txt (tr ''Kaydol. &Idot;lk anahtar&imath;n&imath; olu&scedil;tur. &Idot;lk iste&gbreve;ini g&ouml;nder.'')]],
          register_form env s]]"

lemma auth_clicks: "clicks (login_view env s) = []" "clicks (register_view env s) = []"
  by (simp_all add: login_view_def register_view_def login_form_def register_form_def PublicShell_events)

lemma auth_submits:
  "submits (login_view env s) = showIf (can_authenticate s) [SubmitAuth]"
  "submits (register_view env s) = showIf (can_authenticate s) [SubmitAuth]"
  by (simp_all add: login_view_def register_view_def login_form_def register_form_def PublicShell_events
      field_ok_def can_authenticate_def showIf_def)

lemma auth_links:
  "links (login_view env s) = links (PublicShell [Elem ''Link'' [Attr ''href'' ''/register''] []] :: auth_event html)"
  "links (register_view env s) = links (PublicShell [Elem ''Link'' [Attr ''href'' ''/login''] []] :: auth_event html)"
  by (simp_all add: login_view_def register_view_def login_form_def register_form_def PublicShell_links)

section \<open>Invariant\<close>

text \<open>At most one request is in flight, and the visitor is sent on exactly when a token was stored.\<close>

definition auth_inv :: "storage \<Rightarrow> auth_page \<Rightarrow> bool" where
  "auth_inv st s \<longleftrightarrow> lg_loading s = (lg_pending s \<noteq> []) \<and> length (lg_pending s) \<le> 1
     \<and> (\<forall>(e, p) \<in> set (lg_pending s). e \<noteq> [] \<and> p \<noteq> [])
     \<and> (if lg_visits s = [] then lg_storage s = st
        else set (lg_visits s) = {''/dashboard''} \<and> (\<exists>t. lg_storage s = setToken t st))"

lemma setToken_twice [simp]: "setToken t (setToken u st) = setToken t st"
  by (rule local_storage.put_put)

lemma auth_inv_settled:
  assumes "auth_inv st s" "i < length (lg_pending s)"
  shows "auth_inv st (auth_settled i r s)"
proof -
  have "drop_nth i (lg_pending s) = []"
    using assms drop_nth_one unfolding auth_inv_def by blast
  moreover have "setToken t (lg_storage s) = setToken t st" for t
  proof (cases "lg_visits s = []")
    case True
    with assms(1) have "lg_storage s = st" by (simp add: auth_inv_def)
    then show ?thesis by simp
  next
    case False
    with assms(1) obtain u where "lg_storage s = setToken u st" by (auto simp: auth_inv_def)
    then show ?thesis by simp
  qed
  ultimately show ?thesis
    using assms(1)
    by (cases r; cases "lg_visits s = []") (auto simp: auth_inv_def auth_settled_def Let_def)
qed

lemma auth_inv_others:
  "auth_inv st s \<Longrightarrow> auth_inv st (s\<lparr>lg_email := v\<rparr>)" "auth_inv st s \<Longrightarrow> auth_inv st (s\<lparr>lg_password := v\<rparr>)"
  "auth_inv st s \<Longrightarrow> can_authenticate s \<Longrightarrow> auth_inv st (auth_submit s)"
  by (simp_all add: auth_inv_def auth_submit_def can_authenticate_def)

lemma auth_inv_start: "auth_inv st (auth_start st)"
  by (simp add: auth_inv_def auth_start_def)

lemma auth_inv_step: "auth_inv st s \<Longrightarrow> auth_step c s e = Some t \<Longrightarrow> auth_inv st t"
  by (cases e) (auto intro: auth_inv_settled auth_inv_others split: if_splits)

interpretation auth_page: page_machine "auth_step c" "auth_start st" "auth_inv st"
  by unfold_locales (auto intro: auth_inv_step auth_inv_start)

section \<open>Properties\<close>

text \<open>The login and registration pages have at most one request in flight, with both fields filled
  in; they send the visitor to the dashboard exactly when they have stored a token, which changes no
  other key of the storage.\<close>

theorem auth_token_stored:
  assumes "run (auth_step c) (auth_start st) es = Some s"
  shows "length (lg_pending s) \<le> 1 \<and> (lg_loading s \<longrightarrow> submits (login_view env s) = [])
     \<and> (lg_visits s = [] \<longrightarrow> lg_storage s = st)
     \<and> (lg_visits s \<noteq> [] \<longrightarrow> set (lg_visits s) = {''/dashboard''}
          \<and> (\<exists>t. getToken True (lg_storage s) = t \<and> lg_storage s = setToken t st))
     \<and> (\<forall>k. k \<noteq> tokenKey \<longrightarrow> lg_storage s k = st k)"
proof -
  have i: "auth_inv st s" using assms by (rule auth_page.run_inv)
  have "\<forall>k. k \<noteq> tokenKey \<longrightarrow> lg_storage s k = st k"
  proof (cases "lg_visits s = []")
    case True
    with i have "lg_storage s = st" by (simp add: auth_inv_def)
    then show ?thesis by simp
  next
    case False
    with i obtain u where "lg_storage s = setToken u st" by (auto simp: auth_inv_def)
    then show ?thesis by (simp add: setToken_frame)
  qed
  moreover have "\<exists>t. getToken True (lg_storage s) = t \<and> lg_storage s = setToken t st" if "lg_visits s \<noteq> []"
  proof -
    from that i obtain u where "lg_storage s = setToken u st" by (auto simp: auth_inv_def)
    then show ?thesis by (simp add: local_storage.get_put)
  qed
  moreover have "set (lg_visits s) = {''/dashboard''}" if "lg_visits s \<noteq> []"
    using that i by (simp add: auth_inv_def)
  moreover have "lg_storage s = st" if "lg_visits s = []"
    using that i by (simp add: auth_inv_def)
  moreover have "length (lg_pending s) \<le> 1" using i by (simp add: auth_inv_def)
  ultimately show ?thesis by (simp add: auth_submits can_authenticate_def)
qed

theorem auth_token_stored_witness:
  "\<exists>s. run login_step (auth_start Map.empty) [SetEmail ''e'', SetPassword ''p'', SubmitAuth,
       AuthSettled 0 (ok_body \<lparr>ar_user = None, ar_access_token = Some ''jwt''\<rparr>)] = Some s
     \<and> set (lg_visits s) = {''/dashboard''} \<and> lg_storage s = setToken ''jwt'' Map.empty"
proof -
  let ?es = "[SetEmail ''e'', SetPassword ''p'', SubmitAuth,
       AuthSettled 0 (ok_body \<lparr>ar_user = None, ar_access_token = Some ''jwt''\<rparr>)]"
  let ?s = "the (run login_step (auth_start Map.empty) ?es)"
  have r: "run (auth_step login) (auth_start Map.empty) ?es = Some ?s"
    and v: "lg_visits ?s \<noteq> []" and g: "lg_storage ?s = setToken ''jwt'' Map.empty"
    by (simp_all add: login_step_def auth_start_def can_authenticate_def auth_submit_def auth_settled_def
        login_def Let_def)
  from auth_token_stored [OF r, where env = undefined] v g r show ?thesis
    unfolding login_step_def by blast
qed

end
