(* ===== verification/AdminHome.thy ===== *)
theory AdminHome
  imports AdminJobs AdminUsage
begin

text \<open>
  \<open>apps/web/app/admin/page.tsx\<close>: the administrator's overview, loaded from five endpoints at once.
\<close>

record admin_home =
  ah_providers :: "provider list"
  ah_models :: "model list"
  ah_jobs :: "admin_job list"
  ah_usage :: "admin_usage_record list"
  ah_pendingModels :: "advertisement list"
  ah_error :: "js_error option"
  ah_loading :: bool
  ah_mounting :: bool

type_synonym admin_home_event =
  "(provider list option http, model list option http, admin_job list option http,
    admin_usage_record list option http, advertisement list option http) outcome5"

definition admin_home_start :: admin_home where
  "admin_home_start = \<lparr>ah_providers = [], ah_models = [], ah_jobs = [], ah_usage = [],
     ah_pendingModels = [], ah_error = None, ah_loading = True, ah_mounting = True\<rparr>"

definition admin_home_loaded :: "js_error + provider list \<times> model list \<times> admin_job list \<times>
    admin_usage_record list \<times> advertisement list \<Rightarrow> admin_home \<Rightarrow> admin_home" where
  "admin_home_loaded r s =
     (let s' = s\<lparr>ah_mounting := False, ah_loading := False\<rparr>
      in case r of
        Inl e \<Rightarrow> s'\<lparr>ah_error := Some e\<rparr>
      | Inr (providers, models, jobs, usage, ads) \<Rightarrow>
          s'\<lparr>ah_providers := providers, ah_models := models, ah_jobs := jobs, ah_usage := usage,
             ah_pendingModels := ads\<rparr>)"

definition admin_home_step :: "(admin_home, admin_home_event) machine" where
  "admin_home_step s r =
     (if ah_mounting s
      then map_option (\<lambda>r. admin_home_loaded r s)
             (settle5 (c_settle listAdminProviders) (c_settle listAdminModels) (c_settle listAdminJobs)
                (c_settle listAdminUsage) (c_settle listPendingProviderModels) r)
      else None)"

definition pending_providers :: "'a provider_base_scheme list \<Rightarrow> 'a provider_base_scheme list" where
  "pending_providers ps = filter (\<lambda>p. pv_approval_status p = ''pending'') ps"

section \<open>View\<close>

definition admin_home_head :: "admin_home \<Rightarrow> 'e html" where
  "admin_home_head s =
    Elem ''section'' [cls ''card stack'', Attr ''style'' ''padding: 32'']
      [Elem ''div'' [cls ''split-panel'']
         [Elem ''div'' [cls ''stack'']
            [Elem ''span'' [cls ''eyebrow''] [Txt (tr ''&Idot;nceleme'')],
             Elem ''h1'' [] [Txt (tr ''&Ouml;nce kuyru&gbreve;u temizle.'')],
             Elem ''p'' [cls ''muted'', Attr ''style'' ''maxWidth: 620'']
               [Txt (tr ''Bekleyen node ve model i&scedil;leri &ouml;nce gelir. Sonra istek ve kullan&imath;m kay&imath;tlar&imath;na bakars&imath;n.'')],
             Elem ''div'' [cls ''row'']
               [Elem ''Link'' [cls ''button'', Attr ''href'' ''/admin/providers'']
                  [Txt (tr ''&Idot;nceleme kuyru&gbreve;unu a&ccedil;'')],
                Elem ''Link'' [cls ''button secondary'', Attr ''href'' ''/admin/jobs'']
                  [Txt (tr ''&Idot;stekleri a&ccedil;'')]]],
          Elem ''div'' [cls ''grid stat-strip'']
            [Elem ''div'' [cls ''metric'']
               [Elem ''strong'' [] [Txt (show_nat (length (pending_providers (ah_providers s))))],
                Elem ''span'' [cls ''muted''] [Txt ''Bekleyen node'']],
             Elem ''div'' [cls ''metric'']
               [Elem ''strong'' [] [Txt (show_nat (length (ah_pendingModels s)))],
                Elem ''span'' [cls ''muted''] [Txt ''Bekleyen model'']],
             Elem ''div'' [cls ''metric'']
               [Elem ''strong'' [] [Txt (show_nat (length (filter is_queued (ah_jobs s))))],
                Elem ''span'' [cls ''muted''] [Txt ''Aktif istek'']],
             Elem ''div'' [cls ''metric'']
               [Elem ''strong'' [] [Txt (show_nat (length (filter is_failed (ah_jobs s))))],
                Elem ''span'' [cls ''muted''] [Txt ''Hata'']]]]]"

definition admin_home_queues :: "admin_home \<Rightarrow> 'e html" where
  "admin_home_queues s =
    Elem ''section'' [cls ''grid queue-grid'']
      [Elem ''div'' [cls ''card stack'']
         [Elem ''span'' [cls (if pending_providers (ah_providers s) \<noteq> [] then ''pill warn'' else ''pill ok'')]
            (if pending_providers (ah_providers s) \<noteq> []
             then [Txt ((show_nat (length (pending_providers (ah_providers s)))) @ '' bekliyor'')]
             else [Txt ''Temiz'']),
          Elem ''h3'' [] [Txt (tr ''Node kuyru&gbreve;u'')],
          Elem ''p'' [cls ''muted'']
            [Txt (tr ''Bekleyen node&rsquo;lar&imath; kapat. Sonra di&gbreve;er kay&imath;tlara ge&ccedil;.'')],
          Elem ''Link'' [cls ''button secondary'', Attr ''href'' ''/admin/providers'']
            [Txt ''Node incele'']],
       Elem ''div'' [cls ''card stack secondary-card'']
         [Elem ''span'' [cls (if ah_pendingModels s \<noteq> [] then ''pill warn'' else ''pill ok'')]
            (if ah_pendingModels s \<noteq> []
             then [Txt ((show_nat (length (ah_pendingModels s))) @ '' bekliyor'')]
             else [Txt ''Temiz'']),
          Elem ''h3'' [] [Txt (tr ''Model kuyru&gbreve;u'')],
          Elem ''p'' [cls ''muted'']
            [Txt (tr ''Bekleyen model ilanlar&imath;n&imath; onayla ya da reddet.'')],
          Elem ''Link'' [cls ''button secondary'', Attr ''href'' ''/admin/provider-models'']
            [Txt (tr ''Model kuyru&gbreve;unu a&ccedil;'')]],
       Elem ''div'' [cls ''card stack secondary-card'']
         [Elem ''span'' [cls (if filter is_failed (ah_jobs s) \<noteq> [] then ''pill warn'' else ''pill'')]
            [Txt (show_nat (length (filter is_queued (ah_jobs s)))),
             Txt '' aktif / '',
             Txt (show_nat (length (filter is_failed (ah_jobs s)))),
             Txt '' hata''],
          Elem ''h3'' [] [Txt (tr ''&Idot;stek sinyalleri'')],
          Elem ''p'' [cls ''muted'']
            [Txt (tr ''&Ccedil;al&imath;&scedil;an ve hatal&imath; i&scedil;ler operasyon ritmini g&ouml;sterir.'')],
          Elem ''Link'' [cls ''button secondary'', Attr ''href'' ''/admin/jobs'']
            [Txt (tr ''&Idot;stekleri a&ccedil;'')]]]"

definition admin_home_recent :: "env \<Rightarrow> admin_home \<Rightarrow> 'e html" where
  "admin_home_recent env s =
    Elem ''section'' [cls ''split-panel'']
      [Elem ''div'' [cls ''card stack'']
         ([Elem ''div'' [cls ''surface-head'']
             [Elem ''div'' []
                [Elem ''h2'' [] [Txt ''Son istekler''],
                 Elem ''p'' [cls ''muted'']
                   [Txt (tr ''Yeni i&scedil;ler &uuml;stte g&ouml;r&uuml;n&uuml;r.'')]]]]
          @ (if take 4 (ah_jobs s) = []
             then [Elem ''div'' [cls ''muted''] [Txt (tr ''Hen&uuml;z istek g&ouml;r&uuml;nm&uuml;yor.'')]]
             else map (\<lambda>job.
                   Elem ''div'' [cls ''metric'']
                     [Elem ''div'' [cls ''row'', Attr ''style'' ''justifyContent: space-between'']
                        [Elem ''strong'' [] [Txt (jb_model_slug job)],
                         StatusPill (Some (jb_status job))],
                      Elem ''div'' [cls ''muted''] [Txt ''job '', Txt (jb_id job)],
                      Elem ''div'' [cls ''muted''] [Txt ''request '', Txt (jb_request_id job)],
                      Elem ''div'' [cls ''muted''] [Txt (toLocaleString env (jb_created_at job))]])
                 (take 4 (ah_jobs s)))),
       Elem ''div'' [cls ''card stack secondary-card'']
         ([Elem ''div'' [cls ''surface-head'']
             [Elem ''div'' []
                [Elem ''h2'' [] [Txt (tr ''Son kullan&imath;m kay&imath;tlar&imath;'')],
                 Elem ''p'' [cls ''muted'']
                   [Txt (tr ''Maliyet ve node kazanc&imath; burada g&ouml;r&uuml;n&uuml;r.'')]]]]
          @ (if take 3 (ah_usage s) = []
             then [Elem ''div'' [cls ''muted'']
                  [Txt (tr ''Hen&uuml;z kullan&imath;m kayd&imath; g&ouml;r&uuml;nm&uuml;yor.'')]]
             else map (\<lambda>row.
                   Elem ''div'' [cls ''metric'']
                     [Elem ''div'' [cls ''row'', Attr ''style'' ''justifyContent: space-between'']
                        [Elem ''strong'' [] [Txt (us_model_slug row)],
                         StatusPill (Some (us_status row))],
                      Elem ''div'' [cls ''muted''] [Txt ''job '', Txt (us_job_id row)],
                      Elem ''div'' [cls ''muted''] [Txt ''project '', Txt (us_project_id row)],
                      Elem ''div'' [cls ''muted'']
                        [Txt ''kredi '',
                         Txt (show_int (us_cost_credits row)),
                         Txt '' / node '',
                         Txt (show_int (us_provider_reward_credits row))]])
                 (take 3 (ah_usage s))))]"

definition admin_home_body :: "env \<Rightarrow> admin_home \<Rightarrow> 'e html list" where
  "admin_home_body env s =
    showIf (\<not> (ah_loading s) \<and> ah_error s = None)
      [admin_home_queues s,
       Elem ''section'' [cls ''grid stat-strip'']
         [Elem ''div'' [cls ''metric'']
            [Elem ''strong'' [] [Txt (show_nat (length (ah_providers s)))],
             Elem ''span'' [cls ''muted''] [Txt ''Toplam node'']],
          Elem ''div'' [cls ''metric'']
            [Elem ''strong'' [] [Txt (show_nat (length (ah_models s)))],
             Elem ''span'' [cls ''muted''] [Txt ''Katalog model'']],
          Elem ''div'' [cls ''metric'']
            [Elem ''strong'' [] [Txt (show_nat (length (ah_jobs s)))],
             Elem ''span'' [cls ''muted''] [Txt ''Toplam istek'']],
          Elem ''div'' [cls ''metric'']
            [Elem ''strong'' [] [Txt (show_nat (length (ah_usage s)))],
             Elem ''span'' [cls ''muted''] [Txt (tr ''Kullan&imath;m kayd&imath;'')]]],
       admin_home_recent env s]"

definition admin_home_view :: "env \<Rightarrow> admin_home \<Rightarrow> 'e html" where
  "admin_home_view env s =
    Elem ''div'' [cls ''stack'']
      ([admin_home_head s]
       @ showIf (ah_loading s)
           [Loading (Some (tr ''Y&ouml;netim kuyru&gbreve;u haz&imath;rlan&imath;yor...'')) (Some (tr ''Node, model ve istek kay&imath;tlar&imath; y&uuml;kleniyor.''))]
       @ showIf (ah_error s \<noteq> None)
           [ErrorMessage env (ah_error s) (Some (tr ''Y&ouml;netim verileri al&imath;namad&imath;. Sayfay&imath; yenileyip tekrar dene.''))]
       @ admin_home_body env s)"

lemma admin_home_parts [simp]:
  "links (admin_home_queues s) = [''/admin/providers'', ''/admin/provider-models'', ''/admin/jobs'']"
  "links (admin_home_recent env s) = []" "links (admin_home_head s) = [''/admin/providers'', ''/admin/jobs'']"
  by (simp_all add: admin_home_queues_def admin_home_recent_def admin_home_head_def comp_def)

lemma admin_home_links:
  "links (admin_home_view env s) = [''/admin/providers'', ''/admin/jobs'']
     @ showIf (\<not> ah_loading s \<and> ah_error s = None)
         [''/admin/providers'', ''/admin/provider-models'', ''/admin/jobs'']"
  by (simp add: admin_home_view_def admin_home_body_def)

definition admin_home_inv :: "admin_home \<Rightarrow> bool" where
  "admin_home_inv s \<longleftrightarrow> ah_loading s = ah_mounting s
     \<and> (ah_error s \<noteq> None \<longrightarrow> \<not> ah_loading s \<and> ah_providers s = [] \<and> ah_jobs s = [] \<and> ah_usage s = [])
     \<and> (ah_mounting s \<longrightarrow> ah_providers s = [] \<and> ah_jobs s = [] \<and> ah_usage s = [])"

interpretation admin_home: page_machine admin_home_step admin_home_start admin_home_inv
proof
  show "admin_home_inv admin_home_start" by (simp add: admin_home_inv_def admin_home_start_def)
next
  fix s e t
  assume s: "admin_home_inv s" and "admin_home_step s e = Some t"
  then obtain r where p: "ah_mounting s" and t: "t = admin_home_loaded r s"
    by (auto simp: admin_home_step_def split: if_splits)
  then show "admin_home_inv t"
    using s by (auto simp: admin_home_inv_def admin_home_loaded_def Let_def split: sum.splits)
qed

end
