(* ===== verification/AdminProviderModels.thy ===== *)
theory AdminProviderModels
  imports Pages
begin

text \<open>
  \<open>apps/web/app/admin/provider-models/page.tsx\<close>: the queue of advertised models. \<open>pm_acting\<close> holds
  the advertisement and the decision of every unanswered request; a rejection asks for confirmation.
\<close>

datatype decision = Approve | Reject

record ads_page =
  pm_ads :: "advertisement list"
  pm_error :: "js_error option"
  pm_success :: string
  pm_loading :: bool
  pm_mounting :: bool
  pm_acting :: "(string \<times> decision) list"

datatype ad_event =
    AdsLoaded "advertisement list option http"
  | Act string decision bool
  | Acted nat "unit http"

definition ads_start :: ads_page where
  "ads_start = \<lparr>pm_ads = [], pm_error = None, pm_success = [], pm_loading = True, pm_mounting = True,
     pm_acting = []\<rparr>"

definition ads_loaded :: "js_error + advertisement list \<Rightarrow> ads_page \<Rightarrow> ads_page" where
  "ads_loaded r s =
     (let s' = s\<lparr>pm_mounting := False, pm_loading := False\<rparr>
      in case r of Inl e \<Rightarrow> s'\<lparr>pm_error := Some e\<rparr> | Inr ads \<Rightarrow> s'\<lparr>pm_ads := ads\<rparr>)"

definition ads_act :: "string \<Rightarrow> decision \<Rightarrow> bool \<Rightarrow> ads_page \<Rightarrow> ads_page" where
  "ads_act i action yes s =
     (if action = Reject \<and> \<not> yes then s
      else s\<lparr>pm_error := None, pm_success := [], pm_acting := pm_acting s @ [(i, action)]\<rparr>)"

definition decide_ad :: "string \<times> decision \<Rightarrow> (unit, unit) call" where
  "decide_ad j = (case j of (i, Approve) \<Rightarrow> approveProviderModel i | (i, Reject) \<Rightarrow> rejectProviderModel i)"

definition ads_acted :: "nat \<Rightarrow> js_error + unit \<Rightarrow> ads_page \<Rightarrow> ads_page" where
  "ads_acted n r s =
     (let (i, action) = pm_acting s ! n; s' = s\<lparr>pm_acting := drop_nth n (pm_acting s)\<rparr>
      in case r of
        Inl e \<Rightarrow> s'\<lparr>pm_error := Some e\<rparr>
      | Inr _ \<Rightarrow> s'\<lparr>pm_ads := remove_by ad_id i (pm_ads s),
                    pm_success := (if action = Approve then tr ''Model onayland&imath;.''
                                   else ''Model reddedildi.'')\<rparr>)"

fun ads_step :: "ads_page \<Rightarrow> ad_event \<Rightarrow> ads_page option" where
  "ads_step s (AdsLoaded h) =
     (if pm_mounting s then Some (ads_loaded (c_settle listPendingProviderModels h) s) else None)"
| "ads_step s (Act i action yes) =
     (if i \<in> ad_id ` set (pm_ads s) then Some (ads_act i action yes s) else None)"
| "ads_step s (Acted n h) =
     (if n < length (pm_acting s)
      then Some (ads_acted n (c_settle (decide_ad (pm_acting s ! n)) h) s) else None)"

section \<open>View\<close>

definition ads_head :: "ads_page \<Rightarrow> ad_event html" where
  "ads_head s =
    Elem ''section'' [cls ''card stack split-panel'', Attr ''style'' ''padding: 32'']
      [Elem ''div'' [cls ''stack'']
         [Elem ''span'' [cls ''eyebrow''] [Txt (tr ''Model kuyru&gbreve;u'')],
          Elem ''h1'' [] [Txt (tr ''Bekleyen model ilanlar&imath;n&imath; kapat.'')],
          Elem ''p'' [cls ''muted'', Attr ''style'' ''maxWidth: 620'']
            [Txt (tr ''Bu sayfa yaln&imath;zca bekleyen model ilanlar&imath;na odaklan&imath;r.'')],
          Elem ''div'' [cls ''row'']
            [Elem ''Link'' [cls ''button secondary'', Attr ''href'' ''/admin/providers'']
               [Txt (tr ''Ana kuyru&gbreve;a d&ouml;n'')]]],
       Elem ''div'' [cls ''grid stat-strip'']
         [Elem ''div'' [cls ''metric'']
            [Elem ''strong'' [] [Txt (show_nat (length (pm_ads s)))],
             Elem ''span'' [cls ''muted''] [Txt ''Bekleyen model'']]]]"

definition ad_row :: "env \<Rightarrow> advertisement \<Rightarrow> ad_event html" where
  "ad_row env ad =
    Elem ''tr'' []
      [Elem ''td'' []
         [Elem ''strong'' [] [Txt (ad_runtime_model_name ad)],
          Elem ''div'' [cls ''muted''] [Txt ''id '', Txt (ad_id ad)]],
       Elem ''td'' [cls ''muted''] [Txt ''node '', Txt (ad_provider_id ad)],
       Elem ''td'' [] [Txt (ad_runtime ad)],
       Elem ''td'' [] [Txt (or_else (ad_local_digest ad) (tr ''&mdash;''))],
       Elem ''td'' [] [StatusPill (Some (ad_status ad))],
       Elem ''td'' [] [Txt (toLocaleString env (ad_created_at ad))],
       Elem ''td'' [cls ''row'']
         [Elem ''button''
            [cls ''button'',
             Attr ''type'' ''button'',
             OnClick (Act (ad_id ad) Approve True)]
            [Txt ''Onayla''],
          Elem ''button''
            [cls ''button secondary'',
             Attr ''type'' ''button'',
             OnClick (Act (ad_id ad) Reject True)]
            [Txt ''Reddet'']]]"

definition ad_item :: "env \<Rightarrow> advertisement \<Rightarrow> ad_event html" where
  "ad_item env ad =
    Elem ''div'' [cls ''mobile-item'']
      [Elem ''div'' [cls ''row'']
         [Elem ''strong'' [] [Txt (ad_runtime_model_name ad)],
          StatusPill (Some (ad_status ad))],
       Elem ''div'' [cls ''meta muted'']
         [Elem ''div'' [] [Txt ''node '', Txt (ad_provider_id ad)],
          Elem ''div'' [] [Txt ''runtime '', Txt (ad_runtime ad)],
          Elem ''div'' [] [Txt ''digest '', Txt (or_else (ad_local_digest ad) (tr ''&mdash;''))],
          Elem ''div'' [] [Txt (toLocaleString env (ad_created_at ad))],
          Elem ''div'' [] [Txt ''id '', Txt (ad_id ad)]],
       Elem ''div'' [cls ''row'']
         [Elem ''button''
            [cls ''button'',
             Attr ''type'' ''button'',
             OnClick (Act (ad_id ad) Approve True)]
            [Txt ''Onayla''],
          Elem ''button''
            [cls ''button secondary'',
             Attr ''type'' ''button'',
             OnClick (Act (ad_id ad) Reject True)]
            [Txt ''Reddet'']]]"

definition ads_list :: "env \<Rightarrow> ads_page \<Rightarrow> ad_event html list" where
  "ads_list env s =
    showIf (pm_ads s \<noteq> [])
      [Elem ''section'' [cls ''card stack'']
         [Elem ''div'' [cls ''surface-head'']
            [Elem ''div'' []
               [Elem ''h2'' [] [Txt (tr ''Model ilanlar&imath;'')],
                Elem ''p'' [cls ''muted'']
                  [Txt (tr ''Model ad&imath;, node ve &ccedil;al&imath;&scedil;ma ortam&imath; birlikte g&ouml;r&uuml;n&uuml;r.'')]]],
          Elem ''div'' [cls ''surface desktop-only'']
            [Elem ''table'' []
               [Elem ''thead'' []
                  [Elem ''tr'' []
                     [Elem ''th'' [] [Txt ''Model''],
                      Elem ''th'' [] [Txt ''Node''],
                      Elem ''th'' [] [Txt ''Ortam''],
                      Elem ''th'' [] [Txt (tr ''&Ouml;zet'')],
                      Elem ''th'' [] [Txt ''Durum''],
                      Elem ''th'' [] [Txt ''Tarih''],
                      Elem ''th'' [] [Txt (tr ''&Idot;&scedil;lem'')]]],
                Elem ''tbody'' [] (map (\<lambda>ad. ad_row env ad) (pm_ads s))]],
          Elem ''div'' [cls ''mobile-only mobile-list'']
            (map (\<lambda>ad. ad_item env ad) (pm_ads s))]]"

definition ads_view :: "env \<Rightarrow> ads_page \<Rightarrow> ad_event html" where
  "ads_view env s =
    Elem ''div'' [cls ''stack'']
      ([ads_head s]
       @ showIf (pm_error s \<noteq> None)
           [ErrorMessage env (pm_error s) (Some (tr ''Model kuyru&gbreve;u al&imath;namad&imath;. Sayfay&imath; yenileyip tekrar dene.''))]
       @ showIf (pm_success s \<noteq> []) [SuccessMessage (pm_success s) None]
       @ showIf (pm_loading s)
           [Loading (Some (tr ''Bekleyen modeller y&uuml;kleniyor...'')) (Some (tr ''&Idot;nceleme listesi haz&imath;rlan&imath;yor.''))]
       @ showIf (\<not> (pm_loading s) \<and> pm_ads s = [])
           [Empty (tr ''Bekleyen model onay&imath; yok.'') (Some (tr ''Yeni ilan gelirse burada g&ouml;r&uuml;n&uuml;r.''))]
       @ ads_list env s)"

abbreviation decisions :: "advertisement \<Rightarrow> ad_event list" where
  "decisions ad \<equiv> [Act (ad_id ad) Approve True, Act (ad_id ad) Reject True]"

lemma ad_row_clicks [simp]: "clicks (ad_row env ad) = decisions ad" "clicks (ad_item env ad) = decisions ad"
  by (simp_all add: ad_row_def ad_item_def)

lemma ad_row_links [simp]: "links (ad_row env ad) = []" "links (ad_item env ad) = []"
  by (simp_all add: ad_row_def ad_item_def)

lemma ads_list_queries:
  "all_clicks (ads_list env s) = concat (map decisions (pm_ads s)) @ concat (map decisions (pm_ads s))"
  "all_links (ads_list env s) = []"
  by (simp_all add: ads_list_def comp_def showIf_def)

lemma ads_clicks:
  "clicks (ads_view env s) = concat (map decisions (pm_ads s)) @ concat (map decisions (pm_ads s))"
  by (simp add: ads_view_def ads_head_def ads_list_queries)

lemma ads_links: "links (ads_view env s) = [''/admin/providers'']"
  by (simp add: ads_view_def ads_head_def ads_list_queries)

section \<open>Invariant\<close>

text \<open>A decided advertisement never comes back: the page loads its list once.\<close>

definition ads_inv :: "ads_page \<Rightarrow> bool" where
  "ads_inv s \<longleftrightarrow> pm_loading s = pm_mounting s \<and> (pm_mounting s \<longrightarrow> pm_ads s = [] \<and> pm_acting s = [])"

lemma ads_inv_step: "ads_inv s \<Longrightarrow> ads_step s e = Some t \<Longrightarrow> ads_inv t"
  by (cases e) (auto simp: ads_inv_def ads_loaded_def ads_act_def ads_acted_def Let_def
      split: if_splits sum.splits prod.splits)

lemma ads_inv_start: "ads_inv ads_start"
  by (simp add: ads_inv_def ads_start_def)

interpretation ads_page: page_machine ads_step ads_start ads_inv
  by unfold_locales (auto intro: ads_inv_step ads_inv_start)

lemma ads_never_back:
  assumes "\<not> pm_mounting s" "ads_step s e = Some t"
  shows "\<not> pm_mounting t \<and> set (pm_ads t) \<subseteq> set (pm_ads s)"
  using assms
  by (cases e) (auto simp: ads_act_def ads_acted_def Let_def split: if_splits sum.splits prod.splits)

section \<open>Properties\<close>

text \<open>After the list is loaded no advertisement enters the queue again: whatever happens, the page
  shows a subset of what it showed, and an accepted decision takes its advertisement, and no other,
  out of the queue.\<close>

theorem ads_queue_shrinks:
  assumes "\<not> pm_mounting s" "run ads_step s es = Some t"
  shows "set (pm_ads t) \<subseteq> set (pm_ads s)
     \<and> (\<forall>n h i d. n < length (pm_acting t) \<and> pm_acting t ! n = (i, d) \<and> c_settle (decide_ad (i, d)) h = Inr ()
          \<longrightarrow> map_option pm_ads (ads_step t (Acted n h)) = Some (remove_by ad_id i (pm_ads t)))"
proof -
  have "\<not> pm_mounting t \<and> set (pm_ads t) \<subseteq> set (pm_ads s)"
    using assms
  proof (induction es arbitrary: s)
    case (Cons e es)
    then obtain u where u: "ads_step s e = Some u" "run ads_step u es = Some t"
      by (auto split: option.splits)
    with Cons.prems(1) have "\<not> pm_mounting u" "set (pm_ads u) \<subseteq> set (pm_ads s)"
      using ads_never_back by blast+
    with Cons.IH u(2) show ?case by blast
  qed simp
  then show ?thesis by (auto simp: ads_acted_def Let_def)
qed

definition demo_ad :: "string \<Rightarrow> advertisement" where
  "demo_ad i = \<lparr>ad_id = i, ad_provider_id = [], ad_runtime = [], ad_runtime_model_name = [],
     ad_local_digest = None, ad_status = [], ad_created_at = []\<rparr>"

theorem ads_queue_shrinks_witness:
  "\<exists>t. run ads_step (ads_start\<lparr>pm_mounting := False, pm_ads := [demo_ad ''a'', demo_ad ''b'']\<rparr>)
       [Act ''a'' Approve True, Acted 0 (ok_body ())] = Some t
     \<and> pm_ads t = [demo_ad ''b''] \<and> set (pm_ads t) \<subseteq> {demo_ad ''a'', demo_ad ''b''}"
proof -
  let ?s = "ads_start\<lparr>pm_mounting := False, pm_ads := [demo_ad ''a'', demo_ad ''b'']\<rparr>"
  let ?es = "[Act ''a'' Approve True, Acted 0 (ok_body ())]"
  let ?t = "the (run ads_step ?s ?es)"
  have r: "run ads_step ?s ?es = Some ?t" and p: "pm_ads ?t = [demo_ad ''b'']"
    by (simp_all add: ads_start_def ads_act_def ads_acted_def demo_ad_def decide_ad_def
        approveProviderModel_def remove_by_def)
  have "\<not> pm_mounting ?s" by simp
  from ads_queue_shrinks [OF this r] have q: "set (pm_ads ?t) \<subseteq> set (pm_ads ?s)" by (rule conjunct1)
  have "set (pm_ads ?s) = {demo_ad ''a'', demo_ad ''b''}" by simp
  with q have "set (pm_ads ?t) \<subseteq> {demo_ad ''a'', demo_ad ''b''}" by (rule ord_le_eq_trans)
  with r p show ?thesis by blast
qed

end
