(* ===== verification/AdminReview.thy ===== *)
theory AdminReview
  imports AdminHome AdminProviderModels "HOL-Library.Multiset"
begin

text \<open>
  \<open>apps/web/app/admin/providers/page.tsx\<close>: nodes and advertised models that wait for a decision.
  \<open>rv_loads\<close> counts the unanswered \<open>load\<close> calls; \<open>rv_nodes\<close> and \<open>rv_offers\<close> hold the target and the
  action of every unanswered decision. A rejection or a deactivation asks for confirmation, after
  the messages have been cleared.
\<close>

datatype tab = Nodes | Models

fun tab_text :: "tab \<Rightarrow> string" where
  "tab_text Nodes = ''nodes''"
| "tab_text Models = ''models''"

datatype node_action = ApproveNode | RejectNode | DisableNode

record review_page =
  rv_providers :: "provider list"
  rv_ads :: "advertisement list"
  rv_tab :: tab
  rv_error :: "js_error option"
  rv_success :: string
  rv_loading :: bool
  rv_loads :: nat
  rv_nodes :: "(string \<times> node_action) list"
  rv_offers :: "(string \<times> decision) list"

datatype review_event =
    ReviewLoaded "(provider list option http, advertisement list option http) outcome2"
  | SetTab tab
  | ActOnProvider string node_action bool
  | NodeActed nat "unit http"
  | ActOnModel string decision bool
  | ModelActed nat "unit http"

section \<open>Handlers\<close>

definition review_load :: "review_page \<Rightarrow> review_page" where
  "review_load s = s\<lparr>rv_loading := True, rv_error := None, rv_loads := Suc (rv_loads s)\<rparr>"

definition review_start :: review_page where
  "review_start = review_load \<lparr>rv_providers = [], rv_ads = [], rv_tab = Nodes, rv_error = None,
     rv_success = [], rv_loading = True, rv_loads = 0, rv_nodes = [], rv_offers = []\<rparr>"

definition review_loaded :: "js_error + provider list \<times> advertisement list \<Rightarrow> review_page \<Rightarrow> review_page" where
  "review_loaded r s =
     (let s' = s\<lparr>rv_loads := rv_loads s - 1, rv_loading := False\<rparr>
      in case r of
        Inl e \<Rightarrow> s'\<lparr>rv_error := Some e\<rparr>
      | Inr (providers, ads) \<Rightarrow>
          s'\<lparr>rv_providers := providers, rv_ads := ads,
             rv_tab := (if pending_providers providers = [] \<and> ads \<noteq> [] then Models else rv_tab s)\<rparr>)"

definition review_act_node :: "string \<Rightarrow> node_action \<Rightarrow> bool \<Rightarrow> review_page \<Rightarrow> review_page" where
  "review_act_node i action yes s =
     (let s' = s\<lparr>rv_error := None, rv_success := []\<rparr>
      in if action \<noteq> ApproveNode \<and> \<not> yes then s'
         else s'\<lparr>rv_nodes := rv_nodes s @ [(i, action)]\<rparr>)"

definition node_call :: "string \<times> node_action \<Rightarrow> (unit, unit) call" where
  "node_call j = (case j of
       (i, ApproveNode) \<Rightarrow> approveProvider i
     | (i, RejectNode) \<Rightarrow> rejectProvider i
     | (i, DisableNode) \<Rightarrow> disableProvider i)"

fun node_message :: "node_action \<Rightarrow> string" where
  "node_message ApproveNode = tr ''Node onayland&imath;.''"
| "node_message RejectNode = ''Node reddedildi.''"
| "node_message DisableNode = tr ''Node devre d&imath;&scedil;&imath; b&imath;rak&imath;ld&imath;.''"

definition review_node_acted :: "nat \<Rightarrow> js_error + unit \<Rightarrow> review_page \<Rightarrow> review_page" where
  "review_node_acted n r s =
     (let action = snd (rv_nodes s ! n); s' = s\<lparr>rv_nodes := drop_nth n (rv_nodes s)\<rparr>
      in case r of
        Inl e \<Rightarrow> s'\<lparr>rv_error := Some e\<rparr>
      | Inr _ \<Rightarrow> review_load (s'\<lparr>rv_success := node_message action\<rparr>))"

definition review_act_model :: "string \<Rightarrow> decision \<Rightarrow> bool \<Rightarrow> review_page \<Rightarrow> review_page" where
  "review_act_model i action yes s =
     (let s' = s\<lparr>rv_error := None, rv_success := []\<rparr>
      in if action = Reject \<and> \<not> yes then s'
         else s'\<lparr>rv_offers := rv_offers s @ [(i, action)]\<rparr>)"

definition review_model_acted :: "nat \<Rightarrow> js_error + unit \<Rightarrow> review_page \<Rightarrow> review_page" where
  "review_model_acted n r s =
     (let action = snd (rv_offers s ! n); s' = s\<lparr>rv_offers := drop_nth n (rv_offers s)\<rparr>
      in case r of
        Inl e \<Rightarrow> s'\<lparr>rv_error := Some e\<rparr>
      | Inr _ \<Rightarrow> review_load (s'\<lparr>rv_success := (if action = Approve then tr ''Model onayland&imath;.''
                                            else ''Model reddedildi.'')\<rparr>))"

definition sorted_providers :: "provider list \<Rightarrow> provider list" where
  "sorted_providers ps =
     pending_providers ps @ filter (\<lambda>p. pv_approval_status p \<noteq> ''pending'') ps"

definition pending_nodes :: "review_page \<Rightarrow> bool" where
  "pending_nodes s \<longleftrightarrow> length (pending_providers (rv_providers s)) > 0"

definition pending_models :: "review_page \<Rightarrow> bool" where
  "pending_models s \<longleftrightarrow> length (rv_ads s) > 0"

text \<open>The actions that a node of the list offers.\<close>

fun offers_action :: "provider \<Rightarrow> node_action \<Rightarrow> bool" where
  "offers_action p ApproveNode = (pv_approval_status p \<noteq> ''approved'')"
| "offers_action p RejectNode = (pv_approval_status p \<noteq> ''rejected'')"
| "offers_action p DisableNode = (pv_status p \<noteq> ''disabled'')"

definition can_act_node :: "string \<Rightarrow> node_action \<Rightarrow> review_page \<Rightarrow> bool" where
  "can_act_node i action s \<longleftrightarrow> \<not> rv_loading s \<and> rv_tab s = Nodes
     \<and> (\<exists>p \<in> set (rv_providers s). pv_id p = i \<and> offers_action p action)"

definition can_act_model :: "string \<Rightarrow> review_page \<Rightarrow> bool" where
  "can_act_model i s \<longleftrightarrow> \<not> rv_loading s \<and> rv_tab s = Models \<and> i \<in> ad_id ` set (rv_ads s)"

fun review_step :: "review_page \<Rightarrow> review_event \<Rightarrow> review_page option" where
  "review_step s (ReviewLoaded r) =
     (if rv_loads s > 0
      then map_option (\<lambda>r. review_loaded r s)
             (settle2 (c_settle listAdminProviders) (c_settle listPendingProviderModels) r)
      else None)"
| "review_step s (SetTab t) = Some (s\<lparr>rv_tab := t\<rparr>)"
| "review_step s (ActOnProvider i action yes) =
     (if can_act_node i action s then Some (review_act_node i action yes s) else None)"
| "review_step s (NodeActed n h) =
     (if n < length (rv_nodes s)
      then Some (review_node_acted n (c_settle (node_call (rv_nodes s ! n)) h) s) else None)"
| "review_step s (ActOnModel i action yes) =
     (if can_act_model i s then Some (review_act_model i action yes s) else None)"
| "review_step s (ModelActed n h) =
     (if n < length (rv_offers s)
      then Some (review_model_acted n (c_settle (decide_ad (rv_offers s ! n)) h) s) else None)"

section \<open>View\<close>

definition review_head :: "review_page \<Rightarrow> review_event html" where
  "review_head s =
    Elem ''section'' [cls ''card stack'', Attr ''style'' ''padding: 32'']
      [Elem ''div'' [cls ''split-panel'']
         [Elem ''div'' [cls ''stack'']
            [Elem ''span'' [cls ''eyebrow''] [Txt (tr ''&Idot;nceleme'')],
             Elem ''h1'' [] [Txt (tr ''Bekleyen i&scedil;leri h&imath;zl&imath;ca temizle.'')],
             Elem ''p'' [cls ''muted'', Attr ''style'' ''maxWidth: 620'']
               [Txt (tr ''&Ouml;nce bekleyen node&apos;lar&imath; ve modelleri kapat. Sonra istek ekran&imath;na ge&ccedil;.'')],
             Elem ''div'' [cls ''row'']
               [Elem ''button''
                  [cls (''button '' @ (if tab_text (rv_tab s) = ''nodes'' then [] else ''secondary'')),
                   Attr ''type'' ''button'',
                   OnClick (SetTab Nodes)]
                  ([Txt (tr ''Node kuyru&gbreve;u '')]
                   @ (if pending_nodes s
                      then [Txt (''('' @ (show_nat (length (pending_providers (rv_providers s)))) @ '')'')]
                      else [Txt []])),
                Elem ''button''
                  [cls (''button '' @ (if tab_text (rv_tab s) = ''models'' then [] else ''secondary'')),
                   Attr ''type'' ''button'',
                   OnClick (SetTab Models)]
                  ([Txt (tr ''Model kuyru&gbreve;u '')]
                   @ (if pending_models s
                      then [Txt (''('' @ (show_nat (length (rv_ads s))) @ '')'')]
                      else [Txt []]))]],
          Elem ''div'' [cls ''grid stat-strip'']
            [Elem ''div'' [cls ''metric'']
               [Elem ''strong'' [] [Txt (show_nat (length (pending_providers (rv_providers s))))],
                Elem ''span'' [cls ''muted''] [Txt ''Bekleyen node'']],
             Elem ''div'' [cls ''metric'']
               [Elem ''strong'' [] [Txt (show_nat (length (rv_ads s)))],
                Elem ''span'' [cls ''muted''] [Txt ''Bekleyen model'']],
             Elem ''div'' [cls ''metric'']
               [Elem ''strong'' [] [Txt (show_nat (length (rv_providers s)))],
                Elem ''span'' [cls ''muted''] [Txt ''Toplam node'']]]]]"

definition node_row :: "env \<Rightarrow> provider \<Rightarrow> review_event html" where
  "node_row env provider =
    Elem ''tr'' []
      [Elem ''td'' []
         [Elem ''strong'' [] [Txt (pv_name provider)],
          Elem ''div'' [cls ''muted''] [Txt ''id '', Txt (pv_id provider)]],
       Elem ''td'' [] [StatusPill (Some (pv_approval_status provider))],
       Elem ''td'' [] [StatusPill (Some (pv_status provider))],
       Elem ''td'' [] [Txt (or_else (pv_region_hint provider) (tr ''&mdash;''))],
       Elem ''td'' [] [Txt (toLocaleString env (pv_created_at provider))],
       Elem ''td'' [cls ''row'']
         (showIf (pv_approval_status provider \<noteq> ''approved'')
            [Elem ''button''
               [cls ''button'',
                Attr ''type'' ''button'',
                OnClick (ActOnProvider (pv_id provider) ApproveNode True)]
               [Txt ''Onayla'']]
          @ showIf (pv_approval_status provider \<noteq> ''rejected'')
              [Elem ''button''
                 [cls ''button secondary'',
                  Attr ''type'' ''button'',
                  OnClick (ActOnProvider (pv_id provider) RejectNode True)]
                 [Txt ''Reddet'']]
          @ showIf (pv_status provider \<noteq> ''disabled'')
              [Elem ''button''
                 [cls ''button danger'',
                  Attr ''type'' ''button'',
                  OnClick (ActOnProvider (pv_id provider) DisableNode True)]
                 [Txt (tr ''Devre d&imath;&scedil;&imath;'')]])]"

definition node_item :: "env \<Rightarrow> provider \<Rightarrow> review_event html" where
  "node_item env provider =
    Elem ''div'' [cls ''mobile-item'']
      [Elem ''div'' [cls ''row'']
         [Elem ''strong'' [] [Txt (pv_name provider)],
          StatusPill (Some (pv_approval_status provider)),
          StatusPill (Some (pv_status provider))],
       Elem ''div'' [cls ''meta muted'']
         [Elem ''div'' []
            [Txt (tr ''b&ouml;lge ''),
             Txt (or_else (pv_region_hint provider) (tr ''&mdash;''))],
          Elem ''div'' [] [Txt (toLocaleString env (pv_created_at provider))],
          Elem ''div'' [] [Txt ''id '', Txt (pv_id provider)]],
       Elem ''div'' [cls ''row'']
         (showIf (pv_approval_status provider \<noteq> ''approved'')
            [Elem ''button''
               [cls ''button'',
                Attr ''type'' ''button'',
                OnClick (ActOnProvider (pv_id provider) ApproveNode True)]
               [Txt ''Onayla'']]
          @ showIf (pv_approval_status provider \<noteq> ''rejected'')
              [Elem ''button''
                 [cls ''button secondary'',
                  Attr ''type'' ''button'',
                  OnClick (ActOnProvider (pv_id provider) RejectNode True)]
                 [Txt ''Reddet'']]
          @ showIf (pv_status provider \<noteq> ''disabled'')
              [Elem ''button''
                 [cls ''button danger'',
                  Attr ''type'' ''button'',
                  OnClick (ActOnProvider (pv_id provider) DisableNode True)]
                 [Txt (tr ''Devre d&imath;&scedil;&imath;'')]])]"

definition review_nodes :: "env \<Rightarrow> review_page \<Rightarrow> review_event html list" where
  "review_nodes env s =
    showIf (tab_text (rv_tab s) = ''nodes'')
      ((if sorted_providers (rv_providers s) = []
       then [Empty (tr ''&Idot;ncelenecek node yok.'') (Some (tr ''Yeni node gelince burada g&ouml;r&uuml;n&uuml;r.''))]
       else [Elem ''section'' [cls ''card stack'']
            (showIf (\<not> (pending_nodes s))
               [Elem ''div'' [cls ''notice'']
                  [Txt (tr ''Node kuyru&gbreve;u temiz. &Idot;stersen model kuyru&gbreve;una veya istek ekran&imath;na ge&ccedil;.'')]]
             @ [Elem ''div'' [cls ''surface desktop-only'']
                  [Elem ''table'' []
                     [Elem ''thead'' []
                        [Elem ''tr'' []
                           [Elem ''th'' [] [Txt ''Node''],
                            Elem ''th'' [] [Txt ''Onay''],
                            Elem ''th'' [] [Txt ''Durum''],
                            Elem ''th'' [] [Txt (tr ''B&ouml;lge'')],
                            Elem ''th'' [] [Txt (tr ''Olu&scedil;turulma'')],
                            Elem ''th'' [] [Txt (tr ''&Idot;&scedil;lem'')]]],
                      Elem ''tbody'' []
                        (map (\<lambda>provider. node_row env provider) (sorted_providers (rv_providers s)))]],
                Elem ''div'' [cls ''mobile-only mobile-list'']
                  (map (\<lambda>provider. node_item env provider) (sorted_providers (rv_providers s)))])]))"

definition offer_row :: "advertisement \<Rightarrow> review_event html" where
  "offer_row ad =
    Elem ''tr'' []
      [Elem ''td'' []
         [Elem ''strong'' [] [Txt (ad_runtime_model_name ad)],
          Elem ''div'' [cls ''muted''] [Txt ''id '', Txt (ad_id ad)]],
       Elem ''td'' [cls ''muted''] [Txt ''node '', Txt (ad_provider_id ad)],
       Elem ''td'' [] [Txt (ad_runtime ad)],
       Elem ''td'' [] [StatusPill (Some (ad_status ad))],
       Elem ''td'' [cls ''row'']
         [Elem ''button''
            [cls ''button'',
             Attr ''type'' ''button'',
             OnClick (ActOnModel (ad_id ad) Approve True)]
            [Txt ''Onayla''],
          Elem ''button''
            [cls ''button secondary'',
             Attr ''type'' ''button'',
             OnClick (ActOnModel (ad_id ad) Reject True)]
            [Txt ''Reddet'']]]"

definition offer_item :: "advertisement \<Rightarrow> review_event html" where
  "offer_item ad =
    Elem ''div'' [cls ''mobile-item'']
      [Elem ''div'' [cls ''row'']
         [Elem ''strong'' [] [Txt (ad_runtime_model_name ad)],
          StatusPill (Some (ad_status ad))],
       Elem ''div'' [cls ''meta muted'']
         [Elem ''div'' [] [Txt ''node '', Txt (ad_provider_id ad)],
          Elem ''div'' [] [Txt ''runtime '', Txt (ad_runtime ad)],
          Elem ''div'' [] [Txt ''id '', Txt (ad_id ad)]],
       Elem ''div'' [cls ''row'']
         [Elem ''button''
            [cls ''button'',
             Attr ''type'' ''button'',
             OnClick (ActOnModel (ad_id ad) Approve True)]
            [Txt ''Onayla''],
          Elem ''button''
            [cls ''button secondary'',
             Attr ''type'' ''button'',
             OnClick (ActOnModel (ad_id ad) Reject True)]
            [Txt ''Reddet'']]]"

definition review_models :: "review_page \<Rightarrow> review_event html list" where
  "review_models s =
    showIf (tab_text (rv_tab s) = ''models'')
      ((if rv_ads s = []
       then [Elem ''div'' [cls ''card stack'']
            [Empty (tr ''Bekleyen model onay&imath; yok.'') (Some (tr ''Yeni model ilan&imath; gelirse burada g&ouml;r&uuml;n&uuml;r.'')),
             Elem ''div'' [cls ''row'']
               [Elem ''Link'' [cls ''button secondary'', Attr ''href'' ''/admin/jobs'']
                  [Txt (tr ''&Idot;stekleri a&ccedil;'')]]]]
       else [Elem ''section'' [cls ''card stack'']
            [Elem ''div'' [cls ''surface desktop-only'']
               [Elem ''table'' []
                  [Elem ''thead'' []
                     [Elem ''tr'' []
                        [Elem ''th'' [] [Txt ''Model''],
                         Elem ''th'' [] [Txt ''Node''],
                         Elem ''th'' [] [Txt ''Ortam''],
                         Elem ''th'' [] [Txt ''Durum''],
                         Elem ''th'' [] [Txt (tr ''&Idot;&scedil;lem'')]]],
                   Elem ''tbody'' [] (map (\<lambda>ad. offer_row ad) (rv_ads s))]],
             Elem ''div'' [cls ''mobile-only mobile-list'']
               (map (\<lambda>ad. offer_item ad) (rv_ads s))]]))"

definition review_view :: "env \<Rightarrow> review_page \<Rightarrow> review_event html" where
  "review_view env s =
    Elem ''div'' [cls ''stack'']
      ([review_head s]
       @ showIf (rv_error s \<noteq> None)
           [ErrorMessage env (rv_error s) (Some (tr ''&Idot;nceleme verileri al&imath;namad&imath;. Sayfay&imath; yenileyip tekrar dene.''))]
       @ showIf (rv_success s \<noteq> []) [SuccessMessage (rv_success s) None]
       @ showIf (rv_loading s)
           [Loading (Some (tr ''&Idot;nceleme kuyru&gbreve;u haz&imath;rlan&imath;yor...'')) (Some (tr ''Node ve model listeleri y&uuml;kleniyor.''))]
       @ showIf (\<not> (rv_loading s))
           (review_nodes env s
           @ review_models s))"

lemma tab_text_eq [simp]: "tab_text t = ''nodes'' \<longleftrightarrow> t = Nodes" "tab_text t = ''models'' \<longleftrightarrow> t = Models"
  by (cases t; simp)+

definition node_actions :: "provider \<Rightarrow> review_event list" where
  "node_actions p =
     showIf (offers_action p ApproveNode) [ActOnProvider (pv_id p) ApproveNode True]
     @ showIf (offers_action p RejectNode) [ActOnProvider (pv_id p) RejectNode True]
     @ showIf (offers_action p DisableNode) [ActOnProvider (pv_id p) DisableNode True]"

abbreviation model_actions :: "advertisement \<Rightarrow> review_event list" where
  "model_actions ad \<equiv> [ActOnModel (ad_id ad) Approve True, ActOnModel (ad_id ad) Reject True]"

lemma review_row_clicks [simp]:
  "clicks (node_row env p) = node_actions p" "clicks (node_item env p) = node_actions p"
  "clicks (offer_row ad) = model_actions ad" "clicks (offer_item ad) = model_actions ad"
  by (simp_all add: node_row_def node_item_def offer_row_def offer_item_def node_actions_def)

lemma review_row_links [simp]:
  "links (node_row env p) = []" "links (node_item env p) = []"
  "links (offer_row ad) = []" "links (offer_item ad) = []"
  by (simp_all add: node_row_def node_item_def offer_row_def offer_item_def)

lemma set_sorted_providers [simp]: "set (sorted_providers ps) = set ps"
  by (auto simp: sorted_providers_def pending_providers_def)

lemma review_nodes_clicks:
  "all_clicks (review_nodes env s) = showIf (rv_tab s = Nodes)
     (concat (map node_actions (sorted_providers (rv_providers s)))
      @ concat (map node_actions (sorted_providers (rv_providers s))))"
  by (simp add: review_nodes_def comp_def showIf_def)

lemma review_models_clicks:
  "all_clicks (review_models s) = showIf (rv_tab s = Models)
     (concat (map model_actions (rv_ads s)) @ concat (map model_actions (rv_ads s)))"
  by (simp add: review_models_def comp_def showIf_def)

lemma review_head_clicks [simp]: "clicks (review_head s) = [SetTab Nodes, SetTab Models]"
  by (simp add: review_head_def)

lemma review_clicks:
  "clicks (review_view env s) = [SetTab Nodes, SetTab Models]
     @ showIf (\<not> rv_loading s) (all_clicks (review_nodes env s) @ all_clicks (review_models s))"
  by (simp add: review_view_def comp_def)

lemma review_links: "links (review_view env s) =
    showIf (\<not> rv_loading s \<and> rv_tab s = Models \<and> rv_ads s = []) [''/admin/jobs'']"
  by (simp add: review_view_def review_head_def review_nodes_def review_models_def comp_def showIf_def)

section \<open>Invariant\<close>

text \<open>The page loads only while a \<open>load\<close> is unanswered.\<close>

definition review_inv :: "review_page \<Rightarrow> bool" where
  "review_inv s \<longleftrightarrow> (rv_loading s \<longrightarrow> rv_loads s > 0)"

lemma review_inv_handlers:
  "review_inv (review_loaded r s)" "review_inv s \<Longrightarrow> review_inv (s\<lparr>rv_tab := t\<rparr>)"
  "review_inv s \<Longrightarrow> review_inv (review_act_node i a b s)" "review_inv s \<Longrightarrow> review_inv (review_act_model i d b s)"
  "review_inv s \<Longrightarrow> review_inv (review_node_acted n q s)" "review_inv s \<Longrightarrow> review_inv (review_model_acted n q s)"
  by (simp_all add: review_inv_def review_loaded_def review_act_node_def review_node_acted_def
      review_act_model_def review_model_acted_def review_load_def Let_def split: sum.split prod.split)

lemma review_inv_step: "review_inv s \<Longrightarrow> review_step s e = Some t \<Longrightarrow> review_inv t"
  by (cases e) (auto intro: review_inv_handlers split: if_splits)

lemma review_inv_start: "review_inv review_start"
  by (simp add: review_inv_def review_start_def review_load_def)

interpretation review_page: page_machine review_step review_start review_inv
  by unfold_locales (auto intro: review_inv_step review_inv_start)

text \<open>No node is lost or duplicated by the sorting, and those that wait come first.\<close>

lemma sorted_providers_mset: "mset (sorted_providers ps) = mset ps"
  unfolding sorted_providers_def pending_providers_def by (induction ps) simp_all

section \<open>Properties\<close>

text \<open>The review page offers a decision exactly when its handler takes it: for nodes by their
  approval and status on the node tab, for advertised models on the model tab, and nothing but the
  tabs while it loads.\<close>

theorem review_offered_events:
  "(ActOnProvider i a True \<in> set (clicks (review_view env s)) \<longleftrightarrow> review_step s (ActOnProvider i a True) \<noteq> None)
   \<and> (ActOnModel i d True \<in> set (clicks (review_view env s)) \<longleftrightarrow> review_step s (ActOnModel i d True) \<noteq> None)
   \<and> (rv_loading s \<longrightarrow> clicks (review_view env s) = [SetTab Nodes, SetTab Models])"
proof -
  have n: "ActOnProvider i a True \<in> set (node_actions p) \<longleftrightarrow> pv_id p = i \<and> offers_action p a" for p
    by (cases a) (auto simp: node_actions_def showIf_def)
  have m: "ActOnModel i d True \<notin> set (node_actions p)" for p
    by (auto simp: node_actions_def showIf_def)
  have d: "ActOnModel i d True \<in> set (model_actions ad) \<longleftrightarrow> ad_id ad = i" for ad
    by (cases d) auto
  have "ActOnProvider i a True \<in> set (clicks (review_view env s)) \<longleftrightarrow> can_act_node i a s"
    by (auto simp: review_clicks review_nodes_clicks review_models_clicks showIf_def n can_act_node_def)
  moreover have "ActOnModel i d True \<in> set (clicks (review_view env s)) \<longleftrightarrow> can_act_model i s"
    using d by (auto simp: review_clicks review_nodes_clicks review_models_clicks showIf_def m can_act_model_def)
  ultimately show ?thesis by (simp add: review_clicks)
qed

theorem review_offered_events_witness:
  "\<forall>env. clicks (review_view env review_start) = [SetTab Nodes, SetTab Models]"
proof
  fix env
  have "rv_loading review_start" by (simp add: review_start_def review_load_def)
  with review_offered_events [where s = review_start and env = env]
  show "clicks (review_view env review_start) = [SetTab Nodes, SetTab Models]" by simp
qed

text \<open>The node table shows every loaded node once, and no node that waits comes after one that does
  not; both groups keep the order of the API.\<close>

theorem review_order:
  "mset (sorted_providers ps) = mset ps
   \<and> (\<exists>k. (\<forall>p \<in> set (take k (sorted_providers ps)). pv_approval_status p = ''pending'')
         \<and> (\<forall>p \<in> set (drop k (sorted_providers ps)). pv_approval_status p \<noteq> ''pending''))
   \<and> filter P (sorted_providers ps) = filter P (pending_providers ps)
        @ filter P (filter (\<lambda>p. pv_approval_status p \<noteq> ''pending'') ps)"
proof -
  let ?k = "length (pending_providers ps)"
  have "(\<forall>p \<in> set (take ?k (sorted_providers ps)). pv_approval_status p = ''pending'')
      \<and> (\<forall>p \<in> set (drop ?k (sorted_providers ps)). pv_approval_status p \<noteq> ''pending'')"
    by (simp add: sorted_providers_def) (simp add: pending_providers_def)
  moreover have "filter P (sorted_providers ps) = filter P (pending_providers ps)
        @ filter P (filter (\<lambda>p. pv_approval_status p \<noteq> ''pending'') ps)"
    by (simp add: sorted_providers_def)
  ultimately show ?thesis using sorted_providers_mset by blast
qed

theorem review_order_witness:
  "mset (sorted_providers []) = mset ([] :: provider list)"
  using review_order [of "[]"] by blast

text \<open>Every accepted decision is followed by exactly one new load, and a refused one by none; the
  message names the decision that was taken.\<close>

theorem review_reloads:
  assumes "review_step s (NodeActed n h) = Some t" "rv_nodes s ! n = (i, a)"
  shows "(case c_settle (node_call (i, a)) h of
      Inl e \<Rightarrow> rv_loads t = rv_loads s \<and> rv_error t = Some e
    | Inr _ \<Rightarrow> rv_loads t = Suc (rv_loads s) \<and> rv_loading t \<and> rv_success t = node_message a)
     \<and> length (rv_nodes t) + 1 = length (rv_nodes s)"
proof -
  have n: "n < length (rv_nodes s)" using assms(1) by (auto split: if_splits)
  then have t: "t = review_node_acted n (c_settle (node_call (i, a)) h) s" using assms by simp
  from n show ?thesis
    by (auto simp: t review_node_acted_def review_load_def assms(2) Let_def split: sum.split)
qed

theorem review_reloads_witness:
  "\<exists>t. review_step (review_start\<lparr>rv_nodes := [(''n'', ApproveNode)]\<rparr>) (NodeActed 0 (ok_body ())) = Some t
     \<and> rv_loads t = 2"
proof -
  let ?s = "review_start\<lparr>rv_nodes := [(''n'', ApproveNode)]\<rparr>"
  let ?t = "the (review_step ?s (NodeActed 0 (ok_body ())))"
  have r: "review_step ?s (NodeActed 0 (ok_body ())) = Some ?t" by simp
  have "rv_nodes ?s ! 0 = (''n'', ApproveNode)" by simp
  from review_reloads [OF r this] have "rv_loads ?t = 2"
    by (simp add: node_call_def approveProvider_def review_start_def review_load_def)
  with r show ?thesis by blast
qed

end
