(* ===== verification/AdminModels.thy ===== *)
theory AdminModels
  imports Pages
begin

text \<open>
  \<open>apps/web/app/admin/models/page.tsx\<close>: the model catalog. Three kinds of requests can be in flight:
  the creation of a model (\<open>am_creating\<close>), changes of a status (\<open>am_updating\<close>, with the model and the
  status) and pauses (\<open>am_pausing\<close>).
\<close>

section \<open>The form\<close>

record model_form =
  mf_slug :: string
  mf_displayName :: string
  mf_description :: string
  mf_family :: string
  mf_status :: string
  mf_contextLength :: string
  mf_defaultMaxOutputTokens :: string
  mf_inputCreditPer1K :: string
  mf_outputCreditPer1K :: string
  mf_providerRewardRatio :: string
  mf_minVramMB :: string
  mf_recommendedVramMB :: string
  mf_licenseName :: string
  mf_licenseURL :: string
  mf_licenseNotes :: string
  mf_communityAllowed :: bool

definition defaultForm :: model_form where
  "defaultForm =
     \<lparr>mf_slug = [], mf_displayName = [], mf_description = [], mf_family = [], mf_status = ''active'',
      mf_contextLength = ''4096'', mf_defaultMaxOutputTokens = ''1024'', mf_inputCreditPer1K = ''10'',
      mf_outputCreditPer1K = ''20'', mf_providerRewardRatio = ''0.7'', mf_minVramMB = ''8192'',
      mf_recommendedVramMB = ''12288'', mf_licenseName = ''unknown'', mf_licenseURL = [],
      mf_licenseNotes = [], mf_communityAllowed = True\<rparr>"

datatype form_field =
    F_slug
  | F_displayName
  | F_description
  | F_family
  | F_status
  | F_contextLength
  | F_defaultMaxOutputTokens
  | F_inputCreditPer1K
  | F_outputCreditPer1K
  | F_providerRewardRatio
  | F_minVramMB
  | F_recommendedVramMB
  | F_licenseName
  | F_licenseURL
  | F_licenseNotes

fun set_field :: "form_field \<Rightarrow> string \<Rightarrow> model_form \<Rightarrow> model_form" where
  "set_field F_slug v form = form\<lparr>mf_slug := v\<rparr>"
| "set_field F_displayName v form = form\<lparr>mf_displayName := v\<rparr>"
| "set_field F_description v form = form\<lparr>mf_description := v\<rparr>"
| "set_field F_family v form = form\<lparr>mf_family := v\<rparr>"
| "set_field F_status v form = form\<lparr>mf_status := v\<rparr>"
| "set_field F_contextLength v form = form\<lparr>mf_contextLength := v\<rparr>"
| "set_field F_defaultMaxOutputTokens v form = form\<lparr>mf_defaultMaxOutputTokens := v\<rparr>"
| "set_field F_inputCreditPer1K v form = form\<lparr>mf_inputCreditPer1K := v\<rparr>"
| "set_field F_outputCreditPer1K v form = form\<lparr>mf_outputCreditPer1K := v\<rparr>"
| "set_field F_providerRewardRatio v form = form\<lparr>mf_providerRewardRatio := v\<rparr>"
| "set_field F_minVramMB v form = form\<lparr>mf_minVramMB := v\<rparr>"
| "set_field F_recommendedVramMB v form = form\<lparr>mf_recommendedVramMB := v\<rparr>"
| "set_field F_licenseName v form = form\<lparr>mf_licenseName := v\<rparr>"
| "set_field F_licenseURL v form = form\<lparr>mf_licenseURL := v\<rparr>"
| "set_field F_licenseNotes v form = form\<lparr>mf_licenseNotes := v\<rparr>"

definition numberValue :: "string \<Rightarrow> js_error + rat" where
  "numberValue value = (case toNumber value of
       Finite q \<Rightarrow> Inr q
     | _ \<Rightarrow> Inl (FormError (tr ''Ge&ccedil;erli say&imath;sal model alanlar&imath; gir.'')))"

definition no_payload :: model_payload where
  "no_payload =
     \<lparr>mp_slug = None, mp_display_name = None, mp_description = None, mp_family = None,
      mp_modality = None, mp_status = None, mp_context_length = None,
      mp_default_max_output_tokens = None, mp_input_credit_per_1k = None,
      mp_output_credit_per_1k = None, mp_provider_reward_ratio = None, mp_min_vram_mb = None,
      mp_recommended_vram_mb = None, mp_license_name = None, mp_license_url = None,
      mp_license_notes = None, mp_community_allowed = None, mp_external_only = None\<rparr>"

definition modelPayload :: "model_form \<Rightarrow> js_error + model_payload" where
  "modelPayload form =
     and_then (numberValue (mf_contextLength form)) (\<lambda>context.
     and_then (numberValue (mf_defaultMaxOutputTokens form)) (\<lambda>output.
     and_then (numberValue (mf_inputCreditPer1K form)) (\<lambda>inputCredit.
     and_then (numberValue (mf_outputCreditPer1K form)) (\<lambda>outputCredit.
     and_then (numberValue (mf_providerRewardRatio form)) (\<lambda>ratio.
     and_then (numberValue (mf_minVramMB form)) (\<lambda>minVram.
     and_then (numberValue (mf_recommendedVramMB form)) (\<lambda>recommended.
       Inr \<lparr>mp_slug = Some (mf_slug form), mp_display_name = Some (mf_displayName form),
            mp_description = Some (mf_description form), mp_family = Some (mf_family form),
            mp_modality = Some ''text'', mp_status = Some (mf_status form),
            mp_context_length = Some context, mp_default_max_output_tokens = Some output,
            mp_input_credit_per_1k = Some inputCredit, mp_output_credit_per_1k = Some outputCredit,
            mp_provider_reward_ratio = Some ratio, mp_min_vram_mb = Some minVram,
            mp_recommended_vram_mb = Some recommended, mp_license_name = Some (mf_licenseName form),
            mp_license_url = Some (let url = trim (mf_licenseURL form)
                                   in if url = [] then None else Some url),
            mp_license_notes = Some (mf_licenseNotes form),
            mp_community_allowed = Some (mf_communityAllowed form),
            mp_external_only = Some False\<rparr>)))))))"

section \<open>State\<close>

record models_page =
  am_models :: "model list"
  am_form :: model_form
  am_editingID :: string
  am_editingStatus :: string
  am_error :: "js_error option"
  am_success :: string
  am_loading :: bool
  am_saving :: bool
  am_mounting :: bool
  am_creating :: "model_payload list"
  am_updating :: "(string \<times> string) list"
  am_pausing :: "string list"
  am_crashed :: bool

datatype model_event =
    ModelsLoaded "model list option http"
  | SetField form_field string
  | SetCommunity bool
  | SubmitModel
  | ModelCreated nat "model option http"
  | SetEditing string
  | SetEditingStatus string
  | SaveStatus
  | StatusSaved nat "model option http"
  | Pause string bool
  | Paused nat "unit http"

definition models_start :: models_page where
  "models_start = \<lparr>am_models = [], am_form = defaultForm, am_editingID = [],
     am_editingStatus = ''active'', am_error = None, am_success = [], am_loading = True,
     am_saving = False, am_mounting = True, am_creating = [], am_updating = [], am_pausing = [],
     am_crashed = False\<rparr>"

section \<open>Handlers\<close>

definition models_loaded :: "js_error + model list \<Rightarrow> models_page \<Rightarrow> models_page" where
  "models_loaded r s =
     (let s' = s\<lparr>am_mounting := False, am_loading := False\<rparr>
      in case r of Inl e \<Rightarrow> s'\<lparr>am_error := Some e\<rparr> | Inr ms \<Rightarrow> s'\<lparr>am_models := ms\<rparr>)"

definition amount_or_zero :: "rat option \<Rightarrow> rat" where
  "amount_or_zero x = (case x of None \<Rightarrow> 0 | Some q \<Rightarrow> q)"

definition checked_payload :: "model_form \<Rightarrow> js_error + model_payload" where
  "checked_payload form = and_then (modelPayload form) (\<lambda>payload.
     if amount_or_zero (mp_recommended_vram_mb payload) < amount_or_zero (mp_min_vram_mb payload)
     then Inl (FormError (tr ''&Ouml;nerilen VRAM, minimum VRAM de&gbreve;erinden k&uuml;&ccedil;&uuml;k olamaz.''))
     else Inr payload)"

definition models_submit :: "models_page \<Rightarrow> models_page" where
  "models_submit s =
     (let s' = s\<lparr>am_saving := True, am_error := None, am_success := []\<rparr>
      in case checked_payload (am_form s) of
        Inl e \<Rightarrow> s'\<lparr>am_error := Some e, am_saving := False\<rparr>
      | Inr payload \<Rightarrow> s'\<lparr>am_creating := am_creating s @ [payload]\<rparr>)"

definition models_created :: "nat \<Rightarrow> js_error + model option \<Rightarrow> models_page \<Rightarrow> models_page" where
  "models_created i r s =
     (let s' = s\<lparr>am_creating := drop_nth i (am_creating s), am_saving := False\<rparr>
      in case r of
        Inl e \<Rightarrow> s'\<lparr>am_error := Some e\<rparr>
      | Inr None \<Rightarrow> s'\<lparr>am_crashed := True\<rparr>
      | Inr (Some m) \<Rightarrow> s'\<lparr>am_models := m # am_models s, am_form := defaultForm,
                          am_success := tr ''Model olu&scedil;turuldu.''\<rparr>)"

definition models_edit :: "string \<Rightarrow> models_page \<Rightarrow> models_page" where
  "models_edit i s = s\<lparr>am_editingID := i,
     am_editingStatus := or_else (map_option md_status (find (\<lambda>m. md_id m = i) (am_models s))) ''active''\<rparr>"

definition models_save :: "models_page \<Rightarrow> models_page" where
  "models_save s =
     (if am_editingID s = [] then s
      else s\<lparr>am_error := None, am_success := [],
             am_updating := am_updating s @ [(am_editingID s, am_editingStatus s)]\<rparr>)"

definition update_call :: "string \<times> string \<Rightarrow> (model option, model option) call" where
  "update_call j = updateAdminModel (fst j) (no_payload\<lparr>mp_status := Some (snd j)\<rparr>)"

text \<open>A response without a model puts \<open>undefined\<close> in place of the edited row, if it is listed.\<close>

definition models_saved :: "nat \<Rightarrow> js_error + model option \<Rightarrow> models_page \<Rightarrow> models_page" where
  "models_saved n r s =
     (let i = fst (am_updating s ! n); s' = s\<lparr>am_updating := drop_nth n (am_updating s)\<rparr>;
          done = s'\<lparr>am_editingID := [], am_success := tr ''Model durumu g&uuml;ncellendi.''\<rparr>
      in case r of
        Inl e \<Rightarrow> s'\<lparr>am_error := Some e\<rparr>
      | Inr None \<Rightarrow> done\<lparr>am_crashed := (i \<in> md_id ` set (am_models s))\<rparr>
      | Inr (Some m) \<Rightarrow> done\<lparr>am_models := update_by md_id i (\<lambda>_. m) (am_models s)\<rparr>)"

definition models_pause :: "string \<Rightarrow> bool \<Rightarrow> models_page \<Rightarrow> models_page" where
  "models_pause i yes s =
     (if \<not> yes then s
      else s\<lparr>am_error := None, am_success := [], am_pausing := am_pausing s @ [i]\<rparr>)"

definition models_paused :: "nat \<Rightarrow> js_error + unit \<Rightarrow> models_page \<Rightarrow> models_page" where
  "models_paused n r s =
     (let i = am_pausing s ! n; s' = s\<lparr>am_pausing := drop_nth n (am_pausing s)\<rparr>
      in case r of
        Inl e \<Rightarrow> s'\<lparr>am_error := Some e\<rparr>
      | Inr _ \<Rightarrow> s'\<lparr>am_models := update_by md_id i (\<lambda>m. m\<lparr>md_status := ''paused''\<rparr>) (am_models s),
                    am_success := tr ''Model duraklat&imath;ld&imath;.''\<rparr>)"

definition models_with :: "string \<Rightarrow> models_page \<Rightarrow> nat" where
  "models_with status s = length (filter (\<lambda>m. md_status m = status) (am_models s))"

text \<open>Every required field of the form is filled in.\<close>

definition form_filled :: "model_form \<Rightarrow> bool" where
  "form_filled f \<longleftrightarrow> mf_slug f \<noteq> [] \<and> mf_displayName f \<noteq> [] \<and> mf_family f \<noteq> [] \<and> mf_contextLength f \<noteq> []
     \<and> mf_defaultMaxOutputTokens f \<noteq> [] \<and> mf_inputCreditPer1K f \<noteq> [] \<and> mf_outputCreditPer1K f \<noteq> []
     \<and> mf_providerRewardRatio f \<noteq> [] \<and> mf_minVramMB f \<noteq> [] \<and> mf_recommendedVramMB f \<noteq> []
     \<and> mf_licenseName f \<noteq> []"

definition can_create_model :: "models_page \<Rightarrow> bool" where
  "can_create_model s \<longleftrightarrow> \<not> am_saving s \<and> form_filled (am_form s)"

definition can_pause :: "string \<Rightarrow> models_page \<Rightarrow> bool" where
  "can_pause i s \<longleftrightarrow> (\<exists>m \<in> set (am_models s). md_id m = i \<and> md_status m \<noteq> ''paused'')"

fun models_handle :: "models_page \<Rightarrow> model_event \<Rightarrow> models_page option" where
  "models_handle s (ModelsLoaded h) =
     (if am_mounting s then Some (models_loaded (c_settle listAdminModels h) s) else None)"
| "models_handle s (SetField k v) = Some (s\<lparr>am_form := set_field k v (am_form s)\<rparr>)"
| "models_handle s (SetCommunity b) = Some (s\<lparr>am_form := (am_form s)\<lparr>mf_communityAllowed := b\<rparr>\<rparr>)"
| "models_handle s SubmitModel = (if can_create_model s then Some (models_submit s) else None)"
| "models_handle s (ModelCreated i h) =
     (if i < length (am_creating s)
      then Some (models_created i (c_settle (createAdminModel (am_creating s ! i)) h) s) else None)"
| "models_handle s (SetEditing i) =
     (if i = [] \<or> i \<in> md_id ` set (am_models s) then Some (models_edit i s) else None)"
| "models_handle s (SetEditingStatus v) = Some (s\<lparr>am_editingStatus := v\<rparr>)"
| "models_handle s SaveStatus = (if am_editingID s \<noteq> [] then Some (models_save s) else None)"
| "models_handle s (StatusSaved n h) =
     (if n < length (am_updating s)
      then Some (models_saved n (c_settle (update_call (am_updating s ! n)) h) s) else None)"
| "models_handle s (Pause i yes) = (if can_pause i s then Some (models_pause i yes s) else None)"
| "models_handle s (Paused n h) =
     (if n < length (am_pausing s)
      then Some (models_paused n (c_settle (pauseAdminModel (am_pausing s ! n)) h) s) else None)"

definition admin_models_step :: "(models_page, model_event) machine" where
  "admin_models_step s e = (if am_crashed s then None else models_handle s e)"

section \<open>View\<close>

definition admin_models_head :: "models_page \<Rightarrow> model_event html" where
  "admin_models_head s =
    Elem ''section'' [cls ''card stack split-panel'', Attr ''style'' ''padding: 32'']
      [Elem ''div'' [cls ''stack'']
         [Elem ''span'' [cls ''eyebrow''] [Txt ''Modeller''],
          Elem ''h1'' [] [Txt (tr ''Katalogu g&uuml;ncel tut.'')],
          Elem ''p'' [cls ''muted'', Attr ''style'' ''maxWidth: 620'']
            [Txt (tr ''Model olu&scedil;turma, duraklatma ve durum d&uuml;zeltmeleri bu ekrandan yap&imath;l&imath;r.'')]],
       Elem ''div'' [cls ''grid stat-strip'']
         [Elem ''div'' [cls ''metric'']
            [Elem ''strong'' [] [Txt (show_nat (length (am_models s)))],
             Elem ''span'' [cls ''muted''] [Txt ''Toplam model'']],
          Elem ''div'' [cls ''metric'']
            [Elem ''strong'' [] [Txt (show_nat (models_with ''active'' s))],
             Elem ''span'' [cls ''muted''] [Txt ''Aktif model'']],
          Elem ''div'' [cls ''metric'']
            [Elem ''strong'' [] [Txt (show_nat (models_with ''paused'' s))],
             Elem ''span'' [cls ''muted''] [Txt (tr ''Duraklat&imath;lm&imath;&scedil;'')]]]]"

definition model_fields :: "models_page \<Rightarrow> model_event html" where
  "model_fields s =
    Elem ''div'' [cls ''grid'']
      [Elem ''div'' [cls ''field'']
         [Elem ''label'' [Attr ''htmlFor'' ''slug''] [Txt ''Slug''],
          Elem ''input''
            [Attr ''id'' ''slug'',
             Flag ''required'' True,
             Attr ''value'' (mf_slug (am_form s)),
             OnChange (SetField F_slug)]
            []],
       Elem ''div'' [cls ''field'']
         [Elem ''label'' [Attr ''htmlFor'' ''display-name''] [Txt (tr ''G&ouml;r&uuml;nen ad'')],
          Elem ''input''
            [Attr ''id'' ''display-name'',
             Flag ''required'' True,
             Attr ''value'' (mf_displayName (am_form s)),
             OnChange (SetField F_displayName)]
            []],
       Elem ''div'' [cls ''field'']
         [Elem ''label'' [Attr ''htmlFor'' ''family''] [Txt ''Aile''],
          Elem ''input''
            [Attr ''id'' ''family'',
             Flag ''required'' True,
             Attr ''value'' (mf_family (am_form s)),
             OnChange (SetField F_family)]
            []],
       Elem ''div'' [cls ''field'']
         [Elem ''label'' [Attr ''htmlFor'' ''status''] [Txt ''Durum''],
          Elem ''select''
            [Attr ''id'' ''status'',
             Attr ''value'' (mf_status (am_form s)),
             OnChange (SetField F_status)]
            [Elem ''option'' [Attr ''value'' ''active''] [Txt ''Aktif''],
             Elem ''option'' [Attr ''value'' ''paused''] [Txt (tr ''Duraklat&imath;ld&imath;'')],
             Elem ''option'' [Attr ''value'' ''deprecated''] [Txt ''Eski'']]],
       Elem ''div'' [cls ''field'']
         [Elem ''label'' [Attr ''htmlFor'' ''context-length'']
            [Txt (tr ''Ba&gbreve;lam uzunlu&gbreve;u'')],
          Elem ''input''
            [Attr ''id'' ''context-length'',
             Attr ''min'' ''1'',
             Flag ''required'' True,
             Attr ''type'' ''number'',
             Attr ''value'' (mf_contextLength (am_form s)),
             OnChange (SetField F_contextLength)]
            []],
       Elem ''div'' [cls ''field'']
         [Elem ''label'' [Attr ''htmlFor'' ''default-output'']
            [Txt (tr ''Varsay&imath;lan &ccedil;&imath;kt&imath; s&imath;n&imath;r&imath;'')],
          Elem ''input''
            [Attr ''id'' ''default-output'',
             Attr ''min'' ''1'',
             Flag ''required'' True,
             Attr ''type'' ''number'',
             Attr ''value'' (mf_defaultMaxOutputTokens (am_form s)),
             OnChange (SetField F_defaultMaxOutputTokens)]
            []],
       Elem ''div'' [cls ''field'']
         [Elem ''label'' [Attr ''htmlFor'' ''input-credit'']
            [Txt (tr ''Giri&scedil; kredisi / 1K'')],
          Elem ''input''
            [Attr ''id'' ''input-credit'',
             Attr ''min'' ''0'',
             Flag ''required'' True,
             Attr ''type'' ''number'',
             Attr ''value'' (mf_inputCreditPer1K (am_form s)),
             OnChange (SetField F_inputCreditPer1K)]
            []],
       Elem ''div'' [cls ''field'']
         [Elem ''label'' [Attr ''htmlFor'' ''output-credit'']
            [Txt (tr ''&Ccedil;&imath;k&imath;&scedil; kredisi / 1K'')],
          Elem ''input''
            [Attr ''id'' ''output-credit'',
             Attr ''min'' ''0'',
             Flag ''required'' True,
             Attr ''type'' ''number'',
             Attr ''value'' (mf_outputCreditPer1K (am_form s)),
             OnChange (SetField F_outputCreditPer1K)]
            []],
       Elem ''div'' [cls ''field'']
         [Elem ''label'' [Attr ''htmlFor'' ''reward-ratio'']
            [Txt (tr ''Node pay&imath; oran&imath;'')],
          Elem ''input''
            [Attr ''id'' ''reward-ratio'',
             Attr ''max'' ''1'',
             Attr ''min'' ''0'',
             Flag ''required'' True,
             Attr ''step'' ''0.01'',
             Attr ''type'' ''number'',
             Attr ''value'' (mf_providerRewardRatio (am_form s)),
             OnChange (SetField F_providerRewardRatio)]
            []],
       Elem ''div'' [cls ''field'']
         [Elem ''label'' [Attr ''htmlFor'' ''min-vram''] [Txt ''Minimum VRAM MB''],
          Elem ''input''
            [Attr ''id'' ''min-vram'',
             Attr ''min'' ''0'',
             Flag ''required'' True,
             Attr ''type'' ''number'',
             Attr ''value'' (mf_minVramMB (am_form s)),
             OnChange (SetField F_minVramMB)]
            []],
       Elem ''div'' [cls ''field'']
         [Elem ''label'' [Attr ''htmlFor'' ''recommended-vram'']
            [Txt (tr ''&Ouml;nerilen VRAM MB'')],
          Elem ''input''
            [Attr ''id'' ''recommended-vram'',
             Attr ''min'' ''0'',
             Flag ''required'' True,
             Attr ''type'' ''number'',
             Attr ''value'' (mf_recommendedVramMB (am_form s)),
             OnChange (SetField F_recommendedVramMB)]
            []],
       Elem ''div'' [cls ''field'']
         [Elem ''label'' [Attr ''htmlFor'' ''license-name''] [Txt (tr ''Lisans ad&imath;'')],
          Elem ''input''
            [Attr ''id'' ''license-name'',
             Flag ''required'' True,
             Attr ''value'' (mf_licenseName (am_form s)),
             OnChange (SetField F_licenseName)]
            []],
       Elem ''div'' [cls ''field'']
         [Elem ''label'' [Attr ''htmlFor'' ''license-url'']
            [Txt (tr ''Lisans ba&gbreve;lant&imath;s&imath;'')],
          Elem ''input''
            [Attr ''id'' ''license-url'',
             Attr ''type'' ''url'',
             Attr ''value'' (mf_licenseURL (am_form s)),
             OnChange (SetField F_licenseURL)]
            []]]"

definition model_form_view :: "models_page \<Rightarrow> model_event html" where
  "model_form_view s =
    Elem ''form'' [cls ''card stack'', OnSubmit SubmitModel]
      [Elem ''h2'' [] [Txt (tr ''Model olu&scedil;tur'')],
       model_fields s,
       Elem ''div'' [cls ''field'']
         [Elem ''label'' [Attr ''htmlFor'' ''description''] [Txt (tr ''A&ccedil;&imath;klama'')],
          Elem ''textarea''
            [Attr ''id'' ''description'',
             Attr ''value'' (mf_description (am_form s)),
             OnChange (SetField F_description)]
            []],
       Elem ''div'' [cls ''field'']
         [Elem ''label'' [Attr ''htmlFor'' ''license-notes''] [Txt (tr ''Lisans notlar&imath;'')],
          Elem ''textarea''
            [Attr ''id'' ''license-notes'',
             Attr ''value'' (mf_licenseNotes (am_form s)),
             OnChange (SetField F_licenseNotes)]
            []],
       Elem ''label'' [cls ''row'']
         [Elem ''input''
            [Flag ''checked'' (mf_communityAllowed (am_form s)),
             Attr ''type'' ''checkbox'',
             OnCheck SetCommunity]
            [],
          Txt (tr '' Topluluk node&rsquo;lar&imath;na izin ver'')],
       Elem ''button'' [cls ''button'', Flag ''disabled'' (am_saving s), Attr ''type'' ''submit'']
         (if am_saving s
          then [Txt (tr ''Olu&scedil;turuluyor...'')]
          else [Txt (tr ''Model olu&scedil;tur'')])]"

definition model_status_view :: "models_page \<Rightarrow> model_event html" where
  "model_status_view s =
    Elem ''div'' [cls ''card stack secondary-card'']
      [Elem ''h2'' [] [Txt (tr ''Durum d&uuml;zenle'')],
       Elem ''select'' [Attr ''value'' (am_editingID s), OnChange SetEditing]
         ([Elem ''option'' [Attr ''value'' []]
             [Txt (tr ''Durumu g&uuml;ncellenecek modeli se&ccedil;'')]]
          @ map (\<lambda>model.
                Elem ''option'' [Attr ''value'' (md_id model)] [Txt (md_slug model)])
              (am_models s)),
       Elem ''select'' [Attr ''value'' (am_editingStatus s), OnChange SetEditingStatus]
         [Elem ''option'' [Attr ''value'' ''active''] [Txt ''Aktif''],
          Elem ''option'' [Attr ''value'' ''paused''] [Txt (tr ''Duraklat&imath;ld&imath;'')],
          Elem ''option'' [Attr ''value'' ''deprecated''] [Txt ''Eski'']],
       Elem ''button''
         [cls ''button secondary'',
          Flag ''disabled'' (am_editingID s = []),
          Attr ''type'' ''button'',
          OnClick SaveStatus]
         [Txt (tr ''Durumu g&uuml;ncelle'')]]"

definition admin_model_row :: "env \<Rightarrow> model \<Rightarrow> model_event html" where
  "admin_model_row env model =
    Elem ''tr'' []
      [Elem ''td'' []
         [Elem ''strong'' [] [Txt (md_display_name model)],
          Elem ''div'' [cls ''muted''] [Txt (md_slug model)],
          Elem ''div'' [] [Txt (md_description model)],
          Elem ''div'' [cls ''muted''] [Txt ''id '', Txt (md_id model)]],
       Elem ''td'' [] [StatusPill (Some (md_status model))],
       Elem ''td'' []
         [Txt (md_family model), Elem ''div'' [cls ''muted''] [Txt (md_modality model)]],
       Elem ''td'' []
         [Txt (show_int (md_context_length model)),
          Elem ''div'' [cls ''muted'']
            [Txt (tr ''varsay&imath;lan &ccedil;&imath;kt&imath; ''),
             Txt (show_int (md_default_max_output_tokens model))]],
       Elem ''td'' []
         [Txt (tr ''Giri&scedil; ''),
          Txt (show_int (md_input_credit_per_1k model)),
          Txt (tr '' / &Ccedil;&imath;k&imath;&scedil; ''),
          Txt (show_int (md_output_credit_per_1k model))],
       Elem ''td'' [] [Txt (numberText env (md_provider_reward_ratio model))],
       Elem ''td'' []
         [Txt (show_int (md_min_vram_mb model)),
          Txt '' / '',
          Txt (show_int (md_recommended_vram_mb model)),
          Txt '' MB''],
       Elem ''td'' []
         [StatusPill (Some (if md_community_allowed model then ''community_allowed'' else ''community_blocked''))],
       Elem ''td'' []
         [Txt (md_license_name model),
          Elem ''div'' [cls ''muted'']
            [Txt (or_else (if (md_license_notes model) \<noteq> [] then Some (md_license_notes model) else md_license_url model) (tr ''&mdash;''))]],
       Elem ''td'' []
         (if md_status model \<noteq> ''paused''
          then [Elem ''button''
               [cls ''button secondary'',
                Attr ''type'' ''button'',
                OnClick (Pause (md_id model) True)]
               [Txt ''Duraklat'']]
          else [Elem ''span'' [cls ''pill warn''] [Txt (tr ''Duraklat&imath;ld&imath;'')]])]"

definition admin_model_item :: "env \<Rightarrow> model \<Rightarrow> model_event html" where
  "admin_model_item env model =
    Elem ''div'' [cls ''mobile-item'']
      [Elem ''div'' [cls ''row'']
         [Elem ''strong'' [] [Txt (md_display_name model)],
          StatusPill (Some (md_status model))],
       Elem ''div'' [cls ''meta muted'']
         [Elem ''div'' [] [Txt (md_slug model)],
          Elem ''div'' [] [Txt (md_family model), Txt '' / '', Txt (md_modality model)],
          Elem ''div'' [] [Txt (tr ''ba&gbreve;lam ''), Txt (show_int (md_context_length model))],
          Elem ''div'' []
            [Txt (tr ''&ccedil;&imath;kt&imath; ''),
             Txt (show_int (md_default_max_output_tokens model))],
          Elem ''div'' []
            [Txt (tr ''giri&scedil; ''),
             Txt (show_int (md_input_credit_per_1k model)),
             Txt (tr '' / &ccedil;&imath;k&imath;&scedil; ''),
             Txt (show_int (md_output_credit_per_1k model))],
          Elem ''div'' [] [Txt ''pay '', Txt (numberText env (md_provider_reward_ratio model))],
          Elem ''div'' []
            [Txt ''VRAM '',
             Txt (show_int (md_min_vram_mb model)),
             Txt '' / '',
             Txt (show_int (md_recommended_vram_mb model)),
             Txt '' MB''],
          Elem ''div'' [] [Txt ''lisans '', Txt (md_license_name model)],
          Elem ''div'' []
            [Txt (or_else (if (md_license_notes model) \<noteq> [] then Some (md_license_notes model) else md_license_url model) (tr ''&mdash;''))],
          Elem ''div'' [] [Txt ''id '', Txt (md_id model)]],
       Elem ''div'' [cls ''row'']
         ([StatusPill (Some (if md_community_allowed model then ''community_allowed'' else ''community_blocked''))]
          @ (if md_status model \<noteq> ''paused''
             then [Elem ''button''
                  [cls ''button secondary'',
                   Attr ''type'' ''button'',
                   OnClick (Pause (md_id model) True)]
                  [Txt ''Duraklat'']]
             else [Elem ''span'' [cls ''pill warn''] [Txt (tr ''Duraklat&imath;ld&imath;'')]]))]"

definition admin_models_list :: "env \<Rightarrow> models_page \<Rightarrow> model_event html list" where
  "admin_models_list env s =
    showIf (am_models s \<noteq> [])
      [Elem ''section'' [cls ''card stack'']
         [Elem ''div'' [cls ''surface desktop-only'']
            [Elem ''table'' []
               [Elem ''thead'' []
                  [Elem ''tr'' []
                     [Elem ''th'' [] [Txt ''Model''],
                      Elem ''th'' [] [Txt ''Durum''],
                      Elem ''th'' [] [Txt ''Aile''],
                      Elem ''th'' [] [Txt (tr ''Ba&gbreve;lam'')],
                      Elem ''th'' [] [Txt ''Kredi / 1K''],
                      Elem ''th'' [] [Txt ''Pay''],
                      Elem ''th'' [] [Txt ''VRAM''],
                      Elem ''th'' [] [Txt ''Topluluk''],
                      Elem ''th'' [] [Txt ''Lisans''],
                      Elem ''th'' [] [Txt (tr ''&Idot;&scedil;lem'')]]],
                Elem ''tbody'' [] (map (\<lambda>model. admin_model_row env model) (am_models s))]],
          Elem ''div'' [cls ''mobile-only mobile-list'']
            (map (\<lambda>model. admin_model_item env model) (am_models s))]]"

definition admin_models_view :: "env \<Rightarrow> models_page \<Rightarrow> model_event html" where
  "admin_models_view env s =
    Elem ''div'' [cls ''stack'']
      ([admin_models_head s,
        Elem ''section'' [cls ''split-panel''] [model_form_view s, model_status_view s]]
       @ showIf (am_error s \<noteq> None)
           [ErrorMessage env (am_error s) (Some (tr ''Model i&scedil;lemi yap&imath;lamad&imath;. Alanlar&imath; kontrol edip tekrar dene.''))]
       @ showIf (am_success s \<noteq> []) [SuccessMessage (am_success s) None]
       @ showIf (am_loading s)
           [Loading (Some (tr ''Modeller y&uuml;kleniyor...'')) (Some (tr ''Katalog haz&imath;rlan&imath;yor.''))]
       @ showIf (\<not> (am_loading s) \<and> am_models s = [])
           [Empty (tr ''Hen&uuml;z model yok.'') (Some (tr ''&Idot;lk model burada g&ouml;r&uuml;n&uuml;r.''))]
       @ admin_models_list env s)"
lemma admin_model_row_clicks [simp]:
  "clicks (admin_model_row env m) = showIf (md_status m \<noteq> ''paused'') [Pause (md_id m) True]"
  "clicks (admin_model_item env m) = showIf (md_status m \<noteq> ''paused'') [Pause (md_id m) True]"
  by (simp_all add: admin_model_row_def admin_model_item_def)

lemma admin_model_row_others [simp]:
  "links (admin_model_row env m) = []" "links (admin_model_item env m) = []"
  "submits (admin_model_row env m) = []" "submits (admin_model_item env m) = []"
  by (simp_all add: admin_model_row_def admin_model_item_def)

abbreviation pausings :: "models_page \<Rightarrow> model_event list" where
  "pausings s \<equiv> map (\<lambda>m. Pause (md_id m) True) (filter (\<lambda>m. md_status m \<noteq> ''paused'') (am_models s))"

lemma admin_models_list_clicks [simp]: "all_clicks (admin_models_list env s) = pausings s @ pausings s"
  by (cases "am_models s = []") (simp_all add: admin_models_list_def comp_def concat_showIf_single)

lemma admin_models_parts [simp]:
  "clicks (admin_models_head s) = []" "submits (admin_models_head s) = []"
  "clicks (model_fields s) = []" "submits (model_fields s) = []" "\<not> has_submit (model_fields s)"
  "all_submits (admin_models_list env s) = []" "submits (model_status_view s) = []"
  by (simp_all add: admin_models_head_def model_fields_def admin_models_list_def
      model_status_view_def comp_def)

lemma model_fields_ok: "fields_ok (model_fields s) = form_filled (am_form s)"
  by (simp add: model_fields_def field_ok_def form_filled_def conj_ac)

lemma admin_models_clicks:
  "clicks (admin_models_view env s) = showIf (am_editingID s \<noteq> []) [SaveStatus] @ pausings s @ pausings s"
  by (simp add: admin_models_view_def model_form_view_def model_status_view_def comp_def showIf_def)

lemma model_form_submits:
  "submits (model_form_view s) = showIf (can_create_model s) [SubmitModel]"
  by (simp add: model_form_view_def field_ok_def can_create_model_def model_fields_ok showIf_def)

lemma admin_models_submits:
  "submits (admin_models_view env s) = showIf (can_create_model s) [SubmitModel]"
  by (simp add: admin_models_view_def model_form_submits)

section \<open>Invariant\<close>

text \<open>A payload in flight respects the order of the two VRAM fields.\<close>

definition payload_ok :: "model_payload \<Rightarrow> bool" where
  "payload_ok p \<longleftrightarrow> amount_or_zero (mp_min_vram_mb p) \<le> amount_or_zero (mp_recommended_vram_mb p)"

definition models_inv :: "models_page \<Rightarrow> bool" where
  "models_inv s \<longleftrightarrow> am_saving s = (am_creating s \<noteq> []) \<and> length (am_creating s) \<le> 1
     \<and> (\<forall>p \<in> set (am_creating s). payload_ok p) \<and> (\<forall>(i, v) \<in> set (am_updating s). i \<noteq> [])
     \<and> am_loading s = am_mounting s"

lemma checked_payload_ok: "checked_payload f = Inr p \<Longrightarrow> payload_ok p"
  by (cases "modelPayload f") (auto simp: checked_payload_def payload_ok_def split: if_splits)

lemma models_inv_created:
  assumes "models_inv s" "i < length (am_creating s)"
  shows "models_inv (models_created i r s)"
proof -
  have "drop_nth i (am_creating s) = []"
    using assms drop_nth_one unfolding models_inv_def by blast
  with assms(1) show ?thesis
    by (simp add: models_inv_def models_created_def Let_def split: sum.split option.split)
qed

lemma models_inv_submit: "models_inv s \<Longrightarrow> can_create_model s \<Longrightarrow> models_inv (models_submit s)"
  by (simp add: models_inv_def models_submit_def can_create_model_def Let_def checked_payload_ok
      split: sum.split)

lemma models_inv_saved: "models_inv s \<Longrightarrow> models_inv (models_saved n r s)"
  using drop_nth_subset [of n "am_updating s"]
  by (auto simp: models_inv_def models_saved_def Let_def split: sum.split option.split)

lemma models_inv_others:
  "models_inv s \<Longrightarrow> models_inv (models_loaded q s)" "models_inv s \<Longrightarrow> models_inv (models_edit i s)"
  "models_inv s \<Longrightarrow> models_inv (models_save s)" "models_inv s \<Longrightarrow> models_inv (models_pause i b s)"
  "models_inv s \<Longrightarrow> models_inv (models_paused n r s)"
  "models_inv s \<Longrightarrow> models_inv (s\<lparr>am_form := f\<rparr>)" "models_inv s \<Longrightarrow> models_inv (s\<lparr>am_editingStatus := v\<rparr>)"
  by (simp_all add: models_inv_def models_loaded_def models_edit_def models_save_def models_pause_def
      models_paused_def Let_def split: sum.split)

lemma models_inv_start: "models_inv models_start"
  by (simp add: models_inv_def models_start_def)

lemma models_inv_step: "models_inv s \<Longrightarrow> admin_models_step s e = Some t \<Longrightarrow> models_inv t"
  by (cases e) (auto simp: admin_models_step_def intro: models_inv_created models_inv_submit
      models_inv_saved models_inv_others split: if_splits)

interpretation models_page: page_machine admin_models_step models_start models_inv
  by unfold_locales (auto intro: models_inv_step models_inv_start)

section \<open>The payload\<close>

lemma modelPayload_Inl: "modelPayload f = Inl e \<Longrightarrow>
    e = FormError (tr ''Ge&ccedil;erli say&imath;sal model alanlar&imath; gir.'')"
  by (auto simp: modelPayload_def numberValue_def split: number.splits)

section \<open>Properties\<close>

text \<open>In every reachable state a model that is being created has no recommended memory below its
  minimum, at most one creation is in flight and then the form is locked, and every status change in
  flight names a model.\<close>

theorem models_requests:
  assumes "run admin_models_step models_start es = Some s"
  shows "length (am_creating s) \<le> 1 \<and> (\<forall>p \<in> set (am_creating s). payload_ok p)
     \<and> (am_creating s \<noteq> [] \<longrightarrow> submits (admin_models_view env s) = [])
     \<and> (\<forall>(i, v) \<in> set (am_updating s). i \<noteq> [])"
proof -
  have "models_inv s" using assms by (rule models_page.run_inv)
  then show ?thesis by (simp add: models_inv_def admin_models_submits can_create_model_def showIf_def)
qed

theorem models_requests_witness:
  "\<exists>s. run admin_models_step models_start
       [ModelsLoaded (NetworkFailure []), SetField F_slug ''m''] = Some s \<and> length (am_creating s) \<le> 1"
proof -
  let ?es = "[ModelsLoaded (NetworkFailure []), SetField F_slug ''m'']"
  let ?s = "the (run admin_models_step models_start ?es)"
  have r: "run admin_models_step models_start ?es = Some ?s"
    by (simp add: admin_models_step_def models_start_def models_loaded_def listAdminModels_def
        list_result_def Let_def)
  from models_requests [OF r, where env = undefined] r show ?thesis by blast
qed

text \<open>The payload of a form is refused exactly when one of the seven numbers does not parse or the
  recommended memory is below the minimum; otherwise it carries the numbers that were typed and the
  trimmed licence link, or null for a blank one.\<close>

theorem model_payload_checked:
  assumes "map toNumber [mf_contextLength f, mf_defaultMaxOutputTokens f, mf_inputCreditPer1K f,
      mf_outputCreditPer1K f, mf_providerRewardRatio f, mf_minVramMB f, mf_recommendedVramMB f]
    = map Finite [c, out, inp, outp, ratio, lo, hi]"
  shows "(case checked_payload f of
      Inl e \<Rightarrow> hi < lo \<and> (\<exists>m. e = FormError m)
    | Inr p \<Rightarrow> lo \<le> hi \<and> mp_context_length p = Some c \<and> mp_default_max_output_tokens p = Some out
        \<and> mp_input_credit_per_1k p = Some inp \<and> mp_output_credit_per_1k p = Some outp
        \<and> mp_provider_reward_ratio p = Some ratio \<and> mp_min_vram_mb p = Some lo
        \<and> mp_recommended_vram_mb p = Some hi \<and> mp_slug p = Some (mf_slug f)
        \<and> mp_license_url p = Some (if trim (mf_licenseURL f) = [] then None else Some (trim (mf_licenseURL f))))"
  using assms by (auto simp: checked_payload_def modelPayload_def numberValue_def amount_or_zero_def Let_def)

definition demo_form :: model_form where
  "demo_form = defaultForm\<lparr>mf_contextLength := show_int 4096, mf_defaultMaxOutputTokens := show_int 1024,
     mf_inputCreditPer1K := show_int 10, mf_outputCreditPer1K := show_int 20,
     mf_providerRewardRatio := show_int 1, mf_minVramMB := show_int 8192,
     mf_recommendedVramMB := show_int 4096\<rparr>"

theorem model_payload_checked_witness:
  "\<exists>m. checked_payload demo_form = Inl (FormError m)"
proof -
  have "toNumber (show_int i) = Finite (of_int i)" if "\<bar>i\<bar> < 10 ^ 6" for i
  proof (rule toNumber_show_int)
    have "of_int \<bar>i\<bar> < (of_int (10 ^ 6) :: rat)" using that by (simp only: of_int_less_iff)
    also have "\<dots> < overflow_bound" by (simp add: overflow_bound_def)
    finally show "of_int \<bar>i\<bar> < overflow_bound" .
  qed
  then have "map toNumber [mf_contextLength demo_form, mf_defaultMaxOutputTokens demo_form,
      mf_inputCreditPer1K demo_form, mf_outputCreditPer1K demo_form,
      mf_providerRewardRatio demo_form, mf_minVramMB demo_form, mf_recommendedVramMB demo_form]
    = map Finite [4096, 1024, 10, 20, 1, 8192, 4096]"
    by (simp add: demo_form_def)
  from model_payload_checked [OF this] show ?thesis by (auto split: sum.splits)
qed

end
