(* ===== verification/AdminWallets.thy ===== *)
theory AdminWallets
  imports Pages
begin

text \<open>
  \<open>apps/web/app/admin/wallets/page.tsx\<close>: the form by which an administrator adjusts a balance. The
  event of the submission carries the answer to the confirmation dialog.
\<close>

record wallets_page =
  wl_email :: string
  wl_amount :: string
  wl_reason :: string
  wl_confirmed :: bool
  wl_result :: "adjusted_wallet option"
  wl_error :: "js_error option"
  wl_saving :: bool
  wl_adjusting :: "(string \<times> rat \<times> string) list"
  wl_crashed :: bool

datatype wallet_event =
    SetUserEmail string
  | SetAmount string
  | SetReason string
  | SetConfirmed bool
  | SubmitAdjust bool
  | Adjusted nat "adjusted_wallet option http"

definition wallets_start :: wallets_page where
  "wallets_start = \<lparr>wl_email = [], wl_amount = [], wl_reason = [], wl_confirmed = False,
     wl_result = None, wl_error = None, wl_saving = False, wl_adjusting = [], wl_crashed = False\<rparr>"

section \<open>Handlers\<close>

text \<open>An amount that is no finite number ends the handler before the dialog; a dialog answered no
  runs only the finally block.\<close>

definition wallets_submit :: "bool \<Rightarrow> wallets_page \<Rightarrow> wallets_page" where
  "wallets_submit yes s =
     (case toNumber (wl_amount s) of
        Finite amountCredits \<Rightarrow>
          (let s' = s\<lparr>wl_saving := True, wl_error := None, wl_result := None\<rparr>
           in if \<not> yes then s'\<lparr>wl_saving := False\<rparr>
              else s'\<lparr>wl_adjusting := wl_adjusting s @ [(wl_email s, amountCredits, wl_reason s)]\<rparr>)
      | _ \<Rightarrow> s\<lparr>wl_error := Some (FormError (tr ''Ge&ccedil;erli bir kredi miktar&imath; gir.''))\<rparr>)"

text \<open>A response object without a wallet throws when it is rendered.\<close>

definition wallets_adjusted :: "nat \<Rightarrow> js_error + adjusted_wallet option option \<Rightarrow> wallets_page \<Rightarrow> wallets_page" where
  "wallets_adjusted i r s =
     (let s' = s\<lparr>wl_adjusting := drop_nth i (wl_adjusting s), wl_saving := False\<rparr>
      in case r of
        Inl e \<Rightarrow> s'\<lparr>wl_error := Some e\<rparr>
      | Inr (Some None) \<Rightarrow> s'\<lparr>wl_crashed := True\<rparr>
      | Inr res \<Rightarrow> s'\<lparr>wl_result := Option.bind res (\<lambda>w. w), wl_amount := [], wl_reason := [],
                     wl_confirmed := False\<rparr>)"

definition can_adjust :: "wallets_page \<Rightarrow> bool" where
  "can_adjust s \<longleftrightarrow> \<not> wl_saving s \<and> wl_confirmed s \<and> wl_email s \<noteq> [] \<and> wl_amount s \<noteq> [] \<and> wl_reason s \<noteq> []"

definition adjust_call :: "string \<times> rat \<times> string \<Rightarrow> (adjusted_wallet option, adjusted_wallet option option) call" where
  "adjust_call j = (case j of (email, amount, reason) \<Rightarrow> adjustAdminWallet email amount reason)"

fun wallets_handle :: "wallets_page \<Rightarrow> wallet_event \<Rightarrow> wallets_page option" where
  "wallets_handle s (SetUserEmail v) = Some (s\<lparr>wl_email := v\<rparr>)"
| "wallets_handle s (SetAmount v) = Some (s\<lparr>wl_amount := v\<rparr>)"
| "wallets_handle s (SetReason v) = Some (s\<lparr>wl_reason := v\<rparr>)"
| "wallets_handle s (SetConfirmed b) = Some (s\<lparr>wl_confirmed := b\<rparr>)"
| "wallets_handle s (SubmitAdjust yes) = (if can_adjust s then Some (wallets_submit yes s) else None)"
| "wallets_handle s (Adjusted i h) =
     (if i < length (wl_adjusting s)
      then Some (wallets_adjusted i (c_settle (adjust_call (wl_adjusting s ! i)) h) s)
      else None)"

definition wallets_step :: "(wallets_page, wallet_event) machine" where
  "wallets_step s e = (if wl_crashed s then None else wallets_handle s e)"

section \<open>View\<close>

definition wallets_head :: "wallet_event html" where
  "wallets_head =
    Elem ''section'' [cls ''card stack split-panel'', Attr ''style'' ''padding: 32'']
      [Elem ''div'' [cls ''stack'']
         [Elem ''span'' [cls ''eyebrow''] [Txt (tr ''Kredi d&uuml;zeltmesi'')],
          Elem ''h1'' [] [Txt (tr ''Bakiyeyi kontroll&uuml; &scedil;ekilde d&uuml;zenle.'')],
          Elem ''p'' [cls ''muted'', Attr ''style'' ''maxWidth: 620'']
            [Txt (tr ''Bu ekran istisna durumlar i&ccedil;indir. Her i&scedil;lem hareket kayd&imath;na ve denetime yaz&imath;l&imath;r.'')]],
       Elem ''div'' [cls ''notice warn'']
         [Txt (tr ''Bu kredi dahili platform kredisidir. Nakit veya &ccedil;ekim sistemi de&gbreve;ildir.'')]]"

definition wallets_form :: "wallets_page \<Rightarrow> wallet_event html" where
  "wallets_form s =
    Elem ''form'' [cls ''card stack'', OnSubmit (SubmitAdjust True)]
      [Elem ''div'' [cls ''surface-head'']
         [Elem ''div'' []
            [Elem ''h2'' [] [Txt (tr ''Kredi d&uuml;zenle'')],
             Elem ''p'' [cls ''muted''] [Txt ''Email, miktar ve sebep olmadan ilerleme yok.'']]],
       Elem ''div'' [cls ''field'']
         [Elem ''label'' [Attr ''htmlFor'' ''user-email'']
            [Txt (tr ''Kullan&imath;c&imath; email'')],
          Elem ''input''
            [Attr ''id'' ''user-email'',
             Flag ''required'' True,
             Attr ''type'' ''email'',
             Attr ''value'' (wl_email s),
             OnChange SetUserEmail,
             Attr ''placeholder'' ''ornek@email.com'']
            []],
       Elem ''div'' [cls ''field'']
         [Elem ''label'' [Attr ''htmlFor'' ''amount''] [Txt (tr ''Kredi miktar&imath;'')],
          Elem ''input''
            [Attr ''id'' ''amount'',
             Flag ''required'' True,
             Attr ''type'' ''number'',
             Attr ''value'' (wl_amount s),
             OnChange SetAmount]
            []],
       Elem ''div'' [cls ''field'']
         [Elem ''label'' [Attr ''htmlFor'' ''reason''] [Txt ''Sebep''],
          Elem ''textarea''
            [Attr ''id'' ''reason'',
             Flag ''required'' True,
             Attr ''value'' (wl_reason s),
             OnChange SetReason]
            []],
       Elem ''label'' [cls ''row'']
         [Elem ''input''
            [Flag ''checked'' (wl_confirmed s),
             Flag ''required'' True,
             Attr ''type'' ''checkbox'',
             OnCheck SetConfirmed]
            [],
          Txt (tr ''Bu i&scedil;lemin hareket ve denetim kayd&imath;na yaz&imath;laca&gbreve;&imath;n&imath; onayl&imath;yorum.'')],
       Elem ''button''
         [cls ''button'',
          Flag ''disabled'' (wl_saving s \<or> \<not> (wl_confirmed s)),
          Attr ''type'' ''submit'']
         (if wl_saving s
          then [Txt (tr ''D&uuml;zenleniyor...'')]
          else [Txt (tr ''Kredi d&uuml;zenle'')])]"

definition wallets_notes :: "wallets_page \<Rightarrow> wallet_event html" where
  "wallets_notes s =
    Elem ''div'' [cls ''card stack secondary-card'']
      ([Elem ''h2'' [] [Txt ''Operasyon notu''],
        Elem ''ul'' [cls ''checklist'']
          [Elem ''li'' []
             [Elem ''strong'' [] [Txt (tr ''Hareket kayd&imath; zorunlu'')],
              Elem ''span'' [cls ''muted'']
                [Txt (tr ''Bu ekran yaln&imath;zca kay&imath;tl&imath; d&uuml;zeltme i&ccedil;in vard&imath;r.'')]],
           Elem ''li'' []
             [Elem ''strong'' [] [Txt ''Sebep zorunlu''],
              Elem ''span'' [cls ''muted'']
                [Txt (tr ''Destek ve denetim i&ccedil;in g&ouml;r&uuml;n&uuml;r kal&imath;r.'')]],
           Elem ''li'' []
             [Elem ''strong'' [] [Txt ''Dikkatli kullan''],
              Elem ''span'' [cls ''muted'']
                [Txt (tr ''Normal &uuml;r&uuml;n ak&imath;&scedil;&imath; i&ccedil;in de&gbreve;il, istisna durumlar i&ccedil;in kullan.'')]]]]
       @ (if wl_result s \<noteq> None
          then [SuccessMessage (tr ''G&uuml;ncel bakiye: '' @ (case wl_result s of None \<Rightarrow> [] | Some w \<Rightarrow> show_int (aw_balance w))) None]
          else [Elem ''div'' [cls ''muted''] [Txt (tr ''Sonu&ccedil; burada g&ouml;r&uuml;n&uuml;r.'')]]))"

definition wallets_view :: "env \<Rightarrow> wallets_page \<Rightarrow> wallet_event html" where
  "wallets_view env s =
    Elem ''div'' [cls ''stack'']
      ([wallets_head,
        Elem ''section'' [cls ''split-panel''] [wallets_form s, wallets_notes s]]
       @ showIf (wl_error s \<noteq> None)
           [ErrorMessage env (wl_error s) (Some (tr ''D&uuml;zenleme yap&imath;lamad&imath;. Bilgileri kontrol edip tekrar dene.''))])"

lemma wallets_submits:
  "submits (wallets_view env s) = showIf (can_adjust s) [SubmitAdjust True]"
  by (auto simp: wallets_view_def wallets_head_def wallets_form_def wallets_notes_def field_ok_def
      can_adjust_def showIf_def)

section \<open>Invariant\<close>

text \<open>Only a confirmed form with all three fields has a request in flight.\<close>

definition wallets_inv :: "wallets_page \<Rightarrow> bool" where
  "wallets_inv s \<longleftrightarrow> wl_saving s = (wl_adjusting s \<noteq> []) \<and> length (wl_adjusting s) \<le> 1
     \<and> (\<forall>(email, amount, reason) \<in> set (wl_adjusting s). email \<noteq> [] \<and> reason \<noteq> [])"

lemma wallets_inv_adjusted:
  assumes "wallets_inv s" "i < length (wl_adjusting s)"
  shows "wallets_inv (wallets_adjusted i r s)"
proof -
  have "drop_nth i (wl_adjusting s) = []"
    using assms drop_nth_one unfolding wallets_inv_def by blast
  with assms(1) show ?thesis
    by (simp add: wallets_inv_def wallets_adjusted_def Let_def split: sum.split option.split)
qed

lemma wallets_inv_submit: "wallets_inv s \<Longrightarrow> can_adjust s \<Longrightarrow> wallets_inv (wallets_submit yes s)"
  by (simp add: wallets_inv_def wallets_submit_def can_adjust_def Let_def split: number.split)

lemma wallets_inv_fields:
  "wallets_inv s \<Longrightarrow> wallets_inv (s\<lparr>wl_email := v\<rparr>)" "wallets_inv s \<Longrightarrow> wallets_inv (s\<lparr>wl_amount := v\<rparr>)"
  "wallets_inv s \<Longrightarrow> wallets_inv (s\<lparr>wl_reason := v\<rparr>)" "wallets_inv s \<Longrightarrow> wallets_inv (s\<lparr>wl_confirmed := b\<rparr>)"
  by (simp_all add: wallets_inv_def)

lemma wallets_inv_start: "wallets_inv wallets_start"
  by (simp add: wallets_inv_def wallets_start_def)

lemma wallets_inv_step: "wallets_inv s \<Longrightarrow> wallets_step s e = Some t \<Longrightarrow> wallets_inv t"
  by (cases e) (auto simp: wallets_step_def intro: wallets_inv_adjusted wallets_inv_submit
      wallets_inv_fields split: if_splits)

interpretation wallets_page: page_machine wallets_step wallets_start wallets_inv
  by unfold_locales (auto intro: wallets_inv_step wallets_inv_start)

section \<open>Properties\<close>



end
