(* ===== verification/AdminAudit.thy ===== *)
theory AdminAudit
  imports Pages
begin

text \<open>
  \<open>apps/web/app/admin/audit-log/page.tsx\<close>: the administrator actions the API recorded.
\<close>

definition audit_step :: "(audit_entry list_page, audit_entry list option http) machine" where
  "audit_step = list_step listAdminAuditLog"

section \<open>View\<close>

definition audit_head :: "audit_entry list_page \<Rightarrow> 'e html" where
  "audit_head s =
    Elem ''section'' [cls ''card stack split-panel'', Attr ''style'' ''padding: 32'']
      [Elem ''div'' [cls ''stack'']
         [Elem ''span'' [cls ''eyebrow''] [Txt ''Denetim''],
          Elem ''h1'' [] [Txt (tr ''Y&ouml;netim hareketlerini g&ouml;r.'')],
          Elem ''p'' [cls ''muted'', Attr ''style'' ''maxWidth: 620'']
            [Txt (tr ''Onay, red, model de&gbreve;i&scedil;ikli&gbreve;i ve kredi d&uuml;zeltmeleri burada g&ouml;r&uuml;n&uuml;r.'')]],
       Elem ''div'' [cls ''grid stat-strip'']
         [Elem ''div'' [cls ''metric'']
            [Elem ''strong'' [] [Txt (show_nat (length (lp_items s)))],
             Elem ''span'' [cls ''muted''] [Txt (tr ''Toplam kay&imath;t'')]]]]"

definition audit_row :: "env \<Rightarrow> audit_entry \<Rightarrow> 'e html" where
  "audit_row env entry =
    Elem ''tr'' []
      [Elem ''td'' [] [StatusPill (Some (au_action entry))],
       Elem ''td'' []
         [Elem ''strong'' [] [Txt (au_actor_user_id entry)],
          Elem ''div'' [cls ''muted''] [Txt (tr ''kay&imath;t ''), Txt (au_id entry)]],
       Elem ''td'' [] [Txt (or_else (au_target_type entry) (tr ''&mdash;''))],
       Elem ''td'' [] [Txt (or_else (au_target_id entry) (tr ''&mdash;''))],
       Elem ''td'' [] [Txt (toLocaleString env (au_created_at entry))]]"

definition audit_item :: "env \<Rightarrow> audit_entry \<Rightarrow> 'e html" where
  "audit_item env entry =
    Elem ''div'' [cls ''mobile-item'']
      [Elem ''div'' [cls ''row'', Attr ''style'' ''justifyContent: space-between'']
         [StatusPill (Some (au_action entry)),
          Elem ''span'' [cls ''muted''] [Txt (toLocaleString env (au_created_at entry))]],
       Elem ''div'' [cls ''meta muted'']
         [Elem ''div'' [] [Txt ''actor '', Txt (au_actor_user_id entry)],
          Elem ''div'' []
            [Txt (tr ''hedef t&uuml;r&uuml; ''),
             Txt (or_else (au_target_type entry) (tr ''&mdash;''))],
          Elem ''div'' [] [Txt ''hedef '', Txt (or_else (au_target_id entry) (tr ''&mdash;''))],
          Elem ''div'' [] [Txt (tr ''kay&imath;t ''), Txt (au_id entry)]]]"

definition audit_view :: "env \<Rightarrow> audit_entry list_page \<Rightarrow> 'e html" where
  "audit_view env s =
    Elem ''div'' [cls ''stack'']
      ([audit_head s]
       @ showIf (lp_error s \<noteq> None)
           [ErrorMessage env (lp_error s) (Some (tr ''Denetim kay&imath;tlar&imath; al&imath;namad&imath;. Sayfay&imath; yenileyip tekrar dene.''))]
       @ showIf (lp_loading s)
           [Loading (Some (tr ''Denetim kay&imath;tlar&imath; y&uuml;kleniyor...'')) (Some (tr ''Son y&ouml;netim hareketleri haz&imath;rlan&imath;yor.''))]
       @ showIf (\<not> (lp_loading s) \<and> lp_items s = [])
           [Empty (tr ''Hen&uuml;z denetim kayd&imath; yok.'') (Some (tr ''&Idot;lk y&ouml;netim i&scedil;leminden sonra burada g&ouml;r&uuml;n&uuml;r.''))]
       @ showIf (lp_items s \<noteq> [])
           [Elem ''section'' [cls ''card stack'']
              [Elem ''div'' [cls ''surface-head'']
                 [Elem ''div'' []
                    [Elem ''h2'' [] [Txt (tr ''Y&ouml;netim hareketleri'')],
                     Elem ''p'' [cls ''muted'']
                       [Txt (tr ''&Idot;&scedil;lem, yapan ki&scedil;i, hedef ve zaman birlikte g&ouml;r&uuml;n&uuml;r.'')]]],
               Elem ''div'' [cls ''surface desktop-only'']
                 [Elem ''table'' []
                    [Elem ''thead'' []
                       [Elem ''tr'' []
                          [Elem ''th'' [] [Txt (tr ''&Idot;&scedil;lem'')],
                           Elem ''th'' [] [Txt ''Yapan''],
                           Elem ''th'' [] [Txt (tr ''Hedef t&uuml;r&uuml;'')],
                           Elem ''th'' [] [Txt ''Hedef''],
                           Elem ''th'' [] [Txt ''Tarih'']]],
                     Elem ''tbody'' [] (map (\<lambda>entry. audit_row env entry) (lp_items s))]],
               Elem ''div'' [cls ''mobile-only mobile-list'']
                 (map (\<lambda>entry. audit_item env entry) (lp_items s))]])"

lemmas audit_views = audit_head_def audit_view_def

lemma audit_row_silent [simp]: "links (audit_row env e) = []" "clicks (audit_row env e) = []"
  "links (audit_item env e) = []" "clicks (audit_item env e) = []"
  by (simp_all add: audit_row_def audit_item_def)

lemma audit_links: "links (audit_view env s) = []"
  by (simp add: audit_views comp_def)

end
