(* ===== verification/Site.thy ===== *)
theory Site
  imports ApiKeysPage ProjectsPage ProvidersPage DashboardHome CreditsPage UsagePage ModelsPage
    AppShell AuthPages AdminReview AdminModels AdminWallets AdminAudit
begin

text \<open>
  The site as a whole: the routes that the files under \<open>apps/web/app\<close> define (a \<open>page.tsx\<close> serves
  the path of its directory, wrapped in the layouts above it), the targets of links, and the anchors
  inside a page.
\<close>

section \<open>Routes and layouts\<close>

definition public_routes :: "string list" where
  "public_routes = [''/'', ''/login'', ''/register'']"

definition dashboard_routes :: "string list" where
  "dashboard_routes = [''/dashboard'', ''/dashboard/api-keys'', ''/dashboard/projects'',
     ''/dashboard/models'', ''/dashboard/usage'', ''/dashboard/credits'', ''/dashboard/providers'']"

definition admin_routes :: "string list" where
  "admin_routes = [''/admin'', ''/admin/providers'', ''/admin/provider-models'', ''/admin/models'',
     ''/admin/jobs'', ''/admin/usage'', ''/admin/wallets'', ''/admin/audit-log'']"

definition RootLayout :: "'e html list \<Rightarrow> 'e html" where
  "RootLayout children = Elem ''html'' [Attr ''lang'' ''tr''] [Elem ''body'' [] children]"

definition DashboardLayout :: "string \<Rightarrow> storage \<Rightarrow> shell" where
  "DashboardLayout pathname st = shell_start DashboardMode pathname st"

definition AdminLayout :: "string \<Rightarrow> storage \<Rightarrow> shell" where
  "AdminLayout pathname st = shell_start AdminMode pathname st"

text \<open>The path of a link: what stands before the fragment; a bare fragment stays on its page.\<close>

definition link_path :: "string \<Rightarrow> string" where
  "link_path u = before_char (CHR ''#'') u"

definition link_fragment :: "string \<Rightarrow> string" where
  "link_fragment u = drop 1 (dropWhile (\<lambda>c. c \<noteq> CHR ''#'') u)"

definition repository_url :: string where
  "repository_url = ''https://github.com/burhanettinerkent/Nuvonode''"

definition link_ok :: "string \<Rightarrow> bool" where
  "link_ok u \<longleftrightarrow> u = repository_url \<or> link_path u = []
     \<or> link_path u \<in> set (public_routes @ dashboard_routes @ admin_routes)"

lemma link_ok_all:
  "\<forall>u \<in> set ([''/#api'', ''/#node'', ''/#limits'', ''#new-project'', ''#create-key'', ''#node-status'',
        ''https://github.com/burhanettinerkent/Nuvonode'']
      @ public_routes @ dashboard_routes @ admin_routes). link_ok u"
  by (simp add: link_ok_def link_path_def before_char_def repository_url_def
      public_routes_def dashboard_routes_def admin_routes_def)

lemmas link_oks [simp] =
  link_ok_all [unfolded public_routes_def dashboard_routes_def admin_routes_def, simplified]

section \<open>The links of each page\<close>

lemma keys_links_ok: "\<forall>u \<in> set (links (keys_view env s)). link_ok u"
proof -
  have "\<forall>u \<in> set (links (keys_head s)). link_ok u" by (simp add: keys_head_def)
  moreover have "\<forall>u \<in> set (all_links (keys_secret s)). link_ok u" by (simp add: keys_secret_def)
  moreover have "\<forall>u \<in> set (links (keys_forms s)). link_ok u" by (simp add: keys_forms_def comp_def)
  moreover have "\<forall>u \<in> set (links (keys_lists env s)). link_ok u" by (simp add: keys_lists_def comp_def)
  ultimately show ?thesis by (auto simp: keys_view_def keys_body_def)
qed

lemma projects_links_ok: "\<forall>u \<in> set (links (projects_view env s)). link_ok u"
proof -
  have "\<forall>u \<in> set (links projects_head). link_ok u" "links (projects_form s) = []"
    by (simp_all add: projects_head_def projects_form_def)
  moreover have "\<forall>u \<in> set (all_links (projects_success s)). link_ok u"
    by (simp add: projects_success_def)
  moreover have "\<forall>u \<in> set (all_links (projects_list env s)). link_ok u"
    by (simp add: projects_list_def comp_def)
  ultimately show ?thesis by (auto simp: projects_view_def)
qed

lemma nodes_links: "links (nodes_view env s) = [''#node-status'']"
  by (simp add: nodes_view_def nodes_head_def nodes_steps_def nodes_body_def nodes_form_def
      nodes_secret_def nodes_status_def comp_def)

lemma usage_links_ok: "\<forall>u \<in> set (links (usage_view env s)). link_ok u"
proof -
  have "\<forall>u \<in> set (links (usage_head env s)). link_ok u" by (simp add: usage_head_def)
  moreover have "links (usage_form s) = []" by (simp add: usage_form_def comp_def)
  moreover have "\<forall>u \<in> set (all_links (usage_none s)). link_ok u" by (simp add: usage_none_def)
  moreover have "all_links (usage_table env s) = []" by (simp add: usage_table_def comp_def)
  ultimately show ?thesis by (auto simp: usage_view_def)
qed

lemma admin_models_links: "links (admin_models_view env s) = []"
  by (simp add: admin_models_view_def admin_models_head_def model_form_view_def model_fields_def
      model_status_view_def admin_models_list_def comp_def)

lemma wallets_links: "links (wallets_view env s) = []"
  by (simp add: wallets_view_def wallets_head_def wallets_form_def wallets_notes_def)

lemma PublicShell_links_ok:
  "\<forall>u \<in> set (all_links children). link_ok u \<Longrightarrow> \<forall>u \<in> set (links (PublicShell children)). link_ok u"
  by (simp add: PublicShell_links ball_Un)

lemma nav_links_ok: "\<forall>u \<in> set (map nv_href (nav_items mode)). link_ok u"
  by (simp add: nav_items_def dashboardLinks_def adminLinks_def)

lemma shell_home_ok: "link_ok (shell_home mode)"
  by (simp add: shell_home_def)

lemma shell_frame_links_ok:
  "\<forall>u \<in> set (all_links children). link_ok u
   \<Longrightarrow> \<forall>u \<in> set (links (shell_frame mode user p children)). link_ok u"
  using nav_links_ok [of mode] shell_home_ok [of mode]
  unfolding shell_links by (metis Un_iff set_ConsD set_append)

lemma shell_links_ok:
  "\<forall>u \<in> set (all_links children). link_ok u
   \<Longrightarrow> \<forall>u \<in> set (links (shell_view env s children)). link_ok u"
proof -
  assume a: "\<forall>u \<in> set (all_links children). link_ok u"
  have "links (shell_failed env s) = []" "links shell_waiting = []"
    by (simp_all add: shell_failed_def shell_waiting_def)
  with shell_frame_links_ok [OF a] show ?thesis
    unfolding shell_view_def by (auto split: option.split)
qed

section \<open>Anchors\<close>

fun anchors :: "'e html \<Rightarrow> string list" where
  "anchors (Txt s) = []"
| "anchors (Elem t as hs) =
     (case attr_of ''id'' as of Some i \<Rightarrow> [i] | None \<Rightarrow> []) @ concat (map anchors hs)"

lemma widgets_anchors [simp]:
  "anchors (StatusPill v) = []" "anchors (message_box l h) = []" "anchors (ErrorMessage en e h') = []"
  "anchors CreditNotice = []" "anchors PrivacyNotice = []"
  "anchors (Loading l' h) = []" "anchors (Empty l h) = []" "anchors (SuccessMessage l h) = []"
  by (simp_all add: StatusPill_def message_box_def ErrorMessage_def CreditNotice_def
      PrivacyNotice_def showIf_def Loading_def Empty_def SuccessMessage_def)

lemma NodeCard_anchors [simp]: "anchors (NodeCard env p) = []"
  by (simp add: NodeCard_def card_ready_def card_connected_def card_offline_def)

lemma landing_anchors: "anchors (landing_view :: 'e html) = [''api'', ''node'', ''limits'']"
  by (simp add: landing_view_def PublicShell_def landing_hero_def landing_api_def landing_node_def)

lemma nodes_anchors:
  "anchors (nodes_view env s) =
     showIf (nd_showCreate s) [''node-name''] @ showIf (nd_providers s \<noteq> []) [''node-status'']"
  by (simp add: nodes_view_def nodes_head_def nodes_steps_def nodes_body_def nodes_form_def
      nodes_secret_def nodes_status_def comp_def showIf_def)

section \<open>Properties\<close>

text \<open>No page has a dead link: in every state of every page, each link leads to the repository, to
  an anchor of the same page, or to a path that one of the page files serves; the frames around the
  pages add only such links.\<close>

theorem no_dead_links:
  "(\<forall>u \<in> set (links (keys_view env s1) @ links (projects_view env s2) @ links (nodes_view env s3)
        @ links (home_view env s4) @ links (credits_view env s5) @ links (usage_view env s6)
        @ links (models_view env s7) @ links (review_view env s8) @ links (admin_models_view env s9)
        @ links (wallets_view env s10) @ links (audit_view env s11) @ links (jobs_view env s12)
        @ links (admin_usage_view env s13) @ links (admin_home_view env s14) @ links (ads_view env s15)
        @ links landing_view @ links (login_view env s16) @ links (register_view env s17)). link_ok u)
   \<and> ((\<forall>u \<in> set (all_links children). link_ok u)
        \<longrightarrow> (\<forall>u \<in> set (links (shell_view env s children)). link_ok u))"
proof -
  have 1: "\<forall>u \<in> set (links (home_view env s4)). link_ok u"
    using home_next_links [of s4] by (auto simp: home_links)
  have 2: "\<forall>u \<in> set (links (credits_view env s5)). link_ok u" by (simp add: credits_links)
  have 3: "\<forall>u \<in> set (links (models_view env s7)). link_ok u" by (simp add: models_links)
  have 4: "\<forall>u \<in> set (links (review_view env s8)). link_ok u" by (simp add: review_links)
  have 5: "\<forall>u \<in> set (links (admin_home_view env s14)). link_ok u" by (simp add: admin_home_links)
  have 6: "\<forall>u \<in> set (links (ads_view env s15)). link_ok u" by (simp add: ads_links)
  have 7: "\<forall>u \<in> set (links (login_view env s16)). link_ok u" "\<forall>u \<in> set (links (register_view env s17)). link_ok u"
    unfolding auth_links by (rule PublicShell_links_ok; simp)+
  have 8: "\<forall>u \<in> set (links landing_view). link_ok u"
    unfolding landing_links by (rule PublicShell_links_ok) simp
  have 9: "\<forall>u \<in> set (links (nodes_view env s3)). link_ok u" by (simp add: nodes_links)
  show ?thesis
    unfolding set_append ball_Un wallets_links admin_models_links audit_links jobs_links admin_usage_links
    by (intro conjI impI 1 2 3 4 5 6 7 8 9 keys_links_ok projects_links_ok usage_links_ok shell_links_ok)
      simp_all
qed

theorem no_dead_links_witness:
  "\<forall>env s. list_all link_ok (links (shell_view env s [models_head]))"
proof -
  have a: "\<forall>u \<in> set (all_links [models_head :: shell_event html]). link_ok u"
    by (simp add: models_head_def)
  show ?thesis unfolding list_all_iff
    by (intro allI no_dead_links [THEN conjunct2, THEN mp] a)
qed

text \<open>The node page always offers a link to the node status, but the section with that anchor exists
  only once the customer has a node: for a new customer the link leads nowhere.\<close>

theorem node_status_anchor:
  "links (nodes_view env s) = [''#node-status'']
   \<and> (''node-status'' \<in> set (anchors (nodes_view env s)) \<longleftrightarrow> nd_providers s \<noteq> [])"
  by (simp add: nodes_links nodes_anchors)

text \<open>The three section links of the public frame lead to sections of the landing page.\<close>

theorem landing_sections:
  "\<forall>u \<in> {''/#api'', ''/#node'', ''/#limits''}. link_path u = ''/''
     \<and> link_fragment u \<in> set (anchors (landing_view :: 'e html)) \<and> u \<in> set (links (landing_view :: 'e html))"
  by (simp add: landing_anchors landing_links PublicShell_links link_path_def link_fragment_def before_char_def)

theorem landing_sections_witness:
  "link_fragment ''/#api'' \<in> set (anchors (landing_view :: shell_event html))"
  using landing_sections [THEN bspec, of "''/#api''"] by blast

end
