(* ===== verification/Forms.thy ===== *)
theory Forms
  imports ApiKeysPage ProjectsPage ProvidersPage AuthPages AdminWallets AdminModels
begin

text \<open>
  What the six forms of the site that create something have in common, as an abstract specification:
  a slot that is free or holds the one request in flight. A page refines it when each of its steps is
  the step of the slot that its label names. The locale \<open>form_page\<close> is the contract; it is interpreted
  on the key, project, node, sign-in, wallet and model page.
\<close>

section \<open>The slot\<close>

datatype 'j slot_event = Send 'j | Answer | Tau

fun slot_step :: "('j option, 'j slot_event) machine" where
  "slot_step None (Send j) = Some (Some j)"
| "slot_step (Some j) Answer = Some None"
| "slot_step s Tau = Some s"
| "slot_step _ _ = None"

fun slot :: "'j list \<Rightarrow> 'j option" where
  "slot [] = None"
| "slot (j # js) = Some j"

lemma slot_None [simp]: "slot js = None \<longleftrightarrow> js = []" "None = slot js \<longleftrightarrow> js = []"
  by (cases js; simp)+

text \<open>The labels of a run: what the slot sees of it.\<close>

fun trace :: "('s, 'e) machine \<Rightarrow> ('s \<Rightarrow> 'e \<Rightarrow> 'l) \<Rightarrow> 's \<Rightarrow> 'e list \<Rightarrow> 'l list" where
  "trace step label s [] = []"
| "trace step label s (e # es) =
     label s e # (case step s e of None \<Rightarrow> [] | Some t \<Rightarrow> trace step label t es)"

fun sent :: "'j slot_event list \<Rightarrow> 'j list" where
  "sent [] = []"
| "sent (Send j # ls) = j # sent ls"
| "sent (_ # ls) = sent ls"

definition answers :: "'j slot_event list \<Rightarrow> nat" where
  "answers ls = length (filter (\<lambda>l. l = Answer) ls)"

text \<open>A slot never runs ahead of its answers by more than the request it holds.\<close>

lemma slot_counts:
  "run slot_step s ls = Some t \<Longrightarrow>
     length (sent ls) + (if s = None then 0 else 1) = answers ls + (if t = None then 0 else 1)"
proof (induction ls arbitrary: s)
  case (Cons l ls)
  then obtain u where u: "slot_step s l = Some u" "run slot_step u ls = Some t"
    by (auto split: option.splits)
  from Cons.IH [OF u(2)] u(1) show ?case
    by (cases s; cases l) (auto simp: answers_def split: if_splits)
qed (simp add: answers_def)

section \<open>The contract of a form\<close>

locale form_page = page_machine step start inv
  for step :: "('s, 'e) machine" and start :: 's and inv :: "'s \<Rightarrow> bool" +
  fixes jobs :: "'s \<Rightarrow> 'j list"
    and busy :: "'s \<Rightarrow> bool"
    and alive :: "'s \<Rightarrow> bool"
    and label :: "'s \<Rightarrow> 'e \<Rightarrow> 'j slot_event"
    and answer :: "'h \<Rightarrow> 'e"
  assumes jobs_start: "jobs start = []"
    and simulates: "inv s \<Longrightarrow> step s e = Some t \<Longrightarrow> slot_step (slot (jobs s)) (label s e) = Some (slot (jobs t))"
    and busy_iff: "inv s \<Longrightarrow> busy s \<longleftrightarrow> jobs s \<noteq> []"
    and answer_enabled: "inv s \<Longrightarrow> jobs s \<noteq> [] \<Longrightarrow> alive s \<Longrightarrow> \<exists>t. step s (answer h) = Some t"
    and answer_label: "label s (answer h) = Answer"
begin

lemma refines_from:
  "inv s \<Longrightarrow> run step s es = Some t \<Longrightarrow> run slot_step (slot (jobs s)) (trace step label s es) = Some (slot (jobs t))"
proof (induction es arbitrary: s)
  case (Cons e es)
  then obtain u where u: "step s e = Some u" "run step u es = Some t"
    by (auto split: option.splits)
  from Cons.IH [OF inv_step [OF Cons.prems(1) u(1)] u(2)] simulates [OF Cons.prems(1) u(1)] u(1)
  show ?case by simp
qed simp

lemma refines: "run step start es = Some s \<Longrightarrow> run slot_step None (trace step label start es) = Some (slot (jobs s))"
  using refines_from [OF inv_start] jobs_start by simp

lemma requests_answered:
  "run step start es = Some s \<Longrightarrow>
     length (sent (trace step label start es)) = answers (trace step label start es) + (if busy s then 1 else 0)"
  using slot_counts [OF refines] busy_iff [OF run_inv] by (cases "jobs s") simp_all

lemma released:
  assumes "run step start es = Some s" "busy s" "alive s"
  shows "\<exists>t. step s (answer h) = Some t \<and> \<not> busy t"
proof -
  have i: "inv s" using assms(1) by (rule run_inv)
  with assms(2) have j: "jobs s \<noteq> []" using busy_iff by blast
  obtain t where t: "step s (answer h) = Some t" using answer_enabled [OF i j assms(3)] by blast
  have "slot_step (slot (jobs s)) Answer = Some (slot (jobs t))"
    using simulates [OF i t] answer_label by simp
  with j have "jobs t = []" by (cases "jobs s") auto
  then show ?thesis using t busy_iff [OF inv_step [OF i t]] by blast
qed

end

section \<open>The six pages\<close>

text \<open>Shared by the simulations: a request is appended to an empty list, an answer empties it.\<close>

lemma slot_sent: "length js \<le> 1 \<Longrightarrow> js = [] \<Longrightarrow> slot_step (slot js) (Send j) = Some (slot (js @ [j]))"
  by simp

lemma slot_answered:
  "length js \<le> 1 \<Longrightarrow> i < length js \<Longrightarrow> slot_step (slot js) Answer = Some (slot (drop_nth i js))"
  by (cases js) auto

lemma slot_tau [simp]: "slot_step s Tau = Some s"
  by (cases s) simp_all

subsection \<open>Keys\<close>

fun keys_label :: "keys_page \<Rightarrow> keys_event \<Rightarrow> (string \<times> string) slot_event" where
  "keys_label s Submit = Send (ky_projectID s, or_text (ky_name s) (tr ''Varsay&imath;lan''))"
| "keys_label s (Created i h) = Answer"
| "keys_label s _ = Tau"

lemma keys_jobs:
  "ky_creating (keys_project p s) = ky_creating s" "ky_creating (keys_loaded r s) = ky_creating s"
  "ky_creating (keys_listed i q s) = ky_creating s" "ky_creating (keys_revoke k b s) = ky_creating s"
  "ky_creating (keys_revoked i v s) = ky_creating s"
  "ky_creating (keys_created i c s) = drop_nth i (ky_creating s)"
  "ky_creating (keys_submit s) = ky_creating s @ [(ky_projectID s, or_text (ky_name s) (tr ''Varsay&imath;lan''))]"
  by (simp_all add: keys_handlers Let_def split: sum.split option.split prod.split)

lemma keys_simulates:
  assumes "keys_inv s" "keys_step s e = Some t"
  shows "slot_step (slot (ky_creating s)) (keys_label s e) = Some (slot (ky_creating t))"
  using assms
  by (cases e) (auto simp: keys_step_def keys_jobs keys_inv_def can_submit_def slot_answered split: if_splits)

interpretation keys_form: form_page keys_step keys_start keys_inv ky_creating ky_saving
  "\<lambda>s. \<not> ky_crashed s" keys_label "Created 0"
  by unfold_locales (auto simp: keys_simulates keys_start_def keys_step_def, simp_all add: keys_inv_def)

subsection \<open>Projects\<close>

fun projects_label :: "projects_page \<Rightarrow> project_event \<Rightarrow> (string \<times> rat option) slot_event" where
  "projects_label s SubmitProject =
     (case monthly_limit (pj_limit s) of Inl e \<Rightarrow> Tau | Inr limit \<Rightarrow> Send (pj_name s, limit))"
| "projects_label s (ProjectCreated i h) = Answer"
| "projects_label s _ = Tau"

lemma projects_simulates:
  assumes "projects_inv s" "projects_step s e = Some t"
  shows "slot_step (slot (pj_creating s)) (projects_label s e) = Some (slot (pj_creating t))"
proof -
  have "pj_creating (projects_loaded r s) = pj_creating s" for r
    by (simp add: projects_loaded_def Let_def split: sum.split)
  moreover have "pj_creating (projects_created i r s) = drop_nth i (pj_creating s)" for i r
    by (simp add: projects_created_def Let_def split: sum.split option.split)
  ultimately show ?thesis
    using assms
    by (cases e) (auto simp: projects_step_def projects_inv_def can_create_project_def projects_submit_def
        slot_answered Let_def split: if_splits sum.splits)
qed

interpretation projects_form: form_page projects_step projects_start projects_inv pj_creating pj_saving
  "\<lambda>s. \<not> pj_crashed s" projects_label "ProjectCreated 0"
  by unfold_locales (auto simp: projects_simulates projects_start_def projects_step_def, simp_all add: projects_inv_def)

subsection \<open>Nodes\<close>

fun nodes_label :: "nodes_page \<Rightarrow> node_event \<Rightarrow> string slot_event" where
  "nodes_label s SubmitNode = Send (nd_name s)"
| "nodes_label s (NodeCreated i h) = Answer"
| "nodes_label s _ = Tau"

lemma nodes_simulates:
  assumes "nodes_inv s" "nodes_step s e = Some t"
  shows "slot_step (slot (nd_creating s)) (nodes_label s e) = Some (slot (nd_creating t))"
proof -
  have "nd_creating (nodes_loaded r s) = nd_creating s" for r
    by (simp add: nodes_loaded_def Let_def split: sum.split)
  moreover have "nd_creating (nodes_created i r s) = drop_nth i (nd_creating s)" for i r
    by (simp add: nodes_created_def Let_def split: sum.split)
  ultimately show ?thesis
    using assms
    by (cases e) (auto simp: nodes_inv_def can_create_node_def nodes_submit_def slot_answered split: if_splits)
qed

interpretation nodes_form: form_page nodes_step nodes_start nodes_inv nd_creating nd_saving
  "\<lambda>s. True" nodes_label "NodeCreated 0"
  by unfold_locales (auto simp: nodes_simulates nodes_start_def, simp_all add: nodes_inv_def)

subsection \<open>Sign-in\<close>

fun auth_label :: "auth_page \<Rightarrow> auth_event \<Rightarrow> (string \<times> string) slot_event" where
  "auth_label s SubmitAuth = Send (lg_email s, lg_password s)"
| "auth_label s (AuthSettled i h) = Answer"
| "auth_label s _ = Tau"

lemma auth_simulates:
  assumes "auth_inv st s" "auth_step c s e = Some t"
  shows "slot_step (slot (lg_pending s)) (auth_label s e) = Some (slot (lg_pending t))"
proof -
  have "lg_pending (auth_settled i r s) = drop_nth i (lg_pending s)" for i r
    by (simp add: auth_settled_def Let_def split: sum.split)
  then show ?thesis
    using assms
    by (cases e) (auto simp: auth_inv_def can_authenticate_def auth_submit_def slot_answered split: if_splits)
qed

interpretation auth_form: form_page "auth_step c" "auth_start st" "auth_inv st" lg_pending lg_loading
  "\<lambda>s. True" auth_label "AuthSettled 0"
  by unfold_locales (auto simp: auth_simulates auth_start_def, simp_all add: auth_inv_def)

subsection \<open>Wallets\<close>

fun wallets_label :: "wallets_page \<Rightarrow> wallet_event \<Rightarrow> (string \<times> rat \<times> string) slot_event" where
  "wallets_label s (SubmitAdjust yes) =
     (case toNumber (wl_amount s) of
        Finite q \<Rightarrow> if yes then Send (wl_email s, q, wl_reason s) else Tau
      | _ \<Rightarrow> Tau)"
| "wallets_label s (Adjusted i h) = Answer"
| "wallets_label s _ = Tau"

lemma wallets_simulates:
  assumes "wallets_inv s" "wallets_step s e = Some t"
  shows "slot_step (slot (wl_adjusting s)) (wallets_label s e) = Some (slot (wl_adjusting t))"
proof -
  have "wl_adjusting (wallets_adjusted i r s) = drop_nth i (wl_adjusting s)" for i r
    by (simp add: wallets_adjusted_def Let_def split: sum.split option.split)
  then show ?thesis
    using assms
    by (cases e) (auto simp: wallets_step_def wallets_inv_def can_adjust_def wallets_submit_def slot_answered
        Let_def split: if_splits number.splits)
qed

interpretation wallets_form: form_page wallets_step wallets_start wallets_inv wl_adjusting wl_saving
  "\<lambda>s. \<not> wl_crashed s" wallets_label "Adjusted 0"
  by unfold_locales (auto simp: wallets_simulates wallets_start_def wallets_step_def, simp_all add: wallets_inv_def)

subsection \<open>Models\<close>

fun models_label :: "models_page \<Rightarrow> model_event \<Rightarrow> model_payload slot_event" where
  "models_label s SubmitModel = (case checked_payload (am_form s) of Inl e \<Rightarrow> Tau | Inr p \<Rightarrow> Send p)"
| "models_label s (ModelCreated i h) = Answer"
| "models_label s _ = Tau"

lemma models_jobs:
  "am_creating (models_loaded r s) = am_creating s" "am_creating (models_edit i s) = am_creating s"
  "am_creating (models_save s) = am_creating s" "am_creating (models_saved n q s) = am_creating s"
  "am_creating (models_pause i b s) = am_creating s" "am_creating (models_paused n v s) = am_creating s"
  "am_creating (models_created n q s) = drop_nth n (am_creating s)"
  by (simp_all add: models_loaded_def models_edit_def models_save_def models_saved_def models_pause_def
      models_paused_def models_created_def Let_def split: sum.split option.split)

lemma models_simulates:
  assumes "models_inv s" "admin_models_step s e = Some t"
  shows "slot_step (slot (am_creating s)) (models_label s e) = Some (slot (am_creating t))"
  using assms
  by (cases e) (auto simp: admin_models_step_def models_jobs models_inv_def can_create_model_def
      models_submit_def slot_answered Let_def split: if_splits sum.splits)

interpretation models_form: form_page admin_models_step models_start models_inv am_creating am_saving
  "\<lambda>s. \<not> am_crashed s" models_label "ModelCreated 0"
  by unfold_locales (auto simp: models_simulates models_start_def admin_models_step_def, simp_all add: models_inv_def)

section \<open>Properties\<close>

text \<open>C9: The key, project, node, sign-in, wallet and model pages refine one abstract slot: every run of a
  page is, through its labels, a run of a slot that is free or holds the one request in flight with
  exactly the data that was submitted, and the requests sent are those answered plus the one in flight
  when the page says that it is busy.\<close>

theorem forms_refine_slot:
  "(run keys_step keys_start e1 = Some s1 \<longrightarrow>
       run slot_step None (trace keys_step keys_label keys_start e1) = Some (slot (ky_creating s1))
       \<and> length (sent (trace keys_step keys_label keys_start e1)) = answers (trace keys_step keys_label keys_start e1) + (if ky_saving s1 then 1 else 0))
   \<and> (run projects_step projects_start e2 = Some s2 \<longrightarrow>
       run slot_step None (trace projects_step projects_label projects_start e2) = Some (slot (pj_creating s2))
       \<and> length (sent (trace projects_step projects_label projects_start e2)) = answers (trace projects_step projects_label projects_start e2) + (if pj_saving s2 then 1 else 0))
   \<and> (run nodes_step nodes_start e3 = Some s3 \<longrightarrow>
       run slot_step None (trace nodes_step nodes_label nodes_start e3) = Some (slot (nd_creating s3))
       \<and> length (sent (trace nodes_step nodes_label nodes_start e3)) = answers (trace nodes_step nodes_label nodes_start e3) + (if nd_saving s3 then 1 else 0))
   \<and> (run (auth_step c) (auth_start st) e4 = Some s4 \<longrightarrow>
       run slot_step None (trace (auth_step c) auth_label (auth_start st) e4) = Some (slot (lg_pending s4))
       \<and> length (sent (trace (auth_step c) auth_label (auth_start st) e4)) = answers (trace (auth_step c) auth_label (auth_start st) e4) + (if lg_loading s4 then 1 else 0))
   \<and> (run wallets_step wallets_start e5 = Some s5 \<longrightarrow>
       run slot_step None (trace wallets_step wallets_label wallets_start e5) = Some (slot (wl_adjusting s5))
       \<and> length (sent (trace wallets_step wallets_label wallets_start e5)) = answers (trace wallets_step wallets_label wallets_start e5) + (if wl_saving s5 then 1 else 0))
   \<and> (run admin_models_step models_start e6 = Some s6 \<longrightarrow>
       run slot_step None (trace admin_models_step models_label models_start e6) = Some (slot (am_creating s6))
       \<and> length (sent (trace admin_models_step models_label models_start e6)) = answers (trace admin_models_step models_label models_start e6) + (if am_saving s6 then 1 else 0))"
  by (intro conjI impI;
      (erule keys_form.refines | erule keys_form.requests_answered
       | erule projects_form.refines | erule projects_form.requests_answered
       | erule nodes_form.refines | erule nodes_form.requests_answered
       | erule auth_form.refines | erule auth_form.requests_answered
       | erule wallets_form.refines | erule wallets_form.requests_answered
       | erule models_form.refines | erule models_form.requests_answered))

theorem forms_refine_slot_witness:
  "run slot_step None (trace nodes_step nodes_label nodes_start [ShowCreate, SetNodeName ''n'', SubmitNode])
   = Some (Some ''n'')"
proof -
  have "run nodes_step nodes_start [ShowCreate, SetNodeName ''n'', SubmitNode]
      = Some (nodes_submit (nodes_start\<lparr>nd_showCreate := True, nd_name := ''n''\<rparr>))"
    by (simp add: can_create_node_def nodes_start_def)
  then show ?thesis
    using forms_refine_slot [THEN conjunct2, THEN conjunct2, THEN conjunct1, THEN mp]
    by (fastforce simp: nodes_submit_def nodes_start_def)
qed

text \<open>C10: No form stays locked: in every reachable state in which one of the six pages is busy and has not
  crashed, its request is in flight, and whatever answer arrives the page takes it and is free again.\<close>

theorem forms_released:
  "(run keys_step keys_start e1 = Some s1 \<and> ky_saving s1 \<and> \<not> ky_crashed s1 \<longrightarrow>
       (\<exists>t. keys_step s1 (Created 0 h1) = Some t \<and> \<not> ky_saving t))
   \<and> (run projects_step projects_start e2 = Some s2 \<and> pj_saving s2 \<and> \<not> pj_crashed s2 \<longrightarrow>
       (\<exists>t. projects_step s2 (ProjectCreated 0 h2) = Some t \<and> \<not> pj_saving t))
   \<and> (run nodes_step nodes_start e3 = Some s3 \<and> nd_saving s3 \<longrightarrow>
       (\<exists>t. nodes_step s3 (NodeCreated 0 h3) = Some t \<and> \<not> nd_saving t))
   \<and> (run (auth_step c) (auth_start st) e4 = Some s4 \<and> lg_loading s4 \<longrightarrow>
       (\<exists>t. (auth_step c) s4 (AuthSettled 0 h4) = Some t \<and> \<not> lg_loading t))
   \<and> (run wallets_step wallets_start e5 = Some s5 \<and> wl_saving s5 \<and> \<not> wl_crashed s5 \<longrightarrow>
       (\<exists>t. wallets_step s5 (Adjusted 0 h5) = Some t \<and> \<not> wl_saving t))
   \<and> (run admin_models_step models_start e6 = Some s6 \<and> am_saving s6 \<and> \<not> am_crashed s6 \<longrightarrow>
       (\<exists>t. admin_models_step s6 (ModelCreated 0 h6) = Some t \<and> \<not> am_saving t))"
  by (intro conjI impI; elim conjE;
      (rule keys_form.released, assumption, assumption, assumption
       | rule projects_form.released, assumption, assumption, assumption
       | rule nodes_form.released, assumption, assumption, rule TrueI
       | rule auth_form.released, assumption, assumption, rule TrueI
       | rule wallets_form.released, assumption, assumption, assumption
       | rule models_form.released, assumption, assumption, assumption))

theorem forms_released_witness:
  "\<exists>t. nodes_step (nodes_submit (nodes_start\<lparr>nd_showCreate := True, nd_name := ''n''\<rparr>))
        (NodeCreated 0 (NetworkFailure ''m'')) = Some t \<and> \<not> nd_saving t"
proof -
  have "run nodes_step nodes_start [ShowCreate, SetNodeName ''n'', SubmitNode]
      = Some (nodes_submit (nodes_start\<lparr>nd_showCreate := True, nd_name := ''n''\<rparr>))"
    by (simp add: can_create_node_def nodes_start_def)
  moreover have "nd_saving (nodes_submit (nodes_start\<lparr>nd_showCreate := True, nd_name := ''n''\<rparr>))"
    by (simp add: nodes_submit_def)
  ultimately show ?thesis
    using forms_released [THEN conjunct2, THEN conjunct2, THEN conjunct1, THEN mp] by blast
qed

end
