(* ===== verification/QueryString.thy ===== *)
theory QueryString
  imports Endpoints
begin

text \<open>
  The query string that \<open>listUsage\<close> builds with \<open>URLSearchParams\<close>, and the parser of the same format
  (\<open>application/x-www-form-urlencoded\<close>, the URL standard): the parser recovers every filter.
\<close>

section \<open>Reading a query\<close>

definition hex_value :: "char \<Rightarrow> nat option" where
  "hex_value c =
     (if is_digit c then Some (of_char c - 48)
      else if byte_in (CHR ''A'') (CHR ''F'') c then Some (of_char c - 55)
      else if byte_in (CHR ''a'') (CHR ''f'') c then Some (of_char c - 87)
      else None)"

fun unescape :: "string \<Rightarrow> string" where
  "unescape [] = []"
| "unescape (c # cs) =
     (if c = CHR 0x25
      then (case cs of
          a # b # rest \<Rightarrow> (case (hex_value a, hex_value b) of
              (Some x, Some y) \<Rightarrow> char_of (16 * x + y) # unescape rest
            | _ \<Rightarrow> c # unescape cs)
        | _ \<Rightarrow> c # unescape cs)
      else (if c = CHR ''+'' then CHR '' '' else c) # unescape cs)"

fun split_on :: "char \<Rightarrow> string \<Rightarrow> string list" where
  "split_on a [] = [[]]"
| "split_on a (c # cs) =
     (if c = a then [] # split_on a cs
      else case split_on a cs of [] \<Rightarrow> [[c]] | x # xs \<Rightarrow> (c # x) # xs)"

definition parse_pair :: "string \<Rightarrow> (string \<times> string) option" where
  "parse_pair p =
     (if p = [] then None
      else Some (unescape (takeWhile (\<lambda>c. c \<noteq> CHR ''='') p),
                 unescape (drop 1 (dropWhile (\<lambda>c. c \<noteq> CHR ''='') p))))"

definition parse_query :: "string \<Rightarrow> (string \<times> string) list" where
  "parse_query q = List.map_filter parse_pair (split_on (CHR ''&'') q)"

text \<open>The first value of the name, or the empty string.\<close>

definition query_get :: "string \<Rightarrow> string \<Rightarrow> string" where
  "query_get q n = (case map_of (parse_query q) n of None \<Rightarrow> [] | Some v \<Rightarrow> v)"

definition query_of :: "string \<Rightarrow> string" where
  "query_of url = drop 1 (dropWhile (\<lambda>c. c \<noteq> CHR ''?'') url)"

section \<open>The encoding is safe\<close>

lemma of_char_hex_char: "d < 16 \<Longrightarrow> (of_char (hex_char d) :: nat) = (if d < 10 then 48 + d else 55 + d)"
  by (auto simp: hex_char_def digit_char_def)

lemma hex_value_hex_char: "d < 16 \<Longrightarrow> hex_value (hex_char d) = Some d"
  by (auto simp: hex_value_def is_digit_def byte_in_def of_char_hex_char)

definition query_safe :: "char \<Rightarrow> bool" where
  "query_safe c \<longleftrightarrow> c \<noteq> CHR ''&'' \<and> c \<noteq> CHR ''='' \<and> c \<noteq> CHR ''?''"

lemma hex_char_safe: "d < 16 \<Longrightarrow> query_safe (hex_char d)"
  using of_char_hex_char [of d] by (auto simp: query_safe_def split: if_splits)

lemma nibbles: "(of_char c :: nat) div 16 < 16" "(of_char c :: nat) mod 16 < 16"
proof -
  have "(of_char c :: nat) < 256" by (rule nat_of_char_less_256)
  then show "(of_char c :: nat) div 16 < 16" by (simp add: less_mult_imp_div_less)
  show "(of_char c :: nat) mod 16 < 16" by simp
qed

lemma word_safe: "is_word c \<Longrightarrow> query_safe c \<and> c \<noteq> CHR 0x25 \<and> c \<noteq> CHR ''+''"
  by (auto simp: is_word_def is_lower_def is_upper_def is_digit_def byte_in_def query_safe_def)

lemma form_byte_safe: "x \<in> set (form_byte c) \<Longrightarrow> query_safe x"
proof -
  assume x: "x \<in> set (form_byte c)"
  have "query_safe (CHR 0x25)" "query_safe (CHR ''+'')" "query_safe (CHR ''*'')"
    "query_safe (CHR ''-'')" "query_safe (CHR ''.'')"
    by (simp_all add: query_safe_def)
  with x show ?thesis
    using word_safe [of c] hex_char_safe [OF nibbles(1)] hex_char_safe [OF nibbles(2)]
    by (auto simp: form_byte_def split: if_splits)
qed

lemma form_encode_safe: "x \<in> set (form_encode s) \<Longrightarrow> query_safe x"
  by (auto simp: form_encode_def dest: form_byte_safe)

lemma unescape_form_byte: "unescape (form_byte c @ t) = c # unescape t"
proof -
  have "char_of (16 * ((of_char c :: nat) div 16) + of_char c mod 16) = c"
    by simp
  then show ?thesis
    using word_safe [of c]
    by (auto simp: form_byte_def hex_value_hex_char nibbles)
qed

lemma unescape_form_encode: "unescape (form_encode s) = s"
  by (induction s) (simp_all add: form_encode_def unescape_form_byte)

section \<open>Round trip\<close>

lemma split_on_ne: "split_on a s \<noteq> []"
  by (induction s) (auto split: list.splits)

lemma split_on_append: "a \<notin> set x \<Longrightarrow> split_on a (x @ s) = (x @ hd (split_on a s)) # tl (split_on a s)"
  by (induction x) (auto simp: split_on_ne)

lemma split_on_join:
  assumes "\<forall>x \<in> set xs. a \<notin> set x" "xs \<noteq> []"
  shows "split_on a (join [a] xs) = xs"
  using assms
proof (induction "[a]" xs rule: join.induct)
  case (2 x)
  then show ?case using split_on_append [of a x "[]"] by simp
next
  case (3 x y ys)
  then show ?case using split_on_append [of a x] by simp
qed simp

definition pair_text :: "string \<times> string \<Rightarrow> string" where
  "pair_text p = form_encode (fst p) @ ''='' @ form_encode (snd p)"

lemma parse_pair_text: "parse_pair (pair_text (n, v)) = Some (n, v)"
proof -
  have "c \<noteq> CHR ''=''" if "c \<in> set (form_encode n)" for c
    using form_encode_safe [OF that] by (simp add: query_safe_def)
  then have "takeWhile (\<lambda>c. c \<noteq> CHR ''='') (pair_text (n, v)) = form_encode n"
    "dropWhile (\<lambda>c. c \<noteq> CHR ''='') (pair_text (n, v)) = ''='' @ form_encode v"
    by (simp_all add: pair_text_def takeWhile_append2 dropWhile_append2)
  then show ?thesis by (simp add: parse_pair_def unescape_form_encode) (simp add: pair_text_def)
qed

lemma pair_text_safe: "CHR ''&'' \<notin> set (pair_text p)"
  using form_encode_safe by (auto simp: pair_text_def query_safe_def)

lemma params_text_pairs: "params_text ps = join ''&'' (map pair_text ps)"
proof -
  have "(\<lambda>(n, v). form_encode n @ ''='' @ form_encode v) = pair_text"
    by (auto simp: pair_text_def)
  then show ?thesis by (simp only: params_text_def)
qed

lemma parse_query_params: "parse_query (params_text ps) = ps"
proof (cases "ps = []")
  case True
  then show ?thesis by (simp add: params_text_def parse_query_def parse_pair_def List.map_filter_def)
next
  case False
  then have "split_on (CHR ''&'') (params_text ps) = map pair_text ps"
    unfolding params_text_pairs by (intro split_on_join) (auto simp: pair_text_safe)
  moreover have "List.map_filter parse_pair (map pair_text ps) = ps"
    by (induction ps) (auto simp: List.map_filter_simps parse_pair_text)
  ultimately show ?thesis by (simp add: parse_query_def)
qed

lemma usage_query: "query_of (c_path (listUsage f)) = params_text (usage_params f)"
  by (simp add: listUsage_def query_of_def Let_def)

section \<open>Properties\<close>

text \<open>Whatever texts the filter holds (spaces, signs, bytes of any alphabet), parsing the query
  recovers exactly the four filter values that the page put into it.\<close>

theorem usage_filter_roundtrip:
  "let q = query_of (c_path (listUsage f)) in
     query_get q ''project_id'' = uf_projectID f \<and> query_get q ''from'' = uf_from f
     \<and> query_get q ''to'' = uf_to f \<and> query_get q ''model'' = uf_model f"
  by (simp add: usage_query query_get_def parse_query_params usage_params_def showIf_def)

end
