(* ===== verification/Router.thy ===== *)
theory Router
  imports QueryString
begin

text \<open>
  Which handler of the API server answers a request of the web client: the route table of
  \<open>apps/api/internal/router/router.go\<close>. The web framework is not part of the repository; how it
  matches a pattern against a path is the argument \<open>matches\<close>, and \<open>path_match\<close> is what its documentation
  says of the default configuration: segment by segment, a parameter takes any non-empty segment, a
  constant matches in any case, and a slash at the end does not count. The first matching route answers.
\<close>

section \<open>Routes\<close>

text \<open>Who may call a handler: anybody, anybody at a limited rate per minute, or the bearer of a token.\<close>

datatype access = Anybody | Limited int | SignedIn

type_synonym route = "string \<times> string \<times> access \<times> string"

definition authenticated :: "string \<times> string \<times> string \<Rightarrow> route" where
  "authenticated r = (case r of (m, p, h) \<Rightarrow> (m, ''/api'' @ p, SignedIn, h))"

definition routes :: "int \<Rightarrow> route list" where
  "routes defaultLimit =
     [(''GET'', ''/health'', Anybody, ''Health''),
      (''POST'', ''/api/auth/register'', Limited 5, ''Register''),
      (''POST'', ''/api/auth/login'', Limited 10, ''Login''),
      (''GET'', ''/api/provider/ws'', Anybody, ''ProviderWS'')]
   @ map authenticated
     [(''GET'', ''/me'', ''Me''),
      (''GET'', ''/projects'', ''ListProjects''),
      (''POST'', ''/projects'', ''CreateProject''),
      (''GET'', ''/projects/:project_id/api-keys'', ''ListAPIKeys''),
      (''POST'', ''/projects/:project_id/api-keys'', ''CreateAPIKey''),
      (''DELETE'', ''/projects/:project_id/api-keys/:key_id'', ''RevokeAPIKey''),
      (''GET'', ''/wallet'', ''Wallet''),
      (''GET'', ''/wallet/ledger'', ''Ledger''),
      (''GET'', ''/usage'', ''Usage''),
      (''GET'', ''/models'', ''Models''),
      (''GET'', ''/providers'', ''Providers''),
      (''POST'', ''/providers'', ''CreateProvider''),
      (''GET'', ''/admin/jobs'', ''AdminJobs''),
      (''GET'', ''/admin/usage'', ''AdminUsage''),
      (''POST'', ''/admin/wallets/:user_id/adjust'', ''AdjustWallet''),
      (''GET'', ''/admin/models'', ''AdminModels''),
      (''POST'', ''/admin/models'', ''CreateAdminModel''),
      (''PATCH'', ''/admin/models/:model_id'', ''UpdateAdminModel''),
      (''POST'', ''/admin/models/:model_id/pause'', ''PauseAdminModel''),
      (''GET'', ''/admin/providers'', ''AdminProviders''),
      (''POST'', ''/admin/providers/:provider_id/approve'', ''ApproveProvider''),
      (''POST'', ''/admin/providers/:provider_id/reject'', ''RejectProvider''),
      (''POST'', ''/admin/providers/:provider_id/disable'', ''DisableProvider''),
      (''GET'', ''/admin/provider-models/pending'', ''PendingProviderModels''),
      (''POST'', ''/admin/provider-models/:id/approve'', ''ApproveProviderModel''),
      (''POST'', ''/admin/provider-models/:id/reject'', ''RejectProviderModel''),
      (''GET'', ''/admin/audit-log'', ''AdminAuditLog'')]
   @ [(''GET'', ''/v1/models'', Anybody, ''OpenAIModels''),
      (''POST'', ''/v1/chat/completions'', Limited defaultLimit, ''ChatCompletions'')]"

definition serves :: "(string \<Rightarrow> string \<Rightarrow> bool) \<Rightarrow> int \<Rightarrow> string \<Rightarrow> string \<Rightarrow> (access \<times> string) option" where
  "serves matches defaultLimit method path =
     map_option (\<lambda>(m, p, a, h). (a, h)) (find (\<lambda>(m, p, a, h). m = method \<and> matches p path) (routes defaultLimit))"

section \<open>Matching as documented\<close>

definition segments :: "string \<Rightarrow> string list" where
  "segments path = split_on (CHR ''/'') path"

definition segment_match :: "string \<Rightarrow> string \<Rightarrow> bool" where
  "segment_match p s = (case p of [] \<Rightarrow> s = []
     | c # _ \<Rightarrow> if c = CHR '':'' then s \<noteq> [] else lowercase p = lowercase s)"

definition drop_slash :: "string \<Rightarrow> string" where
  "drop_slash path = (if 1 < length path \<and> last path = CHR ''/'' then butlast path else path)"

definition path_match :: "string \<Rightarrow> string \<Rightarrow> bool" where
  "path_match pattern path = list_all2 segment_match (segments pattern) (segments (drop_slash path))"

text \<open>The requests of the client: the query is not part of the path.\<close>

definition answering :: "(string \<Rightarrow> string \<Rightarrow> bool) \<Rightarrow> int \<Rightarrow> ('w, 'r) call \<Rightarrow> (access \<times> string) option" where
  "answering matches defaultLimit c =
     serves matches defaultLimit (case in_method (c_init c) of None \<Rightarrow> ''GET'' | Some m \<Rightarrow> m)
       (takeWhile (\<lambda>x. x \<noteq> CHR ''?'') (c_path c))"

text \<open>Ids as the server draws them: a prefix and a text over the letters of URL-safe base 64.\<close>

definition public_id :: "string \<Rightarrow> bool" where
  "public_id i \<longleftrightarrow> i \<noteq> [] \<and> list_all (\<lambda>c. is_word c \<or> c = CHR ''-'') i"

lemma no_word: "\<not> is_word (CHR ''/'')" "\<not> is_word (CHR ''?'')"
  by code_simp+

lemma public_id_parts:
  assumes "public_id i"
  shows "i \<noteq> []" "CHR ''/'' \<notin> set i" "CHR ''?'' \<notin> set i" "last i \<noteq> CHR ''/''"
proof -
  show 1: "i \<noteq> []" "CHR ''/'' \<notin> set i" "CHR ''?'' \<notin> set i"
    using assms no_word by (auto simp: public_id_def list_all_iff)
  show "last i \<noteq> CHR ''/''" using last_in_set [OF 1(1)] 1(2) by metis
qed

lemma before_query:
  assumes "public_id i"
  shows "takeWhile (\<lambda>x. x \<noteq> CHR ''?'') (i @ s) = i @ takeWhile (\<lambda>x. x \<noteq> CHR ''?'') s"
    "takeWhile (\<lambda>x. x \<noteq> CHR ''?'') i = i"
  using public_id_parts(3) [OF assms] by (auto intro!: takeWhile_append2 simp: takeWhile_eq_all_conv)

lemma split_id:
  assumes "public_id i"
  shows "split_on (CHR ''/'') (i @ s) = (i @ hd (split_on (CHR ''/'') s)) # tl (split_on (CHR ''/'') s)"
    "split_on (CHR ''/'') i = [i]"
  using split_on_append [OF public_id_parts(2) [OF assms], of s] split_on_append [OF public_id_parts(2) [OF assms], of "[]"]
  by simp_all

text \<open>The table with its patterns cut into segments.\<close>

definition table :: "int \<Rightarrow> (string \<times> string list \<times> access \<times> string) list" where
  "table n = map (\<lambda>(m, p, a, h). (m, segments p, a, h)) (routes n)"

lemma table_rows: "table n =
    [(''GET'', ['''', ''health''], Anybody, ''Health''),
     (''POST'', ['''', ''api'', ''auth'', ''register''], Limited 5, ''Register''),
     (''POST'', ['''', ''api'', ''auth'', ''login''], Limited 10, ''Login''),
     (''GET'', ['''', ''api'', ''provider'', ''ws''], Anybody, ''ProviderWS''),
     (''GET'', ['''', ''api'', ''me''], SignedIn, ''Me''),
     (''GET'', ['''', ''api'', ''projects''], SignedIn, ''ListProjects''),
     (''POST'', ['''', ''api'', ''projects''], SignedIn, ''CreateProject''),
     (''GET'', ['''', ''api'', ''projects'', '':project_id'', ''api-keys''], SignedIn, ''ListAPIKeys''),
     (''POST'', ['''', ''api'', ''projects'', '':project_id'', ''api-keys''], SignedIn, ''CreateAPIKey''),
     (''DELETE'', ['''', ''api'', ''projects'', '':project_id'', ''api-keys'', '':key_id''], SignedIn, ''RevokeAPIKey''),
     (''GET'', ['''', ''api'', ''wallet''], SignedIn, ''Wallet''),
     (''GET'', ['''', ''api'', ''wallet'', ''ledger''], SignedIn, ''Ledger''),
     (''GET'', ['''', ''api'', ''usage''], SignedIn, ''Usage''),
     (''GET'', ['''', ''api'', ''models''], SignedIn, ''Models''),
     (''GET'', ['''', ''api'', ''providers''], SignedIn, ''Providers''),
     (''POST'', ['''', ''api'', ''providers''], SignedIn, ''CreateProvider''),
     (''GET'', ['''', ''api'', ''admin'', ''jobs''], SignedIn, ''AdminJobs''),
     (''GET'', ['''', ''api'', ''admin'', ''usage''], SignedIn, ''AdminUsage''),
     (''POST'', ['''', ''api'', ''admin'', ''wallets'', '':user_id'', ''adjust''], SignedIn, ''AdjustWallet''),
     (''GET'', ['''', ''api'', ''admin'', ''models''], SignedIn, ''AdminModels''),
     (''POST'', ['''', ''api'', ''admin'', ''models''], SignedIn, ''CreateAdminModel''),
     (''PATCH'', ['''', ''api'', ''admin'', ''models'', '':model_id''], SignedIn, ''UpdateAdminModel''),
     (''POST'', ['''', ''api'', ''admin'', ''models'', '':model_id'', ''pause''], SignedIn, ''PauseAdminModel''),
     (''GET'', ['''', ''api'', ''admin'', ''providers''], SignedIn, ''AdminProviders''),
     (''POST'', ['''', ''api'', ''admin'', ''providers'', '':provider_id'', ''approve''], SignedIn, ''ApproveProvider''),
     (''POST'', ['''', ''api'', ''admin'', ''providers'', '':provider_id'', ''reject''], SignedIn, ''RejectProvider''),
     (''POST'', ['''', ''api'', ''admin'', ''providers'', '':provider_id'', ''disable''], SignedIn, ''DisableProvider''),
     (''GET'', ['''', ''api'', ''admin'', ''provider-models'', ''pending''], SignedIn, ''PendingProviderModels''),
     (''POST'', ['''', ''api'', ''admin'', ''provider-models'', '':id'', ''approve''], SignedIn, ''ApproveProviderModel''),
     (''POST'', ['''', ''api'', ''admin'', ''provider-models'', '':id'', ''reject''], SignedIn, ''RejectProviderModel''),
     (''GET'', ['''', ''api'', ''admin'', ''audit-log''], SignedIn, ''AdminAuditLog''),
     (''GET'', ['''', ''v1'', ''models''], Anybody, ''OpenAIModels''),
     (''POST'', ['''', ''v1'', ''chat'', ''completions''], Limited n, ''ChatCompletions'')]"
  by (simp add: table_def routes_def authenticated_def segments_def)

lemma find_table:
  "find (\<lambda>(m, p, a, h). m = method \<and> path_match p path) rs = None \<longleftrightarrow>
   find (\<lambda>(m, ss, a, h). m = method \<and> list_all2 segment_match ss (segments (drop_slash path)))
     (map (\<lambda>(m, p, a, h). (m, segments p, a, h)) rs) = None"
  "map_option (\<lambda>(m, p, a, h). (a, h)) (find (\<lambda>(m, p, a, h). m = method \<and> path_match p path) rs) =
   map_option (\<lambda>(m, ss, a, h). (a, h))
     (find (\<lambda>(m, ss, a, h). m = method \<and> list_all2 segment_match ss (segments (drop_slash path)))
       (map (\<lambda>(m, p, a, h). (m, segments p, a, h)) rs))"
  by (induction rs) (auto simp: path_match_def)

text \<open>Its rows by method.\<close>

definition rows :: "string \<Rightarrow> int \<Rightarrow> (string list \<times> access \<times> string) list" where
  "rows method n = map snd (filter (\<lambda>r. fst r = method) (table n))"

lemma serves_by:
  assumes "\<And>pat path. matches pat path \<longleftrightarrow> path_match pat path"
  shows "serves matches n method path
     = map_option snd (find (\<lambda>r. list_all2 segment_match (fst r) (segments (drop_slash path))) (rows method n))"
proof -
  have "map_option (\<lambda>(m, ss, a, h). (a, h))
     (find (\<lambda>(m, ss, a, h). m = method \<and> list_all2 segment_match ss (segments (drop_slash path))) rs)
     = map_option snd (find (\<lambda>r. list_all2 segment_match (fst r) (segments (drop_slash path)))
         (map snd (filter (\<lambda>r. fst r = method) rs)))" for rs
    by (induction rs) auto
  then show ?thesis unfolding serves_def assms rows_def table_def find_table(2) .
qed

lemma method_rows:
  "rows ''GET'' n =
    [(['''', ''health''], Anybody, ''Health''),
     (['''', ''api'', ''provider'', ''ws''], Anybody, ''ProviderWS''),
     (['''', ''api'', ''me''], SignedIn, ''Me''),
     (['''', ''api'', ''projects''], SignedIn, ''ListProjects''),
     (['''', ''api'', ''projects'', '':project_id'', ''api-keys''], SignedIn, ''ListAPIKeys''),
     (['''', ''api'', ''wallet''], SignedIn, ''Wallet''),
     (['''', ''api'', ''wallet'', ''ledger''], SignedIn, ''Ledger''),
     (['''', ''api'', ''usage''], SignedIn, ''Usage''),
     (['''', ''api'', ''models''], SignedIn, ''Models''),
     (['''', ''api'', ''providers''], SignedIn, ''Providers''),
     (['''', ''api'', ''admin'', ''jobs''], SignedIn, ''AdminJobs''),
     (['''', ''api'', ''admin'', ''usage''], SignedIn, ''AdminUsage''),
     (['''', ''api'', ''admin'', ''models''], SignedIn, ''AdminModels''),
     (['''', ''api'', ''admin'', ''providers''], SignedIn, ''AdminProviders''),
     (['''', ''api'', ''admin'', ''provider-models'', ''pending''], SignedIn, ''PendingProviderModels''),
     (['''', ''api'', ''admin'', ''audit-log''], SignedIn, ''AdminAuditLog''),
     (['''', ''v1'', ''models''], Anybody, ''OpenAIModels'')]"
  "rows ''POST'' n =
    [(['''', ''api'', ''auth'', ''register''], Limited 5, ''Register''),
     (['''', ''api'', ''auth'', ''login''], Limited 10, ''Login''),
     (['''', ''api'', ''projects''], SignedIn, ''CreateProject''),
     (['''', ''api'', ''projects'', '':project_id'', ''api-keys''], SignedIn, ''CreateAPIKey''),
     (['''', ''api'', ''providers''], SignedIn, ''CreateProvider''),
     (['''', ''api'', ''admin'', ''wallets'', '':user_id'', ''adjust''], SignedIn, ''AdjustWallet''),
     (['''', ''api'', ''admin'', ''models''], SignedIn, ''CreateAdminModel''),
     (['''', ''api'', ''admin'', ''models'', '':model_id'', ''pause''], SignedIn, ''PauseAdminModel''),
     (['''', ''api'', ''admin'', ''providers'', '':provider_id'', ''approve''], SignedIn, ''ApproveProvider''),
     (['''', ''api'', ''admin'', ''providers'', '':provider_id'', ''reject''], SignedIn, ''RejectProvider''),
     (['''', ''api'', ''admin'', ''providers'', '':provider_id'', ''disable''], SignedIn, ''DisableProvider''),
     (['''', ''api'', ''admin'', ''provider-models'', '':id'', ''approve''], SignedIn, ''ApproveProviderModel''),
     (['''', ''api'', ''admin'', ''provider-models'', '':id'', ''reject''], SignedIn, ''RejectProviderModel''),
     (['''', ''v1'', ''chat'', ''completions''], Limited n, ''ChatCompletions'')]"
  "rows ''DELETE'' n =
    [(['''', ''api'', ''projects'', '':project_id'', ''api-keys'', '':key_id''], SignedIn, ''RevokeAPIKey'')]"
  "rows ''PATCH'' n =
    [(['''', ''api'', ''admin'', ''models'', '':model_id''], SignedIn, ''UpdateAdminModel'')]"
  by (simp_all add: rows_def table_rows)

lemma segment_match_simps:
  "segment_match (CHR '':'' # p) s = (s \<noteq> [])"
  "c \<noteq> CHR '':'' \<Longrightarrow> segment_match (c # p) s = (lowercase s = lowercase (c # p))"
  "segment_match [] s = (s = [])"
  by (auto simp: segment_match_def)

lemma lowercase_words:
  "list_all (\<lambda>s. lowercase s = s) [''health'', ''api'', ''auth'', ''register'', ''login'', ''provider'', ''ws'', ''me'', ''projects'',
     ''api-keys'', ''wallet'', ''ledger'', ''usage'', ''models'', ''providers'', ''admin'', ''jobs'', ''wallets'', ''adjust'', ''pause'',
     ''approve'', ''reject'', ''disable'', ''provider-models'', ''pending'', ''audit-log'', ''v1'', ''chat'', ''completions'', []]"
  by code_simp

lemmas lowercase_eval = lowercase_words [simplified]

lemmas call_defs = me_def login_def register_def getWallet_def listProjects_def createProject_def listAPIKeys_def createAPIKey_def revokeAPIKey_def listProviders_def createProvider_def listModels_def listLedger_def listUsage_def listAdminProviders_def approveProvider_def rejectProvider_def disableProvider_def listPendingProviderModels_def approveProviderModel_def rejectProviderModel_def listAdminModels_def createAdminModel_def updateAdminModel_def pauseAdminModel_def listAdminJobs_def listAdminUsage_def listAdminAuditLog_def adjustAdminWallet_def get_list_def post_void_def
  send_init_def get_init_def

lemma usage_call:
  "takeWhile (\<lambda>x. x \<noteq> CHR ''?'') (c_path (listUsage flt)) = ''/api/usage''" "c_init (listUsage flt) = get_init"
  by (simp_all add: listUsage_def Let_def get_list_def)

lemma usage_served:
  assumes "\<And>pat path. matches pat path \<longleftrightarrow> path_match pat path"
  shows "answering matches n (listUsage flt) = Some (SignedIn, ''Usage'')"
  by (simp only: answering_def usage_call get_init_def init.simps option.case serves_by [OF assms] segments_def)
    (simp add: method_rows segment_match_simps lowercase_eval drop_slash_def)

section \<open>Properties\<close>

text \<open>C31: The two programs fit together: when the framework matches paths as documented, every endpoint
  function of the client is answered by the handler that it means, whatever its arguments, as long as the
  ids in its path are such as the server draws; and only the sign-in functions need no token.\<close>

theorem client_requests_served:
  assumes m: "\<And>pat path. matches pat path \<longleftrightarrow> path_match pat path"
    and i: "public_id i" and j: "public_id j"
  shows "answering matches n (me) = Some (SignedIn, ''Me'')
     \<and> answering matches n (login e pw) = Some (Limited 10, ''Login'')
     \<and> answering matches n (register nm e pw) = Some (Limited 5, ''Register'')
     \<and> answering matches n (getWallet) = Some (SignedIn, ''Wallet'')
     \<and> answering matches n (listProjects) = Some (SignedIn, ''ListProjects'')
     \<and> answering matches n (createProject nm cap) = Some (SignedIn, ''CreateProject'')
     \<and> answering matches n (listAPIKeys i) = Some (SignedIn, ''ListAPIKeys'')
     \<and> answering matches n (createAPIKey i nm) = Some (SignedIn, ''CreateAPIKey'')
     \<and> answering matches n (revokeAPIKey i j) = Some (SignedIn, ''RevokeAPIKey'')
     \<and> answering matches n (listProviders) = Some (SignedIn, ''Providers'')
     \<and> answering matches n (createProvider nm reg auto_pull) = Some (SignedIn, ''CreateProvider'')
     \<and> answering matches n (listModels) = Some (SignedIn, ''Models'')
     \<and> answering matches n (listLedger) = Some (SignedIn, ''Ledger'')
     \<and> answering matches n (listUsage flt) = Some (SignedIn, ''Usage'')
     \<and> answering matches n (listAdminProviders) = Some (SignedIn, ''AdminProviders'')
     \<and> answering matches n (approveProvider i) = Some (SignedIn, ''ApproveProvider'')
     \<and> answering matches n (rejectProvider i) = Some (SignedIn, ''RejectProvider'')
     \<and> answering matches n (disableProvider i) = Some (SignedIn, ''DisableProvider'')
     \<and> answering matches n (listPendingProviderModels) = Some (SignedIn, ''PendingProviderModels'')
     \<and> answering matches n (approveProviderModel i) = Some (SignedIn, ''ApproveProviderModel'')
     \<and> answering matches n (rejectProviderModel i) = Some (SignedIn, ''RejectProviderModel'')
     \<and> answering matches n (listAdminModels) = Some (SignedIn, ''AdminModels'')
     \<and> answering matches n (createAdminModel mp) = Some (SignedIn, ''CreateAdminModel'')
     \<and> answering matches n (updateAdminModel i mp) = Some (SignedIn, ''UpdateAdminModel'')
     \<and> answering matches n (pauseAdminModel i) = Some (SignedIn, ''PauseAdminModel'')
     \<and> answering matches n (listAdminJobs) = Some (SignedIn, ''AdminJobs'')
     \<and> answering matches n (listAdminUsage) = Some (SignedIn, ''AdminUsage'')
     \<and> answering matches n (listAdminAuditLog) = Some (SignedIn, ''AdminAuditLog'')
     \<and> answering matches n (adjustAdminWallet i am re) = Some (SignedIn, ''AdjustWallet'')"
  by (intro conjI; (rule usage_served [OF m]
      | simp add: answering_def call_defs serves_by [OF m] before_query drop_slash_def public_id_parts i j;
        simp add: segments_def split_id method_rows segment_match_simps lowercase_eval public_id_parts i j))

theorem client_requests_served_witness:
  "answering path_match 30 (revokeAPIKey ''prj_1'' ''key_2'') = Some (SignedIn, ''RevokeAPIKey'')"
proof -
  have "public_id ''prj_1''" "public_id ''key_2''" by code_simp+
  then show ?thesis
    using client_requests_served [where matches = path_match and n = 30 and i = "''prj_1''" and j = "''key_2''"]
    by blast
qed

end
