(* ===== verification/Float64.thy ===== *)
theory Float64
  imports Complex_Main "HOL-Library.Log_Nat"
begin

text \<open>
  Go's \<open>float64\<close> on the values that prices use: IEEE 754 binary64 arithmetic rounds the exact result
  to the nearest number with 53 significant bits, ties to even. \<open>fl\<close> is that rounding on non-negative
  rationals inside the exponent range; the locale \<open>rounding\<close> lists the laws that the price
  computation rests on and is interpreted on \<open>fl\<close>.
\<close>

section \<open>Rounding\<close>

definition round_even :: "rat \<Rightarrow> int" where
  "round_even q =
     (let f = \<lfloor>q\<rfloor>; d = q - of_int f
      in if d < 1 / 2 then f else if 1 / 2 < d then f + 1 else if even f then f else f + 1)"

definition expo :: "rat \<Rightarrow> int" where
  "expo x = (if 1 \<le> x then int (floorlog 2 (nat \<lfloor>x\<rfloor>)) - 1 else - int (floorlog 2 (nat (\<lceil>1 / x\<rceil> - 1))))"

definition fl :: "rat \<Rightarrow> rat" where
  "fl x = (if x \<le> 0 then 0 else of_int (round_even (x / 2 powi (expo x - 52))) * 2 powi (expo x - 52))"

section \<open>Laws\<close>

lemma round_even_bounds: "\<bar>of_int (round_even q) - q\<bar> \<le> 1 / 2"
proof -
  have "of_int \<lfloor>q\<rfloor> \<le> q" "q < of_int \<lfloor>q\<rfloor> + 1" by linarith+
  then show ?thesis unfolding round_even_def Let_def by auto
qed

lemma round_even_int [simp]: "round_even (of_int n) = n"
  by (simp add: round_even_def)

lemma round_even_numeral [simp]: "round_even (numeral n) = numeral n"
  using round_even_int [of "numeral n"] by simp

lemma round_even_mono: "p \<le> q \<Longrightarrow> round_even p \<le> round_even q"
proof -
  assume pq: "p \<le> q"
  then have f: "\<lfloor>p\<rfloor> \<le> \<lfloor>q\<rfloor>" by (rule floor_mono)
  have up: "round_even p \<le> \<lfloor>p\<rfloor> + 1" and lo: "\<lfloor>q\<rfloor> \<le> round_even q"
    by (simp_all add: round_even_def Let_def)
  show ?thesis
  proof (cases "\<lfloor>p\<rfloor> = \<lfloor>q\<rfloor>")
    case True
    then show ?thesis using pq by (auto simp: round_even_def Let_def)
  next
    case False
    with f up lo show ?thesis by linarith
  qed
qed

lemma floorlog_pow: "0 < n \<Longrightarrow> 2 ^ (floorlog 2 n - 1) \<le> n \<and> n < 2 ^ floorlog 2 n \<and> 0 < floorlog 2 n"
proof -
  assume n: "0 < n"
  then have b: "2 ^ (floorlog 2 n - 1) \<le> n \<and> n < 2 ^ floorlog 2 n" by (intro floorlog_bounds) simp_all
  with n have "floorlog 2 n \<noteq> 0" by (intro notI) simp
  with b show ?thesis by simp
qed

lemma expo_bounds:
  assumes "0 < x"
  shows "2 powi expo x \<le> x \<and> x < 2 powi (expo x + 1)"
proof (cases "1 \<le> x")
  case True
  define n where "n = nat \<lfloor>x\<rfloor>"
  have n: "0 < n" using True by (simp add: n_def)
  have fx: "of_nat n \<le> x" "x < of_nat n + 1"
    using True by (simp_all add: n_def) linarith+
  from floorlog_pow [OF n] obtain k where k: "floorlog 2 n = Suc k"
    by (cases "floorlog 2 n") auto
  with floorlog_pow [OF n] have b: "2 ^ k \<le> n" "n < 2 ^ Suc k" by simp_all
  have e: "expo x = int k" using True k by (simp add: expo_def n_def)
  have "(2 :: rat) ^ k \<le> of_nat n" using b(1) by (metis of_nat_le_iff of_nat_numeral of_nat_power)
  moreover have "of_nat n + 1 \<le> (2 :: rat) ^ Suc k"
    using b(2) by (metis Suc_leI of_nat_Suc of_nat_le_iff of_nat_numeral of_nat_power add.commute)
  ultimately have "(2 :: rat) ^ k \<le> x" "x < 2 ^ Suc k" using fx by linarith+
  then show ?thesis by (simp add: e power_int_add)
next
  case False
  define m where "m = nat (\<lceil>1 / x\<rceil> - 1)"
  have x1: "1 < 1 / x" using False assms by simp
  then have m: "0 < m" by (simp add: m_def)
  have mx: "of_nat m < 1 / x" "1 / x \<le> of_nat m + 1"
    using x1 by (simp_all add: m_def) linarith+
  from floorlog_pow [OF m] obtain k where k: "floorlog 2 m = Suc k"
    by (cases "floorlog 2 m") auto
  with floorlog_pow [OF m] have b: "2 ^ k \<le> m" "m < 2 ^ Suc k" by simp_all
  have e: "expo x = - int (Suc k)" using False k by (simp add: expo_def m_def)
  have l: "(2 :: rat) ^ k < 1 / x" using b(1) mx(1) by (metis le_less_trans of_nat_le_iff of_nat_numeral of_nat_power)
  have "of_nat m + 1 \<le> (2 :: rat) ^ Suc k"
    using b(2) by (metis Suc_leI of_nat_Suc of_nat_le_iff of_nat_numeral of_nat_power add.commute)
  with mx(2) have u: "1 / x \<le> (2 :: rat) ^ Suc k" by linarith
  have "x < 1 / 2 ^ k" using l assms by (simp add: field_simps)
  moreover have "1 / 2 ^ Suc k \<le> x" using u assms by (simp add: field_simps)
  moreover have "(2 :: rat) powi expo x = 1 / 2 ^ Suc k" "(2 :: rat) powi (expo x + 1) = 1 / 2 ^ k"
    by (simp_all only: e power_int_minus power_int_of_nat inverse_eq_divide)
      (simp add: power_int_minus divide_inverse)
  ultimately show ?thesis by simp
qed

lemma expo_mono: assumes "0 < x" "x \<le> y" shows "expo x \<le> expo y"
proof (rule ccontr)
  assume "\<not> expo x \<le> expo y"
  then have "expo y + 1 \<le> expo x" by simp
  then have "(2 :: rat) powi (expo y + 1) \<le> 2 powi expo x" by (intro power_int_increasing) simp_all
  with expo_bounds [of x] expo_bounds [of y] assms show False by simp
qed

lemma fl_between:
  assumes "0 < x"
  shows "2 powi expo x \<le> fl x \<and> fl x \<le> 2 powi (expo x + 1)"
proof -
  let ?u = "2 powi (expo x - 52) :: rat"
  have u: "0 < ?u" by simp
  have s: "2 powi expo x = 2 ^ 52 * ?u" "2 powi (expo x + 1) = 2 ^ 53 * ?u"
    by (simp_all add: power_int_diff power_int_add)
  have "2 ^ 52 \<le> x / ?u" "x / ?u \<le> 2 ^ 53"
    using expo_bounds [OF assms] unfolding s using u by (simp_all add: field_simps)
  then have "round_even (of_int (2 ^ 52)) \<le> round_even (x / ?u)"
    "round_even (x / ?u) \<le> round_even (of_int (2 ^ 53))"
    by (intro round_even_mono; simp)+
  then have "2 ^ 52 \<le> round_even (x / ?u)" "round_even (x / ?u) \<le> 2 ^ 53" by simp_all
  then have "(of_int (2 ^ 52) :: rat) \<le> of_int (round_even (x / ?u))"
    "(of_int (round_even (x / ?u)) :: rat) \<le> of_int (2 ^ 53)" by (simp_all only: of_int_le_iff)
  then show ?thesis using u assms unfolding s by (simp add: fl_def)
qed

lemma fl_nonneg [simp]: "0 \<le> fl x"
proof (cases "0 < x")
  case True
  have "(0 :: rat) \<le> 2 powi expo x" by simp
  with fl_between [OF True] show ?thesis by linarith
qed (simp add: fl_def)

lemma fl_mono: assumes "x \<le> y" shows "fl x \<le> fl y"
proof (cases "0 < x")
  case True
  show ?thesis
  proof (cases "expo x = expo y")
    case True
    let ?u = "2 powi (expo y - 52) :: rat"
    have "x / ?u \<le> y / ?u" using assms by (simp add: divide_right_mono)
    then have "round_even (x / ?u) \<le> round_even (y / ?u)" by (rule round_even_mono)
    then show ?thesis using True \<open>0 < x\<close> assms by (simp add: fl_def mult_right_mono)
  next
    case False
    then have "expo x + 1 \<le> expo y" using expo_mono [OF \<open>0 < x\<close> assms] by simp
    then have "(2 :: rat) powi (expo x + 1) \<le> 2 powi expo y" by (intro power_int_increasing) simp_all
    with fl_between [of x] fl_between [of y] \<open>0 < x\<close> assms show ?thesis by linarith
  qed
next
  case False
  then have "fl x = 0" by (simp add: fl_def)
  then show ?thesis by simp
qed

lemma fl_int:
  assumes "0 \<le> n" "n < 2 ^ 53"
  shows "fl (of_int n) = of_int n"
proof (cases "n = 0")
  case False
  with assms have n: "0 < (of_int n :: rat)" "(1 :: rat) \<le> of_int n" by simp_all
  have "0 \<le> expo (of_int n)" using expo_mono [OF _ n(2)] by (simp add: expo_def floorlog_def)
  moreover have "expo (of_int n) \<le> 52"
  proof (rule ccontr)
    assume "\<not> expo (of_int n) \<le> 52"
    then have "(2 :: rat) powi 53 \<le> 2 powi expo (of_int n)" by (intro power_int_increasing) simp_all
    also have "\<dots> \<le> of_int n" using expo_bounds [OF n(1)] by simp
    finally have "(2 :: rat) ^ 53 \<le> of_int n" by simp
    then have "of_int (2 ^ 53) \<le> (of_int n :: rat)" by simp
    then show False using assms(2) by (simp only: of_int_le_iff)
  qed
  ultimately obtain k where k: "expo (of_int n) - 52 = - int k"
    by (metis add.inverse_inverse diff_le_0_iff_le nonneg_int_cases neg_0_le_iff_le)
  have "of_int n / 2 powi (- int k) = (of_int (n * 2 ^ k) :: rat)"
    by (simp add: power_int_minus field_simps)
  then have "fl (of_int n) = of_int (n * 2 ^ k) * 2 powi (- int k)"
    using n(1) unfolding fl_def k by (simp only: round_even_int) simp
  also have "\<dots> = of_int n" by (simp add: power_int_minus)
  finally show ?thesis .
qed (simp add: fl_def)

lemma fl_error:
  assumes "0 < x"
  shows "\<bar>fl x - x\<bar> \<le> x / 2 ^ 53"
proof -
  let ?u = "2 powi (expo x - 52) :: rat"
  have u: "0 < ?u" by simp
  have "fl x - x = (of_int (round_even (x / ?u)) - x / ?u) * ?u"
    using assms u by (simp add: fl_def field_simps)
  then have "\<bar>fl x - x\<bar> = \<bar>of_int (round_even (x / ?u)) - x / ?u\<bar> * ?u" by (simp add: abs_mult)
  also have "\<dots> \<le> 1 / 2 * ?u" using round_even_bounds [of "x / ?u"] u by (intro mult_right_mono) simp_all
  also have "\<dots> = 2 powi expo x / 2 ^ 53" by (simp add: power_int_diff)
  also have "\<dots> \<le> x / 2 ^ 53" using expo_bounds [OF assms] by (simp add: divide_right_mono)
  finally show ?thesis .
qed

section \<open>The contract\<close>

locale rounding =
  fixes rd :: "rat \<Rightarrow> rat"
  assumes rd_mono: "x \<le> y \<Longrightarrow> rd x \<le> rd y"
    and rd_int: "0 \<le> n \<Longrightarrow> n < 2 ^ 53 \<Longrightarrow> rd (of_int n) = of_int n"
    and rd_error: "0 < x \<Longrightarrow> \<bar>rd x - x\<bar> \<le> x / 2 ^ 53"
begin

text \<open>The ceiling of a rounded thousandth is the exact one.\<close>

lemma ceil_thousandth:
  assumes "0 \<le> n" "n < 2 ^ 53"
  shows "\<lceil>rd (of_int n / 1000)\<rceil> = (n + 999) div 1000"
proof (cases "n = 0")
  case True
  then show ?thesis using rd_int [of 0] by simp
next
  case False
  let ?x = "of_int n / 1000 :: rat" and ?k = "(n + 999) div 1000"
  have x: "0 < ?x" using False assms by simp
  have "n + 999 = 1000 * ?k + (n + 999) mod 1000" "0 \<le> (n + 999) mod 1000" "(n + 999) mod 1000 < 1000"
    by simp_all
  then have k: "n \<le> 1000 * ?k" "1000 * ?k \<le> n + 999" by linarith+
  have kb: "0 \<le> ?k" "?k < 2 ^ 53" using assms k by linarith+
  have "of_int n \<le> (of_int (1000 * ?k) :: rat)" using k(1) by (simp only: of_int_le_iff)
  then have "?x \<le> of_int ?k" by simp
  then have up: "rd ?x \<le> of_int ?k" using rd_mono [of ?x "of_int ?k"] rd_int [OF kb] by simp
  have "of_int (1000 * ?k) \<le> (of_int (n + 999) :: rat)" using k(2) by (simp only: of_int_le_iff)
  then have "of_int ?k - 1 + 1 / 1000 \<le> ?x" by simp
  moreover have "?x / 2 ^ 53 < 1 / 1000"
  proof -
    have "(of_int n :: rat) < of_int (2 ^ 53)" using assms(2) by (simp only: of_int_less_iff)
    then show ?thesis by simp
  qed
  ultimately have "of_int ?k - 1 < rd ?x" using rd_error [OF x] by linarith
  with up show ?thesis by (simp add: ceiling_eq_iff)
qed

text \<open>A share of an amount is not more than the amount.\<close>

lemma floor_share:
  assumes "0 \<le> n" "n < 2 ^ 53" "0 \<le> q" "q \<le> 1"
  shows "\<lfloor>rd (of_int n * q)\<rfloor> \<le> n" "0 \<le> \<lfloor>rd (of_int n * q)\<rfloor>"
proof -
  have "of_int n * q \<le> of_int n" using assms by (simp add: mult_left_le)
  then have "rd (of_int n * q) \<le> of_int n" using rd_mono rd_int [OF assms(1,2)] by metis
  then show "\<lfloor>rd (of_int n * q)\<rfloor> \<le> n" by (simp add: floor_le_iff)
  have "0 \<le> of_int n * q" using assms by simp
  then have "rd 0 \<le> rd (of_int n * q)" by (rule rd_mono)
  then show "0 \<le> \<lfloor>rd (of_int n * q)\<rfloor>" using rd_int [of 0] by simp
qed

end

interpretation binary64: rounding fl
  by unfold_locales (rule fl_mono fl_int fl_error; assumption)+

end
