(* ===== verification/Ledger.thy ===== *)
theory Ledger
  imports Prelude JsText "HOL-Library.Word"
begin

text \<open>
  The credit ledger of the API server: \<open>WalletService\<close> and the registration transaction of
  \<open>apps/api/internal/service/services.go\<close>, over the tables they touch. Credits are Go's \<open>int64\<close>,
  two's-complement words that wrap. A transaction is a function from the tables to an error or a
  result with the new tables; \<open>InTx\<close> throws the changes away on an error, and its first argument says
  whether the database serves the transaction at all. Row locks make transactions on one wallet
  follow one another, so a history is a sequence of transactions. Ids that the server draws at random
  and the password hash come from outside.
\<close>

type_synonym int64 = "64 word"

datatype svc_error =
    ErrInvalidInput
  | ErrInvalidCredentials
  | ErrInsufficientCredits
  | ErrForbidden
  | ErrNotFound
  | NoRows
  | DuplicateKey
  | DbError string

section \<open>Tables\<close>

record user_row =
  ur_id :: string
  ur_public_id :: string
  ur_email :: string
  ur_password_hash :: string
  ur_display_name :: string
  ur_role :: string
  ur_status :: string
  ur_deleted :: bool

record wallet_row =
  wr_id :: string
  wr_owner_type :: string
  wr_owner_id :: string
  wr_balance :: int64
  wr_reserved :: int64

record ledger_row =
  lr_wallet_id :: string
  lr_entry_type :: string
  lr_amount :: int64
  lr_reserved_delta :: int64
  lr_balance_after :: int64
  lr_reserved_after :: int64
  lr_reason :: string
  lr_created_by :: "string option"

record usage_row =
  ug_job_id :: string
  ug_user_id :: string
  ug_provider_id :: string
  ug_input_tokens :: int
  ug_output_tokens :: int
  ug_total_tokens :: int
  ug_token_source :: string
  ug_cost :: int64
  ug_reward :: int64

record job_row =
  jr_id :: string
  jr_user_id :: string
  jr_status :: string
  jr_reserved :: int64
  jr_actual_cost :: int64
  jr_reward :: int64
  jr_error_code :: "string option"
  jr_error_message :: "string option"

record audit_row =
  at_actor :: string
  at_action :: string
  at_target :: string

record db =
  db_users :: "user_row list"
  db_wallets :: "wallet_row list"
  db_ledger :: "ledger_row list"
  db_jobs :: "job_row list"
  db_usage :: "usage_row list"
  db_audit :: "audit_row list"

definition empty_db :: db where
  "empty_db = \<lparr>db_users = [], db_wallets = [], db_ledger = [], db_jobs = [], db_usage = [], db_audit = []\<rparr>"

definition wallet_by_id :: "string \<Rightarrow> db \<Rightarrow> wallet_row option" where
  "wallet_by_id i d = find (\<lambda>w. wr_id w = i) (db_wallets d)"

definition wallet_of :: "string \<Rightarrow> string \<Rightarrow> db \<Rightarrow> wallet_row option" where
  "wallet_of owner_type owner_id d =
     find (\<lambda>w. wr_owner_type w = owner_type \<and> wr_owner_id w = owner_id) (db_wallets d)"

definition entries_of :: "string \<Rightarrow> db \<Rightarrow> ledger_row list" where
  "entries_of i d = filter (\<lambda>r. lr_wallet_id r = i) (db_ledger d)"

section \<open>Transactions\<close>

definition InTx :: "bool \<Rightarrow> (db \<Rightarrow> svc_error + 'a \<times> db) \<Rightarrow> db \<Rightarrow> (svc_error + 'a) \<times> db" where
  "InTx served f d =
     (if \<not> served then (Inl (DbError ''unavailable''), d)
      else case f d of Inl e \<Rightarrow> (Inl e, d) | Inr (x, d') \<Rightarrow> (Inr x, d'))"

definition addLedger ::
  "string \<Rightarrow> string \<Rightarrow> int64 \<Rightarrow> int64 \<Rightarrow> string \<Rightarrow> string option \<Rightarrow> db \<Rightarrow> svc_error + db" where
  "addLedger walletID entryType amount reservedDelta reason createdBy d =
     (case wallet_by_id walletID d of
        None \<Rightarrow> Inl NoRows
      | Some w \<Rightarrow>
          (let balance = wr_balance w + amount; reserved = wr_reserved w + reservedDelta
           in if balance <s 0 \<or> reserved <s 0 then Inl ErrInsufficientCredits
              else Inr (d\<lparr>db_wallets := update_by wr_id walletID
                             (\<lambda>w. w\<lparr>wr_balance := balance, wr_reserved := reserved\<rparr>) (db_wallets d),
                          db_ledger := db_ledger d @
                            [\<lparr>lr_wallet_id = walletID, lr_entry_type = entryType, lr_amount = amount,
                              lr_reserved_delta = reservedDelta, lr_balance_after = balance,
                              lr_reserved_after = reserved, lr_reason = reason, lr_created_by = createdBy\<rparr>]\<rparr>)))"

definition CreateWallet :: "string \<Rightarrow> string \<Rightarrow> string \<Rightarrow> db \<Rightarrow> svc_error + db" where
  "CreateWallet i ownerType ownerID d =
     (if (\<exists>w \<in> set (db_wallets d). wr_id w = i \<or> wr_owner_type w = ownerType \<and> wr_owner_id w = ownerID)
      then Inl DuplicateKey
      else Inr (d\<lparr>db_wallets := db_wallets d @ [\<lparr>wr_id = i, wr_owner_type = ownerType, wr_owner_id = ownerID,
                   wr_balance = 0, wr_reserved = 0\<rparr>]\<rparr>))"

definition CountUsers :: "db \<Rightarrow> nat" where
  "CountUsers d = length (filter (\<lambda>u. \<not> ur_deleted u) (db_users d))"

definition CreateUser :: "user_row \<Rightarrow> db \<Rightarrow> svc_error + db" where
  "CreateUser u d =
     (if (\<exists>v \<in> set (db_users d). ur_id v = ur_id u \<or> ur_public_id v = ur_public_id u \<or> ur_email v = ur_email u)
      then Inl DuplicateKey else Inr (d\<lparr>db_users := db_users d @ [u]\<rparr>))"

section \<open>Accounts\<close>

record server_config =
  cfg_BootstrapFirstUserAdmin :: bool
  cfg_StartingFreeCredits :: int64

text \<open>\<open>hash\<close> is the password hash, which can refuse a password; \<open>uid\<close>, \<open>pid\<close> and \<open>wid\<close> are the ids the
  database and the server draw. The role is decided inside the transaction.\<close>

definition Register ::
  "server_config \<Rightarrow> (string \<Rightarrow> string option) \<Rightarrow> string \<Rightarrow> string \<Rightarrow> string \<Rightarrow> bool
   \<Rightarrow> string \<Rightarrow> string \<Rightarrow> string \<Rightarrow> db \<Rightarrow> (svc_error + user_row) \<times> db" where
  "Register cfg hash uid pid wid served email0 password displayName d =
     (let email = lowercase (TrimSpace email0)
      in if email = [] \<or> length password < 8 \<or> TrimSpace displayName = [] then (Inl ErrInvalidInput, d)
         else case hash password of
           None \<Rightarrow> (Inl (DbError ''hash''), d)
         | Some passwordHash \<Rightarrow> InTx served (\<lambda>d.
             let role = (if CountUsers d = 0 \<and> cfg_BootstrapFirstUserAdmin cfg then ''admin'' else ''user'');
                 u = \<lparr>ur_id = uid, ur_public_id = pid, ur_email = email, ur_password_hash = passwordHash,
                      ur_display_name = TrimSpace displayName, ur_role = role, ur_status = ''active'',
                      ur_deleted = False\<rparr>
             in and_then (CreateUser u d) (\<lambda>d. and_then (CreateWallet wid ''user'' uid d) (\<lambda>d.
                  on_value (\<lambda>d. (u, d))
                    (addLedger wid ''grant'' (cfg_StartingFreeCredits cfg) 0 ''starting_free_credits'' None d)))) d)"

definition Login :: "(string \<Rightarrow> string \<Rightarrow> bool) \<Rightarrow> string \<Rightarrow> string \<Rightarrow> db \<Rightarrow> svc_error + user_row" where
  "Login check email password d =
     (case find (\<lambda>u. ur_email u = lowercase (TrimSpace email) \<and> \<not> ur_deleted u) (db_users d) of
        None \<Rightarrow> Inl ErrInvalidCredentials
      | Some u \<Rightarrow> if \<not> check (ur_password_hash u) password \<or> ur_status u \<noteq> ''active''
                  then Inl ErrInvalidCredentials else Inr u)"

section \<open>Wallet operations\<close>

definition wallet_of_public :: "string \<Rightarrow> db \<Rightarrow> wallet_row option" where
  "wallet_of_public publicID d =
     find (\<lambda>w. wr_owner_type w = ''user''
         \<and> (\<exists>u \<in> set (db_users d). ur_id u = wr_owner_id w \<and> ur_public_id u = publicID)) (db_wallets d)"

definition AdminAdjust ::
  "bool \<Rightarrow> string \<Rightarrow> string \<Rightarrow> int64 \<Rightarrow> string \<Rightarrow> db \<Rightarrow> (svc_error + wallet_row) \<times> db" where
  "AdminAdjust served actorUserID targetUserPublicID amount reason0 d =
     (let reason = TrimSpace reason0
      in if amount = 0 \<or> reason = [] then (Inl ErrInvalidInput, d)
         else InTx served (\<lambda>d. case wallet_of_public targetUserPublicID d of
             None \<Rightarrow> Inl ErrNotFound
           | Some w \<Rightarrow> and_then
               (addLedger (wr_id w) ''admin_adjustment'' amount 0 (''admin_adjustment: '' @ reason) (Some actorUserID) d)
               (\<lambda>d. let d' = d\<lparr>db_audit := db_audit d @
                           [\<lparr>at_actor = actorUserID, at_action = ''wallet_admin_adjustment'', at_target = wr_id w\<rparr>]\<rparr>
                    in case wallet_by_id (wr_id w) d' of None \<Rightarrow> Inl NoRows | Some v \<Rightarrow> Inr (v, d'))) d)"

definition AdjustWallet ::
  "bool \<Rightarrow> user_row \<Rightarrow> string \<Rightarrow> int64 \<Rightarrow> string \<Rightarrow> db \<Rightarrow> (svc_error + wallet_row) \<times> db" where
  "AdjustWallet served user targetUserPublicID amount reason d =
     (if ur_role user \<noteq> ''admin'' then (Inl ErrForbidden, d)
      else AdminAdjust served (ur_id user) targetUserPublicID amount reason d)"

definition ReserveForUser :: "bool \<Rightarrow> string \<Rightarrow> int64 \<Rightarrow> string \<Rightarrow> db \<Rightarrow> (svc_error + string) \<times> db" where
  "ReserveForUser served userID amount reason d =
     (if amount \<le>s 0 then (Inl ErrInvalidInput, d)
      else InTx served (\<lambda>d. case wallet_of ''user'' userID d of
          None \<Rightarrow> Inl NoRows
        | Some w \<Rightarrow> on_value (\<lambda>d. (wr_id w, d)) (addLedger (wr_id w) ''reserve'' (- amount) amount reason None d)) d)"

definition Release :: "bool \<Rightarrow> string \<Rightarrow> int64 \<Rightarrow> string \<Rightarrow> db \<Rightarrow> (svc_error + unit) \<times> db" where
  "Release served walletID amount reason d =
     (if amount \<le>s 0 then (Inl ErrInvalidInput, d)
      else InTx served (\<lambda>d. on_value (\<lambda>d. ((), d))
             (addLedger walletID ''release_reserve'' amount (- amount) reason None d)) d)"

record settlement =
  se_UserWalletID :: string
  se_ReservedCredits :: int64
  se_ActualCostCredits :: int64
  se_ProviderRewardCredits :: int64
  se_JobID :: string
  se_UserID :: string
  se_ProviderID :: string
  se_InputTokens :: int
  se_OutputTokens :: int
  se_TokenSource :: string

definition ledger_if ::
  "bool \<Rightarrow> string \<Rightarrow> string \<Rightarrow> int64 \<Rightarrow> int64 \<Rightarrow> string \<Rightarrow> db \<Rightarrow> svc_error + db" where
  "ledger_if c walletID entryType amount delta reason d =
     (if c then addLedger walletID entryType amount delta reason None d else Inr d)"

text \<open>A job has one usage record: \<open>usage_records.job_id\<close> is unique and refers to a job.\<close>

definition record_usage :: "settlement \<Rightarrow> db \<Rightarrow> svc_error + db" where
  "record_usage x d =
     (if se_JobID x \<in> ug_job_id ` set (db_usage d) then Inl DuplicateKey
      else if se_JobID x \<notin> jr_id ` set (db_jobs d) then Inl (DbError ''foreign key'')
      else Inr (d\<lparr>db_usage := db_usage d @ [\<lparr>ug_job_id = se_JobID x, ug_user_id = se_UserID x,
        ug_provider_id = se_ProviderID x, ug_input_tokens = se_InputTokens x, ug_output_tokens = se_OutputTokens x,
        ug_total_tokens = se_InputTokens x + se_OutputTokens x,
        ug_token_source = or_text (se_TokenSource x) ''server_estimated'',
        ug_cost = se_ActualCostCredits x, ug_reward = se_ProviderRewardCredits x\<rparr>]\<rparr>))"

definition job_succeeded :: "settlement \<Rightarrow> db \<Rightarrow> db" where
  "job_succeeded x d = d\<lparr>db_jobs := update_by jr_id (se_JobID x) (\<lambda>j. j\<lparr>jr_status := ''succeeded'',
     jr_actual_cost := se_ActualCostCredits x, jr_reward := se_ProviderRewardCredits x\<rparr>) (db_jobs d)\<rparr>"

definition FinalizeUsage :: "bool \<Rightarrow> settlement \<Rightarrow> db \<Rightarrow> (svc_error + unit) \<times> db" where
  "FinalizeUsage served x d =
     (if se_ReservedCredits x <s 0 \<or> se_ActualCostCredits x <s 0 \<or> se_ProviderRewardCredits x <s 0
      then (Inl ErrInvalidInput, d)
      else InTx served (\<lambda>d.
        and_then (ledger_if (0 <s se_ReservedCredits x) (se_UserWalletID x) ''release_reserve''
            (se_ReservedCredits x) (- se_ReservedCredits x) ''release_usage_reservation'' d) (\<lambda>d.
        and_then (ledger_if (0 <s se_ActualCostCredits x) (se_UserWalletID x) ''debit_usage''
            (- se_ActualCostCredits x) 0 ''chat_completion_usage'' d) (\<lambda>d.
        and_then (ledger_if (0 <s se_ProviderRewardCredits x) (se_UserWalletID x) ''credit_provider_reward''
            (se_ProviderRewardCredits x) 0 ''chat_completion_provider_reward'' d) (\<lambda>d.
        on_value (\<lambda>d. ((), job_succeeded x d)) (record_usage x d))))) d)"

section \<open>Arithmetic of credits\<close>

lemma sint_bounds: "- (2 ^ 63) \<le> sint (a :: int64)" "sint (a :: int64) < 2 ^ 63"
  using sint_ge [of a] sint_less [of a] by simp_all

lemma mod_one_turn:
  fixes y m :: int
  assumes "- m \<le> y" "y < 2 * m"
  shows "y mod m = (if y < 0 then y + m else if m \<le> y then y - m else y)"
proof -
  have "y mod m = y + m" if "y < 0"
    using that assms mod_pos_pos_trivial [of "y + m" m] by simp
  moreover have "y mod m = y - m" if "m \<le> y"
    using that assms mod_pos_pos_trivial [of "y - m" m] by simp
  ultimately show ?thesis using assms mod_pos_pos_trivial [of y m] by simp
qed

lemma sint_add_cases:
  fixes a b :: int64
  shows "sint (b + a) = (let x = sint b + sint a in
     if x < - (2 ^ 63) then x + 2 ^ 64 else if 2 ^ 63 \<le> x then x - 2 ^ 64 else x)"
proof -
  have "sint (b + a) = signed_take_bit 63 (sint b + sint a)"
    by (simp add: sint_word_ariths)
  also have "\<dots> = (sint b + sint a + 2 ^ 63) mod 2 ^ 64 - 2 ^ 63"
    by (simp add: signed_take_bit_eq_take_bit_shift take_bit_eq_mod)
  finally have s: "sint (b + a) = (sint b + sint a + 2 ^ 63) mod 2 ^ 64 - 2 ^ 63" .
  have r: "- (2 ^ 64) \<le> sint b + sint a + 2 ^ 63" "sint b + sint a + 2 ^ 63 < 2 * 2 ^ 64"
    using sint_bounds [of a] sint_bounds [of b] by simp_all
  show ?thesis unfolding s mod_one_turn [OF r] Let_def by simp
qed

text \<open>A credit operation on a balance that is not negative never wraps to another one.\<close>

lemma sint_add_exact:
  fixes a b :: int64
  assumes "0 \<le> sint b" "0 \<le> sint (b + a)"
  shows "sint (b + a) = sint b + sint a"
  using assms sint_bounds [of a] sint_bounds [of b] by (auto simp: sint_add_cases Let_def split: if_splits)

lemma sint_neg: "0 \<le> sint (a :: int64) \<Longrightarrow> sint (- a) = - sint a"
proof -
  assume a: "0 \<le> sint a"
  have "sint (- a) = signed_take_bit 63 (- sint a)" by (simp add: sint_word_ariths)
  also have "\<dots> = - sint a"
    using a sint_bounds [of a] by (intro signed_take_bit_int_eq_self) simp_all
  finally show ?thesis .
qed

lemma sless_sint: "a <s b \<longleftrightarrow> sint a < sint b" "a \<le>s b \<longleftrightarrow> sint a \<le> sint b"
  by (simp_all add: word_sless_alt word_sle_eq)

section \<open>What a wallet holds\<close>

text \<open>\<open>funds\<close> is the abstract state: for each wallet its balance and its reserved credits. The abstract
  operation adds two amounts, refuses a negative result, and refuses one that 64 bits cannot hold.\<close>

definition funds :: "db \<Rightarrow> string \<Rightarrow> (int \<times> int) option" where
  "funds d i = map_option (\<lambda>w. (sint (wr_balance w), sint (wr_reserved w))) (wallet_by_id i d)"

definition fits :: "int \<Rightarrow> bool" where
  "fits x \<longleftrightarrow> 0 \<le> x \<and> x < 2 ^ 63"

definition post :: "string \<Rightarrow> int \<Rightarrow> int \<Rightarrow> (string \<Rightarrow> (int \<times> int) option) \<Rightarrow> (string \<Rightarrow> (int \<times> int) option) option" where
  "post i a r m = (case m i of
       None \<Rightarrow> None
     | Some (b, v) \<Rightarrow> if fits (b + a) \<and> fits (v + r) then Some (m(i \<mapsto> (b + a, v + r))) else None)"

definition solvent :: "db \<Rightarrow> bool" where
  "solvent d \<longleftrightarrow> (\<forall>w \<in> set (db_wallets d). 0 \<le> sint (wr_balance w) \<and> 0 \<le> sint (wr_reserved w))"

lemma find_update_by:
  assumes "\<And>x. key (f x) = key x"
  shows "find (\<lambda>x. key x = j) (update_by key i f xs)
       = (if j = i then map_option f (find (\<lambda>x. key x = j) xs) else find (\<lambda>x. key x = j) xs)"
  using assms by (induction xs) (auto simp: update_by_def)

lemma wallet_by_id_set: "wallet_by_id i d = Some w \<Longrightarrow> w \<in> set (db_wallets d) \<and> wr_id w = i"
  by (auto simp: wallet_by_id_def find_Some_iff)

lemma post_fits_iff:
  assumes "0 \<le> sint (b :: int64)"
  shows "\<not> b + a <s 0 \<longleftrightarrow> fits (sint b + sint a)"
proof
  assume "\<not> b + a <s 0"
  then have "0 \<le> sint (b + a)" by (simp add: sless_sint)
  then show "fits (sint b + sint a)"
    using sint_add_exact [OF assms] sint_bounds [of "b + a"] by (simp add: fits_def)
next
  assume "fits (sint b + sint a)"
  then show "\<not> b + a <s 0"
    by (simp add: sless_sint sint_add_cases fits_def)
qed

lemma addLedger_cases:
  assumes "solvent d" "wallet_by_id i d = Some w"
  shows "addLedger i t a r re c d =
     (if fits (sint (wr_balance w) + sint a) \<and> fits (sint (wr_reserved w) + sint r)
      then Inr (d\<lparr>db_wallets := update_by wr_id i
                     (\<lambda>v. v\<lparr>wr_balance := wr_balance w + a, wr_reserved := wr_reserved w + r\<rparr>) (db_wallets d),
                  db_ledger := db_ledger d @
                    [\<lparr>lr_wallet_id = i, lr_entry_type = t, lr_amount = a, lr_reserved_delta = r,
                      lr_balance_after = wr_balance w + a, lr_reserved_after = wr_reserved w + r,
                      lr_reason = re, lr_created_by = c\<rparr>]\<rparr>)
      else Inl ErrInsufficientCredits)"
proof -
  have "0 \<le> sint (wr_balance w)" "0 \<le> sint (wr_reserved w)"
    using assms wallet_by_id_set unfolding solvent_def by blast+
  from post_fits_iff [OF this(1), of a] post_fits_iff [OF this(2), of r] show ?thesis
    using assms(2) by (auto simp: addLedger_def Let_def)
qed

lemma fits_sint_add:
  fixes a b :: int64
  shows "0 \<le> sint b \<Longrightarrow> fits (sint b + sint a) \<Longrightarrow> sint (b + a) = sint b + sint a"
  by (simp add: sint_add_cases fits_def)

lemma addLedger_refines:
  assumes "solvent d"
  shows "(case addLedger i t a r re c d of Inl e \<Rightarrow> None | Inr d' \<Rightarrow> Some (funds d'))
       = post i (sint a) (sint r) (funds d)"
proof (cases "wallet_by_id i d")
  case None
  then show ?thesis by (simp add: addLedger_def post_def funds_def)
next
  case (Some w)
  have p: "0 \<le> sint (wr_balance w)" "0 \<le> sint (wr_reserved w)"
    using assms Some wallet_by_id_set unfolding solvent_def by blast+
  show ?thesis
  proof (cases "fits (sint (wr_balance w) + sint a) \<and> fits (sint (wr_reserved w) + sint r)")
    case True
    have "funds (d\<lparr>db_wallets := update_by wr_id i
            (\<lambda>v. v\<lparr>wr_balance := wr_balance w + a, wr_reserved := wr_reserved w + r\<rparr>) (db_wallets d),
            db_ledger := l\<rparr>) = (funds d)(i \<mapsto> (sint (wr_balance w) + sint a, sint (wr_reserved w) + sint r))" for l
    proof
      fix j
      show "funds (d\<lparr>db_wallets := update_by wr_id i
            (\<lambda>v. v\<lparr>wr_balance := wr_balance w + a, wr_reserved := wr_reserved w + r\<rparr>) (db_wallets d),
            db_ledger := l\<rparr>) j = ((funds d)(i \<mapsto> (sint (wr_balance w) + sint a, sint (wr_reserved w) + sint r))) j"
        using Some True p
        by (simp add: funds_def wallet_by_id_def find_update_by fits_sint_add)
    qed
    with True Some assms show ?thesis
      by (simp add: addLedger_cases post_def) (simp add: funds_def)
  next
    case False
    then show ?thesis
      using addLedger_cases [OF assms Some] Some by (auto simp: post_def funds_def)
  qed
qed

lemma addLedger_solvent:
  assumes "solvent d" "addLedger i t a r re c d = Inr d'"
  shows "solvent d'"
proof -
  obtain w where w: "wallet_by_id i d = Some w"
    using assms(2) by (auto simp: addLedger_def split: option.splits)
  have p: "0 \<le> sint (wr_balance w)" "0 \<le> sint (wr_reserved w)"
    using assms(1) w wallet_by_id_set unfolding solvent_def by blast+
  have f: "fits (sint (wr_balance w) + sint a)" "fits (sint (wr_reserved w) + sint r)"
    and d': "db_wallets d' = update_by wr_id i
       (\<lambda>v. v\<lparr>wr_balance := wr_balance w + a, wr_reserved := wr_reserved w + r\<rparr>) (db_wallets d)"
    using assms addLedger_cases [OF assms(1) w] by (auto split: if_splits)
  have "0 \<le> sint (wr_balance w + a)" "0 \<le> sint (wr_reserved w + r)"
    using f p by (simp_all add: fits_sint_add) (simp_all add: fits_def)
  then show ?thesis
    using assms(1) unfolding solvent_def d' by (auto simp: set_update_by)
qed

section \<open>The books balance\<close>

text \<open>\<open>replay\<close> is the auditor: it adds up the entries of one wallet from nothing and checks each recorded
  balance on the way. In an audited database it arrives at what the wallet holds.\<close>

fun replay :: "int \<times> int \<Rightarrow> ledger_row list \<Rightarrow> (int \<times> int) option" where
  "replay h [] = Some h"
| "replay (b, v) (r # rs) =
     (let b' = b + sint (lr_amount r); v' = v + sint (lr_reserved_delta r)
      in if fits b' \<and> fits v' \<and> sint (lr_balance_after r) = b' \<and> sint (lr_reserved_after r) = v'
         then replay (b', v') rs else None)"

definition audited :: "db \<Rightarrow> bool" where
  "audited d \<longleftrightarrow> solvent d \<and>
     (\<forall>i. case funds d i of None \<Rightarrow> entries_of i d = [] | Some h \<Rightarrow> replay (0, 0) (entries_of i d) = Some h)"

lemma auditedD:
  assumes "audited d"
  shows "funds d i = Some h \<Longrightarrow> replay (0, 0) (entries_of i d) = Some h"
    and "funds d i = None \<Longrightarrow> entries_of i d = []"
proof -
  have "case funds d i of None \<Rightarrow> entries_of i d = [] | Some h \<Rightarrow> replay (0, 0) (entries_of i d) = Some h"
    using assms unfolding audited_def by blast
  then show "funds d i = Some h \<Longrightarrow> replay (0, 0) (entries_of i d) = Some h"
    and "funds d i = None \<Longrightarrow> entries_of i d = []"
    by simp_all
qed

lemma auditedI:
  assumes "solvent d" "\<And>i h. funds d i = Some h \<Longrightarrow> replay (0, 0) (entries_of i d) = Some h"
    "\<And>i. funds d i = None \<Longrightarrow> entries_of i d = []"
  shows "audited d"
  using assms by (simp add: audited_def split: option.split)

lemma replay_append:
  "replay h (rs @ [r]) = Option.bind (replay h rs) (\<lambda>g. replay g [r])"
  by (induction h rs rule: replay.induct) (auto simp: Let_def)

lemma replay_sum:
  "replay h rs = Some g \<Longrightarrow> fst g = fst h + sum_list (map (\<lambda>r. sint (lr_amount r)) rs)
     \<and> snd g = snd h + sum_list (map (\<lambda>r. sint (lr_reserved_delta r)) rs)"
  by (induction h rs rule: replay.induct) (auto simp: Let_def split: if_splits)

lemma post_Some:
  "post i a r m = Some m' \<longleftrightarrow>
     (\<exists>b v. m i = Some (b, v) \<and> fits (b + a) \<and> fits (v + r) \<and> m' = m(i \<mapsto> (b + a, v + r)))"
  by (auto simp: post_def split: option.splits if_splits)

lemma addLedger_post:
  "solvent d \<Longrightarrow> addLedger i t a r re c d = Inr d' \<Longrightarrow> post i (sint a) (sint r) (funds d) = Some (funds d')"
  using addLedger_refines [of d i t a r re c] by simp

lemma addLedger_row:
  assumes "addLedger i t a r re c d = Inr d'"
  shows "\<exists>w. wallet_by_id i d = Some w \<and> db_ledger d' = db_ledger d @
     [\<lparr>lr_wallet_id = i, lr_entry_type = t, lr_amount = a, lr_reserved_delta = r,
       lr_balance_after = wr_balance w + a, lr_reserved_after = wr_reserved w + r,
       lr_reason = re, lr_created_by = c\<rparr>]
     \<and> db_users d' = db_users d \<and> db_jobs d' = db_jobs d \<and> db_usage d' = db_usage d \<and> db_audit d' = db_audit d"
  using assms by (auto simp: addLedger_def Let_def split: option.splits if_splits)

lemma addLedger_audited:
  assumes "audited d" "addLedger i t a r re c d = Inr d'"
  shows "audited d'"
proof -
  have s: "solvent d" using assms(1) by (simp add: audited_def)
  obtain w where w: "wallet_by_id i d = Some w" and l: "db_ledger d' = db_ledger d @
     [\<lparr>lr_wallet_id = i, lr_entry_type = t, lr_amount = a, lr_reserved_delta = r,
       lr_balance_after = wr_balance w + a, lr_reserved_after = wr_reserved w + r,
       lr_reason = re, lr_created_by = c\<rparr>]"
    using addLedger_row [OF assms(2)] by blast
  have p: "0 \<le> sint (wr_balance w)" "0 \<le> sint (wr_reserved w)"
    using s w wallet_by_id_set unfolding solvent_def by blast+
  have i: "funds d i = Some (sint (wr_balance w), sint (wr_reserved w))"
    using w by (simp add: funds_def)
  have f: "fits (sint (wr_balance w) + sint a)" "fits (sint (wr_reserved w) + sint r)"
    and d': "funds d' = (funds d)(i \<mapsto> (sint (wr_balance w) + sint a, sint (wr_reserved w) + sint r))"
    using addLedger_post [OF s assms(2)] i by (auto simp: post_Some)
  have "case funds d' j of None \<Rightarrow> entries_of j d' = [] | Some h \<Rightarrow> replay (0, 0) (entries_of j d') = Some h" for j
  proof (cases "j = i")
    case True
    have "replay (0, 0) (entries_of i d) = Some (sint (wr_balance w), sint (wr_reserved w))"
      using auditedD(1) [OF assms(1) i] .
    moreover have "entries_of i d' = entries_of i d @
        [\<lparr>lr_wallet_id = i, lr_entry_type = t, lr_amount = a, lr_reserved_delta = r,
          lr_balance_after = wr_balance w + a, lr_reserved_after = wr_reserved w + r,
          lr_reason = re, lr_created_by = c\<rparr>]"
      by (simp add: entries_of_def l)
    moreover have "sint (wr_balance w + a) = sint (wr_balance w) + sint a"
      "sint (wr_reserved w + r) = sint (wr_reserved w) + sint r"
      using f p by (simp_all add: fits_sint_add)
    ultimately show ?thesis using f by (simp only: True d') (simp add: replay_append)
  next
    case False
    then have "entries_of j d' = entries_of j d" by (simp add: entries_of_def l)
    with False show ?thesis using auditedD [OF assms(1), of j] by (simp add: d' split: option.split)
  qed
  with addLedger_solvent [OF s assms(2)] show ?thesis by (simp add: audited_def)
qed

text \<open>Only the wallets and the ledger count.\<close>

lemma audited_frame:
  assumes "db_wallets d' = db_wallets d" "db_ledger d' = db_ledger d"
  shows "funds d' = funds d" "audited d' = audited d"
proof -
  have e: "entries_of j d' = entries_of j d" "wallet_by_id j d' = wallet_by_id j d" for j
    using assms by (simp_all add: entries_of_def wallet_by_id_def)
  show f: "funds d' = funds d" by (rule ext) (simp add: funds_def e)
  show "audited d' = audited d" unfolding audited_def solvent_def f e(1) assms(1) by (rule refl)
qed

lemma CreateWallet_audited:
  assumes "audited d" "CreateWallet i ot oi d = Inr d'"
  shows "audited d' \<and> funds d' = (funds d)(i \<mapsto> (0, 0)) \<and> funds d i = None"
proof -
  have n: "wallet_by_id i d = None"
    using assms(2) by (auto simp: CreateWallet_def wallet_by_id_def find_None_iff split: if_splits)
  have d': "d' = d\<lparr>db_wallets := db_wallets d @ [\<lparr>wr_id = i, wr_owner_type = ot, wr_owner_id = oi,
      wr_balance = 0, wr_reserved = 0\<rparr>]\<rparr>"
    using assms(2) by (auto simp: CreateWallet_def split: if_splits)
  have find_end: "find P (xs @ [x]) = (case find P xs of None \<Rightarrow> if P x then Some x else None | Some y \<Rightarrow> Some y)"
    for P and xs :: "wallet_row list" and x
    by (induction xs) auto
  have f: "funds d' = (funds d)(i \<mapsto> (0, 0))"
  proof
    fix j
    show "funds d' j = ((funds d)(i \<mapsto> (0, 0))) j"
      using n by (auto simp: d' funds_def wallet_by_id_def find_end split: option.split)
  qed
  have "entries_of j d' = entries_of j d" for j by (simp add: d' entries_of_def)
  moreover have m: "funds d i = None" using n by (simp add: funds_def)
  moreover have "entries_of i d = []"
    using auditedD(2) [OF assms(1) m] .
  moreover have "solvent d'" using assms(1) by (auto simp: d' audited_def solvent_def)
  ultimately have "audited d'"
    using auditedD [OF assms(1)] by (intro auditedI) (simp_all add: f split: if_splits)
  with f m show ?thesis by blast
qed

section \<open>Every transaction keeps the books\<close>

lemma InTx_inv:
  "P d \<Longrightarrow> (\<And>x d'. f d = Inr (x, d') \<Longrightarrow> P d') \<Longrightarrow> P (snd (InTx served f d))"
  by (auto simp: InTx_def split: sum.split prod.split)

lemma and_then_Inr: "and_then r f = Inr y \<longleftrightarrow> (\<exists>x. r = Inr x \<and> f x = Inr y)"
  by (cases r) auto

lemma addLedger_keeps:
  "addLedger i t a r re c d = Inr d' \<Longrightarrow> db_usage d' = db_usage d \<and> db_jobs d' = db_jobs d \<and> db_users d' = db_users d"
  by (auto simp: addLedger_def Let_def split: option.splits if_splits)

lemma ledger_if_keeps:
  "ledger_if b i t a r re d = Inr d' \<Longrightarrow> db_usage d' = db_usage d \<and> db_jobs d' = db_jobs d \<and> db_users d' = db_users d"
  using addLedger_keeps by (auto simp: ledger_if_def split: if_splits)

lemma ledger_if_audited: "audited d \<Longrightarrow> ledger_if b i t a r re d = Inr d' \<Longrightarrow> audited d'"
  by (auto simp: ledger_if_def intro: addLedger_audited split: if_splits)

lemma CreateUser_frame: "CreateUser u d = Inr d' \<Longrightarrow> db_wallets d' = db_wallets d \<and> db_ledger d' = db_ledger d"
  by (auto simp: CreateUser_def split: if_splits)

lemma account_audited:
  assumes "audited d" "CreateUser u d = Inr d1" "CreateWallet wid ot oi d1 = Inr d2"
    "addLedger wid t a r re c d2 = Inr d3"
  shows "audited d3"
proof -
  have "audited d1"
    using audited_frame(2) CreateUser_frame [OF assms(2)] assms(1) by blast
  then have "audited d2" using CreateWallet_audited assms(3) by blast
  then show ?thesis using addLedger_audited assms(4) by blast
qed

lemma Register_audited: "audited d \<Longrightarrow> audited (snd (Register cfg hash uid pid wid served e p n d))"
  unfolding Register_def Let_def
  by (auto split: option.split intro!: InTx_inv [where P = audited] simp: and_then_Inr intro: account_audited)

lemma audit_audited [simp]: "audited (d\<lparr>db_audit := x\<rparr>) = audited d"
  using audited_frame(2) [of "d\<lparr>db_audit := x\<rparr>" d] by simp

lemma record_usage_frame: "record_usage x d = Inr d' \<Longrightarrow> funds d' = funds d \<and> audited d' = audited d"
  using audited_frame [of d' d] by (auto simp: record_usage_def split: if_splits)

lemma job_succeeded_frame [simp]: "funds (job_succeeded x d) = funds d" "audited (job_succeeded x d) = audited d"
  by (rule audited_frame; simp add: job_succeeded_def)+

lemma AdminAdjust_audited: "audited d \<Longrightarrow> audited (snd (AdminAdjust served i t a re d))"
  unfolding AdminAdjust_def Let_def
  by (auto split: option.splits intro!: InTx_inv [where P = audited] simp: and_then_Inr
      simp del: append.simps; (rule addLedger_audited; assumption))

lemma AdjustWallet_audited: "audited d \<Longrightarrow> audited (snd (AdjustWallet served u t a re d))"
  by (simp add: AdjustWallet_def AdminAdjust_audited)

lemma ReserveForUser_audited: "audited d \<Longrightarrow> audited (snd (ReserveForUser served i a re d))"
  unfolding ReserveForUser_def
  by (auto split: option.splits intro!: InTx_inv [where P = audited] intro: addLedger_audited)

lemma Release_audited: "audited d \<Longrightarrow> audited (snd (Release served i a re d))"
  unfolding Release_def by (auto intro!: InTx_inv [where P = audited] intro: addLedger_audited)

lemma settle_audited:
  assumes "audited d" "ledger_if b1 i1 t1 a1 r1 re1 d = Inr d1" "ledger_if b2 i2 t2 a2 r2 re2 d1 = Inr d2"
    "ledger_if b3 i3 t3 a3 r3 re3 d2 = Inr d3" "record_usage x d3 = Inr d4"
  shows "audited d4"
  using ledger_if_audited [OF ledger_if_audited [OF ledger_if_audited [OF assms(1,2)] assms(3)] assms(4)]
    record_usage_frame [OF assms(5)] by simp

lemma FinalizeUsage_audited: "audited d \<Longrightarrow> audited (snd (FinalizeUsage served x d))"
  unfolding FinalizeUsage_def
  by (auto intro!: InTx_inv [where P = audited] simp: and_then_Inr; (rule settle_audited; assumption))

section \<open>Histories\<close>

datatype tx =
    TRegister server_config "string \<Rightarrow> string option" string string string bool string string string
  | TProviderWallet string string
  | TAdjust bool user_row string int64 string
  | TReserve bool string int64 string
  | TRelease bool string int64 string
  | TFinalize bool settlement

fun ledger_step :: "(db, tx) machine" where
  "ledger_step d (TRegister cfg hash uid pid wid served e p n) =
     Some (snd (Register cfg hash uid pid wid served e p n d))"
| "ledger_step d (TProviderWallet i p) =
     Some (case CreateWallet i ''provider'' p d of Inl e \<Rightarrow> d | Inr d' \<Rightarrow> d')"
| "ledger_step d (TAdjust served u t a re) = Some (snd (AdjustWallet served u t a re d))"
| "ledger_step d (TReserve served u a re) = Some (snd (ReserveForUser served u a re d))"
| "ledger_step d (TRelease served w a re) = Some (snd (Release served w a re d))"
| "ledger_step d (TFinalize served x) = Some (snd (FinalizeUsage served x d))"

lemma ledger_step_audited: "audited d \<Longrightarrow> ledger_step d e = Some d' \<Longrightarrow> audited d'"
  by (cases e) (auto simp: Register_audited AdjustWallet_audited ReserveForUser_audited Release_audited
      FinalizeUsage_audited CreateWallet_audited split: sum.split)

lemma empty_audited: "audited empty_db"
  by (simp add: audited_def solvent_def empty_db_def funds_def wallet_by_id_def entries_of_def)

interpretation ledger: page_machine ledger_step empty_db audited
  by unfold_locales (auto intro: ledger_step_audited empty_audited)

section \<open>Effects on the funds\<close>

lemma addLedger_succeeds:
  assumes "solvent d" "funds d i = Some (b, v)" "fits (b + sint a)" "fits (v + sint r)"
  shows "\<exists>d'. addLedger i t a r re c d = Inr d' \<and> solvent d' \<and> funds d' = (funds d)(i \<mapsto> (b + sint a, v + sint r))"
proof -
  have "post i (sint a) (sint r) (funds d) = Some ((funds d)(i \<mapsto> (b + sint a, v + sint r)))"
    using assms(2,3,4) by (simp add: post_def)
  then obtain d' where "addLedger i t a r re c d = Inr d'" "funds d' = (funds d)(i \<mapsto> (b + sint a, v + sint r))"
    using addLedger_refines [OF assms(1), of i t a r re c] by (auto split: sum.splits)
  with addLedger_solvent [OF assms(1)] show ?thesis by blast
qed

lemma ledger_if_succeeds:
  assumes "solvent d" "funds d i = Some (b, v)" "fits (b + sint a)" "fits (v + sint r)"
    "\<not> c \<Longrightarrow> sint a = 0 \<and> sint r = 0"
  shows "\<exists>d'. ledger_if c i t a r re d = Inr d' \<and> solvent d' \<and> funds d' = (funds d)(i \<mapsto> (b + sint a, v + sint r))"
proof (cases c)
  case True
  then show ?thesis using addLedger_succeeds [OF assms(1-4)] by (simp add: ledger_if_def)
next
  case False
  then have "(funds d)(i \<mapsto> (b + sint a, v + sint r)) = funds d"
    using assms(2,5) by (auto simp: fun_upd_idem)
  with False assms(1) show ?thesis by (simp add: ledger_if_def)
qed

text \<open>A settlement releases the reservation, takes the cost and adds the reward, all on one wallet.\<close>

lemma FinalizeUsage_succeeds:
  assumes "solvent d" "funds d (se_UserWalletID x) = Some (b, v)"
    and R: "0 \<le> sint (se_ReservedCredits x)" "sint (se_ReservedCredits x) \<le> v" "fits (b + sint (se_ReservedCredits x))"
    and C: "0 \<le> sint (se_ActualCostCredits x)" "sint (se_ActualCostCredits x) \<le> b + sint (se_ReservedCredits x)"
    and W: "0 \<le> sint (se_ProviderRewardCredits x)"
      "fits (b + sint (se_ReservedCredits x) - sint (se_ActualCostCredits x) + sint (se_ProviderRewardCredits x))"
    and v: "fits v"
    and j: "se_JobID x \<notin> ug_job_id ` set (db_usage d)" "se_JobID x \<in> jr_id ` set (db_jobs d)"
  shows "\<exists>d'. FinalizeUsage True x d = (Inr (), d') \<and> solvent d' \<and> funds d' = (funds d)(se_UserWalletID x \<mapsto>
     (b + sint (se_ReservedCredits x) - sint (se_ActualCostCredits x) + sint (se_ProviderRewardCredits x),
      v - sint (se_ReservedCredits x)))"
proof -
  let ?i = "se_UserWalletID x" and ?R = "se_ReservedCredits x" and ?C = "se_ActualCostCredits x"
    and ?W = "se_ProviderRewardCredits x"
  note n = sint_neg [OF R(1)] sint_neg [OF C(1)]
  have n0: "\<not> 0 <s a \<Longrightarrow> 0 \<le> sint a \<Longrightarrow> sint (a :: int64) = 0" for a by (simp add: sless_sint)
  obtain d1 where d1: "ledger_if (0 <s ?R) ?i ''release_reserve'' ?R (- ?R) ''release_usage_reservation'' d = Inr d1"
    "solvent d1" "funds d1 = (funds d)(?i \<mapsto> (b + sint ?R, v - sint ?R))"
    using ledger_if_succeeds [OF assms(1,2), of ?R "- ?R" "0 <s ?R"] R v n n0 by (force simp: fits_def)
  obtain d2 where d2: "ledger_if (0 <s ?C) ?i ''debit_usage'' (- ?C) 0 ''chat_completion_usage'' d1 = Inr d2"
    "solvent d2" "funds d2 = (funds d)(?i \<mapsto> (b + sint ?R - sint ?C, v - sint ?R))"
    using ledger_if_succeeds [OF d1(2), of ?i "b + sint ?R" "v - sint ?R" "- ?C" 0 "0 <s ?C"] R C v n n0 d1(3)
    by (force simp: fits_def)
  obtain d3 where d3: "ledger_if (0 <s ?W) ?i ''credit_provider_reward'' ?W 0 ''chat_completion_provider_reward'' d2 = Inr d3"
    "solvent d3" "funds d3 = (funds d)(?i \<mapsto> (b + sint ?R - sint ?C + sint ?W, v - sint ?R))"
    using ledger_if_succeeds [OF d2(2), of ?i "b + sint ?R - sint ?C" "v - sint ?R" ?W 0 "0 <s ?W"] R W v n0 d2(3)
    by (force simp: fits_def)
  have "db_usage d3 = db_usage d" "db_jobs d3 = db_jobs d"
    using ledger_if_keeps [OF d1(1)] ledger_if_keeps [OF d2(1)] ledger_if_keeps [OF d3(1)] by simp_all
  with j obtain d4 where d4: "record_usage x d3 = Inr d4" by (auto simp: record_usage_def)
  then have "db_wallets d4 = db_wallets d3" by (auto simp: record_usage_def split: if_splits)
  then have "solvent (job_succeeded x d4)" using d3(2) by (simp add: solvent_def job_succeeded_def)
  moreover have "FinalizeUsage True x d = (Inr (), job_succeeded x d4)"
    using R(1) C(1) W(1) d1(1) d2(1) d3(1) d4 by (simp add: FinalizeUsage_def InTx_def sless_sint)
  ultimately show ?thesis using d3(3) record_usage_frame [OF d4] by auto
qed

section \<open>Properties\<close>

text \<open>C8: Recording a movement refines a bounded counter: on wallets that hold nothing negative, the
  operation on wrapping 64-bit credits either adds the two amounts exactly, or is refused, and it is
  refused exactly when a result would be negative or would not fit.\<close>

theorem ledger_refines_counter:
  assumes "\<forall>w \<in> set (db_wallets d). 0 \<le> sint (wr_balance w) \<and> 0 \<le> sint (wr_reserved w)"
  shows "(case addLedger i t a r re c d of Inl e \<Rightarrow> None | Inr d' \<Rightarrow> Some (funds d'))
       = post i (sint a) (sint r) (funds d)"
  using assms by (intro addLedger_refines) (simp add: solvent_def)

theorem ledger_refines_counter_witness:
  "(case addLedger ''w'' ''grant'' (2 ^ 63 - 1) 0 [] None
      (empty_db\<lparr>db_wallets := [\<lparr>wr_id = ''w'', wr_owner_type = ''user'', wr_owner_id = ''u'',
         wr_balance = 1, wr_reserved = 0\<rparr>]\<rparr>) of Inl e \<Rightarrow> True | Inr d' \<Rightarrow> False)"
proof -
  let ?d = "empty_db\<lparr>db_wallets := [\<lparr>wr_id = ''w'', wr_owner_type = ''user'', wr_owner_id = ''u'',
         wr_balance = 1, wr_reserved = 0\<rparr>]\<rparr>"
  have "\<forall>w \<in> set (db_wallets ?d). 0 \<le> sint (wr_balance w) \<and> 0 \<le> sint (wr_reserved w)" by simp
  from ledger_refines_counter [OF this, of "''w''" "''grant''" "2 ^ 63 - 1" 0 "[]" None]
  show ?thesis by (simp add: post_def funds_def wallet_by_id_def fits_def split: sum.splits)
qed

text \<open>C7: The books balance: after any history of registrations, adjustments, reservations, releases and
  settlements, served or failing, every wallet holds what its ledger entries add up to, neither its
  balance nor its reserved credits are negative, and every entry records the balance it left.\<close>

theorem books_balance:
  assumes "run ledger_step empty_db txs = Some d" "funds d i = Some (b, v)"
  shows "replay (0, 0) (entries_of i d) = Some (b, v)
     \<and> b = sum_list (map (\<lambda>r. sint (lr_amount r)) (entries_of i d))
     \<and> v = sum_list (map (\<lambda>r. sint (lr_reserved_delta r)) (entries_of i d)) \<and> 0 \<le> b \<and> 0 \<le> v"
proof -
  have a: "audited d" using assms(1) by (rule ledger.run_inv)
  obtain w where "wallet_by_id i d = Some w" "b = sint (wr_balance w)" "v = sint (wr_reserved w)"
    using assms(2) by (auto simp: funds_def)
  with a have "0 \<le> b" "0 \<le> v"
    using wallet_by_id_set unfolding audited_def solvent_def by blast+
  with auditedD(1) [OF a assms(2)] show ?thesis
    using replay_sum [of "(0, 0)" "entries_of i d" "(b, v)"] by simp
qed

text \<open>A history to try it on: a registration and a reservation.\<close>

definition demo_account :: tx where
  "demo_account = TRegister \<lparr>cfg_BootstrapFirstUserAdmin = True, cfg_StartingFreeCredits = 1000\<rparr>
     Some ''u'' ''p'' ''w'' True ''a@b'' ''password'' ''N''"

definition demo_txs :: "tx list" where
  "demo_txs = [demo_account, TReserve True ''u'' 300 ''r'']"

theorem books_balance_witness:
  "replay (0, 0) (entries_of ''w'' (the (run ledger_step empty_db demo_txs))) = Some (700, 300)"
proof -
  have "run ledger_step empty_db demo_txs = Some (the (run ledger_step empty_db demo_txs))"
    by (simp add: demo_txs_def demo_account_def)
  moreover have "funds (the (run ledger_step empty_db demo_txs)) ''w'' = Some (700, 300)" by code_simp
  ultimately show ?thesis using books_balance by blast
qed

end
