(* ===== verification/Metering.thy ===== *)
theory Metering
  imports Float64 Ledger
begin

text \<open>
  What a chat request costs: the token estimates of \<open>apps/api/internal/metering/estimator.go\<close> and the
  two price functions of \<open>service/services.go\<close>, which compute in \<open>float64\<close>. Lengths and token counts
  are \<open>int\<close>: they are lengths of texts, and reports that \<open>ValidateReportedTokens\<close> bounds by them.
\<close>

section \<open>Tokens\<close>

definition EstimateTokensFromChars :: "int \<Rightarrow> int" where
  "EstimateTokensFromChars chars = (if chars \<le> 0 then 0 else (chars + 3) div 4)"

definition EstimateTokens :: "string \<Rightarrow> int" where
  "EstimateTokens text = EstimateTokensFromChars (int (length text))"

definition inReasonableRange :: "int \<Rightarrow> int \<Rightarrow> bool" where
  "inReasonableRange chars reported =
     (if chars \<le> 0 then reported = 0
      else (let lo = (chars + 7) div 8; hi = (chars + 1) div 2 + 100 in lo \<le> reported \<and> reported \<le> hi))"

definition ValidateReportedTokens :: "int \<Rightarrow> int \<Rightarrow> int \<Rightarrow> int \<Rightarrow> int \<times> int \<times> string" where
  "ValidateReportedTokens promptChars completionChars reportedPrompt reportedCompletion =
     (if inReasonableRange promptChars reportedPrompt \<and> inReasonableRange completionChars reportedCompletion
      then (reportedPrompt, reportedCompletion, ''runtime_reported'')
      else (EstimateTokensFromChars promptChars, EstimateTokensFromChars completionChars, ''server_estimated''))"

lemma estimate_reasonable: "inReasonableRange chars (EstimateTokensFromChars chars)"
  by (auto simp: inReasonableRange_def EstimateTokensFromChars_def Let_def; presburger)

lemma reasonable_nonneg: "inReasonableRange chars n \<Longrightarrow> 0 \<le> n"
  by (auto simp: inReasonableRange_def Let_def split: if_splits)

section \<open>Prices\<close>

definition fl64 :: "rat \<Rightarrow> rat" where
  "fl64 x = (if x < 0 then - fl (- x) else fl x)"

text \<open>Converting a float that \<open>int64\<close> cannot hold has a result that Go leaves to the machine: \<open>oor\<close>.\<close>

definition int64_of :: "int64 \<Rightarrow> int \<Rightarrow> int64" where
  "int64_of oor n = (if - (2 ^ 63) \<le> n \<and> n < 2 ^ 63 then of_int n else oor)"

definition PriceCredits :: "int64 \<Rightarrow> int \<Rightarrow> int \<Rightarrow> int64 \<Rightarrow> int64 \<Rightarrow> int64" where
  "PriceCredits oor inputTokens outputTokens inputPer1K outputPer1K =
     int64_of oor \<lceil>fl64 (fl64 (fl64 (of_int inputTokens) * fl64 (of_int (sint inputPer1K))) / 1000)\<rceil>
     + int64_of oor \<lceil>fl64 (fl64 (fl64 (of_int outputTokens) * fl64 (of_int (sint outputPer1K))) / 1000)\<rceil>"

definition ProviderReward :: "int64 \<Rightarrow> int64 \<Rightarrow> rat \<Rightarrow> int64" where
  "ProviderReward oor cost ratio = int64_of oor \<lfloor>fl64 (fl64 (of_int (sint cost)) * ratio)\<rfloor>"

lemma fl64_nonneg: "0 \<le> x \<Longrightarrow> fl64 x = fl x"
  by (simp add: fl64_def)

lemma fl64_int: "0 \<le> n \<Longrightarrow> n < 2 ^ 53 \<Longrightarrow> fl64 (of_int n) = of_int n"
  by (simp add: fl64_nonneg binary64.rd_int)

lemma sint_int64_of: "0 \<le> n \<Longrightarrow> n < 2 ^ 63 \<Longrightarrow> sint (int64_of oor n) = n"
  by (simp add: int64_of_def signed_of_int signed_take_bit_int_eq_self)

lemma price_part:
  assumes "0 \<le> t" "0 \<le> p" "t * p < 2 ^ 53"
  shows "\<lceil>fl64 (fl64 (fl64 (of_int t) * fl64 (of_int p)) / 1000)\<rceil> = (t * p + 999) div 1000"
proof -
  have "fl64 (of_int t) * fl64 (of_int p) = of_int (t * p)"
  proof (cases "t = 0 \<or> p = 0")
    case True
    then show ?thesis using fl64_int [of 0] by auto
  next
    case False
    with assms have "t \<le> t * p" "p \<le> t * p" by (simp_all add: mult_le_cancel_left1 mult_le_cancel_right1)
    with assms show ?thesis by (simp add: fl64_int)
  qed
  moreover have n: "0 \<le> t * p" using assms by simp
  ultimately have "fl64 (fl64 (of_int t) * fl64 (of_int p)) = of_int (t * p)"
    using assms(3) by (simp only: fl64_int)
  moreover have "(0 :: rat) \<le> of_int (t * p) / 1000"
    using n by (intro divide_nonneg_nonneg) (simp_all only: of_int_0_le_iff zero_le_numeral)
  ultimately show ?thesis using binary64.ceil_thousandth [OF n assms(3)] by (simp only: fl64_nonneg)
qed

lemma thousandth_small: "n < 2 ^ 53 \<Longrightarrow> (n + 999) div 1000 < (2 ^ 44 :: int)"
proof -
  assume "n < 2 ^ 53"
  then have "(n + 999) div 1000 \<le> (2 ^ 53 + 999) div 1000" by (intro zdiv_mono1) simp_all
  also have "\<dots> < 2 ^ 44" by simp
  finally show ?thesis .
qed

lemma PriceCredits_words:
  assumes "0 \<le> it" "0 \<le> ot" "0 \<le> sint ip" "0 \<le> sint op" "it * sint ip < 2 ^ 53" "ot * sint op < 2 ^ 53"
  shows "PriceCredits oor it ot ip op
     = int64_of oor ((it * sint ip + 999) div 1000) + int64_of oor ((ot * sint op + 999) div 1000)"
  unfolding PriceCredits_def using assms by (simp only: price_part)

section \<open>Properties\<close>

text \<open>Whatever a provider reports, the token counts that are charged are plausible for the texts: zero
  for an empty text and otherwise between an eighth of its length and half of it plus a hundred; a
  plausible report is charged as it is, and validating the outcome again changes nothing.\<close>

theorem tokens_plausible:
  "case ValidateReportedTokens pc cc rp rc of (p, c, source) \<Rightarrow>
     inReasonableRange pc p \<and> inReasonableRange cc c \<and> 0 \<le> p \<and> 0 \<le> c
     \<and> (source = ''runtime_reported'') = (inReasonableRange pc rp \<and> inReasonableRange cc rc)
     \<and> (if source = ''runtime_reported'' then p = rp \<and> c = rc
        else p = EstimateTokensFromChars pc \<and> c = EstimateTokensFromChars cc)
     \<and> fst (ValidateReportedTokens pc cc p c) = p \<and> fst (snd (ValidateReportedTokens pc cc p c)) = c"
  using estimate_reasonable [of pc] estimate_reasonable [of cc]
    reasonable_nonneg
  by (auto simp: ValidateReportedTokens_def)

text \<open>C34: The price is exact: although it is computed in floating point, for token counts and prices that
  are not negative and whose products stay below \<open>2 ^ 53\<close> it is the sum of the two thousandths, each
  rounded up, and nothing overflows.\<close>

theorem price_exact:
  assumes "0 \<le> it" "0 \<le> ot" "0 \<le> sint ip" "0 \<le> sint op" "it * sint ip < 2 ^ 53" "ot * sint op < 2 ^ 53"
  shows "sint (PriceCredits oor it ot ip op) = (it * sint ip + 999) div 1000 + (ot * sint op + 999) div 1000"
proof -
  let ?a = "(it * sint ip + 999) div 1000" and ?b = "(ot * sint op + 999) div 1000"
  have a: "0 \<le> ?a" "?a < 2 ^ 44" and b: "0 \<le> ?b" "?b < 2 ^ 44"
    using assms thousandth_small by (simp_all add: pos_imp_zdiv_nonneg_iff)
  have "PriceCredits oor it ot ip op = int64_of oor ?a + int64_of oor ?b"
    using assms by (rule PriceCredits_words)
  moreover have "sint (int64_of oor ?a) = ?a" "sint (int64_of oor ?b) = ?b"
    using a b by (simp_all add: sint_int64_of)
  ultimately show ?thesis using a b by (simp add: fits_sint_add fits_def)
qed

theorem price_exact_witness:
  "sint (PriceCredits 0 257 1024 10 20) = 24"
  using price_exact [of 257 1024 10 20 0] by simp

lemma reward_bounds:
  assumes "0 \<le> sint cost" "sint cost < 2 ^ 53" "0 \<le> ratio" "ratio \<le> 1"
  shows "0 \<le> sint (ProviderReward oor cost ratio) \<and> sint (ProviderReward oor cost ratio) \<le> sint cost"
proof -
  have "(0 :: rat) \<le> of_int (sint cost) * ratio"
    using assms by (intro mult_nonneg_nonneg) (simp_all only: of_int_0_le_iff)
  then have r: "fl64 (fl64 (of_int (sint cost)) * ratio) = fl (of_int (sint cost) * ratio)"
    using fl64_int [OF assms(1,2)] by (simp only: fl64_nonneg)
  have s: "\<lfloor>fl (of_int (sint cost) * ratio)\<rfloor> \<le> sint cost" "0 \<le> \<lfloor>fl (of_int (sint cost) * ratio)\<rfloor>"
    using binary64.floor_share [OF assms] by blast+
  then have "\<lfloor>fl (of_int (sint cost) * ratio)\<rfloor> < 2 ^ 63"
    using order_le_less_trans sint_bounds(2) by blast
  with s show ?thesis unfolding ProviderReward_def r by (simp add: sint_int64_of)
qed

end
