(* ===== verification/ChatRequest.thy ===== *)
theory ChatRequest
  imports Metering
begin

text \<open>
  The life of a chat request in the API server: \<open>ChatCompletions\<close> in
  \<open>apps/api/internal/handler/handlers.go\<close> from the moment the request has passed its checks and a
  provider is chosen, with the job rows of \<open>repository/store.go\<close>. Requests run concurrently; every
  database call is one atomic step, so a history interleaves the steps of any number of requests with
  each other and with registrations and adjustments. \<open>sv_leaked\<close> is a ghost: it remembers the
  reservations whose release the handler attempted in vain, an error that it ignores.
\<close>

section \<open>Requests\<close>

text \<open>What the provider connection delivers: an error of the dispatch, a failure that the provider reports
  with its code, or a completion with its length and the token counts it reports, if any. A failure
  without a code carries no text and passes for an empty completion.\<close>

datatype reply =
    DispatchError string
  | ProviderError string string
  | Completion int "(int \<times> int) option"

text \<open>What the handler does next.\<close>

datatype phase =
    Reserving
  | Marking
  | Waiting
  | Returning string string string
  | Failing string string
  | Settling settlement
  | Unsettled
  | Closed

record chat =
  ct_job :: string
  ct_user :: string
  ct_provider :: string
  ct_chars :: int
  ct_input_price :: int64
  ct_output_price :: int64
  ct_ratio :: rat
  ct_reserved :: int64
  ct_wallet :: string
  ct_phase :: phase

record server =
  sv_db :: db
  sv_chats :: "chat list"
  sv_leaked :: "(string \<times> int64) list"

fun error_message :: "svc_error \<Rightarrow> string" where
  "error_message ErrInvalidInput = ''invalid input''"
| "error_message ErrInvalidCredentials = ''invalid credentials''"
| "error_message ErrInsufficientCredits = ''insufficient credits''"
| "error_message ErrForbidden = ''forbidden''"
| "error_message ErrNotFound = ''not found''"
| "error_message NoRows = ''no rows in result set''"
| "error_message DuplicateKey = ''duplicate key''"
| "error_message (DbError m) = m"

section \<open>Jobs\<close>

definition CreateInferenceJob :: "bool \<Rightarrow> string \<Rightarrow> string \<Rightarrow> int64 \<Rightarrow> db \<Rightarrow> (svc_error + unit) \<times> db" where
  "CreateInferenceJob served i userID reservedCredits d =
     InTx served (\<lambda>d. if i \<in> jr_id ` set (db_jobs d) then Inl DuplicateKey
        else Inr ((), d\<lparr>db_jobs := db_jobs d @ [\<lparr>jr_id = i, jr_user_id = userID, jr_status = ''queued'',
               jr_reserved = reservedCredits, jr_actual_cost = 0, jr_reward = 0, jr_error_code = None,
               jr_error_message = None\<rparr>]\<rparr>)) d"

definition MarkJobDispatched :: "bool \<Rightarrow> string \<Rightarrow> db \<Rightarrow> db" where
  "MarkJobDispatched served i d =
     (if served then d\<lparr>db_jobs := update_by jr_id i (\<lambda>j. j\<lparr>jr_status := ''dispatched''\<rparr>) (db_jobs d)\<rparr> else d)"

definition MarkJobFailed :: "bool \<Rightarrow> string \<Rightarrow> string \<Rightarrow> string \<Rightarrow> string \<Rightarrow> db \<Rightarrow> db" where
  "MarkJobFailed served i status code message d =
     (if served then d\<lparr>db_jobs := update_by jr_id i
          (\<lambda>j. j\<lparr>jr_status := status, jr_error_code := Some code, jr_error_message := Some message\<rparr>) (db_jobs d)\<rparr>
      else d)"

section \<open>The handler\<close>

text \<open>The request's own limit on output tokens counts when it is positive, else the model's.\<close>

definition max_tokens :: "int \<Rightarrow> int \<Rightarrow> int" where
  "max_tokens requested modelDefault = (if requested \<le> 0 then modelDefault else requested)"

definition reservation :: "int64 \<Rightarrow> int \<Rightarrow> int \<Rightarrow> int64 \<Rightarrow> int64 \<Rightarrow> int64" where
  "reservation oor inputChars maxTokens inputPrice outputPrice =
     PriceCredits oor (EstimateTokensFromChars inputChars) maxTokens inputPrice outputPrice"

text \<open>Pricing a completion: the reported counts are validated (none reported counts as zeros), and the
  cost is capped by the reservation.\<close>

definition settlement_of :: "int64 \<Rightarrow> chat \<Rightarrow> int \<Rightarrow> (int \<times> int) option \<Rightarrow> settlement" where
  "settlement_of oor c completionChars usage =
     (let (promptTokens, completionTokens, tokenSource) =
            (case usage of
               None \<Rightarrow> ValidateReportedTokens (ct_chars c) completionChars 0 0
             | Some (p, q) \<Rightarrow> ValidateReportedTokens (ct_chars c) completionChars p q);
          priced = PriceCredits oor promptTokens completionTokens (ct_input_price c) (ct_output_price c);
          actualCost = (if ct_reserved c <s priced then ct_reserved c else priced)
      in \<lparr>se_UserWalletID = ct_wallet c, se_ReservedCredits = ct_reserved c, se_ActualCostCredits = actualCost,
          se_ProviderRewardCredits = ProviderReward oor actualCost (ct_ratio c), se_JobID = ct_job c,
          se_UserID = ct_user c, se_ProviderID = ct_provider c, se_InputTokens = promptTokens,
          se_OutputTokens = completionTokens, se_TokenSource = tokenSource\<rparr>)"

definition answered :: "int64 \<Rightarrow> chat \<Rightarrow> reply \<Rightarrow> phase" where
  "answered oor c r = (case r of
       DispatchError m \<Rightarrow> Returning ''provider_unavailable_release'' ''provider_unavailable'' m
     | ProviderError code m \<Rightarrow>
         if code \<noteq> [] then Returning ''provider_failed_release'' code m
         else Settling (settlement_of oor c 0 None)
     | Completion n usage \<Rightarrow> Settling (settlement_of oor c n usage))"

text \<open>The next database call of a request; the third component is what it leaves behind unreleased.\<close>

definition release_chat :: "bool \<Rightarrow> string \<Rightarrow> chat \<Rightarrow> db \<Rightarrow> db \<times> (string \<times> int64) list" where
  "release_chat served reason c d =
     (case Release served (ct_wallet c) (ct_reserved c) reason d of
        (Inl e, d') \<Rightarrow> (d', [(ct_wallet c, ct_reserved c)])
      | (Inr _, d') \<Rightarrow> (d', []))"

fun advance :: "bool \<Rightarrow> phase \<Rightarrow> chat \<Rightarrow> db \<Rightarrow> (chat \<times> db \<times> (string \<times> int64) list) option" where
  "advance served Reserving c d = Some
     (case ReserveForUser served (ct_user c) (ct_reserved c) ''chat_completion_reservation'' d of
        (Inl e, d') \<Rightarrow> (c\<lparr>ct_phase := Failing ''insufficient_credits'' (error_message e)\<rparr>, d', [])
      | (Inr w, d') \<Rightarrow> (c\<lparr>ct_phase := Marking, ct_wallet := w\<rparr>, d', []))"
| "advance served Marking c d = Some (c\<lparr>ct_phase := Waiting\<rparr>, MarkJobDispatched served (ct_job c) d, [])"
| "advance served (Returning reason code message) c d =
     (let (d', lost) = release_chat served reason c d in Some (c\<lparr>ct_phase := Failing code message\<rparr>, d', lost))"
| "advance served (Failing code message) c d =
     Some (c\<lparr>ct_phase := Closed\<rparr>, MarkJobFailed served (ct_job c) ''failed'' code message d, [])"
| "advance served (Settling x) c d = Some
     (case FinalizeUsage served x d of
        (Inl e, d') \<Rightarrow> (c\<lparr>ct_phase := Unsettled\<rparr>, d', [])
      | (Inr _, d') \<Rightarrow> (c\<lparr>ct_phase := Closed\<rparr>, d', []))"
| "advance served Unsettled c d =
     (let (d', lost) = release_chat served ''settlement_failed_release'' c d in Some (c\<lparr>ct_phase := Closed\<rparr>, d', lost))"
| "advance served Waiting c d = None"
| "advance served Closed c d = None"

datatype server_event =
    Open bool string string string int int int int64 int64 rat
  | Advance nat bool
  | AnswerTo nat reply
  | Account tx

text \<open>Transactions outside the handler: accounts and adjustments.\<close>

fun is_account :: "tx \<Rightarrow> bool" where
  "is_account (TReserve served u a re) = False"
| "is_account (TRelease served w a re) = False"
| "is_account (TFinalize served x) = False"
| "is_account t = True"

fun server_step :: "int64 \<Rightarrow> server \<Rightarrow> server_event \<Rightarrow> server option" where
  "server_step oor s (Open served job userID provider inputChars requested modelDefault ip op ratio) =
     (let r = reservation oor inputChars (max_tokens requested modelDefault) ip op
      in Some (case CreateInferenceJob served job userID r (sv_db s) of
           (Inl e, d) \<Rightarrow> s\<lparr>sv_db := d\<rparr>
         | (Inr _, d) \<Rightarrow> s\<lparr>sv_db := d, sv_chats := sv_chats s @ [\<lparr>ct_job = job, ct_user = userID,
               ct_provider = provider, ct_chars = inputChars, ct_input_price = ip, ct_output_price = op,
               ct_ratio = ratio, ct_reserved = r, ct_wallet = [], ct_phase = Reserving\<rparr>]\<rparr>))"
| "server_step oor s (Advance i served) =
     (if i < length (sv_chats s)
      then map_option (\<lambda>(c, d, lost). s\<lparr>sv_db := d, sv_chats := (sv_chats s)[i := c], sv_leaked := sv_leaked s @ lost\<rparr>)
             (advance served (ct_phase (sv_chats s ! i)) (sv_chats s ! i) (sv_db s))
      else None)"
| "server_step oor s (AnswerTo i r) =
     (if i < length (sv_chats s) \<and> ct_phase (sv_chats s ! i) = Waiting
      then Some (s\<lparr>sv_chats := (sv_chats s)[i := (sv_chats s ! i)\<lparr>ct_phase := answered oor (sv_chats s ! i) r\<rparr>]\<rparr>)
      else None)"
| "server_step oor s (Account t) =
     (if is_account t then map_option (\<lambda>d. s\<lparr>sv_db := d\<rparr>) (ledger_step (sv_db s) t) else None)"

definition server_start :: server where
  "server_start = \<lparr>sv_db = empty_db, sv_chats = [], sv_leaked = []\<rparr>"

section \<open>Who holds a reservation\<close>

fun holding_phase :: "phase \<Rightarrow> bool" where
  "holding_phase Reserving = False"
| "holding_phase (Failing c m) = False"
| "holding_phase Closed = False"
| "holding_phase _ = True"

definition held_by :: "string \<Rightarrow> chat \<Rightarrow> int" where
  "held_by w c = (if holding_phase (ct_phase c) \<and> ct_wallet c = w then sint (ct_reserved c) else 0)"

definition held :: "string \<Rightarrow> chat list \<Rightarrow> int" where
  "held w cs = sum_list (map (held_by w) cs)"

definition leaked :: "string \<Rightarrow> (string \<times> int64) list \<Rightarrow> int" where
  "leaked w ls = sum_list (map (\<lambda>(v, a). if v = w then sint a else 0) ls)"

lemma held_append: "held w (cs @ [c]) = held w cs + held_by w c"
  by (simp add: held_def)

lemma held_update: "i < length cs \<Longrightarrow> held w (cs[i := c]) = held w cs - held_by w (cs ! i) + held_by w c"
  by (induction cs arbitrary: i) (auto simp: held_def split: nat.splits)

lemma leaked_append: "leaked w (ls @ ms) = leaked w ls + leaked w ms"
  by (simp add: leaked_def)

lemma leaked_simps [simp]: "leaked w [] = 0" "leaked w [(v, a)] = (if v = w then sint a else 0)"
  by (simp_all add: leaked_def)

section \<open>Effects of the database calls\<close>

lemma InTx_Inl: "InTx served f d = (Inl e, d') \<Longrightarrow> d' = d"
  by (auto simp: InTx_def split: if_splits sum.splits prod.splits)

lemma InTx_Inr: "InTx served f d = (Inr x, d') \<Longrightarrow> f d = Inr (x, d')"
  by (auto simp: InTx_def split: if_splits sum.splits prod.splits)

lemma addLedger_funds:
  assumes "audited d" "addLedger i t a r re c d = Inr d'"
  shows "\<exists>b v. funds d i = Some (b, v) \<and> funds d' = (funds d)(i \<mapsto> (b + sint a, v + sint r)) \<and> audited d'"
  using addLedger_post [OF _ assms(2)] assms(1) addLedger_audited [OF assms]
  by (auto simp: post_Some audited_def)

lemma reserve_effect:
  assumes "audited d" "ReserveForUser served u a re d = (Inr w, d')"
  shows "\<exists>b v. funds d w = Some (b, v) \<and> funds d' = (funds d)(w \<mapsto> (b - sint a, v + sint a))
     \<and> 0 < sint a \<and> audited d'"
proof -
  have a: "0 < sint a" using assms(2) by (auto simp: ReserveForUser_def sless_sint split: if_splits)
  obtain x where "addLedger w ''reserve'' (- a) a re None d = Inr x" "x = d'"
    using assms(2) by (auto simp: ReserveForUser_def dest!: InTx_Inr split: if_splits option.splits)
  with addLedger_funds [OF assms(1)] sint_neg [of a] a show ?thesis by fastforce
qed

lemma reserve_refused: "ReserveForUser served u a re d = (Inl e, d') \<Longrightarrow> d' = d"
  by (auto simp: ReserveForUser_def dest: InTx_Inl split: if_splits)

lemma release_effect:
  assumes "audited d" "Release served w a re d = (Inr x, d')"
  shows "\<exists>b v. funds d w = Some (b, v) \<and> funds d' = (funds d)(w \<mapsto> (b + sint a, v - sint a)) \<and> audited d'"
proof -
  have a: "0 < sint a" using assms(2) by (auto simp: Release_def sless_sint split: if_splits)
  have "addLedger w ''release_reserve'' a (- a) re None d = Inr d'"
    using assms(2) by (auto simp: Release_def dest!: InTx_Inr split: if_splits)
  with addLedger_funds [OF assms(1)] sint_neg [of a] a show ?thesis by fastforce
qed

lemma release_refused: "Release served w a re d = (Inl e, d') \<Longrightarrow> d' = d"
  by (auto simp: Release_def dest: InTx_Inl split: if_splits)

lemma ledger_if_funds:
  assumes "audited d" "ledger_if c i t a r re d = Inr d'" "\<not> c \<Longrightarrow> sint a = 0 \<and> sint r = 0" "funds d i = Some (b, v)"
  shows "funds d' = (funds d)(i \<mapsto> (b + sint a, v + sint r)) \<and> audited d'"
proof (cases c)
  case True
  then show ?thesis using addLedger_funds [OF assms(1)] assms(2,4) by (fastforce simp: ledger_if_def)
next
  case False
  with assms show ?thesis by (auto simp: ledger_if_def fun_upd_idem)
qed

lemma settle_effect:
  assumes "audited d" "FinalizeUsage served x d = (Inr y, d')" "funds d (se_UserWalletID x) = Some (b, v)"
  shows "funds d' = (funds d)(se_UserWalletID x \<mapsto>
      (b + sint (se_ReservedCredits x) - sint (se_ActualCostCredits x) + sint (se_ProviderRewardCredits x),
       v - sint (se_ReservedCredits x))) \<and> audited d'"
proof -
  let ?i = "se_UserWalletID x" and ?R = "se_ReservedCredits x" and ?C = "se_ActualCostCredits x"
    and ?W = "se_ProviderRewardCredits x"
  have n: "0 \<le> sint ?R" "0 \<le> sint ?C" "0 \<le> sint ?W"
    using assms(2) by (auto simp: FinalizeUsage_def sless_sint split: if_splits)
  obtain d1 d2 d3 d4 where
    1: "ledger_if (0 <s ?R) ?i ''release_reserve'' ?R (- ?R) ''release_usage_reservation'' d = Inr d1" and
    2: "ledger_if (0 <s ?C) ?i ''debit_usage'' (- ?C) 0 ''chat_completion_usage'' d1 = Inr d2" and
    3: "ledger_if (0 <s ?W) ?i ''credit_provider_reward'' ?W 0 ''chat_completion_provider_reward'' d2 = Inr d3" and
    4: "record_usage x d3 = Inr d4" and d': "d' = job_succeeded x d4"
    using assms(2) by (auto simp: FinalizeUsage_def and_then_Inr dest!: InTx_Inr split: if_splits)
  have z: "\<not> 0 <s a \<Longrightarrow> 0 \<le> sint a \<Longrightarrow> sint (a :: int64) = 0" for a by (simp add: sless_sint)
  note m = sint_neg [OF n(1)] sint_neg [OF n(2)]
  have f1: "funds d1 = (funds d)(?i \<mapsto> (b + sint ?R, v - sint ?R)) \<and> audited d1"
    using ledger_if_funds [OF assms(1) 1 _ assms(3)] z n m by auto
  then have i1: "funds d1 ?i = Some (b + sint ?R, v - sint ?R)" by simp
  have f2: "funds d2 = (funds d)(?i \<mapsto> (b + sint ?R - sint ?C, v - sint ?R)) \<and> audited d2"
    using ledger_if_funds [OF conjunct2 [OF f1] 2 _ i1] z n m f1 by auto
  then have i2: "funds d2 ?i = Some (b + sint ?R - sint ?C, v - sint ?R)" by simp
  have "funds d3 = (funds d)(?i \<mapsto> (b + sint ?R - sint ?C + sint ?W, v - sint ?R)) \<and> audited d3"
    using ledger_if_funds [OF conjunct2 [OF f2] 3 _ i2] z n f2 by auto
  with record_usage_frame [OF 4] show ?thesis by (simp add: d')
qed

lemma settle_refused: "FinalizeUsage served x d = (Inl e, d') \<Longrightarrow> d' = d"
  by (auto simp: FinalizeUsage_def dest: InTx_Inl split: if_splits)

text \<open>Account transactions move no reserved credits.\<close>

definition same_reserved :: "db \<Rightarrow> db \<Rightarrow> bool" where
  "same_reserved d d' \<longleftrightarrow> (\<forall>w. case funds d w of
       None \<Rightarrow> (case funds d' w of None \<Rightarrow> True | Some (b, v) \<Rightarrow> v = 0)
     | Some (b, v) \<Rightarrow> (\<exists>b'. funds d' w = Some (b', v)))"

lemma same_reserved_refl [simp]: "same_reserved d d"
  by (auto simp: same_reserved_def split: option.split)

lemma account_reserved:
  assumes "audited d" "CreateUser u d = Inr d1" "CreateWallet wid ot oi d1 = Inr d2"
    "addLedger wid t a 0 re c d2 = Inr d3"
  shows "same_reserved d d3"
proof -
  have 1: "audited d1" "funds d1 = funds d"
    using audited_frame CreateUser_frame [OF assms(2)] assms(1) by blast+
  then have 2: "audited d2" "funds d2 = (funds d)(wid \<mapsto> (0, 0))" "funds d wid = None"
    using CreateWallet_audited [OF _ assms(3)] by auto
  have "funds d3 = (funds d)(wid \<mapsto> (sint a, 0))"
    using addLedger_funds [OF 2(1) assms(4)] 2(2) by auto
  with 2(3) show ?thesis by (auto simp: same_reserved_def split: option.split)
qed

lemma adjust_reserved:
  assumes "audited d" "addLedger i t a 0 re c d = Inr d'"
  shows "same_reserved d (d'\<lparr>db_audit := x\<rparr>)"
proof -
  have "funds (d'\<lparr>db_audit := x\<rparr>) = funds d'" by (rule audited_frame; simp)
  with addLedger_funds [OF assms] show ?thesis
    by (auto simp: same_reserved_def split: option.split if_splits)
qed

lemma InTx_same_reserved:
  "(\<And>x d'. f d = Inr (x, d') \<Longrightarrow> same_reserved d d') \<Longrightarrow> same_reserved d (snd (InTx served f d))"
  by (auto simp: InTx_def split: sum.split prod.split)

lemma account_step_reserved:
  assumes "audited d" "is_account t" "ledger_step d t = Some d'"
  shows "same_reserved d d'"
proof (cases t)
  case (TRegister cfg hash uid pid wid served e p n)
  have "same_reserved d (snd (Register cfg hash uid pid wid served e p n d))"
    unfolding Register_def Let_def
    by (auto split: option.split intro!: InTx_same_reserved simp: and_then_Inr;
        (rule account_reserved [OF assms(1)]; assumption))
  with TRegister assms(3) show ?thesis by simp
next
  case (TProviderWallet i p)
  then show ?thesis
    using assms(1,3) CreateWallet_audited
    by (auto simp: same_reserved_def split: sum.splits option.split)
next
  case (TAdjust served u tg a re)
  have "same_reserved d (snd (AdjustWallet served u tg a re d))"
    unfolding AdjustWallet_def AdminAdjust_def Let_def
    by (auto split: option.splits intro!: InTx_same_reserved adjust_reserved [OF assms(1)] simp: and_then_Inr
        simp del: append.simps)
  with TAdjust assms(3) show ?thesis by simp
qed (use assms(2) in auto)

end
