(* ===== verification/Settlement.thy ===== *)
theory Settlement
  imports ChatRequest
begin

text \<open>
  What the chat requests of the server guarantee together: the invariants \<open>accounted\<close>, by which every
  reserved credit belongs to a request under way or to a failed release, and \<open>billed\<close>, by which every
  usage record is the bill of one finished request, their preservation by every step, and the properties
  of reservation, settlement and termination that follow. \<open>demo_events\<close> follows one request through.
\<close>

section \<open>Every reserved credit is accounted for\<close>

definition chat_ok :: "db \<Rightarrow> chat \<Rightarrow> bool" where
  "chat_ok d c \<longleftrightarrow> (holding_phase (ct_phase c) \<longrightarrow> funds d (ct_wallet c) \<noteq> None \<and> 0 < sint (ct_reserved c))
     \<and> (\<forall>x. ct_phase c = Settling x \<longrightarrow> (\<exists>oor n u. x = settlement_of oor c n u))"

lemma settlement_of_sel [simp]:
  "se_UserWalletID (settlement_of oor c n u) = ct_wallet c"
  "se_ReservedCredits (settlement_of oor c n u) = ct_reserved c"
  "se_JobID (settlement_of oor c n u) = ct_job c"
  by (simp_all add: settlement_of_def Let_def split: prod.split)

lemma settlement_of_phase [simp]: "settlement_of oor (c\<lparr>ct_phase := p\<rparr>) n u = settlement_of oor c n u"
proof -
  have e: "ct_chars (c\<lparr>ct_phase := p\<rparr>) = ct_chars c"
    "ct_input_price (c\<lparr>ct_phase := p\<rparr>) = ct_input_price c"
    "ct_output_price (c\<lparr>ct_phase := p\<rparr>) = ct_output_price c"
    "ct_reserved (c\<lparr>ct_phase := p\<rparr>) = ct_reserved c"
    "ct_wallet (c\<lparr>ct_phase := p\<rparr>) = ct_wallet c"
    "ct_ratio (c\<lparr>ct_phase := p\<rparr>) = ct_ratio c"
    "ct_job (c\<lparr>ct_phase := p\<rparr>) = ct_job c"
    "ct_user (c\<lparr>ct_phase := p\<rparr>) = ct_user c"
    "ct_provider (c\<lparr>ct_phase := p\<rparr>) = ct_provider c"
    by simp_all
  show ?thesis unfolding settlement_of_def e ..
qed

definition accounted :: "db \<Rightarrow> chat list \<Rightarrow> (string \<times> int64) list \<Rightarrow> bool" where
  "accounted d cs ls \<longleftrightarrow> audited d
     \<and> (\<forall>w b v. funds d w = Some (b, v) \<longrightarrow> v = held w cs + leaked w ls)
     \<and> (\<forall>c \<in> set cs. chat_ok d c)
     \<and> (\<forall>p \<in> set ls. funds d (fst p) \<noteq> None \<and> 0 < sint (snd p))"

lemma held_absent: "\<forall>c \<in> set cs. chat_ok d c \<Longrightarrow> funds d w = None \<Longrightarrow> held w cs = 0"
  by (induction cs) (auto simp: held_def held_by_def chat_ok_def)

lemma leaked_absent: "\<forall>p \<in> set ls. funds d (fst p) \<noteq> None \<and> 0 < sint (snd p) \<Longrightarrow> funds d w = None \<Longrightarrow> leaked w ls = 0"
  by (induction ls) (auto simp: leaked_def)

lemma leaked_nonneg: "\<forall>p \<in> set ls. funds d (fst p) \<noteq> None \<and> 0 < sint (snd p) \<Longrightarrow> 0 \<le> leaked w ls"
  by (induction ls) (auto simp: leaked_def)

lemma held_nonneg: "\<forall>c \<in> set cs. chat_ok d c \<Longrightarrow> 0 \<le> held w cs"
  by (induction cs) (auto simp: held_def held_by_def chat_ok_def)

lemma held_includes:
  "\<forall>c \<in> set cs. chat_ok d c \<Longrightarrow> c \<in> set cs \<Longrightarrow> held_by w c \<le> held w cs"
proof (induction cs)
  case (Cons a cs)
  have "0 \<le> held_by w a" using Cons.prems(1) by (auto simp: held_by_def chat_ok_def)
  moreover have "0 \<le> held w cs" using held_nonneg [of cs d w] Cons.prems(1) by simp
  ultimately show ?case using Cons by (auto simp: held_def)
qed simp

lemma funds_fits: "audited d \<Longrightarrow> funds d w = Some (b, v) \<Longrightarrow> fits b \<and> fits v"
proof -
  assume a: "audited d" and f: "funds d w = Some (b, v)"
  then obtain r where r: "wallet_by_id w d = Some r" "b = sint (wr_balance r)" "v = sint (wr_reserved r)"
    by (auto simp: funds_def)
  then have "0 \<le> b" "0 \<le> v" using a wallet_by_id_set unfolding audited_def solvent_def by blast+
  with r sint_bounds show ?thesis by (simp add: fits_def)
qed

lemma chat_ok_mono:
  "chat_ok d c \<Longrightarrow> (\<And>w. funds d w \<noteq> None \<Longrightarrow> funds d' w \<noteq> None) \<Longrightarrow> chat_ok d' c"
  by (auto simp: chat_ok_def)

text \<open>One request moves: its holding and what it loses change with the reserved credits of the wallets.\<close>

lemma accounted_move:
  assumes "accounted d cs ls" "i < length cs" "audited d'" "chat_ok d' c"
    and m: "\<And>w b v. funds d w = Some (b, v) \<Longrightarrow>
         \<exists>b'. funds d' w = Some (b', v - held_by w (cs ! i) + held_by w c + leaked w lost)"
    and n: "\<And>w. funds d w = None \<Longrightarrow> funds d' w = None"
    and l: "\<And>p. p \<in> set lost \<Longrightarrow> funds d (fst p) \<noteq> None \<and> 0 < sint (snd p)"
  shows "accounted d' (cs[i := c]) (ls @ lost)"
proof -
  have mono: "funds d' w \<noteq> None" if "funds d w \<noteq> None" for w
    using that m by (cases "funds d w") force+
  have "v' = held w (cs[i := c]) + leaked w (ls @ lost)" if f: "funds d' w = Some (b', v')" for w b' v'
  proof (cases "funds d w")
    case None
    with n f show ?thesis by simp
  next
    case (Some h)
    obtain b v where h: "h = (b, v)" by (cases h)
    with Some assms(1) have "v = held w cs + leaked w ls" by (simp add: accounted_def)
    with m [of w b v] Some h f assms(2) show ?thesis
      by (auto simp: held_update leaked_append)
  qed
  moreover have "\<forall>x \<in> set (cs[i := c]). chat_ok d' x"
    using assms(1,4) chat_ok_mono mono set_update_subset_insert [of cs i c] unfolding accounted_def by blast
  moreover have "\<forall>p \<in> set (ls @ lost). funds d' (fst p) \<noteq> None \<and> 0 < sint (snd p)"
    using assms(1) l mono unfolding accounted_def set_append by blast
  ultimately show ?thesis using assms(3) by (simp add: accounted_def)
qed

text \<open>A step that leaves the funds alone only has to keep what the request holds.\<close>

lemma accounted_still:
  assumes "accounted d cs ls" "i < length cs" "audited d'" "funds d' = funds d" "chat_ok d' c"
    "\<And>w. held_by w c = held_by w (cs ! i)"
  shows "accounted d' (cs[i := c]) ls"
  using accounted_move [OF assms(1-3,5), of "[]"] assms(4,6) by simp

lemma jobs_frame:
  "audited (d\<lparr>db_jobs := x\<rparr>) = audited d" "funds (d\<lparr>db_jobs := x\<rparr>) = funds d"
  by (rule audited_frame; simp)+

lemma Mark_frame:
  "funds (MarkJobDispatched served j d) = funds d" "audited (MarkJobDispatched served j d) = audited d"
  "funds (MarkJobFailed served j st c m d) = funds d" "audited (MarkJobFailed served j st c m d) = audited d"
  by (simp_all add: MarkJobDispatched_def MarkJobFailed_def jobs_frame)

lemma release_chat_accounted:
  assumes a: "accounted d cs ls" "i < length cs" and h: "holding_phase (ct_phase (cs ! i))"
    and r: "release_chat served reason (cs ! i) d = (d', lost)"
    and p: "\<not> holding_phase ph"
  shows "accounted d' (cs[i := (cs ! i)\<lparr>ct_phase := ph\<rparr>]) (ls @ lost)"
proof -
  let ?c = "cs ! i"
  have ok: "chat_ok d ?c" "audited d" using a by (simp_all add: accounted_def)
  then have f: "funds d (ct_wallet ?c) \<noteq> None" "0 < sint (ct_reserved ?c)"
    using h by (simp_all add: chat_ok_def)
  have hb: "held_by w ?c = (if ct_wallet ?c = w then sint (ct_reserved ?c) else 0)"
    "held_by w (?c\<lparr>ct_phase := ph\<rparr>) = 0" for w
    using h p by (simp_all add: held_by_def)
  have c: "chat_ok d' (?c\<lparr>ct_phase := ph\<rparr>)"
    using p by (auto simp: chat_ok_def)
  show ?thesis
  proof (cases "Release served (ct_wallet ?c) (ct_reserved ?c) reason d")
    case (Pair q d1)
    show ?thesis
    proof (cases q)
      case (Inl e)
      with r Pair have "d' = d" "lost = [(ct_wallet ?c, ct_reserved ?c)]"
        using release_refused by (auto simp: release_chat_def)
      then show ?thesis using ok f hb c by (intro accounted_move [OF a]) auto
    next
      case (Inr y)
      with r Pair have d': "d' = d1" "lost = []" by (auto simp: release_chat_def)
      obtain b v where "funds d (ct_wallet ?c) = Some (b, v)"
        "funds d' = (funds d)(ct_wallet ?c \<mapsto> (b + sint (ct_reserved ?c), v - sint (ct_reserved ?c)))" "audited d'"
        using release_effect [OF ok(2) Pair [unfolded Inr]] d' by blast
      then show ?thesis using hb c d' by (intro accounted_move [OF a]) (auto split: if_splits)
    qed
  qed
qed

lemma advance_accounted:
  assumes a: "accounted d cs ls" "i < length cs"
    and s: "advance served (ct_phase (cs ! i)) (cs ! i) d = Some (c, d', lost)"
  shows "accounted d' (cs[i := c]) (ls @ lost)"
proof -
  let ?c = "cs ! i"
  have ok: "chat_ok d ?c" "audited d" using a by (simp_all add: accounted_def)
  show ?thesis
  proof (cases "ct_phase ?c")
    case Reserving
    obtain q d1 where r: "ReserveForUser served (ct_user ?c) (ct_reserved ?c) ''chat_completion_reservation'' d = (q, d1)"
      by (cases "ReserveForUser served (ct_user ?c) (ct_reserved ?c) ''chat_completion_reservation'' d")
    show ?thesis
    proof (cases q)
      case (Inl e)
      with r reserve_refused have "d1 = d" by blast
      with s Reserving r Inl show ?thesis
        using accounted_still [OF a ok(2) refl] by (auto simp: held_by_def chat_ok_def)
    next
      case (Inr w)
      with s Reserving r have c: "c = ?c\<lparr>ct_phase := Marking, ct_wallet := w\<rparr>" "d' = d1" "lost = []" by auto
      obtain b v where f: "funds d w = Some (b, v)" "0 < sint (ct_reserved ?c)" "audited d'"
        "funds d' = (funds d)(w \<mapsto> (b - sint (ct_reserved ?c), v + sint (ct_reserved ?c)))"
        using reserve_effect [OF ok(2) r [unfolded Inr]] c by blast
      show ?thesis
        using f c Reserving by (intro accounted_move [OF a]) (auto simp: held_by_def chat_ok_def split: if_splits)
    qed
  next
    case Marking
    with s have c: "c = ?c\<lparr>ct_phase := Waiting\<rparr>" "d' = MarkJobDispatched served (ct_job ?c) d" "lost = []" by auto
    then show ?thesis
      using accounted_still [OF a, of d' c] ok Marking by (simp add: Mark_frame held_by_def chat_ok_def)
  next
    case (Returning reason code m)
    then show ?thesis
      using release_chat_accounted [OF a, of served reason d' lost] s by (auto split: prod.splits)
  next
    case (Failing code m)
    with s have c: "c = ?c\<lparr>ct_phase := Closed\<rparr>" "d' = MarkJobFailed served (ct_job ?c) ''failed'' code m d" "lost = []" by auto
    then show ?thesis
      using accounted_still [OF a, of d' c] ok Failing by (simp add: Mark_frame held_by_def chat_ok_def)
  next
    case (Settling x)
    have x: "se_UserWalletID x = ct_wallet ?c" "se_ReservedCredits x = ct_reserved ?c"
      and f: "funds d (ct_wallet ?c) \<noteq> None"
      using ok(1) Settling by (auto simp: chat_ok_def)
    obtain b v where bv: "funds d (ct_wallet ?c) = Some (b, v)" using f by auto
    obtain q d1 where r: "FinalizeUsage served x d = (q, d1)" by (cases "FinalizeUsage served x d")
    show ?thesis
    proof (cases q)
      case (Inl e)
      with r settle_refused have "d1 = d" by blast
      with s Settling r Inl show ?thesis
        using accounted_still [OF a ok(2) refl] ok(1) by (auto simp: held_by_def chat_ok_def)
    next
      case (Inr y)
      with s Settling r have c: "c = ?c\<lparr>ct_phase := Closed\<rparr>" "d' = d1" "lost = []" by auto
      show ?thesis
        using settle_effect [OF ok(2) r [unfolded Inr]] bv x c Settling
        by (intro accounted_move [OF a]) (auto simp: held_by_def chat_ok_def split: if_splits)
    qed
  next
    case Unsettled
    then show ?thesis
      using release_chat_accounted [OF a, of served "''settlement_failed_release''" d' lost] s by (auto split: prod.splits)
  qed (use s in auto)
qed

section \<open>Every request is billed at most once\<close>

definition bill_of :: "chat \<Rightarrow> usage_row \<Rightarrow> bool" where
  "bill_of c u \<longleftrightarrow> ct_phase c = Closed \<and> ug_job_id u = ct_job c \<and> ug_user_id u = ct_user c
     \<and> ug_provider_id u = ct_provider c \<and> 0 \<le> sint (ug_cost u) \<and> sint (ug_cost u) \<le> sint (ct_reserved c)"

definition job_ids :: "db \<Rightarrow> string set" where
  "job_ids d = jr_id ` set (db_jobs d)"

definition billed :: "db \<Rightarrow> chat list \<Rightarrow> bool" where
  "billed d cs \<longleftrightarrow> distinct (map ct_job cs) \<and> ct_job ` set cs \<subseteq> job_ids d
     \<and> distinct (map ug_job_id (db_usage d)) \<and> (\<forall>u \<in> set (db_usage d). \<exists>c \<in> set cs. bill_of c u)"

definition same_bills :: "db \<Rightarrow> db \<Rightarrow> bool" where
  "same_bills d d' \<longleftrightarrow> db_usage d' = db_usage d \<and> job_ids d' = job_ids d"

lemma same_bills_refl [simp]: "same_bills d d"
  by (simp add: same_bills_def)

lemma Mark_bills:
  "same_bills d (MarkJobDispatched served j d)" "same_bills d (MarkJobFailed served j st c m d)"
  by (simp_all add: MarkJobDispatched_def MarkJobFailed_def same_bills_def job_ids_def flip: set_map)
    (simp_all add: map_key_update_by)

lemma InTx_bills: "(\<And>x d'. f d = Inr (x, d') \<Longrightarrow> same_bills d d') \<Longrightarrow> same_bills d (snd (InTx served f d))"
  by (auto simp: InTx_def split: sum.split prod.split)

lemma addLedger_bills: "addLedger i t a r re c d = Inr d' \<Longrightarrow> same_bills d d'"
  using addLedger_keeps by (fastforce simp: same_bills_def job_ids_def)

lemma reserve_bills: "ReserveForUser served u a re d = (q, d') \<Longrightarrow> same_bills d d'"
  using InTx_bills [of _ d served] addLedger_bills
  by (fastforce simp: ReserveForUser_def InTx_def split: if_splits option.splits sum.splits prod.splits)

lemma release_bills: "Release served w a re d = (q, d') \<Longrightarrow> same_bills d d'"
  using InTx_bills [of _ d served] addLedger_bills
  by (fastforce simp: Release_def InTx_def split: if_splits sum.splits prod.splits)

lemma release_chat_bills: "release_chat served re c d = (d', lost) \<Longrightarrow> same_bills d d'"
  using release_bills by (fastforce simp: release_chat_def split: prod.splits sum.splits)

lemma create_wallet_bills: "CreateWallet i t j d = Inr d' \<Longrightarrow> same_bills d d'"
  by (auto simp: CreateWallet_def same_bills_def job_ids_def split: if_splits)

lemma account_step_bills: "is_account t \<Longrightarrow> ledger_step d t = Some d' \<Longrightarrow> same_bills d d'"
proof (cases t)
  case (TRegister cfg hash uid pid wid served e p n)
  assume "ledger_step d t = Some d'"
  moreover have b: "same_bills d d3"
    if "CreateUser u d = Inr d1" "CreateWallet wid ''user'' uid d1 = Inr d2"
       "addLedger wid x a r re c d2 = Inr d3" for u d1 d2 d3 x a r re c
    using that create_wallet_bills [OF that(2)] addLedger_bills [OF that(3)]
    by (auto simp: CreateUser_def same_bills_def job_ids_def split: if_splits)
  have "same_bills d (snd (Register cfg hash uid pid wid served e p n d))"
    unfolding Register_def Let_def
    by (auto split: option.split intro!: InTx_bills simp: and_then_Inr dest: b)
  ultimately show ?thesis using TRegister by simp
next
  case (TAdjust served u tg a re)
  assume "ledger_step d t = Some d'"
  moreover have "same_bills d (snd (AdjustWallet served u tg a re d))"
    unfolding AdjustWallet_def AdminAdjust_def Let_def
    by (auto split: option.splits intro!: InTx_bills simp: and_then_Inr simp del: append.simps
        dest!: addLedger_bills) (simp_all add: same_bills_def job_ids_def)
  ultimately show ?thesis using TAdjust by simp
qed (use create_wallet_bills in \<open>auto split: sum.splits\<close>)

lemma settle_bills:
  assumes "FinalizeUsage served x d = (Inr y, d')"
  shows "\<exists>u. db_usage d' = db_usage d @ [u] \<and> job_ids d' = job_ids d \<and> se_JobID x \<notin> ug_job_id ` set (db_usage d)
     \<and> ug_job_id u = se_JobID x \<and> ug_user_id u = se_UserID x \<and> ug_provider_id u = se_ProviderID x
     \<and> ug_cost u = se_ActualCostCredits x \<and> 0 \<le> sint (se_ActualCostCredits x)"
proof -
  have n: "0 \<le> sint (se_ActualCostCredits x)"
    using assms by (auto simp: FinalizeUsage_def sless_sint split: if_splits)
  obtain c1 t1 a1 r1 e1 c2 t2 a2 r2 e2 c3 t3 a3 r3 e3 d1 d2 d3 d4 where
    l: "ledger_if c1 (se_UserWalletID x) t1 a1 r1 e1 d = Inr d1" "ledger_if c2 (se_UserWalletID x) t2 a2 r2 e2 d1 = Inr d2"
      "ledger_if c3 (se_UserWalletID x) t3 a3 r3 e3 d2 = Inr d3"
    and r: "record_usage x d3 = Inr d4" "d' = job_succeeded x d4"
    using assms by (auto simp: FinalizeUsage_def and_then_Inr dest!: InTx_Inr split: if_splits)
  have "db_usage d3 = db_usage d" "db_jobs d3 = db_jobs d"
    using ledger_if_keeps [OF l(1)] ledger_if_keeps [OF l(2)] ledger_if_keeps [OF l(3)] by simp_all
  moreover have "job_ids (job_succeeded x d4) = job_ids d4" "db_usage (job_succeeded x d4) = db_usage d4"
    by (simp_all add: job_succeeded_def job_ids_def map_key_update_by flip: set_map)
  ultimately show ?thesis
    using r n by (auto simp: record_usage_def job_ids_def split: if_splits)
qed

lemma settlement_bill:
  "se_UserID (settlement_of oor c n u) = ct_user c" "se_ProviderID (settlement_of oor c n u) = ct_provider c"
  "sint (se_ActualCostCredits (settlement_of oor c n u)) \<le> sint (ct_reserved c)"
  by (auto simp: settlement_of_def Let_def sless_sint split: prod.split)

text \<open>A step of one request keeps its identity; a closed one makes none.\<close>

lemma advance_keeps:
  "advance served (ct_phase c) c d = Some (c', d', lost) \<Longrightarrow>
     ct_phase c \<noteq> Closed \<and> ct_job c' = ct_job c \<and> ct_user c' = ct_user c \<and> ct_provider c' = ct_provider c
     \<and> ct_reserved c' = ct_reserved c"
  by (cases "ct_phase c") (auto simp: Let_def split: prod.splits sum.splits)

lemma billed_move:
  assumes "billed d cs" "i < length cs" "ct_phase (cs ! i) \<noteq> Closed" "ct_job c = ct_job (cs ! i)" "same_bills d d'"
  shows "billed d' (cs[i := c])"
proof -
  have m: "map ct_job (cs[i := c]) = map ct_job cs"
    using assms(2,4) by (simp add: map_update list_update_same_conv)
  then have "ct_job ` set (cs[i := c]) = ct_job ` set cs" by (metis set_map)
  moreover have "\<exists>e \<in> set (cs[i := c]). bill_of e u" if "u \<in> set (db_usage d)" for u
  proof -
    obtain e where e: "e \<in> set cs" "bill_of e u" using assms(1) \<open>u \<in> set (db_usage d)\<close> by (auto simp: billed_def)
    then obtain k where k: "k < length cs" "cs ! k = e" by (auto simp: in_set_conv_nth)
    with e(2) assms(3) have "k \<noteq> i" by (auto simp: bill_of_def)
    with k have "cs[i := c] ! k = e" "k < length (cs[i := c])" by simp_all
    with e(2) show ?thesis by (metis nth_mem)
  qed
  ultimately show ?thesis using assms(1,5) m by (simp add: billed_def same_bills_def)
qed

lemma billed_settled:
  assumes "billed d cs" "i < length cs" "ct_phase (cs ! i) \<noteq> Closed" "ct_job c = ct_job (cs ! i)"
    "db_usage d' = db_usage d @ [u]" "job_ids d' = job_ids d" "bill_of c u" "ug_job_id u \<notin> ug_job_id ` set (db_usage d)"
  shows "billed d' (cs[i := c])"
proof -
  have b: "billed d (cs[i := c])" by (rule billed_move [OF assms(1-4)]) simp
  have "c \<in> set (cs[i := c])" using assms(2) by (rule set_update_memI)
  with b assms(5-8) show ?thesis by (auto simp: billed_def)
qed

lemma advance_billed:
  assumes b: "billed d cs" "i < length cs" and ok: "chat_ok d (cs ! i)"
    and s: "advance served (ct_phase (cs ! i)) (cs ! i) d = Some (c, d', lost)"
  shows "billed d' (cs[i := c])"
proof -
  note k = advance_keeps [OF s]
  have keep: "billed d' (cs[i := c])" if "same_bills d d'"
    using billed_move [OF b _ _ that] k by blast
  show ?thesis
  proof (cases "ct_phase (cs ! i)")
    case (Settling x)
    obtain q d1 where r: "FinalizeUsage served x d = (q, d1)" by (cases "FinalizeUsage served x d")
    show ?thesis
    proof (cases q)
      case (Inl e)
      with r settle_refused have "d1 = d" by blast
      with s Settling r Inl show ?thesis by (intro keep) auto
    next
      case (Inr y)
      with s Settling r have c: "c = (cs ! i)\<lparr>ct_phase := Closed\<rparr>" "d' = d1" by auto
      obtain oor n v where x: "x = settlement_of oor (cs ! i) n v" using ok Settling by (auto simp: chat_ok_def)
      obtain u where u: "db_usage d' = db_usage d @ [u]" "job_ids d' = job_ids d"
        "se_JobID x \<notin> ug_job_id ` set (db_usage d)" "ug_job_id u = se_JobID x" "ug_user_id u = se_UserID x"
        "ug_provider_id u = se_ProviderID x" "ug_cost u = se_ActualCostCredits x" "0 \<le> sint (se_ActualCostCredits x)"
        using settle_bills [OF r [unfolded Inr]] c(2) by blast
      have "bill_of c u" using u settlement_bill [of oor "cs ! i" n v] by (simp add: bill_of_def c(1) x)
      with billed_settled [OF b _ _ u(1,2)] k u(3,4) show ?thesis by auto
    qed
  next
    case Reserving
    then show ?thesis using s reserve_bills
      by (intro keep) (fastforce split: prod.splits sum.splits)
  next
    case Marking
    then show ?thesis using s Mark_bills by (intro keep) auto
  next
    case (Returning r e m)
    then show ?thesis using s release_chat_bills by (intro keep) (fastforce split: prod.splits)
  next
    case (Failing e m)
    then show ?thesis using s Mark_bills by (intro keep) auto
  next
    case Unsettled
    then show ?thesis using s release_chat_bills by (intro keep) (fastforce split: prod.splits)
  qed (use s in auto)
qed

lemma create_job_bills:
  assumes "CreateInferenceJob served j u r d = (q, d')"
  shows "db_usage d' = db_usage d \<and> (case q of Inl e \<Rightarrow> d' = d | Inr x \<Rightarrow> job_ids d' = insert j (job_ids d) \<and> j \<notin> job_ids d)"
  using assms by (auto simp: CreateInferenceJob_def InTx_def job_ids_def split: if_splits)

lemma billed_open:
  assumes "billed d cs" "db_usage d' = db_usage d" "job_ids d' = insert (ct_job c) (job_ids d)" "ct_job c \<notin> job_ids d"
  shows "billed d' (cs @ [c])"
  using assms unfolding billed_def by auto

section \<open>Histories of the server\<close>

definition server_accounted :: "server \<Rightarrow> bool" where
  "server_accounted s \<longleftrightarrow> accounted (sv_db s) (sv_chats s) (sv_leaked s)"

lemma account_accounted:
  assumes "accounted d cs ls" "same_reserved d d'" "audited d'"
  shows "accounted d' cs ls"
proof -
  have r: "case funds d w of None \<Rightarrow> (case funds d' w of None \<Rightarrow> True | Some (b, v) \<Rightarrow> v = 0)
     | Some (b, v) \<Rightarrow> (\<exists>b'. funds d' w = Some (b', v))" for w
    using assms(2) unfolding same_reserved_def by blast
  have mono: "funds d' w \<noteq> None" if "funds d w \<noteq> None" for w
    using that r [of w] by (auto split: option.splits)
  have "v' = held w cs + leaked w ls" if f: "funds d' w = Some (b', v')" for w b' v'
  proof (cases "funds d w")
    case None
    then have "held w cs = 0" "leaked w ls = 0"
      using assms(1) held_absent leaked_absent unfolding accounted_def by blast+
    with None r [of w] f show ?thesis by simp
  next
    case (Some h)
    with r [of w] f assms(1) show ?thesis by (cases h) (auto simp: accounted_def)
  qed
  moreover have "\<forall>c \<in> set cs. chat_ok d' c"
    using assms(1) chat_ok_mono mono unfolding accounted_def by blast
  moreover have "\<forall>p \<in> set ls. funds d' (fst p) \<noteq> None \<and> 0 < sint (snd p)"
    using assms(1) mono unfolding accounted_def by blast
  ultimately show ?thesis using assms(3) by (simp add: accounted_def)
qed

lemma create_job_frame:
  "CreateInferenceJob served j u r d = (q, d') \<Longrightarrow> funds d' = funds d \<and> audited d' = audited d"
  by (auto simp: CreateInferenceJob_def InTx_def jobs_frame split: if_splits)

lemma job_accounted:
  assumes "accounted d cs ls" "funds d' = funds d" "audited d'"
  shows "accounted d' cs ls"
  using assms by (auto simp: accounted_def chat_ok_def)

lemma open_accounted:
  assumes "accounted d cs ls" "ct_phase c = Reserving"
  shows "accounted d (cs @ [c]) ls"
  using assms by (auto simp: accounted_def chat_ok_def held_append held_by_def)

lemma answered_holding: "holding_phase (answered oor c r)"
  by (simp add: answered_def split: reply.split)

lemma server_accounted_step: "server_accounted s \<Longrightarrow> server_step oor s e = Some t \<Longrightarrow> server_accounted t"
proof (cases e)
  case (Open served job u p ch req def ip op ratio)
  assume i: "server_accounted s" and t: "server_step oor s e = Some t"
  let ?r = "reservation oor ch (max_tokens req def) ip op"
  obtain q d where q: "CreateInferenceJob served job u ?r (sv_db s) = (q, d)"
    by (cases "CreateInferenceJob served job u ?r (sv_db s)")
  have "funds d = funds (sv_db s)" "audited d"
    using create_job_frame [OF q] i by (simp_all add: server_accounted_def accounted_def)
  with i have a: "accounted d (sv_chats s) (sv_leaked s)"
    using job_accounted unfolding server_accounted_def by blast
  show ?thesis
  proof (cases q)
    case (Inl x)
    with t Open q a show ?thesis by (auto simp: server_accounted_def Let_def)
  next
    case (Inr x)
    with t Open q open_accounted [OF a] show ?thesis by (auto simp: server_accounted_def Let_def)
  qed
next
  case (Advance n served)
  assume i: "server_accounted s" and t: "server_step oor s e = Some t"
  then show ?thesis
    using Advance advance_accounted by (auto simp: server_accounted_def split: if_splits)
next
  case (AnswerTo n r)
  assume i: "server_accounted s" and t: "server_step oor s e = Some t"
  let ?c = "sv_chats s ! n" and ?a = "answered oor (sv_chats s ! n) r"
  have n: "n < length (sv_chats s)" "ct_phase ?c = Waiting"
    and t': "t = s\<lparr>sv_chats := (sv_chats s)[n := ?c\<lparr>ct_phase := ?a\<rparr>]\<rparr>"
    using t AnswerTo by (auto split: if_splits)
  have ok: "chat_ok (sv_db s) ?c" "audited (sv_db s)"
    using i n(1) by (simp_all add: server_accounted_def accounted_def)
  have "\<exists>oor m u. x = settlement_of oor ?c m u" if "?a = Settling x" for x
    using that by (auto simp: answered_def split: reply.splits if_splits)
  then have "chat_ok (sv_db s) (?c\<lparr>ct_phase := ?a\<rparr>)"
    using ok(1) n(2) answered_holding by (simp add: chat_ok_def)
  then have "accounted (sv_db s) ((sv_chats s)[n := ?c\<lparr>ct_phase := ?a\<rparr>]) (sv_leaked s)"
    using accounted_still [OF i [unfolded server_accounted_def] n(1) ok(2) refl] n(2)
    by (simp add: held_by_def answered_holding)
  then show ?thesis by (simp add: t' server_accounted_def)
next
  case (Account x)
  assume i: "server_accounted s" and t: "server_step oor s e = Some t"
  obtain d where d: "is_account x" "ledger_step (sv_db s) x = Some d" "t = s\<lparr>sv_db := d\<rparr>"
    using t Account by (auto split: if_splits)
  have a: "accounted (sv_db s) (sv_chats s) (sv_leaked s)" "audited (sv_db s)"
    using i by (simp_all add: server_accounted_def accounted_def)
  have "accounted d (sv_chats s) (sv_leaked s)"
    using account_accounted [OF a(1)] account_step_reserved [OF a(2) d(1,2)] ledger_step_audited [OF a(2) d(2)]
    by blast
  then show ?thesis by (simp add: d(3) server_accounted_def)
qed

lemma server_accounted_start: "server_accounted server_start"
  by (simp add: server_accounted_def server_start_def accounted_def empty_audited)
    (simp add: funds_def wallet_by_id_def empty_db_def)

text \<open>A request that is not closed has no bill yet.\<close>

lemma billed_unsettled:
  assumes "billed d cs" "c \<in> set cs" "ct_phase c \<noteq> Closed"
  shows "ct_job c \<notin> ug_job_id ` set (db_usage d)"
proof
  assume "ct_job c \<in> ug_job_id ` set (db_usage d)"
  then obtain e where e: "e \<in> set cs" "ct_job e = ct_job c" "ct_phase e = Closed"
    using assms(1) by (force simp: billed_def bill_of_def)
  moreover have "inj_on ct_job (set cs)" using assms(1) by (simp add: billed_def distinct_map)
  ultimately show False using assms(2,3) by (metis inj_onD)
qed

lemma server_billed_step:
  assumes a: "server_accounted s" and b: "billed (sv_db s) (sv_chats s)" and t: "server_step oor s e = Some t"
  shows "billed (sv_db t) (sv_chats t)"
proof (cases e)
  case (Open served job u p ch req def ip op ratio)
  let ?r = "reservation oor ch (max_tokens req def) ip op"
  obtain q d where q: "CreateInferenceJob served job u ?r (sv_db s) = (q, d)"
    by (cases "CreateInferenceJob served job u ?r (sv_db s)")
  note c = create_job_bills [OF q]
  show ?thesis
  proof (cases q)
    case (Inl x)
    with t Open q c b show ?thesis by (auto simp: Let_def)
  next
    case (Inr x)
    with t Open q c billed_open [OF b] show ?thesis by (auto simp: Let_def)
  qed
next
  case (Advance n served)
  have "chat_ok (sv_db s) (sv_chats s ! n)" if "n < length (sv_chats s)"
    using a that by (simp add: server_accounted_def accounted_def)
  then show ?thesis
    using t Advance advance_billed [OF b, of n] by (auto split: if_splits)
next
  case (AnswerTo n r)
  then show ?thesis
    using t billed_move [OF b, of n _ "sv_db s"] by (auto split: if_splits)
next
  case (Account x)
  then obtain d where "is_account x" "ledger_step (sv_db s) x = Some d" "t = s\<lparr>sv_db := d\<rparr>"
    using t by (auto split: if_splits)
  with b account_step_bills show ?thesis by (fastforce simp: billed_def same_bills_def)
qed

definition server_inv :: "server \<Rightarrow> bool" where
  "server_inv s \<longleftrightarrow> server_accounted s \<and> billed (sv_db s) (sv_chats s)"

lemma server_inv_step: "server_inv s \<Longrightarrow> server_step oor s e = Some t \<Longrightarrow> server_inv t"
  using server_accounted_step server_billed_step unfolding server_inv_def by blast

lemma server_inv_start: "server_inv server_start"
  using server_accounted_start by (simp add: server_inv_def server_start_def billed_def empty_db_def)

interpretation server: page_machine "server_step oor" server_start server_inv
  by unfold_locales (auto intro: server_inv_step server_inv_start)

section \<open>How long a request takes\<close>

fun rank :: "phase \<Rightarrow> nat" where
  "rank Reserving = 5"
| "rank Marking = 4"
| "rank Waiting = 3"
| "rank (Returning r c m) = 2"
| "rank (Settling x) = 2"
| "rank Unsettled = 1"
| "rank (Failing c m) = 1"
| "rank Closed = 0"

lemma advance_rank:
  "advance served (ct_phase c) c d = Some (c', d', lost) \<Longrightarrow> rank (ct_phase c') < rank (ct_phase c)"
  by (cases "ct_phase c") (auto simp: Let_def split: prod.splits sum.splits)

lemma answered_rank: "rank (answered oor c r) = 2"
  by (simp add: answered_def split: reply.split)

lemma advance_enabled:
  "ct_phase c \<noteq> Closed \<Longrightarrow> ct_phase c \<noteq> Waiting \<Longrightarrow> advance served (ct_phase c) c d \<noteq> None"
  by (cases "ct_phase c") (auto simp: Let_def split: prod.splits)

section \<open>Properties\<close>

text \<open>C4: Every reserved credit is accounted for: after any interleaving of chat requests, registrations
  and adjustments, the reserved credits of a wallet are the reservations of its requests that are still
  under way plus those whose release has failed; with no request under way and no failed release
  nothing is reserved.\<close>

theorem reserved_accounted:
  assumes "run (server_step oor) server_start es = Some s" "funds (sv_db s) w = Some (b, v)"
  shows "v = held w (sv_chats s) + leaked w (sv_leaked s)
     \<and> ((\<forall>c \<in> set (sv_chats s). ct_phase c = Closed) \<and> sv_leaked s = [] \<longrightarrow> v = 0)"
proof -
  have "server_inv s" using assms(1) by (rule server.run_inv)
  then have v: "v = held w (sv_chats s) + leaked w (sv_leaked s)"
    using assms(2) by (simp add: server_inv_def server_accounted_def accounted_def)
  moreover have "held w cs = 0" if "\<forall>c \<in> set cs. ct_phase c = Closed" for cs
    using that by (induction cs) (auto simp: held_def held_by_def)
  ultimately show ?thesis by simp
qed

text \<open>C5: Every request is billed at most once and never beyond its reservation: in every reachable state
  no two usage records bill the same job, and each is the bill of one closed request, with its user and
  its provider and a cost between zero and what the request had reserved; a request under way has none.\<close>

theorem billed_once:
  assumes "run (server_step oor) server_start es = Some s"
  shows "distinct (map ug_job_id (db_usage (sv_db s)))
     \<and> (\<forall>u \<in> set (db_usage (sv_db s)). \<exists>c \<in> set (sv_chats s). ct_phase c = Closed \<and> ug_job_id u = ct_job c
          \<and> ug_user_id u = ct_user c \<and> ug_provider_id u = ct_provider c
          \<and> 0 \<le> sint (ug_cost u) \<and> sint (ug_cost u) \<le> sint (ct_reserved c))
     \<and> (\<forall>c \<in> set (sv_chats s). ct_phase c \<noteq> Closed \<longrightarrow> ct_job c \<notin> ug_job_id ` set (db_usage (sv_db s)))"
proof -
  have b: "billed (sv_db s) (sv_chats s)" using server.run_inv [OF assms] by (simp add: server_inv_def)
  then show ?thesis using billed_unsettled [OF b] unfolding billed_def bill_of_def by blast
qed



section \<open>A request followed through\<close>

text \<open>A request of 400 characters that reserves three credits and is priced at two.\<close>

definition demo_open :: server_event where
  "demo_open = Open True ''j'' ''u'' ''v'' 400 0 100 10 20 (1 / 2)"

definition demo_chat :: "phase \<Rightarrow> chat" where
  "demo_chat p = \<lparr>ct_job = ''j'', ct_user = ''u'', ct_provider = ''v'', ct_chars = 400, ct_input_price = 10,
     ct_output_price = 20, ct_ratio = 1 / 2, ct_reserved = 3, ct_wallet = ''w'', ct_phase = p\<rparr>"

definition demo_settlement :: settlement where
  "demo_settlement = \<lparr>se_UserWalletID = ''w'', se_ReservedCredits = 3, se_ActualCostCredits = 2,
     se_ProviderRewardCredits = 1, se_JobID = ''j'', se_UserID = ''u'', se_ProviderID = ''v'',
     se_InputTokens = 90, se_OutputTokens = 50, se_TokenSource = ''runtime_reported''\<rparr>"

definition demo_registered :: db where "demo_registered = the (ledger_step empty_db demo_account)"

definition demo_queued :: db where
  "demo_queued = snd (CreateInferenceJob True ''j'' ''u'' 3 demo_registered)"

definition demo_reserved :: db where
  "demo_reserved = snd (ReserveForUser True ''u'' 3 ''chat_completion_reservation'' demo_queued)"

definition demo_dispatched :: db where
  "demo_dispatched = MarkJobDispatched True ''j'' demo_reserved"

definition demo_server :: "phase \<Rightarrow> server" where
  "demo_server p = \<lparr>sv_db = demo_dispatched, sv_chats = [demo_chat p], sv_leaked = []\<rparr>"

lemma demo_prices:
  "PriceCredits 0 100 100 10 20 = 3" "PriceCredits 0 90 50 10 20 = 2" "ProviderReward 0 2 (1 / 2) = 1"
proof -
  show "PriceCredits 0 100 100 10 20 = 3" "PriceCredits 0 90 50 10 20 = 2"
    by (simp_all add: PriceCredits_words int64_of_def)
  have "fl64 2 = (2 :: rat)" "fl64 1 = (1 :: rat)" using fl64_int [of 2] fl64_int [of 1] by simp_all
  then show "ProviderReward 0 2 (1 / 2) = 1" by (simp add: ProviderReward_def int64_of_def)
qed

lemma demo_calls:
  "ledger_step empty_db demo_account = Some demo_registered"
  "CreateInferenceJob True ''j'' ''u'' 3 demo_registered = (Inr (), demo_queued)"
  "ReserveForUser True ''u'' 3 ''chat_completion_reservation'' demo_queued = (Inr ''w'', demo_reserved)"
  "funds demo_dispatched ''w'' = Some (997, 3)"
proof -
  show "ledger_step empty_db demo_account = Some demo_registered"
    by (simp add: demo_registered_def demo_account_def)
  have "fst (CreateInferenceJob True ''j'' ''u'' 3 demo_registered) = Inr ()" by code_simp
  then show "CreateInferenceJob True ''j'' ''u'' 3 demo_registered = (Inr (), demo_queued)"
    by (simp add: demo_queued_def prod_eq_iff)
  have "fst (ReserveForUser True ''u'' 3 ''chat_completion_reservation'' demo_queued) = Inr ''w''" by code_simp
  then show "ReserveForUser True ''u'' 3 ''chat_completion_reservation'' demo_queued = (Inr ''w'', demo_reserved)"
    by (simp add: demo_reserved_def prod_eq_iff)
  show "funds demo_dispatched ''w'' = Some (997, 3)" by code_simp
qed

lemma demo_priced: "settlement_of 0 (demo_chat p) 200 (Some (90, 50)) = demo_settlement"
  by (simp add: settlement_of_def demo_chat_def ValidateReportedTokens_def inReasonableRange_def demo_prices
      demo_settlement_def sless_sint)

definition demo_events :: "server_event list" where
  "demo_events = [Account demo_account, demo_open, Advance 0 True, Advance 0 True]"

lemma demo_run: "run (server_step 0) server_start demo_events = Some (demo_server Waiting)"
proof -
  have a: "is_account demo_account" by (simp add: demo_account_def)
  have r: "reservation 0 400 (max_tokens 0 100) 10 20 = 3"
    by (simp add: reservation_def max_tokens_def EstimateTokensFromChars_def demo_prices)
  show ?thesis
    by (simp add: demo_events_def server_start_def demo_open_def demo_calls a r demo_server_def demo_chat_def
        demo_dispatched_def)
qed

lemma demo_run_priced:
  "run (server_step 0) server_start (demo_events @ [AnswerTo 0 (Completion 200 (Some (90, 50)))])
     = Some (demo_server (Settling demo_settlement))"
proof -
  have "answered 0 (demo_chat Waiting) (Completion 200 (Some (90, 50))) = Settling demo_settlement"
    by (simp add: answered_def demo_priced)
  moreover have "demo_chat Waiting\<lparr>ct_phase := p\<rparr> = demo_chat p" for p by (simp add: demo_chat_def)
  ultimately show ?thesis
    by (simp add: run_append demo_run) (simp add: demo_server_def demo_chat_def)
qed

theorem reserved_accounted_witness:
  "funds (sv_db (demo_server Waiting)) ''w'' = Some (997, 3)
     \<and> 3 = held ''w'' (sv_chats (demo_server Waiting)) + leaked ''w'' (sv_leaked (demo_server Waiting))"
proof -
  have "funds (sv_db (demo_server Waiting)) ''w'' = Some (997, 3)" by (simp add: demo_server_def demo_calls)
  with reserved_accounted [OF demo_run this] show ?thesis by blast
qed

theorem billed_once_witness:
  "map ug_cost (db_usage (sv_db (the (server_step 0 (demo_server (Settling demo_settlement)) (Advance 0 True))))) = [2]
   \<and> distinct (map ug_job_id (db_usage (sv_db (the (server_step 0 (demo_server (Settling demo_settlement)) (Advance 0 True))))))"
proof -
  let ?s = "server_step 0 (demo_server (Settling demo_settlement)) (Advance 0 True)"
  obtain t where t: "?s = Some t" by (simp add: demo_server_def demo_chat_def)
  have "run (server_step 0) server_start
      ((demo_events @ [AnswerTo 0 (Completion 200 (Some (90, 50)))]) @ [Advance 0 True]) = Some t"
    by (simp add: run_append [of _ _ "_ @ _"] demo_run_priced t del: server_step.simps append_assoc)
  then have "distinct (map ug_job_id (db_usage (sv_db t)))" using billed_once by blast
  moreover have "map ug_cost (db_usage (sv_db (the ?s))) = [2]" by code_simp
  ultimately show ?thesis unfolding t option.sel by blast
qed



end
