(* ===== verification/Schema.thy ===== *)
theory Schema
  imports Settlement
begin

text \<open>
  The types of the schema: the tables of \<open>database/migrations/000001_init.up.sql\<close> restrict several text
  columns to enumerated values by \<open>CHECK\<close> constraints. \<open>well_typed\<close> states these constraints for the tables
  of the model; every step of the server keeps them, so that none of its statements is ever refused for
  one, and the variants that the web client distinguishes are all there are.
\<close>

section \<open>Constraints\<close>

definition user_roles :: "string list" where "user_roles = [''user'', ''admin'']"

definition user_statuses :: "string list" where "user_statuses = [''active'', ''disabled'']"

definition owner_types :: "string list" where "owner_types = [''user'', ''project'', ''provider'']"

definition entry_types :: "string list" where
  "entry_types = [''grant'', ''reserve'', ''release_reserve'', ''debit_usage'', ''credit_provider_reward'',
     ''admin_adjustment'', ''refund'']"

definition job_statuses :: "string list" where
  "job_statuses = [''queued'', ''dispatched'', ''running'', ''succeeded'', ''failed'', ''timed_out'', ''cancelled'']"

definition token_sources :: "string list" where "token_sources = [''runtime_reported'', ''server_estimated'']"

definition well_typed :: "db \<Rightarrow> bool" where
  "well_typed d \<longleftrightarrow>
     list_all (\<lambda>u. ur_role u \<in> set user_roles \<and> ur_status u \<in> set user_statuses) (db_users d)
   \<and> list_all (\<lambda>w. wr_owner_type w \<in> set owner_types) (db_wallets d)
   \<and> list_all (\<lambda>r. lr_entry_type r \<in> set entry_types) (db_ledger d)
   \<and> list_all (\<lambda>j. jr_status j \<in> set job_statuses) (db_jobs d)
   \<and> list_all (\<lambda>g. ug_token_source g \<in> set token_sources) (db_usage d)"

lemmas enumerations = user_roles_def user_statuses_def owner_types_def entry_types_def job_statuses_def
  token_sources_def

section \<open>Operations\<close>

lemma update_by_all: "list_all P xs \<Longrightarrow> (\<And>x. P x \<Longrightarrow> P (f x)) \<Longrightarrow> list_all P (update_by key i f xs)"
  by (auto simp: update_by_def list_all_iff)

lemma addLedger_typed:
  "well_typed d \<Longrightarrow> addLedger i t a r re c d = Inr d' \<Longrightarrow> t \<in> set entry_types \<Longrightarrow> well_typed d'"
  by (auto simp: addLedger_def well_typed_def Let_def intro!: update_by_all split: option.splits if_splits)

lemma ledger_if_typed:
  "well_typed d \<Longrightarrow> ledger_if b i t a r re d = Inr d' \<Longrightarrow> t \<in> set entry_types \<Longrightarrow> well_typed d'"
  by (auto simp: ledger_if_def intro: addLedger_typed split: if_splits)

lemma CreateWallet_typed:
  "well_typed d \<Longrightarrow> CreateWallet i t j d = Inr d' \<Longrightarrow> t \<in> set owner_types \<Longrightarrow> well_typed d'"
  by (auto simp: CreateWallet_def well_typed_def split: if_splits)

lemma CreateUser_typed:
  "well_typed d \<Longrightarrow> CreateUser u d = Inr d' \<Longrightarrow> ur_role u \<in> set user_roles \<Longrightarrow> ur_status u \<in> set user_statuses
     \<Longrightarrow> well_typed d'"
  by (auto simp: CreateUser_def well_typed_def split: if_splits)

lemma audit_typed [simp]: "well_typed (d\<lparr>db_audit := x\<rparr>) = well_typed d"
  by (simp add: well_typed_def)

text \<open>A release, a debit and a reward in one transaction, and the usage record.\<close>

lemma record_usage_typed:
  "well_typed d \<Longrightarrow> record_usage x d = Inr d' \<Longrightarrow> se_TokenSource x \<in> set token_sources \<Longrightarrow> well_typed d'"
  by (auto simp: record_usage_def well_typed_def or_text_def enumerations split: if_splits)

lemma job_succeeded_typed: "well_typed d \<Longrightarrow> well_typed (job_succeeded x d)"
  by (auto simp: job_succeeded_def well_typed_def enumerations intro!: update_by_all)

section \<open>Transactions\<close>

lemma Register_typed: "well_typed d \<Longrightarrow> well_typed (snd (Register cfg hash uid pid wid served e p n d))"
proof -
  assume d: "well_typed d"
  have "well_typed d'" if "CreateUser u d = Inr d1" "CreateWallet wid ''user'' uid d1 = Inr d2"
     "addLedger wid ''grant'' a 0 ''starting_free_credits'' None d2 = Inr d'"
     "ur_role u = (if b then ''admin'' else ''user'')" "ur_status u = ''active''" for u d1 d2 d' a b
    using CreateUser_typed [OF d that(1)] CreateWallet_typed [OF _ that(2)] addLedger_typed [OF _ that(3)] that(4,5)
    by (auto simp: enumerations split: if_splits)
  with d show ?thesis
    unfolding Register_def Let_def
    by (auto split: option.split intro!: InTx_inv [where P = well_typed] simp: and_then_Inr simp del: if_split)
qed

lemma AdjustWallet_typed: "well_typed d \<Longrightarrow> well_typed (snd (AdjustWallet served u t a re d))"
  unfolding AdjustWallet_def AdminAdjust_def Let_def
  by (auto split: option.splits intro!: InTx_inv [where P = well_typed] simp: and_then_Inr simp del: append.simps;
      (erule (1) addLedger_typed, simp add: enumerations))

lemma ReserveForUser_typed: "well_typed d \<Longrightarrow> well_typed (snd (ReserveForUser served i a re d))"
  unfolding ReserveForUser_def
  by (auto split: option.splits intro!: InTx_inv [where P = well_typed];
      (erule (1) addLedger_typed, simp add: enumerations))

lemma Release_typed: "well_typed d \<Longrightarrow> well_typed (snd (Release served i a re d))"
  unfolding Release_def
  by (auto intro!: InTx_inv [where P = well_typed]; (erule (1) addLedger_typed, simp add: enumerations))

lemma FinalizeUsage_typed:
  assumes "well_typed d" "se_TokenSource x \<in> set token_sources"
  shows "well_typed (snd (FinalizeUsage served x d))"
proof -
  have "well_typed (job_succeeded x d4)"
    if "ledger_if b1 i ''release_reserve'' a1 r1 e1 d = Inr d1" "ledger_if b2 i ''debit_usage'' a2 r2 e2 d1 = Inr d2"
      "ledger_if b3 i ''credit_provider_reward'' a3 r3 e3 d2 = Inr d3" "record_usage x d3 = Inr d4"
    for b1 i a1 r1 e1 d1 b2 a2 r2 e2 d2 b3 a3 r3 e3 d3 d4
    using ledger_if_typed [OF assms(1) that(1)] ledger_if_typed [OF _ that(2)] ledger_if_typed [OF _ that(3)]
      record_usage_typed [OF _ that(4) assms(2)] by (simp add: enumerations job_succeeded_typed)
  with assms(1) show ?thesis
    unfolding FinalizeUsage_def by (auto intro!: InTx_inv [where P = well_typed] simp: and_then_Inr)
qed

lemma job_rows_typed:
  assumes "well_typed d"
  shows "well_typed (MarkJobDispatched served i d)" "well_typed (MarkJobFailed served i ''failed'' c m d)"
    "well_typed (snd (CreateInferenceJob served i u r d))"
  using assms
  by (auto simp: MarkJobDispatched_def MarkJobFailed_def CreateInferenceJob_def InTx_def well_typed_def enumerations
      intro!: update_by_all)

lemma account_typed: "well_typed d \<Longrightarrow> is_account t \<Longrightarrow> ledger_step d t = Some d' \<Longrightarrow> well_typed d'"
  using Register_typed AdjustWallet_typed CreateWallet_typed
  by (cases t) (auto simp: enumerations split: sum.splits)

section \<open>The server\<close>

lemma settlement_source: "se_TokenSource (settlement_of oor c n u) \<in> set token_sources"
  by (auto simp: settlement_of_def ValidateReportedTokens_def Let_def enumerations split: option.split prod.split)

lemma release_chat_typed: "well_typed d \<Longrightarrow> release_chat served re c d = (d', lost) \<Longrightarrow> well_typed d'"
  using Release_typed [of d served "ct_wallet c" "ct_reserved c" re]
  by (auto simp: release_chat_def split: prod.splits sum.splits)

lemma advance_typed:
  assumes "well_typed d" "chat_ok d c" "advance served (ct_phase c) c d = Some (c', d', lost)"
  shows "well_typed d'"
proof (cases "ct_phase c")
  case Reserving
  with assms(1,3) ReserveForUser_typed [OF assms(1), of served "ct_user c" "ct_reserved c" "''chat_completion_reservation''"]
  show ?thesis by (auto split: prod.splits sum.splits)
next
  case (Settling x)
  then have "se_TokenSource x \<in> set token_sources" using assms(2) settlement_source by (auto simp: chat_ok_def)
  with Settling assms(1,3) FinalizeUsage_typed [OF assms(1), of x served] show ?thesis
    by (auto split: prod.splits sum.splits)
qed (use assms(1,3) release_chat_typed job_rows_typed in \<open>auto split: prod.splits\<close>)

definition typed_inv :: "server \<Rightarrow> bool" where
  "typed_inv s \<longleftrightarrow> server_inv s \<and> well_typed (sv_db s)"

lemma typed_step:
  assumes "typed_inv s" "server_step oor s e = Some t"
  shows "typed_inv t"
proof -
  have d: "well_typed (sv_db s)" and s: "server_inv s" using assms(1) by (simp_all add: typed_inv_def)
  have "well_typed (sv_db t)"
  proof (cases e)
    case (Open served job u p ch req def ip op ratio)
    let ?r = "reservation oor ch (max_tokens req def) ip op"
    obtain q d where q: "CreateInferenceJob served job u ?r (sv_db s) = (q, d)"
      by (cases "CreateInferenceJob served job u ?r (sv_db s)")
    then have "well_typed d" using job_rows_typed(3) [OF d, of served job u ?r] by simp
    with Open assms(2) q show ?thesis by (cases q) (auto simp: Let_def)
  next
    case (Advance i served)
    have "chat_ok (sv_db s) (sv_chats s ! i)" if "i < length (sv_chats s)"
      using s that by (simp add: server_inv_def server_accounted_def accounted_def)
    with Advance assms(2) advance_typed [OF d] show ?thesis by (auto split: if_splits)
  next
    case (AnswerTo i r)
    with d assms(2) show ?thesis by (auto split: if_splits)
  next
    case (Account x)
    with d assms(2) account_typed show ?thesis by (auto split: if_splits)
  qed
  with server_inv_step [OF s assms(2)] show ?thesis by (simp add: typed_inv_def)
qed

lemma typed_start: "typed_inv server_start"
  using server_inv_start by (simp add: typed_inv_def) (simp add: server_start_def empty_db_def well_typed_def)

interpretation typed_server: page_machine "server_step oor" server_start typed_inv
  by unfold_locales (rule typed_start, rule typed_step)

section \<open>Property\<close>

text \<open>C33: Type soundness of the tables: in every reachable state of the server every enumerated column, of the
  users, wallets, ledger entries, jobs and usage records, holds one of the values that the schema allows.\<close>

theorem tables_well_typed:
  assumes "run (server_step oor) server_start es = Some s"
  shows "list_all (\<lambda>u. ur_role u \<in> set user_roles \<and> ur_status u \<in> set user_statuses) (db_users (sv_db s))
   \<and> list_all (\<lambda>w. wr_owner_type w \<in> set owner_types) (db_wallets (sv_db s))
   \<and> list_all (\<lambda>r. lr_entry_type r \<in> set entry_types) (db_ledger (sv_db s))
   \<and> list_all (\<lambda>j. jr_status j \<in> set job_statuses) (db_jobs (sv_db s))
   \<and> list_all (\<lambda>g. ug_token_source g \<in> set token_sources) (db_usage (sv_db s))"
  using typed_server.run_inv [OF assms] by (simp add: typed_inv_def well_typed_def)

theorem tables_well_typed_witness:
  "list_all (\<lambda>r. lr_entry_type r \<in> set entry_types) (db_ledger (sv_db (demo_server Waiting)))
   \<and> db_ledger (sv_db (demo_server Waiting)) \<noteq> []"
proof -
  have "db_ledger (sv_db (demo_server Waiting)) \<noteq> []" by code_simp
  with tables_well_typed [OF demo_run] show ?thesis by blast
qed

end
