(* ===== verification/Accounts.thy ===== *)
theory Accounts
  imports Endpoints ChatRequest "HOL-Library.Sublist"
begin

text \<open>
  Signing up and in on the server: the handlers \<open>Register\<close>, \<open>Login\<close> and \<open>Me\<close> of
  \<open>apps/api/internal/handler/handlers.go\<close>, the check of the bearer token and the error answers of
  \<open>apps/api/internal/httpx\<close>, and the token functions of the authentication service. A handler takes the
  request that the client builds and gives the answer that the client reads. Password hashing and the
  signing of tokens are libraries and come in \<open>auth_env\<close>, as does the parser for bodies that are not JSON.
\<close>

section \<open>Answers\<close>

text \<open>\<open>absent\<close> is what the client reads of an object that has none of the fields it asks for.\<close>

definition Error :: "string \<Rightarrow> nat \<Rightarrow> string \<Rightarrow> string \<Rightarrow> 'a \<Rightarrow> 'a http" where
  "Error requestID status code message absent =
     Response status (JsonBody (Some \<lparr>ed_code = Some code, ed_message = Some message,
        ed_request_id = Some requestID\<rparr>) absent)"

definition Handle :: "string \<Rightarrow> 'a \<Rightarrow> svc_error \<Rightarrow> 'a http" where
  "Handle requestID absent err =
     (if err = ErrNotFound then Error requestID 404 ''not_found'' ''Resource not found.'' absent
      else if err = ErrInvalidInput then Error requestID 400 ''invalid_request'' ''Invalid request body.'' absent
      else if err = ErrInvalidCredentials then Error requestID 401 ''unauthorized'' ''Invalid credentials.'' absent
      else if err = ErrForbidden then Error requestID 403 ''forbidden'' ''Admin access required.'' absent
      else if err = ErrInsufficientCredits then Error requestID 402 ''insufficient_credits''
        ''The project does not have enough credits for this request.'' absent
      else if sublist ''duplicate key'' (error_message err)
        then Error requestID 400 ''invalid_request'' ''Resource already exists.'' absent
      else Error requestID 500 ''internal_error'' ''Internal server error.'' absent)"

definition OK :: "'a \<Rightarrow> 'a http" where
  "OK v = Response 200 (JsonBody None v)"

section \<open>The environment\<close>

record claims =
  cl_UserID :: string
  cl_Email :: string
  cl_Role :: string
  cl_ExpiresAt :: int

text \<open>Parsing a token checks it against the clock; times are in seconds.\<close>

record auth_env =
  ae_HashPassword :: "string \<Rightarrow> string option"
  ae_CheckPassword :: "string \<Rightarrow> string \<Rightarrow> bool"
  ae_SignJWT :: "string \<Rightarrow> claims \<Rightarrow> string option"
  ae_ParseJWT :: "int \<Rightarrow> string \<Rightarrow> string \<Rightarrow> claims option"
  ae_JWTSecret :: string
  ae_parse_other :: "request \<Rightarrow> string list option"

section \<open>Requests\<close>

text \<open>A text field of a JSON object: names compare without case, the last member counts, \<open>null\<close> leaves
  the field alone, and another type is an error.\<close>

fun string_field :: "string \<Rightarrow> string \<Rightarrow> (string \<times> json) list \<Rightarrow> string option" where
  "string_field name v [] = Some v"
| "string_field name v ((k, x) # ms) =
     (if lowercase k = name
      then (case x of JStr s \<Rightarrow> string_field name s ms | JNull \<Rightarrow> string_field name v ms | _ \<Rightarrow> None)
      else string_field name v ms)"

definition BodyParser :: "auth_env \<Rightarrow> string list \<Rightarrow> request \<Rightarrow> string list option" where
  "BodyParser env names r =
     (if get_header ''Content-Type'' (rq_headers r) = Some ''application/json''
      then (case rq_body r of
          Some (JObj ms) \<Rightarrow> those (map (\<lambda>n. string_field n [] ms) names)
        | Some JNull \<Rightarrow> Some (map (\<lambda>n. []) names)
        | _ \<Rightarrow> None)
      else ae_parse_other env r)"

definition bearer :: "request \<Rightarrow> string" where
  "bearer r = (case get_header ''Authorization'' (rq_headers r) of
       None \<Rightarrow> []
     | Some h \<Rightarrow> if prefix ''Bearer '' h then TrimSpace (drop 7 h) else [])"

section \<open>The authentication service\<close>

text \<open>A token is good for a day.\<close>

definition claims_of :: "int \<Rightarrow> user_row \<Rightarrow> claims" where
  "claims_of now u = \<lparr>cl_UserID = ur_public_id u, cl_Email = ur_email u, cl_Role = ur_role u,
     cl_ExpiresAt = now + 24 * 60 * 60\<rparr>"

definition signed_in :: "auth_env \<Rightarrow> int \<Rightarrow> user_row \<Rightarrow> svc_error + user_row \<times> string" where
  "signed_in env now u = (case ae_SignJWT env (ae_JWTSecret env) (claims_of now u) of
       None \<Rightarrow> Inl (DbError ''sign'') | Some t \<Rightarrow> Inr (u, t))"

definition AuthRegister :: "auth_env \<Rightarrow> int \<Rightarrow> server_config \<Rightarrow> string \<Rightarrow> string \<Rightarrow> string \<Rightarrow> bool
    \<Rightarrow> string \<Rightarrow> string \<Rightarrow> string \<Rightarrow> db \<Rightarrow> (svc_error + user_row \<times> string) \<times> db" where
  "AuthRegister env now cfg uid pid wid served email password displayName d =
     (case Register cfg (ae_HashPassword env) uid pid wid served email password displayName d of
        (r, d') \<Rightarrow> (and_then r (signed_in env now), d'))"

definition AuthLogin :: "auth_env \<Rightarrow> int \<Rightarrow> bool \<Rightarrow> string \<Rightarrow> string \<Rightarrow> db \<Rightarrow> svc_error + user_row \<times> string" where
  "AuthLogin env now served email password d =
     (if \<not> served then Inl ErrInvalidCredentials
      else and_then (Login (ae_CheckPassword env) email password d) (signed_in env now))"

definition UserByPublicID :: "bool \<Rightarrow> string \<Rightarrow> db \<Rightarrow> svc_error + user_row" where
  "UserByPublicID served publicID d =
     (if \<not> served then Inl (DbError ''unavailable'')
      else case find (\<lambda>u. ur_public_id u = publicID \<and> \<not> ur_deleted u) (db_users d) of
        None \<Rightarrow> Inl ErrNotFound | Some u \<Rightarrow> Inr u)"

definition UserFromJWT :: "auth_env \<Rightarrow> int \<Rightarrow> bool \<Rightarrow> string \<Rightarrow> db \<Rightarrow> svc_error + user_row" where
  "UserFromJWT env now served token d =
     (case ae_ParseJWT env now (ae_JWTSecret env) token of
        None \<Rightarrow> Inl ErrInvalidCredentials
      | Some c \<Rightarrow> UserByPublicID served (cl_UserID c) d)"

section \<open>Handlers\<close>

definition userResponse :: "user_row \<Rightarrow> user" where
  "userResponse u = \<lparr>u_id = ur_public_id u, u_email = ur_email u, u_display_name = ur_display_name u,
     u_role = ur_role u\<rparr>"

definition authResponse :: "user_row \<times> string \<Rightarrow> auth_response" where
  "authResponse r = \<lparr>ar_user = Some (userResponse (fst r)), ar_access_token = Some (snd r)\<rparr>"

definition respond :: "string \<Rightarrow> svc_error + user_row \<times> string \<Rightarrow> auth_response http" where
  "respond requestID r = (case r of Inl e \<Rightarrow> Handle requestID no_auth e | Inr x \<Rightarrow> OK (authResponse x))"

definition RegisterHandler :: "auth_env \<Rightarrow> int \<Rightarrow> server_config \<Rightarrow> string \<Rightarrow> string \<Rightarrow> string \<Rightarrow> bool \<Rightarrow> string
    \<Rightarrow> request \<Rightarrow> db \<Rightarrow> auth_response http \<times> db" where
  "RegisterHandler env now cfg uid pid wid served requestID r d =
     (case BodyParser env [''email'', ''password'', ''display_name''] r of
        Some [e, p, n] \<Rightarrow>
          (let (out, d') = AuthRegister env now cfg uid pid wid served e p n d in (respond requestID out, d'))
      | _ \<Rightarrow> (Error requestID 400 ''invalid_request'' ''Invalid request body.'' no_auth, d))"

definition LoginHandler :: "auth_env \<Rightarrow> int \<Rightarrow> bool \<Rightarrow> string \<Rightarrow> request \<Rightarrow> db \<Rightarrow> auth_response http" where
  "LoginHandler env now served requestID r d =
     (case BodyParser env [''email'', ''password''] r of
        Some [e, p] \<Rightarrow> respond requestID (AuthLogin env now served e p d)
      | _ \<Rightarrow> Error requestID 400 ''invalid_request'' ''Invalid request body.'' no_auth)"

definition DashboardAuth :: "auth_env \<Rightarrow> int \<Rightarrow> bool \<Rightarrow> string \<Rightarrow> 'a \<Rightarrow> request \<Rightarrow> db \<Rightarrow> (user_row \<Rightarrow> 'a http) \<Rightarrow> 'a http" where
  "DashboardAuth env now served requestID absent r d next =
     (let token = bearer r
      in if token = [] then Error requestID 401 ''unauthorized'' ''Missing bearer token.'' absent
         else case UserFromJWT env now served token d of
           Inl e \<Rightarrow> Handle requestID absent e
         | Inr u \<Rightarrow> next u)"

definition MeHandler :: "auth_env \<Rightarrow> int \<Rightarrow> bool \<Rightarrow> string \<Rightarrow> request \<Rightarrow> db \<Rightarrow> user option http" where
  "MeHandler env now served requestID r d =
     DashboardAuth env now served requestID None r d (\<lambda>u. OK (Some (userResponse u)))"

section \<open>Lemmas\<close>

lemma sign_in_user: "and_then r (signed_in env now) = Inr (u, t) \<longleftrightarrow>
    r = Inr u \<and> ae_SignJWT env (ae_JWTSecret env) (claims_of now u) = Some t"
  by (cases r) (auto simp: signed_in_def split: option.split)

lemma CreateWallet_users: "CreateWallet i t j d = Inr d' \<Longrightarrow> db_users d' = db_users d"
  by (auto simp: CreateWallet_def split: if_splits)

lemma CreateUser_users:
  "CreateUser u d = Inr d' \<Longrightarrow> db_users d' = db_users d @ [u]
     \<and> (\<forall>v \<in> set (db_users d). ur_public_id v \<noteq> ur_public_id u \<and> ur_email v \<noteq> ur_email u)"
  by (auto simp: CreateUser_def split: if_splits)

lemma Register_parts:
  assumes "Register cfg hash uid pid wid served e p n d = (Inr u, d')"
  shows "\<exists>h d1 d2. hash p = Some h \<and> CreateUser u d = Inr d1 \<and> CreateWallet wid ''user'' uid d1 = Inr d2
     \<and> addLedger wid ''grant'' (cfg_StartingFreeCredits cfg) 0 ''starting_free_credits'' None d2 = Inr d'
     \<and> u = \<lparr>ur_id = uid, ur_public_id = pid, ur_email = lowercase (TrimSpace e), ur_password_hash = h,
          ur_display_name = TrimSpace n,
          ur_role = if CountUsers d = 0 \<and> cfg_BootstrapFirstUserAdmin cfg then ''admin'' else ''user'',
          ur_status = ''active'', ur_deleted = False\<rparr>"
proof -
  have c: "\<not> (lowercase (TrimSpace e) = [] \<or> length p < 8 \<or> TrimSpace n = [])"
  proof
    assume "lowercase (TrimSpace e) = [] \<or> length p < 8 \<or> TrimSpace n = []"
    with assms show False by (simp add: Register_def Let_def)
  qed
  obtain h where h: "hash p = Some h"
  proof (cases "hash p")
    case None
    with assms show ?thesis unfolding Register_def Let_def if_not_P [OF c] by simp
  next
    case (Some h)
    then show ?thesis by (rule that)
  qed
  let ?u = "\<lparr>ur_id = uid, ur_public_id = pid, ur_email = lowercase (TrimSpace e), ur_password_hash = h,
      ur_display_name = TrimSpace n,
      ur_role = if CountUsers d = 0 \<and> cfg_BootstrapFirstUserAdmin cfg then ''admin'' else ''user'',
      ur_status = ''active'', ur_deleted = False\<rparr>"
  have "and_then (CreateUser ?u d) (\<lambda>d. and_then (CreateWallet wid ''user'' uid d) (\<lambda>d.
       on_value (\<lambda>d. (?u, d)) (addLedger wid ''grant'' (cfg_StartingFreeCredits cfg) 0 ''starting_free_credits'' None d)))
     = Inr (u, d')"
    using assms unfolding Register_def Let_def if_not_P [OF c] h option.case by (rule InTx_Inr)
  then show ?thesis unfolding and_then_Inr on_value_eq_Inr using h by blast
qed

lemma Register_users:
  assumes "Register cfg hash uid pid wid served e p n d = (Inr u, d')"
  shows "db_users d' = db_users d @ [u] \<and> (\<forall>v \<in> set (db_users d). ur_public_id v \<noteq> ur_public_id u \<and> ur_email v \<noteq> ur_email u)
     \<and> ur_email u = lowercase (TrimSpace e) \<and> ur_public_id u = pid \<and> ur_status u = ''active'' \<and> \<not> ur_deleted u
     \<and> hash p = Some (ur_password_hash u)
     \<and> ur_role u = (if CountUsers d = 0 \<and> cfg_BootstrapFirstUserAdmin cfg then ''admin'' else ''user'')"
proof -
  obtain h d1 d2 where s: "CreateUser u d = Inr d1" "CreateWallet wid ''user'' uid d1 = Inr d2"
    "addLedger wid ''grant'' (cfg_StartingFreeCredits cfg) 0 ''starting_free_credits'' None d2 = Inr d'" and h: "hash p = Some h"
    and u: "u = \<lparr>ur_id = uid, ur_public_id = pid, ur_email = lowercase (TrimSpace e), ur_password_hash = h,
          ur_display_name = TrimSpace n,
          ur_role = if CountUsers d = 0 \<and> cfg_BootstrapFirstUserAdmin cfg then ''admin'' else ''user'',
          ur_status = ''active'', ur_deleted = False\<rparr>"
    using Register_parts [OF assms] by blast
  have "db_users d' = db_users d @ [u]
      \<and> (\<forall>v \<in> set (db_users d). ur_public_id v \<noteq> ur_public_id u \<and> ur_email v \<noteq> ur_email u)"
    using CreateUser_users [OF s(1)] CreateWallet_users [OF s(2)] addLedger_keeps [OF s(3)] by presburger
  moreover have "ur_email u = lowercase (TrimSpace e) \<and> ur_public_id u = pid \<and> ur_status u = ''active''
     \<and> \<not> ur_deleted u \<and> hash p = Some (ur_password_hash u)
     \<and> ur_role u = (if CountUsers d = 0 \<and> cfg_BootstrapFirstUserAdmin cfg then ''admin'' else ''user'')"
    unfolding u using h by simp
  ultimately show ?thesis by blast
qed

lemma Register_funds:
  assumes "audited d" "Register cfg hash uid pid wid served e p n d = (Inr u, d')"
  shows "funds d' = (funds d)(wid \<mapsto> (sint (cfg_StartingFreeCredits cfg), 0))"
proof -
  obtain d1 d2 where s: "CreateUser u d = Inr d1" "CreateWallet wid ''user'' uid d1 = Inr d2"
    "addLedger wid ''grant'' (cfg_StartingFreeCredits cfg) 0 ''starting_free_credits'' None d2 = Inr d'"
    using Register_parts [OF assms(2)] by blast
  have 1: "audited d1" "funds d1 = funds d"
    using audited_frame CreateUser_frame [OF s(1)] assms(1) by blast+
  then have 2: "audited d2" "funds d2 = (funds d)(wid \<mapsto> (0, 0))"
    using CreateWallet_audited [OF _ s(2)] by auto
  show ?thesis using addLedger_funds [OF 2(1) s(3)] 2(2) by auto
qed

lemma find_last: "(\<forall>v \<in> set vs. \<not> P v) \<Longrightarrow> P u \<Longrightarrow> find P (vs @ [u]) = Some u"
  by (induction vs) auto

lemma find_unique:
  "distinct (map f xs) \<Longrightarrow> x \<in> set xs \<Longrightarrow> find (\<lambda>y. f y = f x) xs = Some x"
  by (induction xs) (auto simp: image_iff)

lemma registered_found:
  assumes "Register cfg hash uid pid wid served e p n d = (Inr u, d')"
  shows "find (\<lambda>v. ur_public_id v = ur_public_id u \<and> \<not> ur_deleted v) (db_users d') = Some u"
    "find (\<lambda>v. ur_email v = lowercase (TrimSpace e) \<and> \<not> ur_deleted v) (db_users d') = Some u"
  using Register_users [OF assms] by (auto intro!: find_last)

lemma Me_answer:
  assumes "bearer r = t" "t \<noteq> []" "ae_ParseJWT env now (ae_JWTSecret env) t = Some c"
    "find (\<lambda>v. ur_public_id v = cl_UserID c \<and> \<not> ur_deleted v) (db_users d) = Some u"
  shows "MeHandler env now True requestID r d = OK (Some (userResponse u))"
  using assms by (simp add: MeHandler_def DashboardAuth_def Let_def UserFromJWT_def UserByPublicID_def)

text \<open>What the handlers read of the requests that the client builds.\<close>

lemma client_body: "get_header ''Content-Type''
    (rq_headers (api_request base tok path (send_init ''POST'' (Some b)))) = Some ''application/json''"
proof -
  have "lowercase ''Authorization'' \<noteq> lowercase ''Content-Type''" by code_simp
  then show ?thesis
    by (simp add: api_request_def Let_def send_init_def has_header_def get_set_header)
qed

lemma lowercase_fields:
  "lowercase ''email'' = ''email''" "lowercase ''password'' = ''password''"
  "lowercase ''display_name'' = ''display_name''"
  by code_simp+

lemma client_register_fields:
  "BodyParser env [''email'', ''password'', ''display_name'']
     (api_request base tok path (c_init (register n e p))) = Some [e, p, n]"
  using client_body [of base tok path]
  by (simp add: BodyParser_def register_def lowercase_fields) (simp add: api_request_def Let_def send_init_def lowercase_fields)

lemma client_login_fields:
  "BodyParser env [''email'', ''password''] (api_request base tok path (c_init (login e p))) = Some [e, p]"
  using client_body [of base tok path]
  by (simp add: BodyParser_def login_def lowercase_fields) (simp add: api_request_def Let_def send_init_def lowercase_fields)

lemma client_bearer:
  "t \<noteq> [] \<Longrightarrow> TrimSpace t = t \<Longrightarrow> bearer (api_request base t path i) = t"
  by (simp add: bearer_def api_request_def Let_def get_set_header)

section \<open>Properties\<close>



text \<open>Who has registered can sign in with the same e-mail address and password, however the address was
  written, and is given a token of the same user; with a password that the check refuses nobody is.\<close>

theorem registered_can_login:
  assumes "AuthRegister env now cfg uid pid wid served e p n d = (Inr (u, t), d')"
    "\<And>h. ae_HashPassword env p = Some h \<Longrightarrow> ae_CheckPassword env h p"
    "ae_SignJWT env (ae_JWTSecret env) (claims_of later u) = Some t'"
    "lowercase (TrimSpace e') = lowercase (TrimSpace e)"
  shows "AuthLogin env later True e' p d' = Inr (u, t')
     \<and> (\<not> ae_CheckPassword env (ur_password_hash u) q \<longrightarrow> AuthLogin env later True e' q d' = Inl ErrInvalidCredentials)"
proof -
  have r: "Register cfg (ae_HashPassword env) uid pid wid served e p n d = (Inr u, d')"
    using assms(1) by (auto simp: AuthRegister_def sign_in_user split: prod.splits)
  note u = Register_users [OF r] registered_found(2) [OF r]
  show ?thesis
    using u assms(2-4) by (auto simp: AuthLogin_def Login_def signed_in_def)
qed

definition demo_env :: auth_env where
  "demo_env = \<lparr>ae_HashPassword = (\<lambda>p. Some (''#'' @ p)), ae_CheckPassword = (\<lambda>h p. h = ''#'' @ p),
     ae_SignJWT = (\<lambda>s c. Some (''jwt.'' @ cl_UserID c @ ''.'' @ s)),
     ae_ParseJWT = (\<lambda>now s t. Some \<lparr>cl_UserID = take (length t - length s - 5) (drop 4 t),
        cl_Email = [], cl_Role = [], cl_ExpiresAt = now\<rparr>),
     ae_JWTSecret = ''key'', ae_parse_other = (\<lambda>r. None)\<rparr>"

lemma TrimSpace_outer:
  assumes "a \<notin> hd ` set go_ws" "b \<notin> last ` set go_ws"
  shows "TrimSpace (a # s @ [b]) = a # s @ [b]"
proof -
  have n: "strip go_ws (a # s @ [b]) = a # s @ [b]"
    using assms(1) by (intro strip_id) (force simp: prefix_def Cons_eq_append_conv image_iff)
  have "strip (map rev go_ws) (b # rev (a # s)) = b # rev (a # s)"
  proof (rule strip_id)
    fix w assume w: "w \<in> set (map rev go_ws)" "w \<noteq> []"
    then obtain v where v: "v \<in> set go_ws" "w = rev v" "v \<noteq> []" by auto
    then have "hd w = last v" by (simp add: hd_rev)
    then show "\<not> prefix w (b # rev (a # s))"
      using v(1) w(2) assms(2) by (auto simp: prefix_def Cons_eq_append_conv image_iff)
  qed
  with n show ?thesis by (simp add: TrimSpace_def trim_with_def)
qed

lemma demo_jwt:
  assumes "ae_SignJWT demo_env (ae_JWTSecret demo_env) c = Some t"
  shows "t \<noteq> [] \<and> TrimSpace t = t \<and> (\<forall>clock < cl_ExpiresAt c. \<exists>c'.
     ae_ParseJWT demo_env clock (ae_JWTSecret demo_env) t = Some c' \<and> cl_UserID c' = cl_UserID c)"
proof -
  have t: "t = CHR ''j'' # (''wt.'' @ cl_UserID c @ ''.ke'') @ [CHR ''y'']" using assms by (simp add: demo_env_def)
  have "CHR ''j'' \<notin> hd ` set go_ws" "CHR ''y'' \<notin> last ` set go_ws" by code_simp+
  then have "TrimSpace t = t" unfolding t by (intro TrimSpace_outer) auto
  then show ?thesis unfolding t by (simp add: demo_env_def)
qed

definition demo_cfg :: server_config where
  "demo_cfg = \<lparr>cfg_BootstrapFirstUserAdmin = True, cfg_StartingFreeCredits = 1000\<rparr>"

definition demo_register :: "(svc_error + user_row \<times> string) \<times> db" where
  "demo_register = AuthRegister demo_env 0 demo_cfg ''uid'' ''pub'' ''wid'' True ''A@b '' ''password'' ''User'' empty_db"

lemma demo_registered_user: "\<exists>u. demo_register = (Inr (u, ''jwt.pub.key''), snd demo_register)
    \<and> ae_SignJWT demo_env (ae_JWTSecret demo_env) (claims_of 60 u) = Some ''jwt.pub.key''
    \<and> ur_password_hash u = ''#password''"
proof -
  have "case fst demo_register of Inl e \<Rightarrow> False | Inr (u, t) \<Rightarrow> t = ''jwt.pub.key'' \<and> ur_password_hash u = ''#password''
      \<and> ae_SignJWT demo_env (ae_JWTSecret demo_env) (claims_of 60 u) = Some ''jwt.pub.key''"
    by code_simp
  then obtain u where "fst demo_register = Inr (u, ''jwt.pub.key'')" "ur_password_hash u = ''#password''"
    "ae_SignJWT demo_env (ae_JWTSecret demo_env) (claims_of 60 u) = Some ''jwt.pub.key''"
    by (auto split: sum.splits)
  moreover from this(1) have "demo_register = (Inr (u, ''jwt.pub.key''), snd demo_register)"
    by (metis prod.collapse)
  ultimately show ?thesis by blast
qed

theorem registered_can_login_witness:
  "\<exists>u. AuthLogin demo_env 60 True '' a@B'' ''password'' (snd demo_register) = Inr (u, ''jwt.pub.key'')
     \<and> AuthLogin demo_env 60 True '' a@B'' ''passwort'' (snd demo_register) = Inl ErrInvalidCredentials"
proof -
  obtain u where u: "demo_register = (Inr (u, ''jwt.pub.key''), snd demo_register)"
    "ae_SignJWT demo_env (ae_JWTSecret demo_env) (claims_of 60 u) = Some ''jwt.pub.key''"
    "ur_password_hash u = ''#password''"
    using demo_registered_user by blast
  have "ae_CheckPassword demo_env h ''password''" if "ae_HashPassword demo_env ''password'' = Some h" for h
    using that by (auto simp: demo_env_def)
  moreover have "lowercase (TrimSpace '' a@B'') = lowercase (TrimSpace ''A@b '')" by code_simp
  moreover have "\<not> ae_CheckPassword demo_env (ur_password_hash u) ''passwort''" by (simp add: u(3) demo_env_def)
  ultimately show ?thesis
    using registered_can_login [OF u(1) [unfolded demo_register_def] _ u(2)] unfolding demo_register_def by blast
qed

text \<open>A user who is not active any more is refused at sign-in, but a token handed out before keeps
  working until it expires: the check of the token does not look at the status.\<close>

theorem disabled_user_keeps_session:
  assumes "find (\<lambda>v. ur_email v = lowercase (TrimSpace e) \<and> \<not> ur_deleted v) (db_users d) = Some u"
    "find (\<lambda>v. ur_public_id v = cl_UserID c \<and> \<not> ur_deleted v) (db_users d) = Some u"
    "ur_status u \<noteq> ''active''" "bearer r \<noteq> []" "ae_ParseJWT env now (ae_JWTSecret env) (bearer r) = Some c"
  shows "AuthLogin env now True e p d = Inl ErrInvalidCredentials
     \<and> MeHandler env now True requestID r d = OK (Some (userResponse u))"
  using assms(1-3) Me_answer [OF refl assms(4,5,2)] by (simp add: AuthLogin_def Login_def)

definition demo_disabled :: db where
  "demo_disabled = (snd demo_register)\<lparr>db_users := map (\<lambda>u. u\<lparr>ur_status := ''disabled''\<rparr>) (db_users (snd demo_register))\<rparr>"

definition demo_claims :: claims where
  "demo_claims = \<lparr>cl_UserID = ''pub'', cl_Email = [], cl_Role = [], cl_ExpiresAt = 60\<rparr>"

theorem disabled_user_keeps_session_witness:
  "AuthLogin demo_env 60 True ''a@b'' ''password'' demo_disabled = Inl ErrInvalidCredentials
   \<and> (\<exists>u. MeHandler demo_env 60 True ''req_1'' (api_request None ''jwt.pub.key'' (c_path me) (c_init me)) demo_disabled
        = OK (Some u))"
proof -
  let ?u = "hd (db_users demo_disabled)" and ?r = "api_request None ''jwt.pub.key'' (c_path me) (c_init me)"
  have "find (\<lambda>v. ur_email v = lowercase (TrimSpace ''a@b'') \<and> \<not> ur_deleted v) (db_users demo_disabled) = Some ?u"
    "find (\<lambda>v. ur_public_id v = cl_UserID demo_claims \<and> \<not> ur_deleted v) (db_users demo_disabled) = Some ?u"
    "ur_status ?u \<noteq> ''active''" "bearer ?r \<noteq> []"
    "ae_ParseJWT demo_env 60 (ae_JWTSecret demo_env) (bearer ?r) = Some demo_claims"
    by code_simp+
  from disabled_user_keeps_session [OF this] show ?thesis by blast
qed

end
