(* ===== verification/ServerKeys.thy ===== *)
theory ServerKeys
  imports Accounts ApiKeysPage QueryString
begin

text \<open>
  Projects and API keys on the server: \<open>ProjectService\<close> and \<open>ResolveAPIKey\<close> of
  \<open>apps/api/internal/service/services.go\<close>, the statements of \<open>repository/store.go\<close> they run, the key format
  of \<open>auth/apikey.go\<close>, and the handlers that the key page talks to. The digest is the library's SHA-256
  written in hexadecimal, an argument \<open>sha\<close>; random tokens and row ids come from outside, and creation
  times are texts. \<open>served\<close> says whether the database serves the statements of a call.
\<close>

section \<open>Tables\<close>

record project_row =
  pt_id :: string
  pt_public_id :: string
  pt_owner_user_id :: string
  pt_name :: string
  pt_status :: string
  pt_monthly_credit_limit :: "int64 option"
  pt_deleted :: bool

record key_row_data =
  kt_id :: string
  kt_public_id :: string
  kt_project_id :: string
  kt_name :: string
  kt_prefix :: string
  kt_key_hash :: string
  kt_status :: string
  kt_created_at :: string

record key_store =
  kd_users :: "user_row list"
  kd_projects :: "project_row list"
  kd_keys :: "key_row_data list"

section \<open>Keys\<close>

definition plaintext_key :: "string \<Rightarrow> string \<Rightarrow> string" where
  "plaintext_key pre secret = ''pvn_live_'' @ pre @ ''_'' @ secret"

definition HashToken :: "(string \<Rightarrow> string) \<Rightarrow> string \<Rightarrow> string \<Rightarrow> string" where
  "HashToken sha pepper token = sha (pepper @ token)"

definition ValidAPIKeyFormat :: "string \<Rightarrow> bool" where
  "ValidAPIKeyFormat token \<longleftrightarrow> prefix ''pvn_live_'' token \<and> 4 \<le> length (split_on (CHR ''_'') token)"

section \<open>Statements\<close>

definition store_project :: "bool \<Rightarrow> string \<Rightarrow> string \<Rightarrow> string \<Rightarrow> string \<Rightarrow> int64 option \<Rightarrow> key_store
    \<Rightarrow> (svc_error + project_row) \<times> key_store" where
  "store_project served i publicID owner name limit d =
     (if \<not> served then (Inl (DbError ''unavailable''), d)
      else if \<not> (\<exists>u \<in> set (kd_users d). ur_id u = owner) then (Inl (DbError ''foreign key''), d)
      else if (\<exists>p \<in> set (kd_projects d). pt_id p = i \<or> pt_public_id p = publicID) then (Inl DuplicateKey, d)
      else let p = \<lparr>pt_id = i, pt_public_id = publicID, pt_owner_user_id = owner, pt_name = name,
                    pt_status = ''active'', pt_monthly_credit_limit = limit, pt_deleted = False\<rparr>
           in (Inr p, d\<lparr>kd_projects := kd_projects d @ [p]\<rparr>))"

definition ProjectsByOwner :: "string \<Rightarrow> key_store \<Rightarrow> project_row list" where
  "ProjectsByOwner owner d = rev (filter (\<lambda>p. pt_owner_user_id p = owner \<and> \<not> pt_deleted p) (kd_projects d))"

definition ProjectByPublicIDForOwner :: "bool \<Rightarrow> string \<Rightarrow> string \<Rightarrow> key_store \<Rightarrow> svc_error + project_row" where
  "ProjectByPublicIDForOwner served owner publicID d =
     (if \<not> served then Inl (DbError ''unavailable'')
      else case find (\<lambda>p. pt_owner_user_id p = owner \<and> pt_public_id p = publicID \<and> \<not> pt_deleted p) (kd_projects d) of
        None \<Rightarrow> Inl ErrNotFound | Some p \<Rightarrow> Inr p)"

definition store_key :: "bool \<Rightarrow> string \<Rightarrow> string \<Rightarrow> string \<Rightarrow> string \<Rightarrow> string \<Rightarrow> string \<Rightarrow> string \<Rightarrow> key_store
    \<Rightarrow> (svc_error + key_row_data) \<times> key_store" where
  "store_key served i publicID projectID name pre keyHash now d =
     (if \<not> served then (Inl (DbError ''unavailable''), d)
      else if (\<exists>k \<in> set (kd_keys d). kt_id k = i \<or> kt_public_id k = publicID \<or> kt_key_hash k = keyHash)
        then (Inl DuplicateKey, d)
      else let k = \<lparr>kt_id = i, kt_public_id = publicID, kt_project_id = projectID, kt_name = name,
                    kt_prefix = pre, kt_key_hash = keyHash, kt_status = ''active'', kt_created_at = now\<rparr>
           in (Inr k, d\<lparr>kd_keys := kd_keys d @ [k]\<rparr>))"

text \<open>The newest key comes first.\<close>

definition APIKeysByProject :: "string \<Rightarrow> key_store \<Rightarrow> key_row_data list" where
  "APIKeysByProject projectID d = rev (filter (\<lambda>k. kt_project_id k = projectID) (kd_keys d))"

definition live_key :: "string \<Rightarrow> string \<Rightarrow> key_row_data \<Rightarrow> bool" where
  "live_key projectID keyPublicID k \<longleftrightarrow>
     kt_project_id k = projectID \<and> kt_public_id k = keyPublicID \<and> kt_status k = ''active''"

definition revoke_rows :: "string \<Rightarrow> string \<Rightarrow> key_row_data list \<Rightarrow> key_row_data list" where
  "revoke_rows projectID keyPublicID ks =
     map (\<lambda>k. if live_key projectID keyPublicID k then k\<lparr>kt_status := ''revoked''\<rparr> else k) ks"

definition store_revoke :: "bool \<Rightarrow> string \<Rightarrow> string \<Rightarrow> key_store \<Rightarrow> (svc_error + unit) \<times> key_store" where
  "store_revoke served projectID keyPublicID d =
     (if \<not> served then (Inl (DbError ''unavailable''), d)
      else if \<not> (\<exists>k \<in> set (kd_keys d). live_key projectID keyPublicID k) then (Inl ErrNotFound, d)
      else (Inr (), d\<lparr>kd_keys := revoke_rows projectID keyPublicID (kd_keys d)\<rparr>))"

text \<open>Who a key stands for: the join over keys, projects and users, all of them active.\<close>

definition user_by_id :: "string \<Rightarrow> key_store \<Rightarrow> user_row option" where
  "user_by_id i d = find (\<lambda>u. ur_id u = i) (kd_users d)"

definition project_by_id :: "string \<Rightarrow> key_store \<Rightarrow> project_row option" where
  "project_by_id i d = find (\<lambda>p. pt_id p = i) (kd_projects d)"

definition store_resolve :: "bool \<Rightarrow> string \<Rightarrow> key_store \<Rightarrow> svc_error + user_row \<times> project_row \<times> string" where
  "store_resolve served keyHash d =
     (if \<not> served then Inl (DbError ''unavailable'')
      else case find (\<lambda>k. kt_key_hash k = keyHash) (kd_keys d) of
        None \<Rightarrow> Inl ErrNotFound
      | Some k \<Rightarrow> (case project_by_id (kt_project_id k) d of
          None \<Rightarrow> Inl ErrNotFound
        | Some p \<Rightarrow> (case user_by_id (pt_owner_user_id p) d of
            None \<Rightarrow> Inl ErrNotFound
          | Some u \<Rightarrow>
              if kt_status k = ''active'' \<and> pt_status p = ''active'' \<and> \<not> pt_deleted p
                 \<and> ur_status u = ''active'' \<and> \<not> ur_deleted u
              then Inr (u, p, kt_id k) else Inl ErrNotFound)))"

section \<open>Services\<close>

definition CreateProject :: "bool \<Rightarrow> string \<Rightarrow> string \<Rightarrow> user_row \<Rightarrow> string \<Rightarrow> int64 option \<Rightarrow> key_store
    \<Rightarrow> (svc_error + project_row) \<times> key_store" where
  "CreateProject served i publicID user name0 limit d =
     (let name = TrimSpace name0
      in if name = [] then (Inl ErrInvalidInput, d) else store_project served i publicID (ur_id user) name limit d)"

definition CreateAPIKey :: "(string \<Rightarrow> string) \<Rightarrow> string \<Rightarrow> bool \<Rightarrow> string \<Rightarrow> string \<Rightarrow> string \<Rightarrow> string \<Rightarrow> string
    \<Rightarrow> user_row \<Rightarrow> string \<Rightarrow> string \<Rightarrow> key_store \<Rightarrow> (svc_error + key_row_data \<times> string) \<times> key_store" where
  "CreateAPIKey sha pepper served i publicID pre secret now user projectPublicID name0 d =
     (case ProjectByPublicIDForOwner served (ur_id user) projectPublicID d of
        Inl e \<Rightarrow> (Inl e, d)
      | Inr project \<Rightarrow>
          (let plaintext = plaintext_key pre secret; name = TrimSpace name0
           in if name = [] then (Inl ErrInvalidInput, d)
              else (case store_key served i publicID (pt_id project) name pre
                           (HashToken sha pepper plaintext) now d of
                  (Inl e, d') \<Rightarrow> (Inl e, d')
                | (Inr k, d') \<Rightarrow> (Inr (k, plaintext), d'))))"

definition APIKeys :: "bool \<Rightarrow> user_row \<Rightarrow> string \<Rightarrow> key_store \<Rightarrow> svc_error + key_row_data list" where
  "APIKeys served user projectPublicID d =
     on_value (\<lambda>p. APIKeysByProject (pt_id p) d) (ProjectByPublicIDForOwner served (ur_id user) projectPublicID d)"

definition RevokeAPIKey :: "bool \<Rightarrow> user_row \<Rightarrow> string \<Rightarrow> string \<Rightarrow> key_store \<Rightarrow> (svc_error + unit) \<times> key_store" where
  "RevokeAPIKey served user projectPublicID keyPublicID d =
     (case ProjectByPublicIDForOwner served (ur_id user) projectPublicID d of
        Inl e \<Rightarrow> (Inl e, d)
      | Inr p \<Rightarrow> store_revoke served (pt_id p) keyPublicID d)"

definition ResolveAPIKey :: "(string \<Rightarrow> string) \<Rightarrow> string \<Rightarrow> bool \<Rightarrow> string \<Rightarrow> key_store
    \<Rightarrow> svc_error + user_row \<times> project_row \<times> string" where
  "ResolveAPIKey sha pepper served token d =
     (if \<not> ValidAPIKeyFormat token then Inl ErrInvalidCredentials
      else store_resolve served (HashToken sha pepper token) d)"

section \<open>Handlers\<close>

definition key_json :: "key_row_data \<Rightarrow> api_key" where
  "key_json k = \<lparr>k_id = kt_public_id k, k_name = kt_name k, k_prefix = kt_prefix k, k_status = kt_status k,
     k_created_at = kt_created_at k\<rparr>"

definition answer_with :: "string \<Rightarrow> 'b \<Rightarrow> ('a \<Rightarrow> 'b) \<Rightarrow> svc_error + 'a \<Rightarrow> 'b http" where
  "answer_with requestID absent f r = (case r of Inl e \<Rightarrow> Handle requestID absent e | Inr x \<Rightarrow> OK (f x))"

definition no_content :: "string \<Rightarrow> svc_error + unit \<Rightarrow> unit http" where
  "no_content requestID r = (case r of Inl e \<Rightarrow> Handle requestID () e | Inr _ \<Rightarrow> Response 204 EmptyText)"

text \<open>A list that is empty is sent as \<open>null\<close>.\<close>

definition ListAPIKeysHandler :: "bool \<Rightarrow> string \<Rightarrow> user_row \<Rightarrow> string \<Rightarrow> key_store \<Rightarrow> api_key list option http" where
  "ListAPIKeysHandler served requestID user projectPublicID d =
     answer_with requestID None (\<lambda>ks. if ks = [] then None else Some (map key_json ks))
       (APIKeys served user projectPublicID d)"

definition CreateAPIKeyHandler :: "auth_env \<Rightarrow> (string \<Rightarrow> string) \<Rightarrow> string \<Rightarrow> bool \<Rightarrow> string \<Rightarrow> string \<Rightarrow> string \<Rightarrow> string
    \<Rightarrow> string \<Rightarrow> string \<Rightarrow> user_row \<Rightarrow> string \<Rightarrow> request \<Rightarrow> key_store \<Rightarrow> api_key_create_response http \<times> key_store" where
  "CreateAPIKeyHandler env sha pepper served i publicID pre secret now requestID user projectPublicID r d =
     (let absent = \<lparr>kc_api_key = None, kc_plaintext_key = None\<rparr>
      in case BodyParser env [''name''] r of
        Some [name] \<Rightarrow>
          (let (out, d') = CreateAPIKey sha pepper served i publicID pre secret now user projectPublicID name d
           in (answer_with requestID absent
                 (\<lambda>(k, plaintext). \<lparr>kc_api_key = Some (key_json k), kc_plaintext_key = Some plaintext\<rparr>) out, d'))
      | _ \<Rightarrow> (Error requestID 400 ''invalid_request'' ''Invalid request body.'' absent, d))"

definition RevokeAPIKeyHandler :: "bool \<Rightarrow> string \<Rightarrow> user_row \<Rightarrow> string \<Rightarrow> string \<Rightarrow> key_store \<Rightarrow> unit http \<times> key_store" where
  "RevokeAPIKeyHandler served requestID user projectPublicID keyPublicID d =
     (let (out, d') = RevokeAPIKey served user projectPublicID keyPublicID d in (no_content requestID out, d'))"

section \<open>Lemmas\<close>

lemma length_split_on: "length (split_on a s) = length (filter (\<lambda>c. c = a) s) + 1"
proof (induction s)
  case (Cons c s)
  then obtain x xs where "split_on a s = x # xs" by (cases "split_on a s") auto
  with Cons show ?case by simp
qed simp

lemma plaintext_valid: "ValidAPIKeyFormat (plaintext_key pre secret)"
  by (simp add: ValidAPIKeyFormat_def plaintext_key_def length_split_on)

definition key_ids_ok :: "key_store \<Rightarrow> bool" where
  "key_ids_ok d \<longleftrightarrow> distinct (map kt_public_id (kd_keys d)) \<and> distinct (map kt_key_hash (kd_keys d))
     \<and> distinct (map pt_id (kd_projects d)) \<and> distinct (map pt_public_id (kd_projects d))
     \<and> list_all (\<lambda>k. kt_project_id k \<in> pt_id ` set (kd_projects d)) (kd_keys d)"

lemma project_found:
  assumes "ProjectByPublicIDForOwner served owner i d = Inr p"
  shows "served" "p \<in> set (kd_projects d)" "pt_owner_user_id p = owner" "pt_public_id p = i" "\<not> pt_deleted p"
  using assms by (auto simp: ProjectByPublicIDForOwner_def find_Some_iff split: if_splits option.splits)

lemma CreateAPIKey_Inr:
  assumes "CreateAPIKey sha pepper served i pid pre secret now user prj name d = (Inr (k, plain), d')"
  shows "\<exists>p. ProjectByPublicIDForOwner served (ur_id user) prj d = Inr p \<and> kt_project_id k = pt_id p
     \<and> d' = d\<lparr>kd_keys := kd_keys d @ [k]\<rparr> \<and> plain = plaintext_key pre secret
     \<and> kt_id k = i \<and> kt_public_id k = pid \<and> kt_status k = ''active'' \<and> kt_key_hash k = HashToken sha pepper plain
     \<and> (\<forall>x \<in> set (kd_keys d). kt_public_id x \<noteq> pid \<and> kt_key_hash x \<noteq> kt_key_hash k)"
  using assms by (auto simp: CreateAPIKey_def store_key_def Let_def split: sum.splits if_splits)

lemma CreateAPIKey_Inl:
  "CreateAPIKey sha pepper served i pid pre secret now user prj name d = (Inl e, d') \<Longrightarrow> d' = d"
  by (auto simp: CreateAPIKey_def store_key_def Let_def split: sum.splits if_splits prod.splits)

lemma RevokeAPIKey_Inr:
  assumes "RevokeAPIKey served user prj kid d = (Inr u, d')"
  shows "\<exists>p. ProjectByPublicIDForOwner served (ur_id user) prj d = Inr p
     \<and> (\<exists>k \<in> set (kd_keys d). live_key (pt_id p) kid k)
     \<and> d' = d\<lparr>kd_keys := revoke_rows (pt_id p) kid (kd_keys d)\<rparr>"
  using assms by (auto simp: RevokeAPIKey_def store_revoke_def split: sum.splits if_splits)

lemma RevokeAPIKey_Inl: "RevokeAPIKey served user prj kid d = (Inl e, d') \<Longrightarrow> d' = d"
  by (auto simp: RevokeAPIKey_def store_revoke_def split: sum.splits if_splits)

section \<open>Histories\<close>

datatype key_event =
    NewProject bool string string user_row string "int64 option"
  | NewKey bool string string string string string user_row string string
  | RevokeKey bool user_row string string

fun key_step :: "(string \<Rightarrow> string) \<Rightarrow> string \<Rightarrow> (key_store, key_event) machine" where
  "key_step sha pepper d (NewProject served i pid user name cap) = Some (snd (CreateProject served i pid user name cap d))"
| "key_step sha pepper d (NewKey served i pid pre secret now user prj name) =
     Some (snd (CreateAPIKey sha pepper served i pid pre secret now user prj name d))"
| "key_step sha pepper d (RevokeKey served user prj kid) = Some (snd (RevokeAPIKey served user prj kid d))"

definition key_start :: "user_row list \<Rightarrow> key_store" where
  "key_start us = \<lparr>kd_users = us, kd_projects = [], kd_keys = []\<rparr>"

definition known_status :: "key_row_data \<Rightarrow> bool" where
  "known_status k \<longleftrightarrow> kt_status k = ''active'' \<or> kt_status k = ''revoked''"

definition key_inv :: "user_row list \<Rightarrow> key_store \<Rightarrow> bool" where
  "key_inv us d \<longleftrightarrow> key_ids_ok d \<and> kd_users d = us
     \<and> list_all (\<lambda>p. pt_status p = ''active'' \<and> \<not> pt_deleted p) (kd_projects d)
     \<and> list_all known_status (kd_keys d)"

lemma revoke_keeps_ids:
  "map kt_public_id (revoke_rows p i ks) = map kt_public_id ks"
  "map kt_key_hash (revoke_rows p i ks) = map kt_key_hash ks"
  "map kt_project_id (revoke_rows p i ks) = map kt_project_id ks"
  by (simp_all add: revoke_rows_def)

lemma revoke_keeps_status: "list_all known_status ks \<Longrightarrow> list_all known_status (revoke_rows p i ks)"
  by (induction ks) (simp_all add: revoke_rows_def known_status_def)

lemma list_all_project: "list_all (\<lambda>k. kt_project_id k \<in> A) ks \<longleftrightarrow> list_all (\<lambda>i. i \<in> A) (map kt_project_id ks)"
  by (simp add: list_all_iff)

lemma key_inv_step:
  assumes "key_inv us d" "key_step sha pepper d e = Some d'"
  shows "key_inv us d'"
proof (cases e)
  case (NewProject served i pid user name cap)
  with assms show ?thesis
    by (auto simp: CreateProject_def store_project_def key_inv_def key_ids_ok_def list_all_iff Let_def split: if_splits)
next
  case (NewKey served i pid pre secret now user prj name)
  obtain q x where q: "CreateAPIKey sha pepper served i pid pre secret now user prj name d = (q, x)"
    by (cases "CreateAPIKey sha pepper served i pid pre secret now user prj name d")
  show ?thesis
  proof (cases q)
    case (Inl a)
    with q CreateAPIKey_Inl NewKey assms show ?thesis by fastforce
  next
    case (Inr kp)
    obtain k plain where kp: "kp = (k, plain)" by (cases kp)
    from CreateAPIKey_Inr [OF q [unfolded Inr kp]] obtain p :: project_row where
      p: "ProjectByPublicIDForOwner served (ur_id user) prj d = Inr p" "kt_project_id k = pt_id p"
        "x = d\<lparr>kd_keys := kd_keys d @ [k]\<rparr>" "kt_public_id k = pid" "kt_status k = ''active''"
        "\<forall>y \<in> set (kd_keys d). kt_public_id y \<noteq> pid \<and> kt_key_hash y \<noteq> kt_key_hash k" by blast
    then have new: "kt_public_id k \<notin> kt_public_id ` set (kd_keys d)" "kt_key_hash k \<notin> kt_key_hash ` set (kd_keys d)"
      by (metis imageE)+
    have "d' = d\<lparr>kd_keys := kd_keys d @ [k]\<rparr>" using assms(2) NewKey q p(3) by simp
    with assms(1) new p(2) project_found(2) [OF p(1)] show ?thesis
      by (simp add: key_inv_def key_ids_ok_def known_status_def p(5))
  qed
next
  case (RevokeKey served user prj kid)
  obtain q x where q: "RevokeAPIKey served user prj kid d = (q, x)" by (cases "RevokeAPIKey served user prj kid d")
  show ?thesis
  proof (cases q)
    case (Inl a)
    with q RevokeAPIKey_Inl RevokeKey assms show ?thesis by fastforce
  next
    case (Inr u)
    from RevokeAPIKey_Inr [OF q [unfolded Inr]] obtain p :: project_row where
      "x = d\<lparr>kd_keys := revoke_rows (pt_id p) kid (kd_keys d)\<rparr>" by blast
    then have "d' = d\<lparr>kd_keys := revoke_rows (pt_id p) kid (kd_keys d)\<rparr>" using assms(2) RevokeKey q by simp
    with assms(1) show ?thesis
      by (simp add: key_inv_def key_ids_ok_def revoke_keeps_ids revoke_keeps_status list_all_project del: map_map list.map_comp)
  qed
qed

lemma key_inv_start: "key_inv us (key_start us)"
  by (simp add: key_inv_def key_start_def key_ids_ok_def)

interpretation keys_server: page_machine "key_step sha pepper" "key_start us" "key_inv us"
  by unfold_locales (rule key_inv_start, rule key_inv_step)

text \<open>A revoked key stays revoked.\<close>

definition has_revoked :: "string \<Rightarrow> key_store \<Rightarrow> bool" where
  "has_revoked h d \<longleftrightarrow> (\<exists>k \<in> set (kd_keys d). kt_key_hash k = h \<and> kt_status k = ''revoked'')"

lemma revoked_kept:
  assumes "has_revoked h d"
  shows "has_revoked h (d\<lparr>kd_keys := revoke_rows p i (kd_keys d)\<rparr>)"
proof -
  obtain k where k: "k \<in> set (kd_keys d)" "kt_key_hash k = h" "kt_status k = ''revoked''"
    using assms by (auto simp: has_revoked_def)
  then have "k \<in> set (revoke_rows p i (kd_keys d))"
    by (force simp: revoke_rows_def live_key_def)
  with k show ?thesis by (auto simp: has_revoked_def)
qed

lemma revoked_step: "has_revoked h d \<Longrightarrow> key_step sha pepper d e = Some d' \<Longrightarrow> has_revoked h d'"
proof (cases e)
  case (NewProject served i pid user name cap)
  assume "has_revoked h d" "key_step sha pepper d e = Some d'"
  with NewProject show ?thesis
    by (auto simp: CreateProject_def store_project_def has_revoked_def Let_def split: if_splits)
next
  case (NewKey served i pid pre secret now user prj name)
  assume h: "has_revoked h d" "key_step sha pepper d e = Some d'"
  obtain q x where q: "CreateAPIKey sha pepper served i pid pre secret now user prj name d = (q, x)"
    by (cases "CreateAPIKey sha pepper served i pid pre secret now user prj name d")
  show ?thesis
  proof (cases q)
    case (Inl a)
    with h NewKey q CreateAPIKey_Inl show ?thesis by fastforce
  next
    case (Inr kp)
    obtain k plain where kp: "kp = (k, plain)" by (cases kp)
    from CreateAPIKey_Inr [OF q [unfolded Inr kp]] have "x = d\<lparr>kd_keys := kd_keys d @ [k]\<rparr>" by blast
    with h NewKey q show ?thesis by (auto simp: has_revoked_def)
  qed
next
  case (RevokeKey served user prj kid)
  assume h: "has_revoked h d" "key_step sha pepper d e = Some d'"
  obtain q x where q: "RevokeAPIKey served user prj kid d = (q, x)" by (cases "RevokeAPIKey served user prj kid d")
  show ?thesis
  proof (cases q)
    case (Inl a)
    with h RevokeKey q RevokeAPIKey_Inl show ?thesis by fastforce
  next
    case (Inr u)
    with RevokeAPIKey_Inr [OF q [unfolded Inr]] obtain p :: project_row where
      "x = d\<lparr>kd_keys := revoke_rows (pt_id p) kid (kd_keys d)\<rparr>" by blast
    then have "d' = d\<lparr>kd_keys := revoke_rows (pt_id p) kid (kd_keys d)\<rparr>" using h(2) RevokeKey q by simp
    with revoked_kept [OF h(1)] show ?thesis by simp
  qed
qed

lemma revoked_run: "has_revoked h d \<Longrightarrow> run (key_step sha pepper) d es = Some d' \<Longrightarrow> has_revoked h d'"
  by (induction es arbitrary: d) (auto split: option.splits dest: revoked_step)

lemma revoked_refused:
  assumes "key_inv us d" "has_revoked (HashToken sha pepper token) d"
  shows "\<exists>e. ResolveAPIKey sha pepper served token d = Inl e"
proof -
  obtain k where k: "k \<in> set (kd_keys d)" "kt_key_hash k = HashToken sha pepper token" "kt_status k = ''revoked''"
    using assms(2) by (auto simp: has_revoked_def)
  have "find (\<lambda>x. kt_key_hash x = HashToken sha pepper token) (kd_keys d) = Some k"
    using find_unique [of kt_key_hash "kd_keys d" k] assms(1) k by (simp add: key_inv_def key_ids_ok_def)
  with k(3) show ?thesis by (auto simp: ResolveAPIKey_def store_resolve_def split: option.split)
qed

text \<open>Two users; the first one has a project with two keys.\<close>

definition shop_user :: "string \<Rightarrow> user_row" where
  "shop_user i = \<lparr>ur_id = i, ur_public_id = i, ur_email = i, ur_password_hash = [], ur_display_name = i,
     ur_role = ''user'', ur_status = ''active'', ur_deleted = False\<rparr>"

definition shop_events :: "key_event list" where
  "shop_events = [NewProject True ''1'' ''prj_1'' (shop_user ''u'') '' Shop '' None,
     NewKey True ''7'' ''key_7'' ''aa'' ''bb'' ''now'' (shop_user ''u'') ''prj_1'' ''Site'',
     NewKey True ''8'' ''key_8'' ''cc'' ''dd'' ''now'' (shop_user ''u'') ''prj_1'' ''Till'']"

definition shop_key :: "string \<Rightarrow> string \<Rightarrow> string \<Rightarrow> string \<Rightarrow> key_row_data" where
  "shop_key i name pre secret = \<lparr>kt_id = i, kt_public_id = ''key_'' @ i, kt_project_id = ''1'', kt_name = name,
     kt_prefix = pre, kt_key_hash = ''s'' @ plaintext_key pre secret, kt_status = ''active'', kt_created_at = ''now''\<rparr>"

definition shop_project :: project_row where
  "shop_project = \<lparr>pt_id = ''1'', pt_public_id = ''prj_1'', pt_owner_user_id = ''u'', pt_name = ''Shop'',
     pt_status = ''active'', pt_monthly_credit_limit = None, pt_deleted = False\<rparr>"

definition shop_store :: key_store where
  "shop_store = \<lparr>kd_users = [shop_user ''u'', shop_user ''v''], kd_projects = [shop_project],
     kd_keys = [shop_key ''7'' ''Site'' ''aa'' ''bb'', shop_key ''8'' ''Till'' ''cc'' ''dd'']\<rparr>"

lemma shop_run: "run (key_step (\<lambda>t. t) ''s'') (key_start [shop_user ''u'', shop_user ''v'']) shop_events = Some shop_store"
  by code_simp

lemma shop_owned: "ProjectByPublicIDForOwner True (ur_id (shop_user ''u'')) ''prj_1'' shop_store = Inr shop_project"
  by code_simp

lemma shop_creates: "CreateAPIKey (\<lambda>t. t) ''s'' True ''9'' ''key_9'' ''ee'' ''ff'' ''now'' (shop_user ''u'') ''prj_1'' '' Web '' shop_store
    = (Inr (shop_key ''9'' ''Web'' ''ee'' ''ff'', plaintext_key ''ee'' ''ff''),
       shop_store\<lparr>kd_keys := kd_keys shop_store @ [shop_key ''9'' ''Web'' ''ee'' ''ff'']\<rparr>)"
  by code_simp

section \<open>Properties\<close>



text \<open>C24: A revoked key is refused for good: once its revocation has been accepted, no text with the digest of
  the key resolves to anybody, whatever keys are created or revoked afterwards.\<close>

theorem revoked_key_refused:
  assumes "run (key_step sha pepper) (key_start us) es = Some d"
    "RevokeAPIKey served user prj kid d = (Inr u, d')"
    "k \<in> set (kd_keys d)" "kt_public_id k = kid" "HashToken sha pepper token = kt_key_hash k"
    "run (key_step sha pepper) d' es' = Some d''"
  shows "\<exists>e. ResolveAPIKey sha pepper True token d'' = Inl e"
proof -
  have inv: "key_inv us d" using assms(1) by (rule keys_server.run_inv)
  obtain p :: project_row and x where p: "x \<in> set (kd_keys d)" "live_key (pt_id p) kid x"
    "d' = d\<lparr>kd_keys := revoke_rows (pt_id p) kid (kd_keys d)\<rparr>"
    using RevokeAPIKey_Inr [OF assms(2)] by blast
  have "inj_on kt_public_id (set (kd_keys d))" using inv by (simp add: key_inv_def key_ids_ok_def distinct_map)
  then have "x = k" using p(1,2) assms(3,4) by (auto simp: live_key_def dest: inj_onD)
  then have "k\<lparr>kt_status := ''revoked''\<rparr> \<in> set (kd_keys d')"
    using p assms(3) by (force simp: revoke_rows_def)
  then have "has_revoked (kt_key_hash k) d'"
    unfolding has_revoked_def by (rule rev_bexI) simp
  then have "has_revoked (HashToken sha pepper token) d''" using revoked_run assms(5,6) by metis
  moreover have "key_step sha pepper d (RevokeKey served user prj kid) = Some d'" using assms(2) by simp
  then have "key_inv us d''"
    using key_inv_step [OF inv] keys_server.run_inv_from [OF _ assms(6)] by blast
  ultimately show ?thesis using revoked_refused by blast
qed

theorem revoked_key_refused_witness:
  "\<exists>e. ResolveAPIKey (\<lambda>t. t) ''s'' True ''pvn_live_cc_dd'' (the (run (key_step (\<lambda>t. t) ''s'')
     (snd (RevokeAPIKey True (shop_user ''u'') ''prj_1'' ''key_8'' shop_store))
     [NewKey True ''9'' ''key_9'' ''ee'' ''ff'' ''now'' (shop_user ''u'') ''prj_1'' ''Web''])) = Inl e"
proof -
  let ?es = "[NewKey True ''9'' ''key_9'' ''ee'' ''ff'' ''now'' (shop_user ''u'') ''prj_1'' ''Web'']"
  have "fst (RevokeAPIKey True (shop_user ''u'') ''prj_1'' ''key_8'' shop_store) = Inr ()" by code_simp
  then have r: "RevokeAPIKey True (shop_user ''u'') ''prj_1'' ''key_8'' shop_store
      = (Inr (), snd (RevokeAPIKey True (shop_user ''u'') ''prj_1'' ''key_8'' shop_store))"
    by (simp add: prod_eq_iff)
  have k: "shop_key ''8'' ''Till'' ''cc'' ''dd'' \<in> set (kd_keys shop_store)"
    "kt_public_id (shop_key ''8'' ''Till'' ''cc'' ''dd'') = ''key_8''"
    "HashToken (\<lambda>t. t) ''s'' ''pvn_live_cc_dd'' = kt_key_hash (shop_key ''8'' ''Till'' ''cc'' ''dd'')"
    by (simp_all add: shop_store_def shop_key_def HashToken_def plaintext_key_def)
  show ?thesis by (rule revoked_key_refused [OF shop_run r k, where es' = ?es]) simp
qed


section \<open>Views\<close>

text \<open>What a user sees of the store: their projects and the keys of each.\<close>

definition owned_view :: "string \<Rightarrow> key_store \<Rightarrow> (project_row \<times> key_row_data list) list" where
  "owned_view owner d = map (\<lambda>p. (p, APIKeysByProject (pt_id p) d)) (ProjectsByOwner owner d)"

fun actor :: "key_event \<Rightarrow> string" where
  "actor (NewProject _ _ _ user _ _) = ur_id user"
| "actor (NewKey _ _ _ _ _ _ user _ _) = ur_id user"
| "actor (RevokeKey _ user _ _) = ur_id user"

lemma set_ProjectsByOwner:
  "p \<in> set (ProjectsByOwner owner d) \<longleftrightarrow> p \<in> set (kd_projects d) \<and> pt_owner_user_id p = owner \<and> \<not> pt_deleted p"
  by (auto simp: ProjectsByOwner_def)

lemma other_project:
  assumes "key_inv us d" "p \<in> set (kd_projects d)" "q \<in> set (kd_projects d)"
    "pt_owner_user_id p \<noteq> pt_owner_user_id q"
  shows "pt_id p \<noteq> pt_id q"
proof -
  have "inj_on pt_id (set (kd_projects d))" using assms(1) by (simp add: key_inv_def key_ids_ok_def distinct_map)
  then show ?thesis using assms(2-) by (auto dest: inj_onD)
qed

lemma APIKeysByProject_append:
  "APIKeysByProject i (d\<lparr>kd_keys := kd_keys d @ [k]\<rparr>) =
     (if kt_project_id k = i then k # APIKeysByProject i d else APIKeysByProject i d)"
  by (simp add: APIKeysByProject_def)

lemma APIKeysByProject_revoke:
  "APIKeysByProject i (d\<lparr>kd_keys := revoke_rows j kid (kd_keys d)\<rparr>) =
     (if i = j then revoke_rows j kid (APIKeysByProject i d) else APIKeysByProject i d)"
proof -
  have "filter (\<lambda>k. kt_project_id k = i) (revoke_rows j kid ks) =
      (if i = j then revoke_rows j kid (filter (\<lambda>k. kt_project_id k = i) ks) else filter (\<lambda>k. kt_project_id k = i) ks)"
    for ks by (induction ks) (auto simp: revoke_rows_def live_key_def)
  then show ?thesis by (simp add: APIKeysByProject_def) (simp add: revoke_rows_def rev_map)
qed

lemma owned_view_cong:
  assumes "ProjectsByOwner owner d' = ProjectsByOwner owner d"
    "\<And>p. p \<in> set (ProjectsByOwner owner d) \<Longrightarrow> APIKeysByProject (pt_id p) d' = APIKeysByProject (pt_id p) d"
  shows "owned_view owner d' = owned_view owner d"
  using assms by (simp add: owned_view_def)

lemma keys_elsewhere:
  assumes "key_inv us d" "ProjectByPublicIDForOwner served other prj d = Inr q" "other \<noteq> owner"
    "p \<in> set (ProjectsByOwner owner d)"
  shows "pt_id p \<noteq> pt_id q"
  using other_project [OF assms(1), of p q] project_found [OF assms(2)] assms(3,4) by (auto simp: set_ProjectsByOwner)

lemma NewProject_view:
  assumes "key_inv us d" "ur_id user \<noteq> owner" "CreateProject served i pid user name cap d = (r, d')"
  shows "owned_view owner d' = owned_view owner d"
  using assms(2,3)
  by (auto simp: CreateProject_def store_project_def Let_def owned_view_def ProjectsByOwner_def APIKeysByProject_def
      split: if_splits)

lemma NewKey_view:
  assumes "key_inv us d" "ur_id user \<noteq> owner"
    "CreateAPIKey sha pepper served i pid pre secret now user prj name d = (r, d')"
  shows "owned_view owner d' = owned_view owner d"
proof (cases r)
  case (Inl e)
  with assms(3) CreateAPIKey_Inl show ?thesis by metis
next
  case (Inr kp)
  obtain k plain where "kp = (k, plain)" by (cases kp)
  with CreateAPIKey_Inr assms(3) Inr obtain p :: project_row where
    p: "ProjectByPublicIDForOwner served (ur_id user) prj d = Inr p" "kt_project_id k = pt_id p"
      "d' = d\<lparr>kd_keys := kd_keys d @ [k]\<rparr>" by blast
  show ?thesis
  proof (rule owned_view_cong)
    show "ProjectsByOwner owner d' = ProjectsByOwner owner d" by (simp add: p(3) ProjectsByOwner_def)
    show "APIKeysByProject (pt_id q) d' = APIKeysByProject (pt_id q) d" if "q \<in> set (ProjectsByOwner owner d)" for q
      using keys_elsewhere [OF assms(1) p(1) assms(2) that] by (simp add: p(2,3) APIKeysByProject_append)
  qed
qed

lemma RevokeKey_view:
  assumes "key_inv us d" "ur_id user \<noteq> owner" "RevokeAPIKey served user prj kid d = (r, d')"
  shows "owned_view owner d' = owned_view owner d"
proof (cases r)
  case (Inl e)
  with assms(3) RevokeAPIKey_Inl show ?thesis by metis
next
  case (Inr u)
  with RevokeAPIKey_Inr assms(3) obtain p :: project_row where
    p: "ProjectByPublicIDForOwner served (ur_id user) prj d = Inr p"
      "d' = d\<lparr>kd_keys := revoke_rows (pt_id p) kid (kd_keys d)\<rparr>" by blast
  show ?thesis
  proof (rule owned_view_cong)
    show "ProjectsByOwner owner d' = ProjectsByOwner owner d" by (simp add: p(2) ProjectsByOwner_def)
    show "APIKeysByProject (pt_id q) d' = APIKeysByProject (pt_id q) d" if "q \<in> set (ProjectsByOwner owner d)" for q
      using keys_elsewhere [OF assms(1) p(1) assms(2) that] by (simp add: p(2) APIKeysByProject_revoke)
  qed
qed

section \<open>The page and the server\<close>

text \<open>What the page holds for a project is what the server would list for it.\<close>

definition shows_keys :: "string \<Rightarrow> key_store \<Rightarrow> keys_page \<Rightarrow> bool" where
  "shows_keys projectID d s \<longleftrightarrow> ky_keys s = map key_json (APIKeysByProject projectID d)"

lemma client_key_name:
  "BodyParser env [''name''] (api_request base tok path (c_init (createAPIKey prj n))) = Some [n]"
proof -
  have n: "lowercase ''name'' = ''name''" by code_simp
  show ?thesis
    using client_body [of base tok path]
    by (simp add: BodyParser_def createAPIKey_def n) (simp add: api_request_def Let_def send_init_def n)
qed

lemma page_revokes:
  "list_all (\<lambda>k. kt_project_id k = i \<and> known_status k) ks \<Longrightarrow>
     update_by k_id kid (\<lambda>k. k\<lparr>k_status := ''revoked''\<rparr>) (map key_json ks) = map key_json (revoke_rows i kid ks)"
  by (induction ks) (auto simp: update_by_def revoke_rows_def live_key_def key_json_def known_status_def)

lemma Handle_refused:
  "\<exists>x. object_result absent' (Handle rid absent e) = Inl x" "\<exists>x. void_result (Handle rid () e) = Inl x"
  by (auto simp: object_result_def void_result_def Handle_def Error_def res_ok_def)

lemma CreateAPIKeyHandler_client:
  assumes "CreateAPIKeyHandler env sha pepper served j pid pre secret now rid user prj
       (api_request base tok path (c_init (createAPIKey prj n))) d = (answer, d')"
  obtains e where "answer = Handle rid \<lparr>kc_api_key = None, kc_plaintext_key = None\<rparr> e" "d' = d"
  | k plain where "CreateAPIKey sha pepper served j pid pre secret now user prj n d = (Inr (k, plain), d')"
      "answer = OK \<lparr>kc_api_key = Some (key_json k), kc_plaintext_key = Some plain\<rparr>"
proof -
  obtain r x where c: "CreateAPIKey sha pepper served j pid pre secret now user prj n d = (r, x)"
    by (cases "CreateAPIKey sha pepper served j pid pre secret now user prj n d")
  show ?thesis
  proof (cases r)
    case (Inl e)
    with assms c CreateAPIKey_Inl show ?thesis
      by (intro that(1)) (auto simp: CreateAPIKeyHandler_def client_key_name answer_with_def)
  next
    case (Inr kp)
    with assms c show ?thesis
      by (intro that(2) [of "fst kp" "snd kp"]) (auto simp: CreateAPIKeyHandler_def client_key_name answer_with_def split: prod.splits)
  qed
qed

text \<open>C23: The operations of a user leave everybody else alone: after any history, creating a project, creating
  a key or revoking a key, with whatever identifiers it names, changes neither the projects nor the keys
  that another user sees.\<close>

theorem key_isolation:
  assumes "run (key_step sha pepper) (key_start us) es = Some d" "key_step sha pepper d e = Some d'"
    "actor e \<noteq> owner"
  shows "owned_view owner d' = owned_view owner d"
proof -
  have inv: "key_inv us d" using assms(1) by (rule keys_server.run_inv)
  show ?thesis
  proof (cases e)
    case (NewProject served i pid user name cap)
    with assms(2,3) show ?thesis
      using NewProject_view [OF inv, of user owner served i pid name cap "fst (CreateProject served i pid user name cap d)" d']
      by (simp add: prod_eq_iff)
  next
    case (NewKey served i pid pre secret now user prj name)
    with assms(2,3) show ?thesis
      using NewKey_view [OF inv, of user owner sha pepper served i pid pre secret now prj name
          "fst (CreateAPIKey sha pepper served i pid pre secret now user prj name d)" d']
      by (simp add: prod_eq_iff)
  next
    case (RevokeKey served user prj kid)
    with assms(2,3) show ?thesis
      using RevokeKey_view [OF inv, of user owner served prj kid "fst (RevokeAPIKey served user prj kid d)" d']
      by (simp add: prod_eq_iff)
  qed
qed

theorem key_isolation_witness:
  "owned_view ''u'' (the (key_step (\<lambda>t. t) ''s'' shop_store (RevokeKey True (shop_user ''v'') ''prj_1'' ''key_8'')))
     = owned_view ''u'' shop_store \<and> length (owned_view ''u'' shop_store) = 1"
proof -
  have "length (owned_view ''u'' shop_store) = 1" by code_simp
  moreover have "owned_view ''u'' (the (key_step (\<lambda>t. t) ''s'' shop_store (RevokeKey True (shop_user ''v'') ''prj_1'' ''key_8'')))
     = owned_view ''u'' shop_store"
    by (rule key_isolation [OF shop_run, where e = "RevokeKey True (shop_user ''v'') ''prj_1'' ''key_8''"])
      (simp_all add: shop_user_def)
  ultimately show ?thesis by blast
qed


definition shop_page :: keys_page where
  "shop_page = keys_start\<lparr>ky_projectID := ''prj_1'', ky_keys := map key_json (APIKeysByProject ''1'' shop_store),
     ky_creating := [(''prj_1'', ''Web'')], ky_revoking := [(''prj_1'', ''key_8'')]\<rparr>"


text \<open>The same holds for a revocation: when the server answers the page's request, the page marks
  exactly the key that the server has marked, and on a refusal neither changes.\<close>

theorem revoked_key_shown:
  assumes "run (key_step sha pepper) (key_start us) es = Some d"
    "shows_keys (pt_id p) d s" "\<not> ky_crashed s" "i < length (ky_revoking s)" "ky_revoking s ! i = (prj, kid)"
    "ProjectByPublicIDForOwner True (ur_id user) prj d = Inr p"
    "RevokeAPIKeyHandler served rid user prj kid d = (answer, d')"
  shows "\<exists>t. keys_step s (Revoked i answer) = Some t \<and> shows_keys (pt_id p) d' t
     \<and> (ky_error t = ky_error s \<or> ky_error t \<noteq> None \<and> d' = d)"
proof -
  obtain r where c: "RevokeAPIKey served user prj kid d = (r, d')" "answer = no_content rid r"
    using assms(7) by (auto simp: RevokeAPIKeyHandler_def split: prod.splits)
  show ?thesis
  proof (cases r)
    case (Inl e)
    obtain x where "c_settle (revokeAPIKey prj kid) answer = Inl x"
      using Handle_refused(2) by (fastforce simp: revokeAPIKey_def c(2) Inl no_content_def)
    moreover have "d' = d" using c(1) Inl RevokeAPIKey_Inl by metis
    ultimately show ?thesis using assms(2-5) by (simp add: keys_step_def keys_revoked_def shows_keys_def Let_def)
  next
    case (Inr u)
    have d': "d' = d\<lparr>kd_keys := revoke_rows (pt_id p) kid (kd_keys d)\<rparr>"
      using RevokeAPIKey_Inr [OF c(1) [unfolded Inr]] assms(6)
      unfolding ProjectByPublicIDForOwner_def by (auto split: if_splits)
    have "c_settle (revokeAPIKey prj kid) answer = Inr ()"
      by (simp add: revokeAPIKey_def c(2) Inr no_content_def void_result_def res_ok_def)
    moreover have "list_all (\<lambda>k. kt_project_id k = pt_id p \<and> known_status k) (APIKeysByProject (pt_id p) d)"
      using keys_server.run_inv [OF assms(1)] by (auto simp: key_inv_def APIKeysByProject_def list_all_iff)
    ultimately show ?thesis
      using assms(2-5) by (simp add: keys_step_def keys_revoked_def shows_keys_def Let_def d' APIKeysByProject_revoke page_revokes)
  qed
qed

theorem revoked_key_shown_witness:
  "\<exists>t answer d'. RevokeAPIKeyHandler True ''req'' (shop_user ''u'') ''prj_1'' ''key_8'' shop_store = (answer, d')
     \<and> keys_step shop_page (Revoked 0 answer) = Some t \<and> shows_keys ''1'' d' t"
proof -
  obtain answer d' where h: "RevokeAPIKeyHandler True ''req'' (shop_user ''u'') ''prj_1'' ''key_8'' shop_store = (answer, d')"
    by fastforce
  have "shows_keys (pt_id shop_project) shop_store shop_page" "\<not> ky_crashed shop_page" "0 < length (ky_revoking shop_page)"
    "ky_revoking shop_page ! 0 = (''prj_1'', ''key_8'')"
    by (simp_all add: shows_keys_def shop_page_def shop_project_def keys_start_def)
  from revoked_key_shown [OF shop_run this shop_owned h] h show ?thesis
    by (auto simp: shop_project_def)
qed

end
