(* ===== verification/Nodes.thy ===== *)
theory Nodes
  imports Accounts
begin

text \<open>
  The nodes on the server: \<open>ProviderService\<close> and the node operations of \<open>AdminService\<close> in
  \<open>apps/api/internal/service/services.go\<close> with their statements in \<open>repository/store.go\<close>, the messages of a
  node that \<open>ProviderWS\<close> of \<open>handler/handlers.go\<close> handles (the messages about jobs are in the theory of the
  hub), the sweep of \<open>cmd/api/main.go\<close> and the choice of a node for a request. Times are in seconds; ids
  and tokens are drawn outside; \<open>served\<close> says whether the database serves the statements of a call.
  Where a statement leaves the choice among several rows open, the first row stands for it.
\<close>

section \<open>Tables\<close>

record provider_row =
  np_id :: string
  np_public_id :: string
  np_owner_user_id :: string
  np_name :: string
  np_region_hint :: "string option"
  np_approval_status :: string
  np_status :: string
  np_allow_auto_model_pull :: bool
  np_token_prefix :: string
  np_token_hash :: string
  np_wallet_id :: "string option"
  np_deleted :: bool

record instance_row =
  ni_id :: string
  ni_public_id :: string
  ni_provider_id :: string
  ni_instance_key :: string
  ni_hostname :: string
  ni_os :: string
  ni_arch :: string
  ni_app_version :: string
  ni_status :: string
  ni_last_heartbeat_at :: int
  ni_current_job_id :: "string option"

record hardware_row =
  hw_instance_id :: string
  hw_cpu_model :: string
  hw_ram_mb :: int
  hw_gpu_name :: string
  hw_gpu_vram_mb :: int
  hw_gpu_driver :: string

record ad_row =
  na_id :: string
  na_public_id :: string
  na_provider_id :: string
  na_instance_id :: string
  na_model_id :: "string option"
  na_model_version_id :: "string option"
  na_runtime :: string
  na_runtime_model_name :: string
  na_local_digest :: string
  na_status :: string

record version_row =
  mv_id :: string
  mv_model_id :: string
  mv_runtime :: string
  mv_runtime_model_name :: string
  mv_status :: string

record node_tables =
  nt_providers :: "provider_row list"
  nt_instances :: "instance_row list"
  nt_hardware :: "hardware_row list"
  nt_ads :: "ad_row list"
  nt_versions :: "version_row list"
  nt_db :: db

definition audit :: "string \<Rightarrow> string \<Rightarrow> string \<Rightarrow> db \<Rightarrow> db" where
  "audit actor action target d =
     d\<lparr>db_audit := db_audit d @ [\<lparr>at_actor = actor, at_action = action, at_target = target\<rparr>]\<rparr>"

section \<open>Creation and tokens\<close>

definition provider_token :: "string \<Rightarrow> string \<Rightarrow> string" where
  "provider_token pre secret = ''pvn_provider_'' @ pre @ ''_'' @ secret"

definition store_provider :: "provider_row \<Rightarrow> node_tables \<Rightarrow> svc_error + node_tables" where
  "store_provider p t =
     (if \<not> (\<exists>u \<in> set (db_users (nt_db t)). ur_id u = np_owner_user_id p) then Inl (DbError ''foreign key'')
      else if (\<exists>q \<in> set (nt_providers t). np_id q = np_id p \<or> np_public_id q = np_public_id p \<or> np_token_hash q = np_token_hash p)
        then Inl DuplicateKey
      else Inr (t\<lparr>nt_providers := nt_providers t @ [p]\<rparr>))"

definition SetProviderWallet :: "string \<Rightarrow> string \<Rightarrow> node_tables \<Rightarrow> node_tables" where
  "SetProviderWallet providerID walletID t =
     t\<lparr>nt_providers := update_by np_id providerID (\<lambda>p. p\<lparr>np_wallet_id := Some walletID\<rparr>) (nt_providers t)\<rparr>"

text \<open>\<open>dev\<close>: automatic approval is configured and the environment is the one of development.\<close>

definition CreateProvider :: "(string \<Rightarrow> string) \<Rightarrow> string \<Rightarrow> bool \<Rightarrow> bool \<Rightarrow> string \<Rightarrow> string \<Rightarrow> string \<Rightarrow> string \<Rightarrow> string
    \<Rightarrow> user_row \<Rightarrow> string \<Rightarrow> string option \<Rightarrow> bool \<Rightarrow> node_tables \<Rightarrow> (svc_error + provider_row \<times> string) \<times> node_tables" where
  "CreateProvider sha pepper dev served i publicID wid pre secret user name region auto t =
     (if TrimSpace name = [] then (Inl ErrInvalidInput, t)
      else if \<not> served then (Inl (DbError ''unavailable''), t)
      else let plaintext = provider_token pre secret;
               p = \<lparr>np_id = i, np_public_id = publicID, np_owner_user_id = ur_id user, np_name = TrimSpace name,
                    np_region_hint = region, np_approval_status = (if dev then ''approved'' else ''pending''),
                    np_status = ''active'', np_allow_auto_model_pull = auto, np_token_prefix = pre,
                    np_token_hash = sha (pepper @ plaintext), np_wallet_id = None, np_deleted = False\<rparr>
           in case store_provider p t of
                Inl e \<Rightarrow> (Inl e, t)
              | Inr t1 \<Rightarrow> (case CreateWallet wid ''provider'' i (nt_db t1) of
                    Inl e \<Rightarrow> (Inl e, t)
                  | Inr d \<Rightarrow> (Inr (p, plaintext), SetProviderWallet i wid (t1\<lparr>nt_db := d\<rparr>))))"

definition ResolveToken :: "(string \<Rightarrow> string) \<Rightarrow> string \<Rightarrow> bool \<Rightarrow> string \<Rightarrow> node_tables \<Rightarrow> svc_error + provider_row" where
  "ResolveToken sha pepper served token t =
     (if \<not> prefix ''pvn_provider_'' token then Inl ErrInvalidCredentials
      else if \<not> served then Inl (DbError ''unavailable'')
      else case find (\<lambda>p. np_token_hash p = sha (pepper @ token) \<and> np_status p = ''active'' \<and> \<not> np_deleted p) (nt_providers t) of
        None \<Rightarrow> Inl ErrNotFound | Some p \<Rightarrow> Inr p)"

section \<open>Messages of a node\<close>

definition UpsertInstance :: "bool \<Rightarrow> int \<Rightarrow> string \<Rightarrow> string \<Rightarrow> provider_row \<Rightarrow> string \<times> string \<times> string \<times> string \<times> string
    \<Rightarrow> node_tables \<Rightarrow> (svc_error + instance_row) \<times> node_tables" where
  "UpsertInstance served now i publicID provider hello t =
     (case hello of (key, hostname, os, arch, version) \<Rightarrow>
        if TrimSpace key = [] then (Inl ErrInvalidInput, t)
        else if \<not> served then (Inl (DbError ''unavailable''), t)
        else case find (\<lambda>x. ni_provider_id x = np_id provider \<and> ni_instance_key x = key) (nt_instances t) of
            Some x \<Rightarrow>
              (let x' = x\<lparr>ni_hostname := hostname, ni_os := os, ni_arch := arch, ni_app_version := version,
                          ni_status := ''online'', ni_last_heartbeat_at := now\<rparr>
               in (Inr x', t\<lparr>nt_instances := update_by ni_id (ni_id x) (\<lambda>_. x') (nt_instances t)\<rparr>))
          | None \<Rightarrow>
              if (\<exists>x \<in> set (nt_instances t). ni_id x = i \<or> ni_public_id x = publicID) then (Inl DuplicateKey, t)
              else let x = \<lparr>ni_id = i, ni_public_id = publicID, ni_provider_id = np_id provider, ni_instance_key = key,
                            ni_hostname = hostname, ni_os = os, ni_arch = arch, ni_app_version = version,
                            ni_status = ''online'', ni_last_heartbeat_at = now, ni_current_job_id = None\<rparr>
                   in (Inr x, t\<lparr>nt_instances := nt_instances t @ [x]\<rparr>))"

definition Heartbeat :: "bool \<Rightarrow> int \<Rightarrow> instance_row \<Rightarrow> string \<Rightarrow> string option \<Rightarrow> node_tables \<Rightarrow> (svc_error + unit) \<times> node_tables" where
  "Heartbeat served now x status job t =
     (if status \<noteq> ''online'' \<and> status \<noteq> ''busy'' \<and> status \<noteq> ''draining'' then (Inl ErrInvalidInput, t)
      else if \<not> served then (Inl (DbError ''unavailable''), t)
      else (Inr (), t\<lparr>nt_instances := update_by ni_id (ni_id x)
             (\<lambda>x. x\<lparr>ni_status := status, ni_current_job_id := job, ni_last_heartbeat_at := now\<rparr>) (nt_instances t)\<rparr>))"

definition HardwareReport :: "bool \<Rightarrow> instance_row \<Rightarrow> string \<times> int \<times> (string \<times> int \<times> string) list \<Rightarrow> node_tables
    \<Rightarrow> (svc_error + unit) \<times> node_tables" where
  "HardwareReport served x report t =
     (case report of (cpu, ram, gpus) \<Rightarrow>
        if \<not> served then (Inl (DbError ''unavailable''), t)
        else case (case gpus of [] \<Rightarrow> ([], 0, []) | g # _ \<Rightarrow> g) of (name, vram, driver) \<Rightarrow>
          (Inr (), t\<lparr>nt_hardware := nt_hardware t @ [\<lparr>hw_instance_id = ni_id x, hw_cpu_model = cpu, hw_ram_mb = ram,
             hw_gpu_name = name, hw_gpu_vram_mb = vram, hw_gpu_driver = driver\<rparr>]\<rparr>))"

definition matching_version :: "string \<Rightarrow> string \<Rightarrow> node_tables \<Rightarrow> version_row option" where
  "matching_version runtime name t =
     find (\<lambda>v. mv_runtime v = runtime \<and> mv_runtime_model_name v = name \<and> mv_status v = ''active'') (nt_versions t)"

definition same_ad :: "string \<Rightarrow> string \<Rightarrow> string \<Rightarrow> string \<Rightarrow> ad_row \<Rightarrow> bool" where
  "same_ad providerID instanceID runtime name a \<longleftrightarrow> na_provider_id a = providerID \<and> na_instance_id a = instanceID
     \<and> na_runtime a = runtime \<and> na_runtime_model_name a = name"

text \<open>A known advertisement gets the digest, a new one is pending.\<close>

definition UpsertAd :: "bool \<Rightarrow> string \<Rightarrow> string \<Rightarrow> string \<Rightarrow> string \<Rightarrow> string \<Rightarrow> string \<Rightarrow> string \<Rightarrow> node_tables
    \<Rightarrow> (svc_error + unit) \<times> node_tables" where
  "UpsertAd served i publicID providerID instanceID runtime name digest t =
     (if \<not> served then (Inl (DbError ''unavailable''), t)
      else if (\<exists>a \<in> set (nt_ads t). same_ad providerID instanceID runtime name a)
        then (Inr (), t\<lparr>nt_ads := map (\<lambda>a. if same_ad providerID instanceID runtime name a
                                            then a\<lparr>na_local_digest := digest\<rparr> else a) (nt_ads t)\<rparr>)
      else if (\<exists>a \<in> set (nt_ads t). na_id a = i \<or> na_public_id a = publicID) then (Inl DuplicateKey, t)
      else (Inr (), t\<lparr>nt_ads := nt_ads t @ [\<lparr>na_id = i, na_public_id = publicID, na_provider_id = providerID,
             na_instance_id = instanceID, na_model_id = map_option mv_model_id (matching_version runtime name t),
             na_model_version_id = map_option mv_id (matching_version runtime name t), na_runtime = runtime,
             na_runtime_model_name = name, na_local_digest = digest, na_status = ''pending''\<rparr>]\<rparr>))"

text \<open>The loop over the reported models, in the order in which it visits them; with each entry comes
  whether its statement is served and the ids that it draws.\<close>

fun ModelList :: "provider_row \<Rightarrow> instance_row \<Rightarrow> string \<Rightarrow> (string \<times> string \<times> bool \<times> string \<times> string) list \<Rightarrow> node_tables
    \<Rightarrow> (svc_error + unit) \<times> node_tables" where
  "ModelList p x runtime [] t = (Inr (), t)"
| "ModelList p x runtime ((name, digest, served, i, publicID) # ms) t =
     (if TrimSpace name = [] then ModelList p x runtime ms t
      else case UpsertAd served i publicID (np_id p) (ni_id x) (if runtime = [] then ''ollama'' else runtime) name digest t of
          (Inl e, t') \<Rightarrow> (Inl e, t')
        | (Inr u, t') \<Rightarrow> ModelList p x runtime ms t')"

text \<open>The loop of a connection: the provider as it was when the node connected, and the instance of the last
  hello. A payload that cannot be read is \<open>None\<close>.\<close>

record node_conn =
  wc_provider :: provider_row
  wc_instance :: "instance_row option"

datatype node_message =
    BadEnvelope
  | Hello bool int string string "(string \<times> string \<times> string \<times> string \<times> string) option"
  | Beat bool int "(string \<times> string option) option"
  | Hardware bool "(string \<times> int \<times> (string \<times> int \<times> string) list) option"
  | Advertise "(string \<times> (string \<times> string \<times> bool \<times> string \<times> string) list) option"
  | Unknown

datatype node_reply = WsError string | HelloAck string string string

definition reply_unless :: "string \<Rightarrow> svc_error + unit \<Rightarrow> node_reply list" where
  "reply_unless m r = (case r of Inl e \<Rightarrow> [WsError m] | Inr u \<Rightarrow> [])"

fun ProviderWS :: "node_conn \<Rightarrow> node_message \<Rightarrow> node_tables \<Rightarrow> node_reply list \<times> node_conn \<times> node_tables" where
  "ProviderWS c BadEnvelope t = ([WsError ''invalid_message''], c, t)"
| "ProviderWS c (Hello served now i publicID payload) t =
     (case payload of
        None \<Rightarrow> ([WsError ''invalid_hello''], c, t)
      | Some hello \<Rightarrow>
          if fst hello = [] then ([WsError ''invalid_hello''], c, t)
          else case UpsertInstance served now i publicID (wc_provider c) hello t of
              (Inl e, t') \<Rightarrow> ([WsError ''hello_failed''], c\<lparr>wc_instance := None\<rparr>, t')
            | (Inr x, t') \<Rightarrow> ([HelloAck (np_public_id (wc_provider c)) (ni_public_id x) (np_approval_status (wc_provider c))],
                c\<lparr>wc_instance := Some x\<rparr>, t'))"
| "ProviderWS c (Beat served now payload) t =
     (case wc_instance c of
        None \<Rightarrow> ([WsError ''hello_required''], c, t)
      | Some x \<Rightarrow> (case payload of
          None \<Rightarrow> ([WsError ''invalid_heartbeat''], c, t)
        | Some (status, job) \<Rightarrow> (let (r, t') = Heartbeat served now x status job t in (reply_unless ''heartbeat_failed'' r, c, t'))))"
| "ProviderWS c (Hardware served payload) t =
     (case wc_instance c of
        None \<Rightarrow> ([WsError ''hello_required''], c, t)
      | Some x \<Rightarrow> (case payload of
          None \<Rightarrow> ([WsError ''invalid_hardware_report''], c, t)
        | Some report \<Rightarrow> (let (r, t') = HardwareReport served x report t in (reply_unless ''hardware_report_failed'' r, c, t'))))"
| "ProviderWS c (Advertise payload) t =
     (case wc_instance c of
        None \<Rightarrow> ([WsError ''hello_required''], c, t)
      | Some x \<Rightarrow> (case payload of
          None \<Rightarrow> ([WsError ''invalid_model_list''], c, t)
        | Some (runtime, ms) \<Rightarrow>
            (let (r, t') = ModelList (wc_provider c) x runtime ms t in (reply_unless ''model_list_failed'' r, c, t'))))"
| "ProviderWS c Unknown t = ([], c, t)"

section \<open>Administration\<close>

definition provider_by_public :: "string \<Rightarrow> node_tables \<Rightarrow> provider_row option" where
  "provider_by_public publicID t = find (\<lambda>p. np_public_id p = publicID \<and> \<not> np_deleted p) (nt_providers t)"

definition SetProviderApproval :: "bool \<Rightarrow> user_row \<Rightarrow> string \<Rightarrow> string \<Rightarrow> node_tables \<Rightarrow> (svc_error + unit) \<times> node_tables" where
  "SetProviderApproval served user publicID status t =
     (if ur_role user \<noteq> ''admin'' then (Inl ErrForbidden, t)
      else if status \<noteq> ''approved'' \<and> status \<noteq> ''rejected'' then (Inl ErrInvalidInput, t)
      else if \<not> served then (Inl (DbError ''unavailable''), t)
      else case provider_by_public publicID t of
          None \<Rightarrow> (Inl ErrNotFound, t)
        | Some p \<Rightarrow> (Inr (), t\<lparr>nt_providers := update_by np_id (np_id p) (\<lambda>p. p\<lparr>np_approval_status := status\<rparr>) (nt_providers t),
            nt_db := audit (ur_id user) (''provider_'' @ status) (np_id p) (nt_db t)\<rparr>))"

definition DisableProvider :: "bool \<Rightarrow> user_row \<Rightarrow> string \<Rightarrow> node_tables \<Rightarrow> (svc_error + unit) \<times> node_tables" where
  "DisableProvider served user publicID t =
     (if ur_role user \<noteq> ''admin'' then (Inl ErrForbidden, t)
      else if \<not> served then (Inl (DbError ''unavailable''), t)
      else case provider_by_public publicID t of
          None \<Rightarrow> (Inl ErrNotFound, t)
        | Some p \<Rightarrow> (Inr (), t\<lparr>nt_providers := update_by np_id (np_id p) (\<lambda>p. p\<lparr>np_status := ''disabled''\<rparr>) (nt_providers t),
            nt_instances := update_by ni_provider_id (np_id p) (\<lambda>x. x\<lparr>ni_status := ''offline''\<rparr>) (nt_instances t),
            nt_db := audit (ur_id user) ''provider_disabled'' (np_id p) (nt_db t)\<rparr>))"

definition SetProviderModelAdvertisementStatus ::
  "bool \<Rightarrow> user_row \<Rightarrow> string \<Rightarrow> string \<Rightarrow> node_tables \<Rightarrow> (svc_error + unit) \<times> node_tables" where
  "SetProviderModelAdvertisementStatus served user publicID status t =
     (if ur_role user \<noteq> ''admin'' then (Inl ErrForbidden, t)
      else if status \<noteq> ''approved'' \<and> status \<noteq> ''rejected'' then (Inl ErrInvalidInput, t)
      else if \<not> served then (Inl (DbError ''unavailable''), t)
      else case find (\<lambda>a. na_public_id a = publicID) (nt_ads t) of
          None \<Rightarrow> (Inl ErrNotFound, t)
        | Some a \<Rightarrow> (Inr (), t\<lparr>nt_ads := update_by na_id (na_id a) (\<lambda>a. a\<lparr>na_status := status\<rparr>) (nt_ads t),
            nt_db := audit (ur_id user) (''provider_model_advertisement_'' @ status) (na_id a) (nt_db t)\<rparr>))"

text \<open>The sweep that the server runs at an interval.\<close>

definition stale :: "int \<Rightarrow> instance_row \<Rightarrow> bool" where
  "stale cutoff x \<longleftrightarrow> ni_status x \<in> {''online'', ''busy'', ''draining''} \<and> ni_last_heartbeat_at x < cutoff"

definition MarkOfflineTimedOut :: "bool \<Rightarrow> int \<Rightarrow> int \<Rightarrow> node_tables \<Rightarrow> node_tables" where
  "MarkOfflineTimedOut served timeout now t =
     (if \<not> served then t
      else t\<lparr>nt_instances := map (\<lambda>x. if stale (now - timeout) x then x\<lparr>ni_status := ''offline''\<rparr> else x) (nt_instances t)\<rparr>)"

section \<open>The choice of a node\<close>

type_synonym route_row = "provider_row \<times> instance_row \<times> ad_row \<times> version_row"

definition routable :: "string \<Rightarrow> route_row \<Rightarrow> bool" where
  "routable modelID r = (case r of (p, x, a, v) \<Rightarrow>
     ni_provider_id x = np_id p \<and> na_provider_id a = np_id p \<and> na_instance_id a = ni_id x
     \<and> na_model_version_id a = Some (mv_id v)
     \<and> np_approval_status p = ''approved'' \<and> np_status p = ''active'' \<and> ni_status x = ''online''
     \<and> na_status a = ''approved'' \<and> na_model_id a = Some modelID \<and> mv_status v = ''active'')"

definition joined :: "node_tables \<Rightarrow> route_row list" where
  "joined t = List.product (nt_providers t) (List.product (nt_instances t) (List.product (nt_ads t) (nt_versions t)))"

definition latest :: "route_row list \<Rightarrow> route_row option" where
  "latest rs = find (\<lambda>(p, x, a, v). list_all (\<lambda>(q, y, b, w). ni_last_heartbeat_at y \<le> ni_last_heartbeat_at x) rs) rs"

definition FindProvider :: "bool \<Rightarrow> string \<Rightarrow> node_tables \<Rightarrow> svc_error + route_row" where
  "FindProvider served modelID t =
     (if \<not> served then Inl (DbError ''unavailable'')
      else case latest (filter (routable modelID) (joined t)) of None \<Rightarrow> Inl ErrNotFound | Some r \<Rightarrow> Inr r)"


section \<open>Histories\<close>

record node_server =
  nx_tables :: node_tables
  nx_conns :: "node_conn list"

datatype node_event =
    NewNode bool string string string string string user_row string "string option" bool
  | OpenConn bool string
  | OfConn nat node_message
  | Decide bool user_row string string
  | DisableNode bool user_row string
  | DecideAd bool user_row string string
  | Sweep bool int int

text \<open>Whoever calls a handler has been looked up in the table of users.\<close>

definition caller :: "user_row \<Rightarrow> node_server \<Rightarrow> bool" where
  "caller user s \<longleftrightarrow> user \<in> set (db_users (nt_db (nx_tables s)))"

definition on_tables :: "('a \<times> node_tables) \<Rightarrow> node_server \<Rightarrow> node_server" where
  "on_tables r s = s\<lparr>nx_tables := snd r\<rparr>"

fun node_step :: "(string \<Rightarrow> string) \<Rightarrow> string \<Rightarrow> bool \<Rightarrow> (node_server, node_event) machine" where
  "node_step sha pepper dev s (NewNode served i pid wid pre secret user name region auto) =
     (if caller user s
      then Some (on_tables (CreateProvider sha pepper dev served i pid wid pre secret user name region auto (nx_tables s)) s)
      else None)"
| "node_step sha pepper dev s (OpenConn served token) =
     Some (case ResolveToken sha pepper served token (nx_tables s) of
         Inl e \<Rightarrow> s
       | Inr p \<Rightarrow> s\<lparr>nx_conns := nx_conns s @ [\<lparr>wc_provider = p, wc_instance = None\<rparr>]\<rparr>)"
| "node_step sha pepper dev s (OfConn k m) =
     (if k < length (nx_conns s)
      then case ProviderWS (nx_conns s ! k) m (nx_tables s) of
          (rs, c, t) \<Rightarrow> Some (s\<lparr>nx_tables := t, nx_conns := (nx_conns s)[k := c]\<rparr>)
      else None)"
| "node_step sha pepper dev s (Decide served user pid status) =
     (if caller user s then Some (on_tables (SetProviderApproval served user pid status (nx_tables s)) s) else None)"
| "node_step sha pepper dev s (DisableNode served user pid) =
     (if caller user s then Some (on_tables (DisableProvider served user pid (nx_tables s)) s) else None)"
| "node_step sha pepper dev s (DecideAd served user pid status) =
     (if caller user s then Some (on_tables (SetProviderModelAdvertisementStatus served user pid status (nx_tables s)) s) else None)"
| "node_step sha pepper dev s (Sweep served timeout now) =
     Some (s\<lparr>nx_tables := MarkOfflineTimedOut served timeout now (nx_tables s)\<rparr>)"

definition node_start :: "user_row list \<Rightarrow> version_row list \<Rightarrow> node_server" where
  "node_start us vs = \<lparr>nx_tables = \<lparr>nt_providers = [], nt_instances = [], nt_hardware = [], nt_ads = [], nt_versions = vs,
     nt_db = empty_db\<lparr>db_users := us\<rparr>\<rparr>, nx_conns = []\<rparr>"

section \<open>The audit log as the specification of every approval\<close>

definition last_decision :: "string list \<Rightarrow> string \<Rightarrow> db \<Rightarrow> string option" where
  "last_decision actions i d =
     map_option at_action (find (\<lambda>r. at_target r = i \<and> at_action r \<in> set actions) (rev (db_audit d)))"

definition approvals :: "string list" where "approvals = [''provider_approved'', ''provider_rejected'']"

definition disablings :: "string list" where "disablings = [''provider_disabled'']"

definition ad_decisions :: "string list" where
  "ad_decisions = [''provider_model_advertisement_approved'', ''provider_model_advertisement_rejected'']"

definition provider_explained :: "bool \<Rightarrow> db \<Rightarrow> provider_row \<Rightarrow> bool" where
  "provider_explained dev d p \<longleftrightarrow>
     np_approval_status p = (case last_decision approvals (np_id p) d of
         None \<Rightarrow> if dev then ''approved'' else ''pending''
       | Some a \<Rightarrow> if a = ''provider_approved'' then ''approved'' else ''rejected'')
     \<and> np_status p = (if last_decision disablings (np_id p) d = None then ''active'' else ''disabled'')"

definition ad_explained :: "string list \<Rightarrow> db \<Rightarrow> ad_row \<Rightarrow> bool" where
  "ad_explained models d a \<longleftrightarrow>
     na_status a = (case last_decision ad_decisions (na_id a) d of
         None \<Rightarrow> ''pending''
       | Some b \<Rightarrow> if b = ''provider_model_advertisement_approved'' then ''approved'' else ''rejected'')
     \<and> (case na_model_id a of None \<Rightarrow> True | Some m \<Rightarrow> m \<in> set models)"

text \<open>Only rows that exist have been decided about, and only by administrators.\<close>

definition decided_known :: "string list \<Rightarrow> string set \<Rightarrow> db \<Rightarrow> bool" where
  "decided_known actions ids d \<longleftrightarrow> (\<forall>i. i \<notin> ids \<longrightarrow> last_decision actions i d = None)"

definition by_admins :: "db \<Rightarrow> bool" where
  "by_admins d \<longleftrightarrow> (\<forall>r \<in> set (db_audit d). \<exists>u \<in> set (db_users d). ur_id u = at_actor r \<and> ur_role u = ''admin'')"

definition node_inv :: "bool \<Rightarrow> version_row list \<Rightarrow> node_tables \<Rightarrow> bool" where
  "node_inv dev vs t \<longleftrightarrow> list_all (provider_explained dev (nt_db t)) (nt_providers t)
     \<and> list_all (ad_explained (map mv_model_id vs) (nt_db t)) (nt_ads t)
     \<and> decided_known approvals (np_id ` set (nt_providers t)) (nt_db t)
     \<and> decided_known disablings (np_id ` set (nt_providers t)) (nt_db t)
     \<and> decided_known ad_decisions (na_id ` set (nt_ads t)) (nt_db t)
     \<and> by_admins (nt_db t) \<and> nt_versions t = vs"

lemma last_decision_audit: "last_decision acts i (audit actor action target d) =
    (if target = i \<and> action \<in> set acts then Some action else last_decision acts i d)"
  by (simp add: last_decision_def audit_def)

lemma action_sets:
  "''provider_approved'' \<in> set approvals" "''provider_rejected'' \<in> set approvals"
  "''provider_approved'' \<notin> set disablings" "''provider_rejected'' \<notin> set disablings"
  "''provider_approved'' \<notin> set ad_decisions" "''provider_rejected'' \<notin> set ad_decisions"
  "''provider_disabled'' \<notin> set approvals" "''provider_disabled'' \<in> set disablings" "''provider_disabled'' \<notin> set ad_decisions"
  "''provider_model_advertisement_approved'' \<notin> set approvals" "''provider_model_advertisement_rejected'' \<notin> set approvals"
  "''provider_model_advertisement_approved'' \<notin> set disablings" "''provider_model_advertisement_rejected'' \<notin> set disablings"
  "''provider_model_advertisement_approved'' \<in> set ad_decisions" "''provider_model_advertisement_rejected'' \<in> set ad_decisions"
  by (simp_all add: approvals_def disablings_def ad_decisions_def)

lemma known_audit: "decided_known acts ids d \<Longrightarrow> target \<in> ids \<or> action \<notin> set acts \<Longrightarrow> decided_known acts ids (audit actor action target d)"
  by (auto simp: decided_known_def last_decision_audit)

lemma by_admins_audit: "by_admins d \<Longrightarrow> u \<in> set (db_users d) \<Longrightarrow> ur_role u = ''admin'' \<Longrightarrow> by_admins (audit (ur_id u) action target d)"
  by (auto simp: by_admins_def audit_def)

lemma known_mono: "decided_known acts ids d \<Longrightarrow> ids \<subseteq> ids' \<Longrightarrow> decided_known acts ids' d"
  by (auto simp: decided_known_def)

lemma list_all_update_by:
  "list_all P xs \<Longrightarrow> (\<And>x. P x \<Longrightarrow> key x \<noteq> i \<Longrightarrow> Q x) \<Longrightarrow> (\<And>x. P x \<Longrightarrow> key x = i \<Longrightarrow> Q (f x)) \<Longrightarrow> list_all Q (update_by key i f xs)"
  by (auto simp: update_by_def list_all_iff)

lemma id_image_update_by: "(\<And>x. key' (f x) = key' x) \<Longrightarrow> key' ` set (update_by key i f xs) = key' ` set xs"
proof -
  assume f: "\<And>x. key' (f x) = key' x"
  have "map key' (update_by key i f xs) = map key' xs" by (induction xs) (simp_all add: update_by_def f)
  then show ?thesis by (metis set_map)
qed

definition decide_provider :: "string \<Rightarrow> string \<Rightarrow> string \<Rightarrow> node_tables \<Rightarrow> node_tables" where
  "decide_provider actor status i t = t\<lparr>nt_providers := update_by np_id i (\<lambda>p. p\<lparr>np_approval_status := status\<rparr>) (nt_providers t),
     nt_db := audit actor (''provider_'' @ status) i (nt_db t)\<rparr>"

lemma SetProviderApproval_cases:
  obtains "snd (SetProviderApproval served user pid status t) = t"
  | p where "provider_by_public pid t = Some p" "ur_role user = ''admin''" "status = ''approved'' \<or> status = ''rejected''"
      "snd (SetProviderApproval served user pid status t) = decide_provider (ur_id user) status (np_id p) t"
  by (cases "ur_role user = ''admin'' \<and> (status = ''approved'' \<or> status = ''rejected'') \<and> served";
      cases "provider_by_public pid t")
    (auto simp: SetProviderApproval_def decide_provider_def)

lemma explained_other:
  "provider_explained dev d q \<Longrightarrow> np_id q \<noteq> i \<or> action \<notin> set approvals \<and> action \<notin> set disablings
     \<Longrightarrow> provider_explained dev (audit a action i d) q"
  "ad_explained ms d b \<Longrightarrow> na_id b \<noteq> i \<or> action \<notin> set ad_decisions \<Longrightarrow> ad_explained ms (audit a action i d) b"
  by (auto simp: provider_explained_def ad_explained_def last_decision_audit)

lemma explained_decided:
  "provider_explained dev d q \<Longrightarrow> np_id q = i \<Longrightarrow> status = ''approved'' \<or> status = ''rejected''
     \<Longrightarrow> provider_explained dev (audit a (''provider_'' @ status) i d) (q\<lparr>np_approval_status := status\<rparr>)"
  "provider_explained dev d q \<Longrightarrow> np_id q = i
     \<Longrightarrow> provider_explained dev (audit a ''provider_disabled'' i d) (q\<lparr>np_status := ''disabled''\<rparr>)"
  "ad_explained ms d b \<Longrightarrow> na_id b = i \<Longrightarrow> status = ''approved'' \<or> status = ''rejected''
     \<Longrightarrow> ad_explained ms (audit a (''provider_model_advertisement_'' @ status) i d) (b\<lparr>na_status := status\<rparr>)"
  by (auto simp: provider_explained_def ad_explained_def last_decision_audit action_sets)

lemma node_invD:
  assumes "node_inv dev vs t"
  shows "list_all (provider_explained dev (nt_db t)) (nt_providers t)"
    "list_all (ad_explained (map mv_model_id vs) (nt_db t)) (nt_ads t)"
    "decided_known approvals (np_id ` set (nt_providers t)) (nt_db t)"
    "decided_known disablings (np_id ` set (nt_providers t)) (nt_db t)"
    "decided_known ad_decisions (na_id ` set (nt_ads t)) (nt_db t)" "by_admins (nt_db t)" "nt_versions t = vs"
  using assms by (simp_all add: node_inv_def)

lemma decide_inv:
  assumes "node_inv dev vs t" "user \<in> set (db_users (nt_db t))"
  shows "node_inv dev vs (snd (SetProviderApproval served user pid status t))"
proof (rule SetProviderApproval_cases [of served user pid status t])
  fix p assume 2: "provider_by_public pid t = Some p" "ur_role user = ''admin''" "status = ''approved'' \<or> status = ''rejected''"
    "snd (SetProviderApproval served user pid status t) = decide_provider (ur_id user) status (np_id p) t"
  then have p: "np_id p \<in> np_id ` set (nt_providers t)" by (auto simp: provider_by_public_def find_Some_iff)
  note i = node_invD [OF assms(1)]
  have n: "''provider_'' @ status \<notin> set ad_decisions" using 2(3) action_sets by auto
  have "list_all (provider_explained dev (audit (ur_id user) (''provider_'' @ status) (np_id p) (nt_db t)))
      (update_by np_id (np_id p) (\<lambda>p. p\<lparr>np_approval_status := status\<rparr>) (nt_providers t))"
    by (rule list_all_update_by [OF i(1)]) (simp_all only: explained_other(1) explained_decided(1) 2(3) simp_thms)
  moreover have "list_all (ad_explained (map mv_model_id vs) (audit (ur_id user) (''provider_'' @ status) (np_id p) (nt_db t))) (nt_ads t)"
    using i(2) by (rule list.pred_mono_strong) (simp only: explained_other(2) n simp_thms)
  moreover have "decided_known approvals (np_id ` set (nt_providers t)) (audit (ur_id user) (''provider_'' @ status) (np_id p) (nt_db t))"
    using i p by (blast intro: known_audit)
  moreover have "decided_known disablings (np_id ` set (nt_providers t)) (audit (ur_id user) (''provider_'' @ status) (np_id p) (nt_db t))"
    using i p by (blast intro: known_audit)
  moreover have "decided_known ad_decisions (na_id ` set (nt_ads t)) (audit (ur_id user) (''provider_'' @ status) (np_id p) (nt_db t))"
    using i n by (blast intro: known_audit)
  moreover have "by_admins (audit (ur_id user) (''provider_'' @ status) (np_id p) (nt_db t))"
    using i assms(2) 2(2) by (blast intro: by_admins_audit)
  ultimately show ?thesis using i(7) unfolding 2(4) decide_provider_def
    by (simp add: node_inv_def id_image_update_by)
qed (simp add: assms)

lemma DecideAd_inv:
  assumes "node_inv dev vs t" "user \<in> set (db_users (nt_db t))"
  shows "node_inv dev vs (snd (SetProviderModelAdvertisementStatus served user pid status t))"
proof (cases "ur_role user = ''admin'' \<and> (status = ''approved'' \<or> status = ''rejected'') \<and> served
    \<and> find (\<lambda>a. na_public_id a = pid) (nt_ads t) \<noteq> None")
  case False
  then have "snd (SetProviderModelAdvertisementStatus served user pid status t) = t"
    by (auto simp: SetProviderModelAdvertisementStatus_def)
  then show ?thesis using assms by simp
next
  case True
  then obtain a where a: "find (\<lambda>a. na_public_id a = pid) (nt_ads t) = Some a" by auto
  let ?d = "audit (ur_id user) (''provider_model_advertisement_'' @ status) (na_id a) (nt_db t)"
  have e: "snd (SetProviderModelAdvertisementStatus served user pid status t)
      = t\<lparr>nt_ads := update_by na_id (na_id a) (\<lambda>a. a\<lparr>na_status := status\<rparr>) (nt_ads t), nt_db := ?d\<rparr>"
    using True a by (auto simp: SetProviderModelAdvertisementStatus_def)
  have s: "status = ''approved'' \<or> status = ''rejected''" "ur_role user = ''admin''" using True by blast+
  have k: "na_id a \<in> na_id ` set (nt_ads t)" using a by (auto simp: find_Some_iff)
  note i = node_invD [OF assms(1)]
  have n: "''provider_model_advertisement_'' @ status \<notin> set approvals" "''provider_model_advertisement_'' @ status \<notin> set disablings"
    using s(1) action_sets by auto
  have "list_all (ad_explained (map mv_model_id vs) ?d) (update_by na_id (na_id a) (\<lambda>a. a\<lparr>na_status := status\<rparr>) (nt_ads t))"
    by (rule list_all_update_by [OF i(2)]) (simp_all only: explained_other(2) explained_decided(3) s(1) simp_thms)
  moreover have "list_all (provider_explained dev ?d) (nt_providers t)"
    using i(1) by (rule list.pred_mono_strong) (simp only: explained_other(1) n simp_thms)
  moreover have "decided_known approvals (np_id ` set (nt_providers t)) ?d" "decided_known disablings (np_id ` set (nt_providers t)) ?d"
    "decided_known ad_decisions (na_id ` set (nt_ads t)) ?d" "by_admins ?d"
    using i n k assms(2) s(2) by (blast intro: known_audit by_admins_audit)+
  ultimately show ?thesis using i(7) unfolding e by (simp add: node_inv_def id_image_update_by)
qed

lemma DisableProvider_inv:
  assumes "node_inv dev vs t" "user \<in> set (db_users (nt_db t))"
  shows "node_inv dev vs (snd (DisableProvider served user pid t))"
proof (cases "ur_role user = ''admin'' \<and> served \<and> provider_by_public pid t \<noteq> None")
  case False
  then have "snd (DisableProvider served user pid t) = t" by (auto simp: DisableProvider_def)
  then show ?thesis using assms by simp
next
  case True
  then obtain p where p: "provider_by_public pid t = Some p" by auto
  let ?d = "audit (ur_id user) ''provider_disabled'' (np_id p) (nt_db t)"
  have e: "snd (DisableProvider served user pid t)
      = t\<lparr>nt_providers := update_by np_id (np_id p) (\<lambda>p. p\<lparr>np_status := ''disabled''\<rparr>) (nt_providers t),
          nt_instances := update_by ni_provider_id (np_id p) (\<lambda>x. x\<lparr>ni_status := ''offline''\<rparr>) (nt_instances t), nt_db := ?d\<rparr>"
    using True p by (auto simp: DisableProvider_def)
  have k: "np_id p \<in> np_id ` set (nt_providers t)" using p by (auto simp: provider_by_public_def find_Some_iff)
  note i = node_invD [OF assms(1)]
  have "list_all (provider_explained dev ?d) (update_by np_id (np_id p) (\<lambda>p. p\<lparr>np_status := ''disabled''\<rparr>) (nt_providers t))"
    by (rule list_all_update_by [OF i(1)]) (simp_all only: explained_other(1) explained_decided(2) simp_thms)
  moreover have "list_all (ad_explained (map mv_model_id vs) ?d) (nt_ads t)"
    using i(2) by (rule list.pred_mono_strong) (simp only: explained_other(2) action_sets simp_thms)
  moreover have "decided_known approvals (np_id ` set (nt_providers t)) ?d" "decided_known disablings (np_id ` set (nt_providers t)) ?d"
    "decided_known ad_decisions (na_id ` set (nt_ads t)) ?d" "by_admins ?d"
    using i k assms(2) True action_sets(9) by (blast intro: known_audit by_admins_audit)+
  ultimately show ?thesis using i(7) unfolding e by (simp add: node_inv_def id_image_update_by)
qed

lemma CreateWallet_db: "CreateWallet wid ty i d = Inr d' \<Longrightarrow> db_audit d' = db_audit d \<and> db_users d' = db_users d"
  by (auto simp: CreateWallet_def split: if_splits)

lemma decisions_cong: "db_audit d' = db_audit d \<Longrightarrow> last_decision acts i d' = last_decision acts i d"
  by (simp add: last_decision_def)

lemma CreateProvider_cases:
  obtains "snd (CreateProvider sha pepper dev served i pid wid pre secret user name region auto t) = t"
      "\<exists>e. fst (CreateProvider sha pepper dev served i pid wid pre secret user name region auto t) = Inl e"
  | p d where "CreateProvider sha pepper dev served i pid wid pre secret user name region auto t
        = (Inr (p, provider_token pre secret), t\<lparr>nt_providers := nt_providers t @ [p\<lparr>np_wallet_id := Some wid\<rparr>], nt_db := d\<rparr>)"
      "np_id p = i" "np_id p \<notin> np_id ` set (nt_providers t)" "np_approval_status p = (if dev then ''approved'' else ''pending'')"
      "np_status p = ''active''" "\<not> np_deleted p" "np_public_id p = pid" "np_owner_user_id p = ur_id user"
      "np_token_hash p = sha (pepper @ provider_token pre secret)" "np_token_hash p \<notin> np_token_hash ` set (nt_providers t)"
      "CreateWallet wid ''provider'' i (nt_db t) = Inr d"
proof -
  let ?r = "CreateProvider sha pepper dev served i pid wid pre secret user name region auto t"
  let ?p = "\<lparr>np_id = i, np_public_id = pid, np_owner_user_id = ur_id user, np_name = TrimSpace name,
       np_region_hint = region, np_approval_status = (if dev then ''approved'' else ''pending''),
       np_status = ''active'', np_allow_auto_model_pull = auto, np_token_prefix = pre,
       np_token_hash = sha (pepper @ provider_token pre secret), np_wallet_id = None, np_deleted = False\<rparr>"
  show ?thesis
  proof (cases "TrimSpace name = [] \<or> \<not> served")
    case True
    then show ?thesis by (intro that(1)) (auto simp: CreateProvider_def)
  next
    case False
    show ?thesis
    proof (cases "store_provider ?p t")
      case (Inl e)
      with False show ?thesis by (intro that(1)) (auto simp: CreateProvider_def Let_def)
    next
      case (Inr t1)
      then have t1: "t1 = t\<lparr>nt_providers := nt_providers t @ [?p]\<rparr>" and new: "i \<notin> np_id ` set (nt_providers t)"
        "np_token_hash ?p \<notin> np_token_hash ` set (nt_providers t)"
        by (auto simp: store_provider_def split: if_splits)
      show ?thesis
      proof (cases "CreateWallet wid ''provider'' i (nt_db t)")
        case (Inl e)
        with False Inr show ?thesis by (intro that(1)) (auto simp: CreateProvider_def Let_def t1)
      next
        case (Inr d)
        have "update_by np_id i (\<lambda>p. p\<lparr>np_wallet_id := Some wid\<rparr>) (nt_providers t @ [?p])
            = nt_providers t @ [?p\<lparr>np_wallet_id := Some wid\<rparr>]"
          using update_by_absent [OF new(1)] by (simp add: update_by_def)
        then have "?r = (Inr (?p, provider_token pre secret), t\<lparr>nt_providers := nt_providers t @ [?p\<lparr>np_wallet_id := Some wid\<rparr>], nt_db := d\<rparr>)"
          using False \<open>store_provider ?p t = Inr t1\<close> Inr by (simp add: CreateProvider_def Let_def t1 SetProviderWallet_def)
        with Inr new show ?thesis by (intro that(2) [of ?p d]) simp_all
      qed
    qed
  qed
qed

lemma CreateProvider_inv:
  assumes "node_inv dev vs t"
  shows "node_inv dev vs (snd (CreateProvider sha pepper dev served i pid wid pre secret user name region auto t))"
proof (rule CreateProvider_cases [of sha pepper dev served i pid wid pre secret user name region auto t])
  fix p d
  assume c: "CreateProvider sha pepper dev served i pid wid pre secret user name region auto t
        = (Inr (p, provider_token pre secret), t\<lparr>nt_providers := nt_providers t @ [p\<lparr>np_wallet_id := Some wid\<rparr>], nt_db := d\<rparr>)"
    and i: "np_id p \<notin> np_id ` set (nt_providers t)"
    and p: "np_approval_status p = (if dev then ''approved'' else ''pending'')" "np_status p = ''active''"
    and w: "CreateWallet wid ''provider'' i (nt_db t) = Inr d"
  have d: "last_decision acts j d = last_decision acts j (nt_db t)" for acts j
    using CreateWallet_db [OF w] decisions_cong by blast
  have "last_decision approvals (np_id p) (nt_db t) = None" "last_decision disablings (np_id p) (nt_db t) = None"
    using assms i by (auto simp: node_inv_def decided_known_def)
  then have "provider_explained dev d (p\<lparr>np_wallet_id := Some wid\<rparr>)" using p by (simp add: provider_explained_def d)
  moreover have "list_all (provider_explained dev d) (nt_providers t)" "list_all (ad_explained (map mv_model_id vs) d) (nt_ads t)"
    using assms by (simp_all add: node_inv_def list_all_iff provider_explained_def ad_explained_def d)
  moreover have "by_admins d" using assms CreateWallet_db [OF w] by (simp add: node_inv_def by_admins_def)
  ultimately show ?thesis using assms unfolding c
    by (auto simp: node_inv_def decided_known_def d)
qed (simp add: assms)


text \<open>What a message of a node can change.\<close>

definition kept :: "node_tables \<Rightarrow> node_tables \<Rightarrow> bool" where
  "kept t t' \<longleftrightarrow> nt_providers t' = nt_providers t \<and> nt_versions t' = nt_versions t \<and> nt_db t' = nt_db t"

lemma kept_refl [simp]: "kept t t"
  by (simp add: kept_def)

lemma kept_trans: "kept t t' \<Longrightarrow> kept t' t'' \<Longrightarrow> kept t t''"
  by (simp add: kept_def)

lemma node_inv_ads:
  assumes "node_inv dev vs t" "kept t t'" "list_all (ad_explained (map mv_model_id vs) (nt_db t)) (nt_ads t')"
    "na_id ` set (nt_ads t) \<subseteq> na_id ` set (nt_ads t')"
  shows "node_inv dev vs t'"
  using assms known_mono by (auto simp: node_inv_def kept_def)

lemma UpsertAd_inv:
  assumes "node_inv dev vs t" "UpsertAd served i publicID pid xid runtime name digest t = (r, t')"
  shows "node_inv dev vs t' \<and> kept t t' \<and> nt_instances t' = nt_instances t"
proof (cases "served \<and> (\<exists>a \<in> set (nt_ads t). same_ad pid xid runtime name a)")
  case True
  let ?f = "\<lambda>a. if same_ad pid xid runtime name a then a\<lparr>na_local_digest := digest\<rparr> else a"
  have t': "t' = t\<lparr>nt_ads := map ?f (nt_ads t)\<rparr>" using assms(2) True by (simp add: UpsertAd_def)
  have f: "ad_explained ms d (?f a) = ad_explained ms d a" for ms d a by (simp add: ad_explained_def)
  have "list_all (ad_explained (map mv_model_id vs) (nt_db t)) (nt_ads t)" using assms(1) by (simp add: node_inv_def)
  then have "list_all (ad_explained (map mv_model_id vs) (nt_db t)) (map ?f (nt_ads t))"
    unfolding list.pred_map comp_def f .
  moreover have "map na_id (map ?f (nt_ads t)) = map na_id (nt_ads t)" by simp
  then have "na_id ` set (nt_ads t) \<subseteq> na_id ` set (map ?f (nt_ads t))" by (metis set_map order_refl)
  ultimately show ?thesis using node_inv_ads [OF assms(1), of t'] t' by (simp add: kept_def)
next
  case False
  show ?thesis
  proof (cases "served \<and> \<not> (\<exists>a \<in> set (nt_ads t). na_id a = i \<or> na_public_id a = publicID)")
    case True
    let ?v = "matching_version runtime name t"
    let ?a = "\<lparr>na_id = i, na_public_id = publicID, na_provider_id = pid, na_instance_id = xid,
       na_model_id = map_option mv_model_id ?v, na_model_version_id = map_option mv_id ?v, na_runtime = runtime,
       na_runtime_model_name = name, na_local_digest = digest, na_status = ''pending''\<rparr>"
    have t': "t' = t\<lparr>nt_ads := nt_ads t @ [?a]\<rparr>" using assms(2) True False by (auto simp: UpsertAd_def)
    have "i \<notin> na_id ` set (nt_ads t)" using True by blast
    then have "last_decision ad_decisions i (nt_db t) = None"
      using assms(1) by (simp add: node_inv_def decided_known_def)
    moreover have "case map_option mv_model_id ?v of None \<Rightarrow> True | Some m \<Rightarrow> m \<in> set (map mv_model_id vs)"
      using assms(1) by (auto simp: node_inv_def matching_version_def find_Some_iff split: option.split)
    ultimately have "ad_explained (map mv_model_id vs) (nt_db t) ?a" by (simp add: ad_explained_def)
    then show ?thesis using assms(1) node_inv_ads [OF assms(1), of t'] t' by (auto simp: kept_def node_inv_def)
  next
    case 2: False
    with False have "t' = t" using assms(2) by (auto simp: UpsertAd_def split: if_splits)
    then show ?thesis using assms by simp
  qed
qed

lemma ModelList_inv:
  "node_inv dev vs t \<Longrightarrow> ModelList p x runtime ms t = (r, t') \<Longrightarrow>
     node_inv dev vs t' \<and> kept t t' \<and> nt_instances t' = nt_instances t"
proof (induction p x runtime ms t rule: ModelList.induct)
  case (2 p x runtime name digest served i publicID ms t)
  show ?case
  proof (cases "TrimSpace name = []")
    case True
    with 2 show ?thesis by simp
  next
    case False
    obtain u t1 where u: "UpsertAd served i publicID (np_id p) (ni_id x) (if runtime = [] then ''ollama'' else runtime) name digest t = (u, t1)"
      by fastforce
    note h = UpsertAd_inv [OF 2(3) u]
    show ?thesis
    proof (cases u)
      case (Inl e)
      with 2(4) False u h show ?thesis by simp
    next
      case (Inr v)
      with 2(2) [OF False] 2(4) False u h kept_trans show ?thesis by fastforce
    qed
  qed
qed simp

lemma ProviderWS_inv:
  assumes "node_inv dev vs t" "ProviderWS c m t = (rs, c', t')"
  shows "node_inv dev vs t' \<and> kept t t' \<and> wc_provider c' = wc_provider c"
proof -
  have frame: "node_inv dev vs t'' \<and> kept t t''" if "kept t t''" "nt_ads t'' = nt_ads t" for t''
    using node_inv_ads [OF assms(1) that(1)] assms(1) that by (simp add: node_inv_def)
  show ?thesis
  proof (cases m)
    case (Hello served now i publicID payload)
    have "kept t (snd (UpsertInstance served now i publicID p h t)) \<and> nt_ads (snd (UpsertInstance served now i publicID p h t)) = nt_ads t" for p h
      by (auto simp: UpsertInstance_def kept_def Let_def split: prod.split option.split)
    with frame have "node_inv dev vs (snd (UpsertInstance served now i publicID p h t)) \<and> kept t (snd (UpsertInstance served now i publicID p h t))" for p h
      by blast
    with assms Hello show ?thesis
      by (auto split: option.splits if_splits prod.splits sum.splits) (metis snd_conv)+
  next
    case (Beat served now payload)
    have "kept t (snd (Heartbeat served now x st j t)) \<and> nt_ads (snd (Heartbeat served now x st j t)) = nt_ads t" for x st j
      by (auto simp: Heartbeat_def kept_def)
    with frame have "node_inv dev vs (snd (Heartbeat served now x st j t)) \<and> kept t (snd (Heartbeat served now x st j t))" for x st j
      by blast
    with assms Beat show ?thesis
      by (auto split: option.splits prod.splits) (metis snd_conv)+
  next
    case (Hardware served payload)
    have "kept t (snd (HardwareReport served x h t)) \<and> nt_ads (snd (HardwareReport served x h t)) = nt_ads t" for x h
      by (auto simp: HardwareReport_def kept_def split: prod.split list.split)
    with frame have "node_inv dev vs (snd (HardwareReport served x h t)) \<and> kept t (snd (HardwareReport served x h t))" for x h
      by blast
    with assms Hardware show ?thesis
      by (auto split: option.splits prod.splits) (metis snd_conv)+
  next
    case (Advertise payload)
    with assms show ?thesis by (auto split: option.splits prod.splits dest: ModelList_inv [OF assms(1)])
  qed (use assms in auto)
qed

lemma node_step_inv:
  assumes "node_inv dev vs (nx_tables s)" "node_step sha pepper dev s e = Some s'"
  shows "node_inv dev vs (nx_tables s')"
proof (cases e)
  case (NewNode served i pid wid pre secret user name region auto)
  with assms CreateProvider_inv [OF assms(1)] show ?thesis by (auto simp: on_tables_def split: if_splits)
next
  case (OpenConn served token)
  with assms show ?thesis by (auto split: sum.splits)
next
  case (OfConn k m)
  with assms show ?thesis by (auto split: if_splits prod.splits dest: ProviderWS_inv [OF assms(1)])
next
  case (Decide served user pid status)
  with assms decide_inv [OF assms(1)] show ?thesis by (auto simp: on_tables_def caller_def split: if_splits)
next
  case (DisableNode served user pid)
  with assms DisableProvider_inv [OF assms(1)] show ?thesis by (auto simp: on_tables_def caller_def split: if_splits)
next
  case (DecideAd served user pid status)
  with assms DecideAd_inv [OF assms(1)] show ?thesis by (auto simp: on_tables_def caller_def split: if_splits)
next
  case (Sweep served timeout now)
  with assms show ?thesis by (auto simp: MarkOfflineTimedOut_def node_inv_def)
qed

lemma node_start_inv: "node_inv dev vs (nx_tables (node_start us vs))"
  by (simp add: node_start_def node_inv_def decided_known_def by_admins_def last_decision_def empty_db_def)

interpretation nodes_server: page_machine "node_step sha pepper dev" "node_start us vs" "\<lambda>s. node_inv dev vs (nx_tables s)"
  by unfold_locales (rule node_start_inv, rule node_step_inv)


section \<open>Routing\<close>

lemma find_SomeD: "find P xs = Some x \<Longrightarrow> x \<in> set xs \<and> P x"
  by (induction xs) (auto split: if_splits)

lemma latest_Some:
  assumes "latest rs = Some r"
  shows "r \<in> set rs" "\<forall>(q, y, b, w) \<in> set rs. ni_last_heartbeat_at y \<le> ni_last_heartbeat_at (fst (snd r))"
  using find_SomeD [OF assms [unfolded latest_def]] by (auto simp: list_all_iff)

lemma latest_exists: "rs \<noteq> [] \<Longrightarrow> \<exists>r. latest rs = Some r"
proof -
  assume "rs \<noteq> []"
  define h where "h = (\<lambda>r::route_row. ni_last_heartbeat_at (fst (snd r)))"
  have "\<exists>r \<in> set rs. \<forall>q \<in> set rs. h q \<le> h r"
    using Max_in [of "h ` set rs"] Max_ge [of "h ` set rs"] \<open>rs \<noteq> []\<close> by fastforce
  then obtain r where r: "r \<in> set rs" "\<forall>q \<in> set rs. h q \<le> h r" by blast
  obtain p x a v where "r = (p, x, a, v)" by (cases r)
  with r have "list_all (\<lambda>(q, y, b, w). ni_last_heartbeat_at y \<le> ni_last_heartbeat_at x) rs"
    by (auto simp: list_all_iff h_def)
  with r \<open>r = (p, x, a, v)\<close> have "latest rs \<noteq> None" unfolding latest_def find_None_iff by fastforce
  then show ?thesis by blast
qed

lemma FindProvider_Inr:
  assumes "FindProvider served m t = Inr (p, x, a, v)"
  shows "served" "routable m (p, x, a, v)" "p \<in> set (nt_providers t)" "x \<in> set (nt_instances t)" "a \<in> set (nt_ads t)"
    "v \<in> set (nt_versions t)"
    "\<forall>(q, y, b, w) \<in> set (filter (routable m) (joined t)). ni_last_heartbeat_at y \<le> ni_last_heartbeat_at x"
  using assms latest_Some [of "filter (routable m) (joined t)" "(p, x, a, v)"]
  by (auto simp: FindProvider_def joined_def split: if_splits option.splits)


text \<open>A disabled node.\<close>

lemma disablings_grow:
  assumes "node_step sha pepper dev s e = Some s'" "last_decision disablings i (nt_db (nx_tables s)) \<noteq> None"
    "node_inv dev vs (nx_tables s)"
  shows "last_decision disablings i (nt_db (nx_tables s')) \<noteq> None"
proof (cases e)
  case (NewNode served j pid wid pre secret user name region auto)
  with assms(1) have e: "nx_tables s' = snd (CreateProvider sha pepper dev served j pid wid pre secret user name region auto (nx_tables s))"
    by (auto simp: on_tables_def split: if_splits)
  show ?thesis
  proof (rule CreateProvider_cases [of sha pepper dev served j pid wid pre secret user name region auto "nx_tables s"])
    fix p d
    assume "CreateProvider sha pepper dev served j pid wid pre secret user name region auto (nx_tables s)
        = (Inr (p, provider_token pre secret), (nx_tables s)\<lparr>nt_providers := nt_providers (nx_tables s) @ [p\<lparr>np_wallet_id := Some wid\<rparr>], nt_db := d\<rparr>)"
      and w: "CreateWallet wid ''provider'' j (nt_db (nx_tables s)) = Inr d"
    then have "nt_db (nx_tables s') = d" by (simp add: e)
    moreover have "last_decision disablings i d = last_decision disablings i (nt_db (nx_tables s))"
      by (rule decisions_cong) (simp add: CreateWallet_db [OF w])
    ultimately show ?thesis using assms(2) by simp
  qed (use e assms(2) in simp)
next
  case (OpenConn served token)
  with assms(1,2) show ?thesis by (auto split: sum.splits)
next
  case (OfConn k m)
  with assms(1,2) show ?thesis by (auto split: if_splits prod.splits dest!: ProviderWS_inv [OF assms(3)] simp: kept_def)
next
  case (Decide served user pid status)
  with assms(1,2) show ?thesis
    by (auto simp: on_tables_def SetProviderApproval_def last_decision_audit split: if_splits option.splits)
next
  case (DisableNode served user pid)
  with assms(1,2) show ?thesis
    by (auto simp: on_tables_def DisableProvider_def last_decision_audit split: if_splits option.splits)
next
  case (DecideAd served user pid status)
  with assms(1,2) show ?thesis
    by (auto simp: on_tables_def SetProviderModelAdvertisementStatus_def last_decision_audit split: if_splits option.splits)
next
  case (Sweep served timeout now)
  with assms(1,2) show ?thesis by (auto simp: MarkOfflineTimedOut_def)
qed

lemma disablings_run:
  "run (node_step sha pepper dev) s es = Some s' \<Longrightarrow> last_decision disablings i (nt_db (nx_tables s)) \<noteq> None
     \<Longrightarrow> node_inv dev vs (nx_tables s) \<Longrightarrow> last_decision disablings i (nt_db (nx_tables s')) \<noteq> None"
proof (induction es arbitrary: s)
  case (Cons e es)
  then obtain t where t: "node_step sha pepper dev s e = Some t" "run (node_step sha pepper dev) t es = Some s'"
    by (auto split: option.splits)
  show ?case using Cons.IH [OF t(2) disablings_grow [OF t(1) Cons.prems(2,3)]] node_step_inv [OF Cons.prems(3) t(1)] by blast
qed simp

lemma disabled_status:
  "node_inv dev vs t \<Longrightarrow> last_decision disablings (np_id q) (nt_db t) \<noteq> None \<Longrightarrow> q \<in> set (nt_providers t) \<Longrightarrow> np_status q = ''disabled''"
  by (auto simp: node_inv_def list_all_iff provider_explained_def)

section \<open>Whose rows a message touches\<close>

definition owners :: "node_tables \<Rightarrow> (string \<times> string) list" where
  "owners t = map (\<lambda>y. (ni_id y, ni_provider_id y)) (nt_instances t)"

definition conn_ok :: "node_tables \<Rightarrow> node_conn \<Rightarrow> bool" where
  "conn_ok t c \<longleftrightarrow> (case wc_instance c of None \<Rightarrow> True | Some x \<Rightarrow> (ni_id x, np_id (wc_provider c)) \<in> set (owners t))"

definition conns_inv :: "node_server \<Rightarrow> bool" where
  "conns_inv s \<longleftrightarrow> distinct (map fst (owners (nx_tables s))) \<and> list_all (conn_ok (nx_tables s)) (nx_conns s)"

definition node_view :: "string \<Rightarrow> node_tables \<Rightarrow> instance_row list \<times> ad_row list" where
  "node_view q t = (filter (\<lambda>y. ni_provider_id y = q) (nt_instances t), filter (\<lambda>a. na_provider_id a = q) (nt_ads t))"

lemma owner_unique:
  "distinct (map fst (owners t)) \<Longrightarrow> (i, q) \<in> set (owners t) \<Longrightarrow> y \<in> set (nt_instances t) \<Longrightarrow> ni_id y = i \<Longrightarrow> ni_provider_id y = q"
  by (auto simp: owners_def distinct_map inj_on_def)

lemma same_instance:
  "distinct (map fst (owners t)) \<Longrightarrow> x \<in> set (nt_instances t) \<Longrightarrow> y \<in> set (nt_instances t) \<Longrightarrow> ni_id y = ni_id x \<Longrightarrow> y = x"
  by (auto simp: owners_def distinct_map inj_on_def comp_def)

lemma conn_ok_mono: "set (owners t) \<subseteq> set (owners t') \<Longrightarrow> conn_ok t c \<Longrightarrow> conn_ok t' c"
  by (auto simp: conn_ok_def split: option.splits)

lemma filter_update_other:
  "(\<And>y. y \<in> set ys \<Longrightarrow> key y = i \<Longrightarrow> \<not> P y \<and> \<not> P (f y)) \<Longrightarrow> filter P (update_by key i f ys) = filter P ys"
  by (induction ys) (auto simp: update_by_def)

lemma map_update_same:
  "(\<And>y. y \<in> set ys \<Longrightarrow> key y = i \<Longrightarrow> g (f y) = g y) \<Longrightarrow> map g (update_by key i f ys) = map g ys"
  by (induction ys) (auto simp: update_by_def)

lemma UpsertInstance_owns:
  assumes "distinct (map fst (owners t))" "UpsertInstance served now i publicID p h t = (r, t')"
  shows "distinct (map fst (owners t')) \<and> set (owners t) \<subseteq> set (owners t')
     \<and> (\<forall>x. r = Inr x \<longrightarrow> (ni_id x, np_id p) \<in> set (owners t')) \<and> nt_ads t' = nt_ads t
     \<and> (\<forall>q. q \<noteq> np_id p \<longrightarrow> node_view q t' = node_view q t)"
proof -
  obtain key host os arch ver where h: "h = (key, host, os, arch, ver)" by (cases h)
  show ?thesis
  proof (cases "find (\<lambda>x. ni_provider_id x = np_id p \<and> ni_instance_key x = key) (nt_instances t)")
    case None
    with assms h show ?thesis
      by (auto simp: UpsertInstance_def Let_def owners_def node_view_def split: if_splits)
  next
    case (Some x)
    let ?x = "x\<lparr>ni_hostname := host, ni_os := os, ni_arch := arch, ni_app_version := ver, ni_status := ''online'', ni_last_heartbeat_at := now\<rparr>"
    have x: "x \<in> set (nt_instances t)" "ni_provider_id x = np_id p" using find_SomeD [OF Some] by blast+
    have xs: "(ni_id x, np_id p) \<in> set (owners t)" using x by (force simp: owners_def)
    show ?thesis
    proof (cases "TrimSpace key = [] \<or> \<not> served")
      case True
      then have "t' = t" "\<exists>e. r = Inl e" using assms(2) h by (auto simp: UpsertInstance_def split: if_splits)
      with assms(1) show ?thesis by auto
    next
      case False
      then have t': "t' = t\<lparr>nt_instances := update_by ni_id (ni_id x) (\<lambda>_. ?x) (nt_instances t)\<rparr>" "r = Inr ?x"
        using assms(2) h Some by (auto simp: UpsertInstance_def Let_def)
      have "owners t' = owners t"
        by (auto simp: owners_def t'(1) intro!: map_update_same dest: same_instance [OF assms(1) x(1)])
      moreover have "node_view q t' = node_view q t" if "q \<noteq> np_id p" for q
        using x(2) that by (auto simp: node_view_def t'(1) intro!: filter_update_other dest: same_instance [OF assms(1) x(1)])
      ultimately show ?thesis using assms(1) xs t' by simp
    qed
  qed
qed

lemma Heartbeat_owns:
  assumes "distinct (map fst (owners t))" "(ni_id x, p) \<in> set (owners t)" "Heartbeat served now x status job t = (r, t')"
  shows "owners t' = owners t \<and> (\<forall>q. q \<noteq> p \<longrightarrow> node_view q t' = node_view q t)"
proof (cases "t' = t")
  case False
  then have t': "t' = t\<lparr>nt_instances := update_by ni_id (ni_id x)
      (\<lambda>x. x\<lparr>ni_status := status, ni_current_job_id := job, ni_last_heartbeat_at := now\<rparr>) (nt_instances t)\<rparr>"
    using assms(3) by (auto simp: Heartbeat_def split: if_splits)
  have "node_view q t' = node_view q t" if "q \<noteq> p" for q
    using owner_unique [OF assms(1,2)] that unfolding t' node_view_def by (simp add: filter_update_other)
  then show ?thesis unfolding t' owners_def by (simp add: map_update_same)
qed simp

lemma UpsertAd_view:
  assumes "UpsertAd served i publicID p x runtime name digest t = (r, t')" "q \<noteq> p"
  shows "node_view q t' = node_view q t"
proof -
  let ?f = "\<lambda>a. if same_ad p x runtime name a then a\<lparr>na_local_digest := digest\<rparr> else a"
  have "filter (\<lambda>a. na_provider_id a = q) (map ?f as) = filter (\<lambda>a. na_provider_id a = q) as" for as
    using assms(2) by (induction as) (auto simp: same_ad_def)
  then show ?thesis using assms by (auto simp: UpsertAd_def node_view_def split: if_splits)
qed

lemma ModelList_view:
  "ModelList p x runtime ms t = (r, t') \<Longrightarrow> q \<noteq> np_id p \<Longrightarrow> node_view q t' = node_view q t"
proof (induction p x runtime ms t rule: ModelList.induct)
  case (2 p x runtime name digest served i publicID ms t)
  show ?case
  proof (cases "TrimSpace name = []")
    case True
    with 2 show ?thesis by simp
  next
    case False
    obtain u t1 where u: "UpsertAd served i publicID (np_id p) (ni_id x) (if runtime = [] then ''ollama'' else runtime) name digest t = (u, t1)"
      by fastforce
    have "node_view q t1 = node_view q t" using UpsertAd_view [OF u 2(4)] .
    then show ?thesis using 2(2) [OF False u [symmetric]] 2(3,4) False u by (auto split: sum.splits)
  qed
qed simp

text \<open>All messages together.\<close>

lemma ProviderWS_owns:
  assumes "distinct (map fst (owners t))" "conn_ok t c" "ProviderWS c m t = (rs, c', t')" "node_inv dev vs t"
  shows "distinct (map fst (owners t')) \<and> set (owners t) \<subseteq> set (owners t') \<and> conn_ok t' c'
     \<and> (\<forall>q. q \<noteq> np_id (wc_provider c) \<longrightarrow> node_view q t' = node_view q t)"
proof (cases m)
  case (Hello served now i publicID payload)
  with assms show ?thesis
    by (auto simp: conn_ok_def split: option.splits if_splits prod.splits sum.splits dest!: UpsertInstance_owns [OF assms(1)])
next
  case (Beat served now payload)
  show ?thesis
  proof (cases "wc_instance c = None \<or> payload = None")
    case True
    with assms Beat show ?thesis by (auto split: option.splits)
  next
    case False
    then obtain x status job where x: "wc_instance c = Some x" "payload = Some (status, job)" by auto
    obtain r t1 where r: "Heartbeat served now x status job t = (r, t1)" by fastforce
    have "(ni_id x, np_id (wc_provider c)) \<in> set (owners t)" using assms(2) x by (simp add: conn_ok_def)
    from Heartbeat_owns [OF assms(1) this r] assms Beat x r show ?thesis by (auto simp: conn_ok_def)
  qed
next
  case (Hardware served payload)
  have "owners (snd (HardwareReport served x h t)) = owners t \<and> node_view q (snd (HardwareReport served x h t)) = node_view q t" for x h q
    by (auto simp: HardwareReport_def owners_def node_view_def split: prod.split list.split)
  with assms Hardware show ?thesis
    by (auto simp: conn_ok_def split: option.splits prod.splits) (metis snd_conv)+
next
  case (Advertise payload)
  have "owners t' = owners t"
    using assms(3,4) Advertise by (auto simp: owners_def split: option.splits prod.splits dest: ModelList_inv)
  with assms Advertise show ?thesis
    by (auto simp: conn_ok_def split: option.splits prod.splits dest: ModelList_view)
qed (use assms in auto)

lemma owners_kept:
  "owners (snd (CreateProvider sha pepper dev served i pid wid pre secret user name region auto t)) = owners t"
  "owners (snd (SetProviderApproval served user pid status t)) = owners t"
  "owners (snd (DisableProvider served user pid t)) = owners t"
  "owners (snd (SetProviderModelAdvertisementStatus served user pid status t)) = owners t"
  "owners (MarkOfflineTimedOut served timeout now t) = owners t"
proof -
  show "owners (snd (CreateProvider sha pepper dev served i pid wid pre secret user name region auto t)) = owners t"
    by (rule CreateProvider_cases [of sha pepper dev served i pid wid pre secret user name region auto t]) (simp_all add: owners_def)
  show "owners (snd (SetProviderApproval served user pid status t)) = owners t"
    by (rule SetProviderApproval_cases [of served user pid status t]) (simp_all add: owners_def decide_provider_def)
  show "owners (snd (DisableProvider served user pid t)) = owners t"
    by (auto simp: DisableProvider_def owners_def map_update_same split: option.split)
  show "owners (snd (SetProviderModelAdvertisementStatus served user pid status t)) = owners t"
    by (auto simp: SetProviderModelAdvertisementStatus_def owners_def split: option.split)
  show "owners (MarkOfflineTimedOut served timeout now t) = owners t"
    by (auto simp: MarkOfflineTimedOut_def owners_def)
qed

lemma conns_inv_tables: "conns_inv s \<Longrightarrow> owners t = owners (nx_tables s) \<Longrightarrow> conns_inv (s\<lparr>nx_tables := t\<rparr>)"
  by (auto simp: conns_inv_def list_all_iff conn_ok_def split: option.splits)

lemma conns_step:
  assumes "node_inv dev vs (nx_tables s)" "conns_inv s" "node_step sha pepper dev s e = Some s'"
  shows "conns_inv s'"
proof (cases e)
  case (OpenConn served token)
  with assms show ?thesis by (auto simp: conns_inv_def conn_ok_def split: sum.splits)
next
  case (OfConn k m)
  obtain rs c t where w: "ProviderWS (nx_conns s ! k) m (nx_tables s) = (rs, c, t)" by (metis prod_cases3)
  have k: "k < length (nx_conns s)" "s' = s\<lparr>nx_tables := t, nx_conns := (nx_conns s)[k := c]\<rparr>"
    using assms(3) OfConn w by (auto split: if_splits)
  have d: "distinct (map fst (owners (nx_tables s)))" "conn_ok (nx_tables s) (nx_conns s ! k)"
    using assms(2) k(1) by (auto simp: conns_inv_def list_all_length)
  note h = ProviderWS_owns [OF d w assms(1)]
  have "list_all (conn_ok t) (nx_conns s)"
    using assms(2) conn_ok_mono h by (auto simp: conns_inv_def list_all_iff)
  then show ?thesis using h k(1) by (auto simp: conns_inv_def k(2) list_all_length nth_list_update)
next
  case (Sweep served timeout now)
  with assms show ?thesis by (auto simp: owners_kept intro: conns_inv_tables)
qed (use assms in \<open>auto simp: on_tables_def owners_kept split: if_splits intro!: conns_inv_tables\<close>)

interpretation connected_server: page_machine "node_step sha pepper dev" "node_start us vs"
  "\<lambda>s. node_inv dev vs (nx_tables s) \<and> conns_inv s"
proof unfold_locales
  show "node_inv dev vs (nx_tables (node_start us vs)) \<and> conns_inv (node_start us vs)"
    using node_start_inv by (simp add: conns_inv_def owners_def node_start_def)
qed (use node_step_inv conns_step in blast)

text \<open>An administrator and an owner; a node that has been approved and has advertised an approved model.\<close>

definition net_user :: "string \<Rightarrow> string \<Rightarrow> user_row" where
  "net_user i role = \<lparr>ur_id = i, ur_public_id = i, ur_email = i, ur_password_hash = [], ur_display_name = i,
     ur_role = role, ur_status = ''active'', ur_deleted = False\<rparr>"

definition net_start :: node_server where
  "net_start = node_start [net_user ''a'' ''admin'', net_user ''o'' ''user'']
     [\<lparr>mv_id = ''v'', mv_model_id = ''m'', mv_runtime = ''ollama'', mv_runtime_model_name = ''qwen'', mv_status = ''active''\<rparr>]"

definition net_events :: "node_event list" where
  "net_events = [NewNode True ''1'' ''prv_1'' ''w1'' ''x'' ''y'' (net_user ''o'' ''user'') ''Node'' None False,
     OpenConn True ''pvn_provider_x_y'',
     OfConn 0 (Hello True 5 ''7'' ''pin_7'' (Some (''key'', ''host'', ''linux'', ''amd64'', ''1''))),
     OfConn 0 (Advertise (Some ([], [(''qwen'', ''digest'', True, ''9'', ''pma_9'')]))),
     Decide True (net_user ''a'' ''admin'') ''prv_1'' ''approved'',
     DecideAd True (net_user ''a'' ''admin'') ''pma_9'' ''approved'']"

definition net :: node_server where
  "net = the (run (node_step (\<lambda>t. t) [] False) net_start net_events)"

lemma net_run: "run (node_step (\<lambda>t. t) [] False) (node_start [net_user ''a'' ''admin'', net_user ''o'' ''user'']
     [\<lparr>mv_id = ''v'', mv_model_id = ''m'', mv_runtime = ''ollama'', mv_runtime_model_name = ''qwen'', mv_status = ''active''\<rparr>])
     net_events = Some net"
proof -
  have "run (node_step (\<lambda>t. t) [] False) net_start net_events \<noteq> None" by code_simp
  then show ?thesis by (auto simp: net_def net_start_def)
qed

lemma net_routes: "\<exists>p x a v. FindProvider True ''m'' (nx_tables net) = Inr (p, x, a, v) \<and> np_id p = ''1'' \<and> na_id a = ''9''"
proof -
  have "case FindProvider True ''m'' (nx_tables net) of Inl e \<Rightarrow> False | Inr (p, x, a, v) \<Rightarrow> np_id p = ''1'' \<and> na_id a = ''9''"
    by code_simp
  then show ?thesis by (auto split: sum.splits)
qed

section \<open>Properties\<close>

text \<open>C20: The audit log specifies every approval: in every reachable state the approval status of a node is the
  last decision that the log holds about it (pending before the first, or approved where development
  approves automatically), a node is disabled exactly when the log holds a disabling, the status of an
  advertised model is the last decision about it (pending before the first), and every entry names an
  administrator. Nothing that a node sends can change a decision.\<close>

theorem statuses_replay_audit:
  assumes "run (node_step sha pepper dev) (node_start us vs) es = Some s"
  shows "list_all (\<lambda>p.
       np_approval_status p = (case last_decision approvals (np_id p) (nt_db (nx_tables s)) of
           None \<Rightarrow> if dev then ''approved'' else ''pending''
         | Some a \<Rightarrow> if a = ''provider_approved'' then ''approved'' else ''rejected'')
       \<and> np_status p = (if last_decision disablings (np_id p) (nt_db (nx_tables s)) = None then ''active'' else ''disabled''))
      (nt_providers (nx_tables s))
   \<and> list_all (\<lambda>a. na_status a = (case last_decision ad_decisions (na_id a) (nt_db (nx_tables s)) of
           None \<Rightarrow> ''pending''
         | Some b \<Rightarrow> if b = ''provider_model_advertisement_approved'' then ''approved'' else ''rejected''))
      (nt_ads (nx_tables s))
   \<and> list_all (\<lambda>r. list_ex (\<lambda>u. ur_id u = at_actor r \<and> ur_role u = ''admin'') (db_users (nt_db (nx_tables s))))
      (db_audit (nt_db (nx_tables s)))"
  using nodes_server.run_inv [OF assms]
  by (simp add: node_inv_def list_all_iff list_ex_iff provider_explained_def ad_explained_def by_admins_def)

theorem statuses_replay_audit_witness:
  "list_all (\<lambda>r. list_ex (\<lambda>u. ur_id u = at_actor r \<and> ur_role u = ''admin'') (db_users (nt_db (nx_tables net))))
      (db_audit (nt_db (nx_tables net))) \<and> length (db_audit (nt_db (nx_tables net))) = 2"
proof -
  have "length (db_audit (nt_db (nx_tables net))) = 2" by code_simp
  then show ?thesis using statuses_replay_audit [OF net_run] by blast
qed



text \<open>C21: Disabling a node is final: once an administrator's request to disable it has been accepted, whatever
  anybody does afterwards, no request is routed to it, it cannot connect with any token, and it stays
  disabled.\<close>

theorem disabled_for_good:
  assumes "run (node_step sha pepper dev) (node_start us vs) es = Some s"
    "provider_by_public pid (nx_tables s) = Some p" "caller user s"
    "DisableProvider served user pid (nx_tables s) = (Inr u, t)"
    "run (node_step sha pepper dev) (s\<lparr>nx_tables := t\<rparr>) es' = Some s'"
  shows "(\<forall>q x a v. FindProvider served' m (nx_tables s') = Inr (q, x, a, v) \<longrightarrow> np_id q \<noteq> np_id p)
     \<and> (\<forall>q. ResolveToken sha pepper served' token (nx_tables s') = Inr q \<longrightarrow> np_id q \<noteq> np_id p)
     \<and> (\<forall>q \<in> set (nt_providers (nx_tables s')). np_id q = np_id p \<longrightarrow> np_status q = ''disabled'')"
proof -
  have inv: "node_inv dev vs (nx_tables s)" using assms(1) by (rule nodes_server.run_inv)
  have t: "node_step sha pepper dev s (DisableNode served user pid) = Some (s\<lparr>nx_tables := t\<rparr>)"
    using assms(3,4) by (simp add: on_tables_def)
  have "last_decision disablings (np_id p) (nt_db t) \<noteq> None"
    using assms(2,4) by (auto simp: DisableProvider_def last_decision_audit action_sets split: if_splits)
  then have d: "last_decision disablings (np_id p) (nt_db (nx_tables s')) \<noteq> None"
    using disablings_run [OF assms(5)] node_step_inv [OF inv t] by simp
  have inv': "node_inv dev vs (nx_tables s')"
    using nodes_server.run_inv_from [OF node_step_inv [OF inv t] assms(5)] .
  have off: "np_status q = ''disabled''" if "q \<in> set (nt_providers (nx_tables s'))" "np_id q = np_id p" for q
    using disabled_status [OF inv' _ that(1)] d that(2) by simp
  moreover have "np_id q \<noteq> np_id p" if "FindProvider served' m (nx_tables s') = Inr (q, x, a, v)" for q x a v
    using off FindProvider_Inr(2,3) [OF that] by (auto simp: routable_def)
  moreover have "np_id q \<noteq> np_id p" if "ResolveToken sha pepper served' token (nx_tables s') = Inr q" for q
    using off that by (auto simp: ResolveToken_def dest!: find_SomeD split: if_splits option.splits)
  ultimately show ?thesis by blast
qed

theorem disabled_for_good_witness:
  "\<exists>t s'. DisableProvider True (net_user ''a'' ''admin'') ''prv_1'' (nx_tables net) = (Inr (), t)
     \<and> run (node_step (\<lambda>t. t) [] False) (net\<lparr>nx_tables := t\<rparr>)
         [Decide True (net_user ''a'' ''admin'') ''prv_1'' ''approved'', OfConn 0 (Beat True 60 (Some (''online'', None)))] = Some s'
     \<and> (\<forall>q x a v. FindProvider True ''m'' (nx_tables s') = Inr (q, x, a, v) \<longrightarrow> np_id q \<noteq> ''1'')"
proof -
  let ?r = "DisableProvider True (net_user ''a'' ''admin'') ''prv_1'' (nx_tables net)"
  let ?es = "[Decide True (net_user ''a'' ''admin'') ''prv_1'' ''approved'', OfConn 0 (Beat True 60 (Some (''online'', None)))]"
  have "fst ?r = Inr ()" by code_simp
  then have r: "?r = (Inr (), snd ?r)" by (simp add: prod_eq_iff)
  have "run (node_step (\<lambda>t. t) [] False) (net\<lparr>nx_tables := snd ?r\<rparr>) ?es \<noteq> None" by code_simp
  then obtain s' where s': "run (node_step (\<lambda>t. t) [] False) (net\<lparr>nx_tables := snd ?r\<rparr>) ?es = Some s'" by auto
  have "case provider_by_public ''prv_1'' (nx_tables net) of None \<Rightarrow> False | Some p \<Rightarrow> np_id p = ''1''" by code_simp
  then obtain p where p: "provider_by_public ''prv_1'' (nx_tables net) = Some p" "np_id p = ''1''" by (auto split: option.splits)
  have c: "caller (net_user ''a'' ''admin'') net" unfolding caller_def by code_simp
  from disabled_for_good [OF net_run p(1) c r s'] r s' p(2) show ?thesis by metis
qed

text \<open>A model without a version is never served: nothing that the server offers adds to the table of model
  versions, so that a request for a model that has none there (every model that an administrator creates)
  finds no node, whatever nodes advertise and administrators approve.\<close>

theorem unversioned_never_served:
  assumes "run (node_step sha pepper dev) (node_start us vs) es = Some s" "m \<notin> mv_model_id ` set vs"
  shows "FindProvider True m (nx_tables s) = Inl ErrNotFound"
proof (cases "FindProvider True m (nx_tables s)")
  case (Inl e)
  then show ?thesis by (auto simp: FindProvider_def split: option.splits)
next
  case (Inr r)
  obtain p x a v where r: "FindProvider True m (nx_tables s) = Inr (p, x, a, v)" using Inr by (cases r) auto
  have "ad_explained (map mv_model_id vs) (nt_db (nx_tables s)) a" "na_model_id a = Some m"
    using nodes_server.run_inv [OF assms(1)] FindProvider_Inr(2,5) [OF r]
    by (simp_all add: node_inv_def list_all_iff routable_def)
  with assms(2) show ?thesis by (simp add: ad_explained_def)
qed

theorem unversioned_never_served_witness: "FindProvider True ''other'' (nx_tables net) = Inl ErrNotFound"
  by (rule unversioned_never_served [OF net_run]) simp


text \<open>C22: A node speaks for itself only: whatever message arrives on a connection, it changes no instance and no
  advertised model of another node, and no node's approval, status or wallet, nor the audit log.\<close>

theorem node_messages_isolated:
  assumes "run (node_step sha pepper dev) (node_start us vs) es = Some s" "k < length (nx_conns s)"
    "node_step sha pepper dev s (OfConn k m) = Some s'" "q \<noteq> np_id (wc_provider (nx_conns s ! k))"
  shows "node_view q (nx_tables s') = node_view q (nx_tables s) \<and> nt_providers (nx_tables s') = nt_providers (nx_tables s)
     \<and> nt_versions (nx_tables s') = nt_versions (nx_tables s) \<and> nt_db (nx_tables s') = nt_db (nx_tables s)"
proof -
  have inv: "node_inv dev vs (nx_tables s)" "conns_inv s" using connected_server.run_inv [OF assms(1)] by blast+
  obtain rs c t where w: "ProviderWS (nx_conns s ! k) m (nx_tables s) = (rs, c, t)" by (metis prod_cases3)
  have d: "distinct (map fst (owners (nx_tables s)))" "conn_ok (nx_tables s) (nx_conns s ! k)"
    using inv(2) assms(2) by (auto simp: conns_inv_def list_all_length)
  show ?thesis
    using ProviderWS_owns [OF d w inv(1)] ProviderWS_inv [OF inv(1) w] assms(2-4) w by (auto simp: kept_def)
qed

theorem node_messages_isolated_witness:
  "node_view ''2'' (nx_tables (the (node_step (\<lambda>t. t) [] False net (OfConn 0 (Beat True 60 (Some (''busy'', None)))))))
     = node_view ''2'' (nx_tables net)"
proof -
  have "node_step (\<lambda>t. t) [] False net (OfConn 0 (Beat True 60 (Some (''busy'', None)))) \<noteq> None" by code_simp
  then obtain s' where s': "node_step (\<lambda>t. t) [] False net (OfConn 0 (Beat True 60 (Some (''busy'', None)))) = Some s'" by auto
  have k: "0 < length (nx_conns net)" by code_simp
  have "np_id (wc_provider (nx_conns net ! 0)) = ''1''" by code_simp
  then have q: "''2'' \<noteq> np_id (wc_provider (nx_conns net ! 0))" by simp
  show ?thesis using node_messages_isolated [OF net_run k s' q] s' by simp
qed

text \<open>The token of a new node opens its connection: the plain text that the owner gets resolves to exactly
  the node that was created, which is pending unless development approves automatically, and an empty
  wallet has been created for it in the same transaction.\<close>

theorem node_token_roundtrip:
  assumes "CreateProvider sha pepper dev served i pid wid pre secret user name region auto t = (Inr (p, plaintext), t')"
  shows "ResolveToken sha pepper True plaintext t' = Inr (p\<lparr>np_wallet_id := Some wid\<rparr>)
     \<and> np_public_id p = pid \<and> np_owner_user_id p = ur_id user
     \<and> np_approval_status p = (if dev then ''approved'' else ''pending'')
     \<and> wallet_of ''provider'' i (nt_db t') = Some \<lparr>wr_id = wid, wr_owner_type = ''provider'', wr_owner_id = i, wr_balance = 0, wr_reserved = 0\<rparr>"
proof (rule CreateProvider_cases [of sha pepper dev served i pid wid pre secret user name region auto t])
  fix q d
  assume c: "CreateProvider sha pepper dev served i pid wid pre secret user name region auto t
        = (Inr (q, provider_token pre secret), t\<lparr>nt_providers := nt_providers t @ [q\<lparr>np_wallet_id := Some wid\<rparr>], nt_db := d\<rparr>)"
    and q: "np_approval_status q = (if dev then ''approved'' else ''pending'')" "np_status q = ''active''" "\<not> np_deleted q"
      "np_public_id q = pid" "np_owner_user_id q = ur_id user" "np_token_hash q = sha (pepper @ provider_token pre secret)"
      "np_token_hash q \<notin> np_token_hash ` set (nt_providers t)"
    and w: "CreateWallet wid ''provider'' i (nt_db t) = Inr d"
  have pq: "p = q" "plaintext = provider_token pre secret"
    "t' = t\<lparr>nt_providers := nt_providers t @ [q\<lparr>np_wallet_id := Some wid\<rparr>], nt_db := d\<rparr>" using assms unfolding c by auto
  have "find (\<lambda>p. np_token_hash p = sha (pepper @ plaintext) \<and> np_status p = ''active'' \<and> \<not> np_deleted p)
      (nt_providers t @ [q\<lparr>np_wallet_id := Some wid\<rparr>]) = Some (q\<lparr>np_wallet_id := Some wid\<rparr>)"
  proof (rule find_last)
    have "np_token_hash v \<noteq> sha (pepper @ plaintext)" if "v \<in> set (nt_providers t)" for v
      using q(6,7) that by (metis imageI pq(2))
    then show "\<forall>v \<in> set (nt_providers t). \<not> (np_token_hash v = sha (pepper @ plaintext) \<and> np_status v = ''active'' \<and> \<not> np_deleted v)"
      by blast
  qed (use q in \<open>simp add: pq\<close>)
  moreover have "prefix ''pvn_provider_'' plaintext" by (simp add: pq provider_token_def)
  moreover have "wallet_of ''provider'' i d = Some \<lparr>wr_id = wid, wr_owner_type = ''provider'', wr_owner_id = i, wr_balance = 0, wr_reserved = 0\<rparr>"
    using w by (auto simp: CreateWallet_def wallet_of_def intro!: find_last split: if_splits)
  ultimately show ?thesis using q by (simp add: pq ResolveToken_def)
qed (use assms in auto)

theorem node_token_roundtrip_witness:
  "\<exists>p. ResolveToken (\<lambda>t. t) [] True ''pvn_provider_u_w'' (snd (CreateProvider (\<lambda>t. t) [] False True ''2'' ''prv_2'' ''w2'' ''u'' ''w''
       (net_user ''o'' ''user'') '' Two '' None False (nx_tables net))) = Inr p \<and> np_public_id p = ''prv_2'' \<and> np_approval_status p = ''pending''"
proof -
  let ?r = "CreateProvider (\<lambda>t. t) [] False True ''2'' ''prv_2'' ''w2'' ''u'' ''w'' (net_user ''o'' ''user'') '' Two '' None False (nx_tables net)"
  have "case fst ?r of Inl e \<Rightarrow> False | Inr (p, t) \<Rightarrow> t = ''pvn_provider_u_w''" by code_simp
  then obtain p where "fst ?r = Inr (p, ''pvn_provider_u_w'')" by (auto split: sum.splits)
  then have "?r = (Inr (p, ''pvn_provider_u_w''), snd ?r)" by (simp add: prod_eq_iff)
  from node_token_roundtrip [OF this] show ?thesis by simp
qed

end
