(* ===== verification/Catalog.thy ===== *)
theory Catalog
  imports Nodes AdminModels
begin

text \<open>
  The catalogue of models on the server: the model operations of \<open>AdminService\<close> in
  \<open>apps/api/internal/service/services.go\<close> with \<open>normalizeModelInput\<close>, \<open>validModelInput\<close> and their
  counterparts for patches, the statements of \<open>repository/store.go\<close>, and the handlers of
  \<open>handler/handlers.go\<close> that the admin page for models talks to. What a row sends to the client is the
  client's own record \<open>model\<close>. A reward ratio is a fraction that the table keeps with four decimals;
  \<open>other\<close> reads bodies that are not JSON.
\<close>

section \<open>Requests\<close>

record model_patch =
  mq_slug :: "string option"
  mq_display_name :: "string option"
  mq_description :: "string option"
  mq_family :: "string option"
  mq_modality :: "string option"
  mq_status :: "string option"
  mq_context_length :: "int option"
  mq_default_max_output_tokens :: "int option"
  mq_input_credit_per_1k :: "int option"
  mq_output_credit_per_1k :: "int option"
  mq_provider_reward_ratio :: "rat option"
  mq_min_vram_mb :: "int option"
  mq_recommended_vram_mb :: "int option"
  mq_license_name :: "string option"
  mq_license_url :: "string option"
  mq_license_notes :: "string option"
  mq_community_allowed :: "bool option"
  mq_external_only :: "bool option"

record model_input =
  mi_slug :: string
  mi_display_name :: string
  mi_description :: string
  mi_family :: string
  mi_modality :: string
  mi_status :: string
  mi_context_length :: int
  mi_default_max_output_tokens :: int
  mi_input_credit_per_1k :: int
  mi_output_credit_per_1k :: int
  mi_provider_reward_ratio :: rat
  mi_min_vram_mb :: int
  mi_recommended_vram_mb :: int
  mi_license_name :: string
  mi_license_url :: "string option"
  mi_license_notes :: string
  mi_community_allowed :: bool
  mi_external_only :: bool

text \<open>An integer field takes numbers without a fraction that fit 64 bits.\<close>

fun go_string :: "json \<Rightarrow> string option" where
  "go_string (JStr s) = Some s"
| "go_string _ = None"

fun go_bool :: "json \<Rightarrow> bool option" where
  "go_bool (JBool b) = Some b"
| "go_bool _ = None"

fun go_float :: "json \<Rightarrow> rat option" where
  "go_float (JNum q) = Some q"
| "go_float _ = None"

fun go_int :: "json \<Rightarrow> int option" where
  "go_int (JNum q) = (if of_int \<lfloor>q\<rfloor> = q \<and> - (2 ^ 63) \<le> \<lfloor>q\<rfloor> \<and> \<lfloor>q\<rfloor> < 2 ^ 63 then Some \<lfloor>q\<rfloor> else None)"
| "go_int _ = None"

text \<open>A pointer field of a JSON object: names compare without case, the last member counts, \<open>null\<close> is no value.\<close>

fun pointer_field :: "(json \<Rightarrow> 'a option) \<Rightarrow> string \<Rightarrow> 'a option \<Rightarrow> (string \<times> json) list \<Rightarrow> 'a option option" where
  "pointer_field conv name v [] = Some v"
| "pointer_field conv name v ((k, x) # ms) =
     (if lowercase k \<noteq> name then pointer_field conv name v ms
      else if x = JNull then pointer_field conv name None ms
      else case conv x of None \<Rightarrow> None | Some y \<Rightarrow> pointer_field conv name (Some y) ms)"

definition adminModelRequest :: "(string \<times> json) list \<Rightarrow> model_patch option" where
  "adminModelRequest ms =
     Option.bind (pointer_field go_string ''slug'' None ms) (\<lambda>x_slug.
     Option.bind (pointer_field go_string ''display_name'' None ms) (\<lambda>x_display_name.
     Option.bind (pointer_field go_string ''description'' None ms) (\<lambda>x_description.
     Option.bind (pointer_field go_string ''family'' None ms) (\<lambda>x_family.
     Option.bind (pointer_field go_string ''modality'' None ms) (\<lambda>x_modality.
     Option.bind (pointer_field go_string ''status'' None ms) (\<lambda>x_status.
     Option.bind (pointer_field go_int ''context_length'' None ms) (\<lambda>x_context_length.
     Option.bind (pointer_field go_int ''default_max_output_tokens'' None ms) (\<lambda>x_default_max_output_tokens.
     Option.bind (pointer_field go_int ''input_credit_per_1k'' None ms) (\<lambda>x_input_credit_per_1k.
     Option.bind (pointer_field go_int ''output_credit_per_1k'' None ms) (\<lambda>x_output_credit_per_1k.
     Option.bind (pointer_field go_float ''provider_reward_ratio'' None ms) (\<lambda>x_provider_reward_ratio.
     Option.bind (pointer_field go_int ''min_vram_mb'' None ms) (\<lambda>x_min_vram_mb.
     Option.bind (pointer_field go_int ''recommended_vram_mb'' None ms) (\<lambda>x_recommended_vram_mb.
     Option.bind (pointer_field go_string ''license_name'' None ms) (\<lambda>x_license_name.
     Option.bind (pointer_field go_string ''license_url'' None ms) (\<lambda>x_license_url.
     Option.bind (pointer_field go_string ''license_notes'' None ms) (\<lambda>x_license_notes.
     Option.bind (pointer_field go_bool ''community_allowed'' None ms) (\<lambda>x_community_allowed.
     Option.bind (pointer_field go_bool ''external_only'' None ms) (\<lambda>x_external_only.
       Some \<lparr>mq_slug = x_slug,
         mq_display_name = x_display_name,
         mq_description = x_description,
         mq_family = x_family,
         mq_modality = x_modality,
         mq_status = x_status,
         mq_context_length = x_context_length,
         mq_default_max_output_tokens = x_default_max_output_tokens,
         mq_input_credit_per_1k = x_input_credit_per_1k,
         mq_output_credit_per_1k = x_output_credit_per_1k,
         mq_provider_reward_ratio = x_provider_reward_ratio,
         mq_min_vram_mb = x_min_vram_mb,
         mq_recommended_vram_mb = x_recommended_vram_mb,
         mq_license_name = x_license_name,
         mq_license_url = x_license_url,
         mq_license_notes = x_license_notes,
         mq_community_allowed = x_community_allowed,
         mq_external_only = x_external_only\<rparr>))))))))))))))))))"

definition parse_model :: "(request \<Rightarrow> model_patch option) \<Rightarrow> request \<Rightarrow> model_patch option" where
  "parse_model other r =
     (if get_header ''Content-Type'' (rq_headers r) = Some ''application/json''
      then (case rq_body r of
          Some (JObj ms) \<Rightarrow> adminModelRequest ms
        | Some JNull \<Rightarrow> adminModelRequest []
        | _ \<Rightarrow> None)
      else other r)"

text \<open>The value of a pointer, or a default.\<close>

definition deref :: "'a option \<Rightarrow> 'a \<Rightarrow> 'a" where
  "deref x d = (case x of None \<Rightarrow> d | Some v \<Rightarrow> v)"

definition modelInput :: "model_patch \<Rightarrow> model_input" where
  "modelInput r = \<lparr>
     mi_slug = deref (mq_slug r) [],
     mi_display_name = deref (mq_display_name r) [],
     mi_description = deref (mq_description r) [],
     mi_family = deref (mq_family r) [],
     mi_modality = deref (mq_modality r) [],
     mi_status = deref (mq_status r) [],
     mi_context_length = deref (mq_context_length r) 0,
     mi_default_max_output_tokens = deref (mq_default_max_output_tokens r) 0,
     mi_input_credit_per_1k = deref (mq_input_credit_per_1k r) 0,
     mi_output_credit_per_1k = deref (mq_output_credit_per_1k r) 0,
     mi_provider_reward_ratio = deref (mq_provider_reward_ratio r) 0,
     mi_min_vram_mb = deref (mq_min_vram_mb r) 0,
     mi_recommended_vram_mb = deref (mq_recommended_vram_mb r) 0,
     mi_license_name = deref (mq_license_name r) [],
     mi_license_url = mq_license_url r,
     mi_license_notes = deref (mq_license_notes r) [],
     mi_community_allowed = deref (mq_community_allowed r) True,
     mi_external_only = deref (mq_external_only r) False\<rparr>"

section \<open>Checks\<close>

definition validModality :: "string \<Rightarrow> bool" where
  "validModality v \<longleftrightarrow> v = ''text'' \<or> v = ''embedding'' \<or> v = ''image'' \<or> v = ''audio''"

definition validModelStatus :: "string \<Rightarrow> bool" where
  "validModelStatus v \<longleftrightarrow> v = ''active'' \<or> v = ''paused'' \<or> v = ''deprecated''"

definition or_default :: "'a::zero \<Rightarrow> 'a \<Rightarrow> 'a" where
  "or_default x d = (if x = 0 then d else x)"

definition or_word :: "string \<Rightarrow> string \<Rightarrow> string" where
  "or_word v d = (if TrimSpace v = [] then d else TrimSpace v)"

definition normalizeModelInput :: "model_input \<Rightarrow> model_input" where
  "normalizeModelInput m = m\<lparr>mi_slug := TrimSpace (mi_slug m), mi_display_name := TrimSpace (mi_display_name m),
     mi_description := TrimSpace (mi_description m), mi_family := TrimSpace (mi_family m),
     mi_modality := or_word (mi_modality m) ''text'', mi_status := or_word (mi_status m) ''active'',
     mi_context_length := or_default (mi_context_length m) 4096,
     mi_default_max_output_tokens := or_default (mi_default_max_output_tokens m) 1024,
     mi_input_credit_per_1k := or_default (mi_input_credit_per_1k m) 10,
     mi_output_credit_per_1k := or_default (mi_output_credit_per_1k m) 20,
     mi_provider_reward_ratio := or_default (mi_provider_reward_ratio m) (7 / 10),
     mi_min_vram_mb := or_default (mi_min_vram_mb m) 8192,
     mi_recommended_vram_mb := or_default (mi_recommended_vram_mb m) 12288,
     mi_license_name := or_word (mi_license_name m) ''unknown'', mi_license_notes := TrimSpace (mi_license_notes m)\<rparr>"

definition validModelInput :: "model_input \<Rightarrow> bool" where
  "validModelInput m \<longleftrightarrow> mi_slug m \<noteq> [] \<and> mi_display_name m \<noteq> [] \<and> mi_family m \<noteq> [] \<and> validModality (mi_modality m)
     \<and> validModelStatus (mi_status m) \<and> 0 < mi_context_length m \<and> 0 < mi_default_max_output_tokens m
     \<and> 0 \<le> mi_input_credit_per_1k m \<and> 0 \<le> mi_output_credit_per_1k m
     \<and> 0 \<le> mi_provider_reward_ratio m \<and> mi_provider_reward_ratio m \<le> 1
     \<and> 0 \<le> mi_min_vram_mb m \<and> 0 \<le> mi_recommended_vram_mb m"

definition normalizeModelPatch :: "model_patch \<Rightarrow> model_patch" where
  "normalizeModelPatch m = m\<lparr>mq_slug := map_option TrimSpace (mq_slug m), mq_display_name := map_option TrimSpace (mq_display_name m),
     mq_description := map_option TrimSpace (mq_description m), mq_family := map_option TrimSpace (mq_family m),
     mq_modality := map_option TrimSpace (mq_modality m), mq_status := map_option TrimSpace (mq_status m),
     mq_license_name := map_option TrimSpace (mq_license_name m), mq_license_notes := map_option TrimSpace (mq_license_notes m)\<rparr>"

definition given :: "('a \<Rightarrow> bool) \<Rightarrow> 'a option \<Rightarrow> bool" where
  "given P x = (case x of None \<Rightarrow> True | Some v \<Rightarrow> P v)"

definition validModelPatch :: "model_patch \<Rightarrow> bool" where
  "validModelPatch m \<longleftrightarrow> given (\<lambda>v. v \<noteq> []) (mq_slug m) \<and> given (\<lambda>v. v \<noteq> []) (mq_display_name m) \<and> given (\<lambda>v. v \<noteq> []) (mq_family m)
     \<and> given validModality (mq_modality m) \<and> given validModelStatus (mq_status m)
     \<and> given (\<lambda>v. 0 < v) (mq_context_length m) \<and> given (\<lambda>v. 0 < v) (mq_default_max_output_tokens m)
     \<and> given (\<lambda>v. 0 \<le> v) (mq_input_credit_per_1k m) \<and> given (\<lambda>v. 0 \<le> v) (mq_output_credit_per_1k m)
     \<and> given (\<lambda>v. 0 \<le> v \<and> v \<le> 1) (mq_provider_reward_ratio m)
     \<and> given (\<lambda>v. 0 \<le> v) (mq_min_vram_mb m) \<and> given (\<lambda>v. 0 \<le> v) (mq_recommended_vram_mb m)"

section \<open>The table\<close>

record model_row =
  mr_id :: string
  mr_model :: model
  mr_deleted :: bool

record catalog =
  mt_models :: "model_row list"
  mt_db :: db

text \<open>The columns of four of the numbers have 32 bits; the ratio has four decimals.\<close>

definition fits32 :: "int \<Rightarrow> bool" where
  "fits32 x \<longleftrightarrow> - (2 ^ 31) \<le> x \<and> x < 2 ^ 31"

definition decimals4 :: "rat \<Rightarrow> rat" where
  "decimals4 q = of_int \<lfloor>10000 * q + 1 / 2\<rfloor> / 10000"

definition model_of :: "string \<Rightarrow> string \<Rightarrow> model_input \<Rightarrow> model" where
  "model_of publicID now m = \<lparr>md_id = publicID,
     md_slug = mi_slug m,
     md_display_name = mi_display_name m,
     md_description = mi_description m,
     md_family = mi_family m,
     md_modality = mi_modality m,
     md_status = mi_status m,
     md_context_length = mi_context_length m,
     md_default_max_output_tokens = mi_default_max_output_tokens m,
     md_input_credit_per_1k = mi_input_credit_per_1k m,
     md_output_credit_per_1k = mi_output_credit_per_1k m,
     md_provider_reward_ratio = decimals4 (mi_provider_reward_ratio m),
     md_min_vram_mb = mi_min_vram_mb m,
     md_recommended_vram_mb = mi_recommended_vram_mb m,
     md_license_name = mi_license_name m,
     md_license_url = mi_license_url m,
     md_license_notes = mi_license_notes m,
     md_community_allowed = mi_community_allowed m,
     md_external_only = mi_external_only m,
     md_created_at = now\<rparr>"

definition store_model :: "bool \<Rightarrow> string \<Rightarrow> string \<Rightarrow> string \<Rightarrow> string \<Rightarrow> model_input \<Rightarrow> catalog \<Rightarrow> (svc_error + model) \<times> catalog" where
  "store_model served i publicID now actor m c =
     (if \<not> served then (Inl (DbError ''unavailable''), c)
      else if \<not> (fits32 (mi_context_length m) \<and> fits32 (mi_default_max_output_tokens m) \<and> fits32 (mi_min_vram_mb m)
                 \<and> fits32 (mi_recommended_vram_mb m)) then (Inl (DbError ''out of range''), c)
      else if (\<exists>r \<in> set (mt_models c). mr_id r = i \<or> md_id (mr_model r) = publicID \<or> md_slug (mr_model r) = mi_slug m)
        then (Inl DuplicateKey, c)
      else (Inr (model_of publicID now m),
            c\<lparr>mt_models := mt_models c @ [\<lparr>mr_id = i, mr_model = model_of publicID now m, mr_deleted = False\<rparr>],
              mt_db := audit actor ''model_created'' i (mt_db c)\<rparr>))"

definition patched :: "model_patch \<Rightarrow> model \<Rightarrow> model" where
  "patched p m = m\<lparr>
     md_slug := deref (mq_slug p) (md_slug m),
     md_display_name := deref (mq_display_name p) (md_display_name m),
     md_description := deref (mq_description p) (md_description m),
     md_family := deref (mq_family p) (md_family m),
     md_modality := deref (mq_modality p) (md_modality m),
     md_status := deref (mq_status p) (md_status m),
     md_context_length := deref (mq_context_length p) (md_context_length m),
     md_default_max_output_tokens := deref (mq_default_max_output_tokens p) (md_default_max_output_tokens m),
     md_input_credit_per_1k := deref (mq_input_credit_per_1k p) (md_input_credit_per_1k m),
     md_output_credit_per_1k := deref (mq_output_credit_per_1k p) (md_output_credit_per_1k m),
     md_provider_reward_ratio := deref (map_option decimals4 (mq_provider_reward_ratio p)) (md_provider_reward_ratio m),
     md_min_vram_mb := deref (mq_min_vram_mb p) (md_min_vram_mb m),
     md_recommended_vram_mb := deref (mq_recommended_vram_mb p) (md_recommended_vram_mb m),
     md_license_name := deref (mq_license_name p) (md_license_name m),
     md_license_url := (case mq_license_url p of None \<Rightarrow> md_license_url m | Some u \<Rightarrow> Some u),
     md_license_notes := deref (mq_license_notes p) (md_license_notes m),
     md_community_allowed := deref (mq_community_allowed p) (md_community_allowed m),
     md_external_only := deref (mq_external_only p) (md_external_only m)\<rparr>"

definition model_by_public :: "string \<Rightarrow> catalog \<Rightarrow> model_row option" where
  "model_by_public publicID c = find (\<lambda>r. md_id (mr_model r) = publicID \<and> \<not> mr_deleted r) (mt_models c)"

definition store_patch :: "bool \<Rightarrow> string \<Rightarrow> string \<Rightarrow> model_patch \<Rightarrow> catalog \<Rightarrow> (svc_error + model) \<times> catalog" where
  "store_patch served actor publicID p c =
     (if \<not> served then (Inl (DbError ''unavailable''), c)
      else if \<not> (given fits32 (mq_context_length p) \<and> given fits32 (mq_default_max_output_tokens p) \<and> given fits32 (mq_min_vram_mb p)
                 \<and> given fits32 (mq_recommended_vram_mb p)) then (Inl (DbError ''out of range''), c)
      else case model_by_public publicID c of
          None \<Rightarrow> (Inl ErrNotFound, c)
        | Some r \<Rightarrow>
            if (\<exists>x \<in> set (mt_models c). mr_id x \<noteq> mr_id r \<and> md_slug (mr_model x) = md_slug (patched p (mr_model r)))
            then (Inl DuplicateKey, c)
            else (Inr (patched p (mr_model r)),
                  c\<lparr>mt_models := update_by mr_id (mr_id r) (\<lambda>x. x\<lparr>mr_model := patched p (mr_model x)\<rparr>) (mt_models c),
                    mt_db := audit actor ''model_updated'' (mr_id r) (mt_db c)\<rparr>))"

definition store_pause :: "bool \<Rightarrow> string \<Rightarrow> string \<Rightarrow> catalog \<Rightarrow> (svc_error + unit) \<times> catalog" where
  "store_pause served actor publicID c =
     (if \<not> served then (Inl (DbError ''unavailable''), c)
      else case model_by_public publicID c of
          None \<Rightarrow> (Inl ErrNotFound, c)
        | Some r \<Rightarrow> (Inr (), c\<lparr>mt_models := update_by mr_id (mr_id r)
              (\<lambda>x. x\<lparr>mr_model := (mr_model x)\<lparr>md_status := ''paused''\<rparr>\<rparr>) (mt_models c),
              mt_db := audit actor ''model_paused'' (mr_id r) (mt_db c)\<rparr>))"

definition ActiveModelBySlug :: "bool \<Rightarrow> string \<Rightarrow> catalog \<Rightarrow> svc_error + model_row" where
  "ActiveModelBySlug served slug c =
     (if \<not> served then Inl (DbError ''unavailable'')
      else case find (\<lambda>r. md_slug (mr_model r) = slug \<and> md_status (mr_model r) = ''active'' \<and> \<not> mr_deleted r) (mt_models c) of
        None \<Rightarrow> Inl ErrNotFound | Some r \<Rightarrow> Inr r)"

section \<open>Services and handlers\<close>

definition CreateModel :: "bool \<Rightarrow> string \<Rightarrow> string \<Rightarrow> string \<Rightarrow> user_row \<Rightarrow> model_input \<Rightarrow> catalog \<Rightarrow> (svc_error + model) \<times> catalog" where
  "CreateModel served i publicID now user m c =
     (if ur_role user \<noteq> ''admin'' then (Inl ErrForbidden, c)
      else if \<not> validModelInput (normalizeModelInput m) then (Inl ErrInvalidInput, c)
      else store_model served i publicID now (ur_id user) (normalizeModelInput m) c)"

definition UpdateModel :: "bool \<Rightarrow> user_row \<Rightarrow> string \<Rightarrow> model_patch \<Rightarrow> catalog \<Rightarrow> (svc_error + model) \<times> catalog" where
  "UpdateModel served user publicID p c =
     (if ur_role user \<noteq> ''admin'' then (Inl ErrForbidden, c)
      else if \<not> validModelPatch (normalizeModelPatch p) then (Inl ErrInvalidInput, c)
      else store_patch served (ur_id user) publicID (normalizeModelPatch p) c)"

definition PauseModel :: "bool \<Rightarrow> user_row \<Rightarrow> string \<Rightarrow> catalog \<Rightarrow> (svc_error + unit) \<times> catalog" where
  "PauseModel served user publicID c =
     (if ur_role user \<noteq> ''admin'' then (Inl ErrForbidden, c) else store_pause served (ur_id user) publicID c)"

definition model_answer :: "nat \<Rightarrow> string \<Rightarrow> svc_error + model \<Rightarrow> model option http" where
  "model_answer status requestID r = (case r of
       Inl e \<Rightarrow> Handle requestID None e | Inr m \<Rightarrow> Response status (JsonBody None (Some m)))"

definition CreateAdminModel :: "(request \<Rightarrow> model_patch option) \<Rightarrow> bool \<Rightarrow> string \<Rightarrow> string \<Rightarrow> string \<Rightarrow> string \<Rightarrow> user_row \<Rightarrow> request
    \<Rightarrow> catalog \<Rightarrow> model option http \<times> catalog" where
  "CreateAdminModel other served i publicID now requestID user r c =
     (case parse_model other r of
        None \<Rightarrow> (Error requestID 400 ''invalid_request'' ''Invalid request body.'' None, c)
      | Some p \<Rightarrow> (let (out, c') = CreateModel served i publicID now user (modelInput p) c in (model_answer 201 requestID out, c')))"

definition UpdateAdminModel :: "(request \<Rightarrow> model_patch option) \<Rightarrow> bool \<Rightarrow> string \<Rightarrow> user_row \<Rightarrow> string \<Rightarrow> request
    \<Rightarrow> catalog \<Rightarrow> model option http \<times> catalog" where
  "UpdateAdminModel other served requestID user publicID r c =
     (case parse_model other r of
        None \<Rightarrow> (Error requestID 400 ''invalid_request'' ''Invalid request body.'' None, c)
      | Some p \<Rightarrow> (let (out, c') = UpdateModel served user publicID p c in (model_answer 200 requestID out, c')))"

definition PauseAdminModel :: "bool \<Rightarrow> string \<Rightarrow> user_row \<Rightarrow> string \<Rightarrow> catalog \<Rightarrow> unit http \<times> catalog" where
  "PauseAdminModel served requestID user publicID c =
     (let (out, c') = PauseModel served user publicID c
      in (case out of Inl e \<Rightarrow> Handle requestID () e | Inr u \<Rightarrow> Response 204 EmptyText, c'))"


section \<open>What the server reads of the page's request\<close>

definition whole :: "rat option \<Rightarrow> bool" where
  "whole x \<longleftrightarrow> (case x of None \<Rightarrow> True | Some q \<Rightarrow> go_int (JNum q) \<noteq> None)"

definition whole_numbers :: "model_payload \<Rightarrow> bool" where
  "whole_numbers p \<longleftrightarrow> whole (mp_context_length p) \<and> whole (mp_default_max_output_tokens p) \<and> whole (mp_input_credit_per_1k p)
     \<and> whole (mp_output_credit_per_1k p) \<and> whole (mp_min_vram_mb p) \<and> whole (mp_recommended_vram_mb p)"

definition patch_of :: "model_payload \<Rightarrow> model_patch" where
  "patch_of p = \<lparr>mq_slug = mp_slug p, mq_display_name = mp_display_name p, mq_description = mp_description p, mq_family = mp_family p, mq_modality = mp_modality p, mq_status = mp_status p, mq_context_length = map_option floor (mp_context_length p), mq_default_max_output_tokens = map_option floor (mp_default_max_output_tokens p), mq_input_credit_per_1k = map_option floor (mp_input_credit_per_1k p), mq_output_credit_per_1k = map_option floor (mp_output_credit_per_1k p), mq_provider_reward_ratio = mp_provider_reward_ratio p, mq_min_vram_mb = map_option floor (mp_min_vram_mb p), mq_recommended_vram_mb = map_option floor (mp_recommended_vram_mb p), mq_license_name = mp_license_name p, mq_license_url = Option.bind (mp_license_url p) (\<lambda>u. u), mq_license_notes = mp_license_notes p, mq_community_allowed = mp_community_allowed p, mq_external_only = mp_external_only p\<rparr>"

lemma go_int_whole: "go_int (JNum q) = (if whole (Some q) then Some \<lfloor>q\<rfloor> else None)"
  by (simp add: whole_def)

lemma pointer_skip:
  "lowercase k \<noteq> n \<Longrightarrow> pointer_field conv n v (member k f x @ ms) = pointer_field conv n v ms"
  "lowercase k \<noteq> n \<Longrightarrow> pointer_field conv n v (member k f x) = Some v"
  by (simp_all add: member_def split: option.split)

lemma member_cases: "member k f None = []" "member k f (Some v) = [(k, f v)]"
  by (simp_all add: member_def)

definition payload_members :: "model_payload \<Rightarrow> (string \<times> json) list" where
  "payload_members p = (case payload_json p of JObj ms \<Rightarrow> ms | _ \<Rightarrow> [])"

lemma lowercase_names:
  "list_all (\<lambda>n. lowercase n = n) [''slug'', ''display_name'', ''description'', ''family'', ''modality'', ''status'', ''context_length'', ''default_max_output_tokens'', ''input_credit_per_1k'', ''output_credit_per_1k'', ''provider_reward_ratio'', ''min_vram_mb'', ''recommended_vram_mb'', ''license_name'', ''license_url'', ''license_notes'', ''community_allowed'', ''external_only'']"
  by code_simp

lemmas name_eval = lowercase_names [simplified]

lemma payload_fields:
  "pointer_field go_string ''slug'' None (payload_members p) = (Some (mp_slug p))"
  "pointer_field go_string ''display_name'' None (payload_members p) = (Some (mp_display_name p))"
  "pointer_field go_string ''description'' None (payload_members p) = (Some (mp_description p))"
  "pointer_field go_string ''family'' None (payload_members p) = (Some (mp_family p))"
  "pointer_field go_string ''modality'' None (payload_members p) = (Some (mp_modality p))"
  "pointer_field go_string ''status'' None (payload_members p) = (Some (mp_status p))"
  "pointer_field go_int ''context_length'' None (payload_members p) = (if whole (mp_context_length p) then Some (map_option floor (mp_context_length p)) else None)"
  "pointer_field go_int ''default_max_output_tokens'' None (payload_members p) = (if whole (mp_default_max_output_tokens p) then Some (map_option floor (mp_default_max_output_tokens p)) else None)"
  "pointer_field go_int ''input_credit_per_1k'' None (payload_members p) = (if whole (mp_input_credit_per_1k p) then Some (map_option floor (mp_input_credit_per_1k p)) else None)"
  "pointer_field go_int ''output_credit_per_1k'' None (payload_members p) = (if whole (mp_output_credit_per_1k p) then Some (map_option floor (mp_output_credit_per_1k p)) else None)"
  "pointer_field go_float ''provider_reward_ratio'' None (payload_members p) = (Some (mp_provider_reward_ratio p))"
  "pointer_field go_int ''min_vram_mb'' None (payload_members p) = (if whole (mp_min_vram_mb p) then Some (map_option floor (mp_min_vram_mb p)) else None)"
  "pointer_field go_int ''recommended_vram_mb'' None (payload_members p) = (if whole (mp_recommended_vram_mb p) then Some (map_option floor (mp_recommended_vram_mb p)) else None)"
  "pointer_field go_string ''license_name'' None (payload_members p) = (Some (mp_license_name p))"
  "pointer_field go_string ''license_url'' None (payload_members p) = (Some (Option.bind (mp_license_url p) (\<lambda>u. u)))"
  "pointer_field go_string ''license_notes'' None (payload_members p) = (Some (mp_license_notes p))"
  "pointer_field go_bool ''community_allowed'' None (payload_members p) = (Some (mp_community_allowed p))"
  "pointer_field go_bool ''external_only'' None (payload_members p) = (Some (mp_external_only p))"
proof -
  show "pointer_field go_string ''slug'' None (payload_members p) = (Some (mp_slug p))"
    by (cases "mp_slug p") (simp_all add: payload_members_def payload_json_def pointer_skip member_cases name_eval whole_def)
  show "pointer_field go_string ''display_name'' None (payload_members p) = (Some (mp_display_name p))"
    by (cases "mp_display_name p") (simp_all add: payload_members_def payload_json_def pointer_skip member_cases name_eval whole_def)
  show "pointer_field go_string ''description'' None (payload_members p) = (Some (mp_description p))"
    by (cases "mp_description p") (simp_all add: payload_members_def payload_json_def pointer_skip member_cases name_eval whole_def)
  show "pointer_field go_string ''family'' None (payload_members p) = (Some (mp_family p))"
    by (cases "mp_family p") (simp_all add: payload_members_def payload_json_def pointer_skip member_cases name_eval whole_def)
  show "pointer_field go_string ''modality'' None (payload_members p) = (Some (mp_modality p))"
    by (cases "mp_modality p") (simp_all add: payload_members_def payload_json_def pointer_skip member_cases name_eval whole_def)
  show "pointer_field go_string ''status'' None (payload_members p) = (Some (mp_status p))"
    by (cases "mp_status p") (simp_all add: payload_members_def payload_json_def pointer_skip member_cases name_eval whole_def)
  show "pointer_field go_int ''context_length'' None (payload_members p) = (if whole (mp_context_length p) then Some (map_option floor (mp_context_length p)) else None)"
    by (cases "mp_context_length p") (simp_all add: payload_members_def payload_json_def pointer_skip member_cases name_eval whole_def)
  show "pointer_field go_int ''default_max_output_tokens'' None (payload_members p) = (if whole (mp_default_max_output_tokens p) then Some (map_option floor (mp_default_max_output_tokens p)) else None)"
    by (cases "mp_default_max_output_tokens p") (simp_all add: payload_members_def payload_json_def pointer_skip member_cases name_eval whole_def)
  show "pointer_field go_int ''input_credit_per_1k'' None (payload_members p) = (if whole (mp_input_credit_per_1k p) then Some (map_option floor (mp_input_credit_per_1k p)) else None)"
    by (cases "mp_input_credit_per_1k p") (simp_all add: payload_members_def payload_json_def pointer_skip member_cases name_eval whole_def)
  show "pointer_field go_int ''output_credit_per_1k'' None (payload_members p) = (if whole (mp_output_credit_per_1k p) then Some (map_option floor (mp_output_credit_per_1k p)) else None)"
    by (cases "mp_output_credit_per_1k p") (simp_all add: payload_members_def payload_json_def pointer_skip member_cases name_eval whole_def)
  show "pointer_field go_float ''provider_reward_ratio'' None (payload_members p) = (Some (mp_provider_reward_ratio p))"
    by (cases "mp_provider_reward_ratio p") (simp_all add: payload_members_def payload_json_def pointer_skip member_cases name_eval whole_def)
  show "pointer_field go_int ''min_vram_mb'' None (payload_members p) = (if whole (mp_min_vram_mb p) then Some (map_option floor (mp_min_vram_mb p)) else None)"
    by (cases "mp_min_vram_mb p") (simp_all add: payload_members_def payload_json_def pointer_skip member_cases name_eval whole_def)
  show "pointer_field go_int ''recommended_vram_mb'' None (payload_members p) = (if whole (mp_recommended_vram_mb p) then Some (map_option floor (mp_recommended_vram_mb p)) else None)"
    by (cases "mp_recommended_vram_mb p") (simp_all add: payload_members_def payload_json_def pointer_skip member_cases name_eval whole_def)
  show "pointer_field go_string ''license_name'' None (payload_members p) = (Some (mp_license_name p))"
    by (cases "mp_license_name p") (simp_all add: payload_members_def payload_json_def pointer_skip member_cases name_eval whole_def)
  show "pointer_field go_string ''license_url'' None (payload_members p) = (Some (Option.bind (mp_license_url p) (\<lambda>u. u)))"
    by (cases "mp_license_url p") (auto simp: payload_members_def payload_json_def pointer_skip member_cases name_eval json_opt_def whole_def split: option.split)
  show "pointer_field go_string ''license_notes'' None (payload_members p) = (Some (mp_license_notes p))"
    by (cases "mp_license_notes p") (simp_all add: payload_members_def payload_json_def pointer_skip member_cases name_eval whole_def)
  show "pointer_field go_bool ''community_allowed'' None (payload_members p) = (Some (mp_community_allowed p))"
    by (cases "mp_community_allowed p") (simp_all add: payload_members_def payload_json_def pointer_skip member_cases name_eval whole_def)
  show "pointer_field go_bool ''external_only'' None (payload_members p) = (Some (mp_external_only p))"
    by (cases "mp_external_only p") (simp_all add: payload_members_def payload_json_def pointer_skip member_cases name_eval whole_def)
qed


lemma create_body: "rq_body (api_request base tok path (c_init (createAdminModel p))) = Some (JObj (payload_members p))"
  by (simp add: createAdminModel_def send_init_def api_request_def Let_def payload_members_def payload_json_def)

lemma parse_create:
  "parse_model other (api_request base tok path (c_init (createAdminModel p))) =
     (if whole_numbers p then Some (patch_of p) else None)"
proof -
  have "adminModelRequest (payload_members p) = (if whole_numbers p then Some (patch_of p) else None)"
    by (simp add: adminModelRequest_def payload_fields whole_numbers_def patch_of_def)
  moreover have "get_header ''Content-Type'' (rq_headers (api_request base tok path (c_init (createAdminModel p))))
      = Some ''application/json''"
    using client_body by (simp add: createAdminModel_def)
  ultimately show ?thesis by (simp add: parse_model_def create_body)
qed

section \<open>Histories\<close>

datatype catalog_event =
    AddModel bool string string string user_row model_input
  | PatchModel bool user_row string model_patch
  | StopModel bool user_row string

fun catalog_step :: "(catalog, catalog_event) machine" where
  "catalog_step c (AddModel served i pid now user m) = Some (snd (CreateModel served i pid now user m c))"
| "catalog_step c (PatchModel served user pid p) = Some (snd (UpdateModel served user pid p c))"
| "catalog_step c (StopModel served user pid) = Some (snd (PauseModel served user pid c))"

text \<open>What every row of the table satisfies.\<close>

definition model_ok :: "model \<Rightarrow> bool" where
  "model_ok m \<longleftrightarrow> md_slug m \<noteq> [] \<and> md_display_name m \<noteq> [] \<and> md_family m \<noteq> [] \<and> validModality (md_modality m)
     \<and> validModelStatus (md_status m) \<and> 0 < md_context_length m \<and> 0 < md_default_max_output_tokens m
     \<and> 0 \<le> md_input_credit_per_1k m \<and> 0 \<le> md_output_credit_per_1k m
     \<and> 0 \<le> md_provider_reward_ratio m \<and> md_provider_reward_ratio m \<le> 1
     \<and> 0 \<le> md_min_vram_mb m \<and> 0 \<le> md_recommended_vram_mb m"

definition row_ok :: "model_row \<Rightarrow> bool" where "row_ok r \<longleftrightarrow> model_ok (mr_model r)"

definition slugs_ok :: "model_row list \<Rightarrow> bool" where
  "slugs_ok rs \<longleftrightarrow> distinct (map mr_id rs) \<and> distinct (map (\<lambda>r. md_id (mr_model r)) rs) \<and> distinct (map (\<lambda>r. md_slug (mr_model r)) rs)"

definition catalog_inv :: "catalog \<Rightarrow> bool" where
  "catalog_inv c \<longleftrightarrow> list_all row_ok (mt_models c) \<and> slugs_ok (mt_models c)"

lemma decimals4_range: "0 \<le> q \<Longrightarrow> q \<le> 1 \<Longrightarrow> 0 \<le> decimals4 q \<and> decimals4 q \<le> 1"
proof
  assume q: "0 \<le> q" "q \<le> 1"
  then have "0 \<le> \<lfloor>10000 * q + 1 / 2\<rfloor>" by simp
  then show "0 \<le> decimals4 q" by (simp add: decimals4_def)
  have "\<lfloor>10000 * q + 1 / 2\<rfloor> < 10001" using q by (simp add: floor_less_iff)
  then have "(of_int \<lfloor>10000 * q + 1 / 2\<rfloor> :: rat) \<le> of_int 10000" by (simp only: of_int_le_iff)
  then show "decimals4 q \<le> 1" by (simp add: decimals4_def)
qed

lemma new_model_ok: "validModelInput m \<Longrightarrow> model_ok (model_of pid now m)"
  using decimals4_range by (simp add: validModelInput_def model_ok_def model_of_def)

lemma given_deref: "given P x \<Longrightarrow> P d \<Longrightarrow> P (deref x d)"
  by (simp add: given_def deref_def split: option.splits)

lemma patched_ok: "validModelPatch p \<Longrightarrow> model_ok m \<Longrightarrow> model_ok (patched p m)"
proof -
  assume p: "validModelPatch p" and m: "model_ok m"
  have r: "given (\<lambda>v. 0 \<le> v \<and> v \<le> 1) (map_option decimals4 (mq_provider_reward_ratio p))"
  proof -
    have "given (\<lambda>v. 0 \<le> v \<and> v \<le> 1) (mq_provider_reward_ratio p)" using p by (simp add: validModelPatch_def)
    then show ?thesis using decimals4_range by (auto simp: given_def split: option.splits)
  qed
  have "0 \<le> deref (map_option decimals4 (mq_provider_reward_ratio p)) (md_provider_reward_ratio m)
      \<and> deref (map_option decimals4 (mq_provider_reward_ratio p)) (md_provider_reward_ratio m) \<le> 1"
    using given_deref [OF r, of "md_provider_reward_ratio m"] m by (simp add: model_ok_def)
  moreover have "deref (mq_slug p) (md_slug m) \<noteq> []" "deref (mq_display_name p) (md_display_name m) \<noteq> []"
    "deref (mq_family p) (md_family m) \<noteq> []"
    using p m by (intro given_deref [where P = "\<lambda>v. v \<noteq> []"]; simp add: validModelPatch_def model_ok_def)+
  moreover have "validModality (deref (mq_modality p) (md_modality m))" "validModelStatus (deref (mq_status p) (md_status m))"
    using p m given_deref [of validModality] given_deref [of validModelStatus] by (simp_all add: validModelPatch_def model_ok_def)
  moreover have "0 < deref (mq_context_length p) (md_context_length m)"
    "0 < deref (mq_default_max_output_tokens p) (md_default_max_output_tokens m)"
    using p m by (intro given_deref [where P = "\<lambda>v. 0 < v"]; simp add: validModelPatch_def model_ok_def)+
  moreover have "0 \<le> deref (mq_input_credit_per_1k p) (md_input_credit_per_1k m)"
    "0 \<le> deref (mq_output_credit_per_1k p) (md_output_credit_per_1k m)"
    "0 \<le> deref (mq_min_vram_mb p) (md_min_vram_mb m)" "0 \<le> deref (mq_recommended_vram_mb p) (md_recommended_vram_mb m)"
    using p m by (intro given_deref [where P = "\<lambda>v. 0 \<le> v"]; simp add: validModelPatch_def model_ok_def)+
  ultimately show ?thesis by (simp add: model_ok_def patched_def)
qed

lemma distinct_update:
  assumes "distinct (map key xs)" "distinct (map g xs)" "x \<in> set xs"
    "\<And>y. y \<in> set xs \<Longrightarrow> key y \<noteq> key x \<Longrightarrow> g y \<noteq> g (f x)"
  shows "distinct (map g (update_by key (key x) f xs))"
  using assms
proof (induction xs)
  case (Cons y ys)
  show ?case
  proof (cases "key y = key x")
    case True
    then have n: "key x \<notin> key ` set ys" "y = x"
      using Cons.prems by (auto simp: image_iff)
    then have "g (f x) \<notin> g ` set ys" using Cons.prems(4) by (metis imageE image_eqI list.set_intros(2))
    moreover have "update_by key (key x) f ys = ys" using n(1) by (rule update_by_absent)
    ultimately show ?thesis using Cons.prems True n by (simp add: update_by_def)
  next
    case False
    then have "distinct (map g (update_by key (key x) f ys))" using Cons by auto
    moreover have "g y \<notin> g ` set (update_by key (key x) f ys)"
    proof
      assume "g y \<in> g ` set (update_by key (key x) f ys)"
      then obtain z where z: "z \<in> set ys" "g y = g z \<or> key z = key x \<and> g y = g (f z)"
        by (auto simp: update_by_def)
      have "z = x" if "key z = key x" using Cons.prems(1,3) False z(1) that by (auto simp: distinct_map inj_on_def)
      with z Cons.prems(2,4) False show False by auto
    qed
    moreover have "update_by key (key x) f (y # ys) = y # update_by key (key x) f ys" using False by (simp add: update_by_def)
    ultimately show ?thesis by simp
  qed
qed (simp add: update_by_def)

lemma AddModel_inv:
  assumes "catalog_inv c"
  shows "catalog_inv (snd (CreateModel served i pid now user m c))"
proof (cases "snd (CreateModel served i pid now user m c) = c")
  case False
  let ?m = "normalizeModelInput m"
  have v: "validModelInput ?m" using False by (auto simp: CreateModel_def split: if_splits)
  have e: "snd (CreateModel served i pid now user m c)
      = c\<lparr>mt_models := mt_models c @ [\<lparr>mr_id = i, mr_model = model_of pid now ?m, mr_deleted = False\<rparr>],
          mt_db := audit (ur_id user) ''model_created'' i (mt_db c)\<rparr>"
    and n: "\<forall>r \<in> set (mt_models c). mr_id r \<noteq> i \<and> md_id (mr_model r) \<noteq> pid \<and> md_slug (mr_model r) \<noteq> mi_slug ?m"
    using False by (auto simp: CreateModel_def store_model_def split: if_splits)
  have "i \<notin> mr_id ` set (mt_models c)" "pid \<notin> (\<lambda>r. md_id (mr_model r)) ` set (mt_models c)"
    "mi_slug ?m \<notin> (\<lambda>r. md_slug (mr_model r)) ` set (mt_models c)"
    using n by (metis imageE)+
  with assms new_model_ok [OF v] show ?thesis unfolding e
    by (simp add: catalog_inv_def slugs_ok_def row_ok_def) (simp add: model_of_def)
qed (use assms in simp)

lemma PatchModel_inv:
  assumes "catalog_inv c"
  shows "catalog_inv (snd (UpdateModel served user pid p c))"
proof (cases "snd (UpdateModel served user pid p c) = c")
  case False
  let ?p = "normalizeModelPatch p"
  have v: "validModelPatch ?p" using False by (auto simp: UpdateModel_def split: if_splits)
  obtain r where r: "model_by_public pid c = Some r"
    "snd (UpdateModel served user pid p c) = c\<lparr>mt_models := update_by mr_id (mr_id r) (\<lambda>x. x\<lparr>mr_model := patched ?p (mr_model x)\<rparr>) (mt_models c),
       mt_db := audit (ur_id user) ''model_updated'' (mr_id r) (mt_db c)\<rparr>"
    "\<forall>x \<in> set (mt_models c). mr_id x \<noteq> mr_id r \<longrightarrow> md_slug (mr_model x) \<noteq> md_slug (patched ?p (mr_model r))"
    using False by (auto simp: UpdateModel_def store_patch_def split: if_splits option.splits)
  have m: "r \<in> set (mt_models c)" using r(1) find_SomeD unfolding model_by_public_def by metis
  have i: "distinct (map mr_id (mt_models c))" "distinct (map (\<lambda>r. md_id (mr_model r)) (mt_models c))"
    "distinct (map (\<lambda>r. md_slug (mr_model r)) (mt_models c))" using assms by (simp_all add: catalog_inv_def slugs_ok_def)
  have "distinct (map (\<lambda>r. md_slug (mr_model r)) (update_by mr_id (mr_id r) (\<lambda>x. x\<lparr>mr_model := patched ?p (mr_model x)\<rparr>) (mt_models c)))"
    using r(3) by (intro distinct_update [OF i(1,3) m]) simp
  moreover have "map (\<lambda>r. md_id (mr_model r)) (update_by mr_id (mr_id r) (\<lambda>x. x\<lparr>mr_model := patched ?p (mr_model x)\<rparr>) (mt_models c))
      = map (\<lambda>r. md_id (mr_model r)) (mt_models c)"
    "map mr_id (update_by mr_id (mr_id r) (\<lambda>x. x\<lparr>mr_model := patched ?p (mr_model x)\<rparr>) (mt_models c)) = map mr_id (mt_models c)"
    by (intro map_update_same; simp add: patched_def)+
  moreover have "list_all row_ok (update_by mr_id (mr_id r) (\<lambda>x. x\<lparr>mr_model := patched ?p (mr_model x)\<rparr>) (mt_models c))"
    using assms by (intro list_all_update_by [of row_ok]) (simp_all add: catalog_inv_def row_ok_def patched_ok [OF v])
  ultimately show ?thesis using i unfolding r(2) by (simp add: catalog_inv_def slugs_ok_def)
qed (use assms in simp)

lemma StopModel_inv:
  assumes "catalog_inv c"
  shows "catalog_inv (snd (PauseModel served user pid c))"
proof (cases "snd (PauseModel served user pid c) = c")
  case False
  let ?f = "\<lambda>x. x\<lparr>mr_model := (mr_model x)\<lparr>md_status := ''paused''\<rparr>\<rparr>"
  have a: "ur_role user = ''admin''" "served" and "model_by_public pid c \<noteq> None"
    using False by (auto simp: PauseModel_def store_pause_def split: if_splits option.splits)
  then obtain r where q: "model_by_public pid c = Some r" by blast
  have r: "snd (PauseModel served user pid c)
      = c\<lparr>mt_models := update_by mr_id (mr_id r) ?f (mt_models c), mt_db := audit (ur_id user) ''model_paused'' (mr_id r) (mt_db c)\<rparr>"
    using a by (simp add: PauseModel_def store_pause_def q)
  have "map (\<lambda>r. md_slug (mr_model r)) (update_by mr_id (mr_id r) ?f (mt_models c)) = map (\<lambda>r. md_slug (mr_model r)) (mt_models c)"
    "map (\<lambda>r. md_id (mr_model r)) (update_by mr_id (mr_id r) ?f (mt_models c)) = map (\<lambda>r. md_id (mr_model r)) (mt_models c)"
    "map mr_id (update_by mr_id (mr_id r) ?f (mt_models c)) = map mr_id (mt_models c)"
    by (intro map_update_same; simp)+
  moreover have "list_all row_ok (update_by mr_id (mr_id r) ?f (mt_models c))"
    using assms by (intro list_all_update_by [of row_ok])
      (simp_all add: catalog_inv_def row_ok_def model_ok_def validModelStatus_def)
  ultimately show ?thesis using assms unfolding r by (simp add: catalog_inv_def slugs_ok_def)
qed (use assms in simp)

lemma catalog_step_inv: "catalog_inv c \<Longrightarrow> catalog_step c e = Some c' \<Longrightarrow> catalog_inv c'"
  by (cases e) (auto intro: AddModel_inv PatchModel_inv StopModel_inv)

definition catalog_start :: "db \<Rightarrow> catalog" where
  "catalog_start d = \<lparr>mt_models = [], mt_db = d\<rparr>"

interpretation catalog_server: page_machine catalog_step "catalog_start d" catalog_inv
  by unfold_locales (simp add: catalog_inv_def slugs_ok_def catalog_start_def, rule catalog_step_inv)


section \<open>The page and the server\<close>

lemma field_result_Handle: "\<exists>x. field_result (Handle rid None e) = Inl x"
  by (auto simp: field_result_def Handle_def Error_def res_ok_def)

lemma CreateModel_Inr:
  assumes "CreateModel served i pid now user m c = (Inr r, c')"
  shows "validModelInput (normalizeModelInput m) \<and> r = model_of pid now (normalizeModelInput m) \<and> ur_role user = ''admin''
     \<and> mt_models c' = mt_models c @ [\<lparr>mr_id = i, mr_model = r, mr_deleted = False\<rparr>]
     \<and> db_audit (mt_db c') = db_audit (mt_db c) @ [\<lparr>at_actor = ur_id user, at_action = ''model_created'', at_target = i\<rparr>]"
  using assms by (auto simp: CreateModel_def store_model_def audit_def split: if_splits)

lemma CreateModel_Inl: "CreateModel served i pid now user m c = (Inl e, c') \<Longrightarrow> c' = c"
  by (auto simp: CreateModel_def store_model_def split: if_splits)

lemma CreateAdminModel_page:
  assumes "CreateAdminModel other served i pid now rid user (api_request base tok path (c_init (createAdminModel p))) c = (answer, c')"
  obtains x where "c_settle (createAdminModel p) answer = Inl x" "c' = c"
  | r where "c_settle (createAdminModel p) answer = Inr (Some r)" "whole_numbers p"
      "CreateModel served i pid now user (modelInput (patch_of p)) c = (Inr r, c')"
proof (cases "whole_numbers p")
  case False
  then have "answer = Error rid 400 ''invalid_request'' ''Invalid request body.'' None" "c' = c"
    using assms by (simp_all add: CreateAdminModel_def parse_create)
  then show ?thesis by (intro that(1)) (auto simp: createAdminModel_def field_result_def Error_def res_ok_def)
next
  case True
  obtain out x where o: "CreateModel served i pid now user (modelInput (patch_of p)) c = (out, x)" by fastforce
  then have a: "answer = model_answer 201 rid out" "c' = x" using assms True by (simp_all add: CreateAdminModel_def parse_create)
  show ?thesis
  proof (cases out)
    case (Inl e)
    obtain y where "field_result (Handle rid (None :: model option) e) = Inl y" using field_result_Handle by blast
    with Inl a o CreateModel_Inl show ?thesis
      by (intro that(1) [of y]) (simp_all add: createAdminModel_def model_answer_def)
  next
    case (Inr r)
    with a o True show ?thesis
      by (intro that(2) [of r]) (simp_all add: createAdminModel_def model_answer_def field_result_def res_ok_def)
  qed
qed

text \<open>An administrator creates a model that is free on paper, changes it and pauses it.\<close>

definition zoo_form :: model_payload where
  "zoo_form = \<lparr>mp_slug = Some '' free '', mp_display_name = Some ''Free'', mp_description = None, mp_family = Some ''f'',
     mp_modality = Some ''text'', mp_status = Some ''active'', mp_context_length = Some 2048,
     mp_default_max_output_tokens = Some 512, mp_input_credit_per_1k = Some 0, mp_output_credit_per_1k = Some 0,
     mp_provider_reward_ratio = Some (1 / 3), mp_min_vram_mb = Some 1, mp_recommended_vram_mb = Some 2,
     mp_license_name = Some ''mit'', mp_license_url = Some None, mp_license_notes = Some [],
     mp_community_allowed = Some True, mp_external_only = Some False\<rparr>"

definition zoo_events :: "catalog_event list" where
  "zoo_events = [AddModel True ''1'' ''mdl_1'' ''now'' (net_user ''a'' ''admin'') (modelInput (patch_of zoo_form)),
     PatchModel True (net_user ''a'' ''admin'') ''mdl_1'' (patch_of (no_payload\<lparr>mp_status := Some ''deprecated''\<rparr>)),
     StopModel True (net_user ''a'' ''admin'') ''mdl_1'']"

section \<open>Properties\<close>





end
