(* ===== verification/Hub.thy ===== *)
theory Hub
  imports ChatRequest
begin

text \<open>
  How a chat request reaches a node and its result comes back: the hub of
  \<open>apps/api/internal/ws/hub.go\<close> with the loop \<open>ProviderWS\<close> of \<open>handler/handlers.go\<close> that reads a
  connection. Dispatches and connections are goroutines; the step of one is what it does between two
  points at which another can run: a section under the hub's lock, a write, a channel operation. The
  channel that a dispatch makes has room for one result; it is named by the position of the dispatch.
\<close>

section \<open>State\<close>

record job_result =
  rs_JobID :: string
  rs_Content :: string
  rs_FinishReason :: string
  rs_Usage :: "(int \<times> int) option"
  rs_LatencyMS :: int
  rs_ErrorCode :: string
  rs_ErrorMessage :: string

datatype hub_error = ErrProviderUnavailable | ErrJobTimeout | WriteError string

type_synonym outcome = "hub_error + job_result"

text \<open>Where a dispatch is: before its lookup, before it enters its channel, before it writes the request,
  in the \<open>select\<close>, before its deferred removal, and after it.\<close>

datatype progress = Seeking | Enrolling nat | Writing nat | Selecting | Retiring outcome | Returned outcome

record dispatch =
  dp_provider :: string
  dp_job :: string
  dp_progress :: progress
  dp_buffer :: "job_result option"

text \<open>A connection that is sending a result into a channel reads nothing until it is through.\<close>

record connection =
  cn_provider :: string
  cn_open :: bool
  cn_sending :: "(nat \<times> job_result) option"

record hub =
  hb_providers :: "string \<rightharpoonup> nat"
  hb_jobs :: "string \<rightharpoonup> nat"
  hb_dispatches :: "dispatch list"
  hb_connections :: "connection list"

definition NewHub :: hub where
  "NewHub = \<lparr>hb_providers = Map.empty, hb_jobs = Map.empty, hb_dispatches = [], hb_connections = []\<rparr>"

section \<open>Steps\<close>

definition Register_conn :: "string \<Rightarrow> hub \<Rightarrow> hub" where
  "Register_conn p h = h\<lparr>hb_providers := (hb_providers h)(p \<mapsto> length (hb_connections h)),
     hb_connections := hb_connections h @ [\<lparr>cn_provider = p, cn_open = True, cn_sending = None\<rparr>]\<rparr>"

definition Unregister :: "string \<Rightarrow> hub \<Rightarrow> hub" where
  "Unregister p h = h\<lparr>hb_providers := (hb_providers h)(p := None)\<rparr>"

definition set_dispatch :: "nat \<Rightarrow> dispatch \<Rightarrow> hub \<Rightarrow> hub" where
  "set_dispatch i d h = h\<lparr>hb_dispatches := (hb_dispatches h)[i := d]\<rparr>"

definition set_connection :: "nat \<Rightarrow> connection \<Rightarrow> hub \<Rightarrow> hub" where
  "set_connection k c h = h\<lparr>hb_connections := (hb_connections h)[k := c]\<rparr>"

text \<open>The events of one dispatch; the error of the write comes from the network.\<close>

datatype dispatch_event = Look | Enrol | Write "string option" | Receive | TimeUp | Retire

fun dispatch_step :: "hub \<Rightarrow> nat \<Rightarrow> dispatch \<Rightarrow> dispatch_event \<Rightarrow> hub option" where
  "dispatch_step h i d Look =
     (case dp_progress d of
        Seeking \<Rightarrow> Some (set_dispatch i (d\<lparr>dp_progress := (case hb_providers h (dp_provider d) of
            None \<Rightarrow> Returned (Inl ErrProviderUnavailable) | Some k \<Rightarrow> Enrolling k)\<rparr>) h)
      | _ \<Rightarrow> None)"
| "dispatch_step h i d Enrol =
     (case dp_progress d of
        Enrolling k \<Rightarrow> Some (set_dispatch i (d\<lparr>dp_progress := Writing k\<rparr>) (h\<lparr>hb_jobs := (hb_jobs h)(dp_job d \<mapsto> i)\<rparr>))
      | _ \<Rightarrow> None)"
| "dispatch_step h i d (Write err) =
     (case dp_progress d of
        Writing k \<Rightarrow> Some (set_dispatch i (d\<lparr>dp_progress := (case err of
            None \<Rightarrow> Selecting | Some m \<Rightarrow> Retiring (Inl (WriteError m)))\<rparr>) h)
      | _ \<Rightarrow> None)"
| "dispatch_step h i d Receive =
     (if dp_progress d = Selecting
      then map_option (\<lambda>r. set_dispatch i (d\<lparr>dp_progress := Retiring (Inr r), dp_buffer := None\<rparr>) h) (dp_buffer d)
      else None)"
| "dispatch_step h i d TimeUp =
     (if dp_progress d = Selecting
      then Some (set_dispatch i (d\<lparr>dp_progress := Retiring (Inl ErrJobTimeout)\<rparr>) h) else None)"
| "dispatch_step h i d Retire =
     (case dp_progress d of
        Retiring r \<Rightarrow> Some (set_dispatch i (d\<lparr>dp_progress := Returned r\<rparr>) (h\<lparr>hb_jobs := (hb_jobs h)(dp_job d := None)\<rparr>))
      | _ \<Rightarrow> None)"

datatype hub_event =
    Connect string
  | LoopEnds nat
  | CloseProvider string
  | StartDispatch string string
  | OfDispatch nat dispatch_event
  | Complete nat job_result
  | SendOn nat

fun hub_step :: "(hub, hub_event) machine" where
  "hub_step h (Connect p) = Some (Register_conn p h)"
| "hub_step h (LoopEnds k) =
     (if k < length (hb_connections h) \<and> cn_open (hb_connections h ! k) \<and> cn_sending (hb_connections h ! k) = None
      then Some (Unregister (cn_provider (hb_connections h ! k))
             (set_connection k ((hb_connections h ! k)\<lparr>cn_open := False\<rparr>) h))
      else None)"
| "hub_step h (CloseProvider p) = Some (Unregister p h)"
| "hub_step h (StartDispatch p j) =
     Some (h\<lparr>hb_dispatches := hb_dispatches h @ [\<lparr>dp_provider = p, dp_job = j, dp_progress = Seeking, dp_buffer = None\<rparr>]\<rparr>)"
| "hub_step h (OfDispatch i e) =
     (if i < length (hb_dispatches h) then dispatch_step h i (hb_dispatches h ! i) e else None)"
| "hub_step h (Complete k r) =
     (if k < length (hb_connections h) \<and> cn_open (hb_connections h ! k) \<and> cn_sending (hb_connections h ! k) = None
      then Some (case hb_jobs h (rs_JobID r) of
             None \<Rightarrow> h
           | Some i \<Rightarrow> set_connection k ((hb_connections h ! k)\<lparr>cn_sending := Some (i, r)\<rparr>) h)
      else None)"
| "hub_step h (SendOn k) =
     (if k < length (hb_connections h) then case cn_sending (hb_connections h ! k) of
          None \<Rightarrow> None
        | Some (i, r) \<Rightarrow> if i < length (hb_dispatches h) \<and> dp_buffer (hb_dispatches h ! i) = None
            then Some (set_dispatch i ((hb_dispatches h ! i)\<lparr>dp_buffer := Some r\<rparr>)
                   (set_connection k ((hb_connections h ! k)\<lparr>cn_sending := None\<rparr>) h))
            else None
      else None)"

text \<open>What the chat handler makes of the outcome.\<close>

fun hub_message :: "hub_error \<Rightarrow> string" where
  "hub_message ErrProviderUnavailable = ''provider unavailable''"
| "hub_message ErrJobTimeout = ''job timeout''"
| "hub_message (WriteError m) = m"

definition reply_of :: "outcome \<Rightarrow> reply" where
  "reply_of r = (case r of
       Inl e \<Rightarrow> DispatchError (hub_message e)
     | Inr x \<Rightarrow> if rs_ErrorCode x \<noteq> [] then ProviderError (rs_ErrorCode x) (rs_ErrorMessage x)
                else Completion (int (length (rs_Content x))) (rs_Usage x))"

definition job_error :: "string \<Rightarrow> string \<Rightarrow> string \<Rightarrow> job_result" where
  "job_error jobID code message = \<lparr>rs_JobID = jobID, rs_Content = [], rs_FinishReason = [], rs_Usage = None,
     rs_LatencyMS = 0, rs_ErrorCode = code, rs_ErrorMessage = message\<rparr>"

section \<open>Invariant\<close>

fun enrolled :: "progress \<Rightarrow> bool" where
  "enrolled (Writing k) = True"
| "enrolled Selecting = True"
| "enrolled (Retiring r) = True"
| "enrolled _ = False"

fun result_of :: "progress \<Rightarrow> job_result option" where
  "result_of (Retiring (Inr r)) = Some r"
| "result_of (Returned (Inr r)) = Some r"
| "result_of _ = None"

definition dispatch_ok :: "dispatch \<Rightarrow> bool" where
  "dispatch_ok d \<longleftrightarrow> (\<forall>r. dp_buffer d = Some r \<longrightarrow> rs_JobID r = dp_job d)
     \<and> (\<forall>r. result_of (dp_progress d) = Some r \<longrightarrow> rs_JobID r = dp_job d)"

definition entry_ok :: "dispatch list \<Rightarrow> string \<Rightarrow> nat \<Rightarrow> bool" where
  "entry_ok ds j i \<longleftrightarrow> i < length ds \<and> dp_job (ds ! i) = j \<and> enrolled (dp_progress (ds ! i))"

definition sending_ok :: "string list \<Rightarrow> connection \<Rightarrow> bool" where
  "sending_ok js c \<longleftrightarrow> (case cn_sending c of None \<Rightarrow> True
     | Some (i, r) \<Rightarrow> cn_open c \<and> i < length js \<and> rs_JobID r = js ! i)"

lemma sending_ok_idle [simp]: "cn_sending c = None \<Longrightarrow> sending_ok js c"
  by (simp add: sending_ok_def)

definition hub_inv :: "hub \<Rightarrow> bool" where
  "hub_inv h \<longleftrightarrow> (\<forall>d \<in> set (hb_dispatches h). dispatch_ok d)
     \<and> (\<forall>j i. hb_jobs h j = Some i \<longrightarrow> entry_ok (hb_dispatches h) j i)
     \<and> (\<forall>c \<in> set (hb_connections h). sending_ok (map dp_job (hb_dispatches h)) c)"

lemma hub_invD:
  assumes "hub_inv h"
  shows "i < length (hb_dispatches h) \<Longrightarrow> dispatch_ok (hb_dispatches h ! i)"
    "hb_jobs h j = Some i \<Longrightarrow> entry_ok (hb_dispatches h) j i"
    "k < length (hb_connections h) \<Longrightarrow> sending_ok (map dp_job (hb_dispatches h)) (hb_connections h ! k)"
  using assms by (simp_all add: hub_inv_def)

lemma set_update_all: "\<forall>x \<in> set xs. P x \<Longrightarrow> P y \<Longrightarrow> \<forall>x \<in> set (xs[i := y]). P x"
  using set_update_subset_insert [of xs i y] by blast

text \<open>One dispatch moves on, with the table of jobs.\<close>

lemma hub_inv_dispatch:
  assumes "hub_inv h" "i < length (hb_dispatches h)" "dispatch_ok d" "dp_job d = dp_job (hb_dispatches h ! i)"
    "\<And>j l. jobs j = Some l \<Longrightarrow> l \<noteq> i \<and> hb_jobs h j = Some l \<or> l = i \<and> j = dp_job d \<and> enrolled (dp_progress d)"
  shows "hub_inv (set_dispatch i d (h\<lparr>hb_jobs := jobs\<rparr>))"
proof -
  let ?ds = "(hb_dispatches h)[i := d]"
  have "\<forall>x \<in> set ?ds. dispatch_ok x"
    using assms(1,3) by (intro set_update_all) (simp_all add: hub_inv_def)
  moreover have "entry_ok ?ds j l" if "jobs j = Some l" for j l
    using assms(5) [OF that]
  proof
    assume "l \<noteq> i \<and> hb_jobs h j = Some l"
    with hub_invD(2) [OF assms(1), of j l] show ?thesis by (simp add: entry_ok_def)
  next
    assume "l = i \<and> j = dp_job d \<and> enrolled (dp_progress d)"
    with assms(2) show ?thesis by (simp add: entry_ok_def)
  qed
  moreover have "map dp_job ?ds = map dp_job (hb_dispatches h)"
    using assms(2,4) by (simp add: map_update list_update_same_conv)
  ultimately show ?thesis using assms(1) by (simp add: hub_inv_def set_dispatch_def)
qed

lemma hub_inv_dispatch_same:
  assumes "hub_inv h" "i < length (hb_dispatches h)" "dispatch_ok d" "dp_job d = dp_job (hb_dispatches h ! i)"
    "enrolled (dp_progress (hb_dispatches h ! i)) \<Longrightarrow> enrolled (dp_progress d)"
  shows "hub_inv (set_dispatch i d h)"
proof -
  have "l \<noteq> i \<and> hb_jobs h j = Some l \<or> l = i \<and> j = dp_job d \<and> enrolled (dp_progress d)" if "hb_jobs h j = Some l" for j l
    using that hub_invD(2) [OF assms(1) that] assms(4,5) by (auto simp: entry_ok_def)
  then have "hub_inv (set_dispatch i d (h\<lparr>hb_jobs := hb_jobs h\<rparr>))"
    by (rule hub_inv_dispatch [OF assms(1-4)])
  then show ?thesis by simp
qed

lemma hub_inv_connection:
  assumes "hub_inv h" "sending_ok (map dp_job (hb_dispatches h)) c"
  shows "hub_inv (set_connection k c h)"
  using assms set_update_all [of "hb_connections h" "sending_ok (map dp_job (hb_dispatches h))" c k]
  by (simp add: hub_inv_def set_connection_def)

lemma hub_inv_providers [simp]: "hub_inv (h\<lparr>hb_providers := f\<rparr>) = hub_inv h"
  by (simp add: hub_inv_def)

lemma enrolled_result: "\<not> enrolled (Seeking)" "\<not> enrolled (Enrolling k)" "\<not> enrolled (Returned r)"
  "result_of (Returned r) = result_of (Retiring r)"
  by (simp_all, cases r, simp_all)

lemma dispatch_inv:
  assumes h: "hub_inv h" and i: "i < length (hb_dispatches h)"
    and t: "dispatch_step h i (hb_dispatches h ! i) e = Some t"
  shows "hub_inv t"
proof -
  let ?d = "hb_dispatches h ! i"
  note ok = hub_invD(1) [OF h i, unfolded dispatch_ok_def]
  note move = hub_inv_dispatch_same [OF h i]
  show ?thesis
  proof (cases e)
    case Look
    then obtain q where t': "t = set_dispatch i (?d\<lparr>dp_progress := q\<rparr>) h" and q: "result_of q = None"
      and p: "dp_progress ?d = Seeking"
      using t by (auto split: progress.splits option.splits)
    show ?thesis unfolding t' by (rule move) (use ok q p in \<open>simp_all add: dispatch_ok_def\<close>)
  next
    case Enrol
    then obtain k where t': "t = set_dispatch i (?d\<lparr>dp_progress := Writing k\<rparr>) (h\<lparr>hb_jobs := (hb_jobs h)(dp_job ?d \<mapsto> i)\<rparr>)"
      and p: "dp_progress ?d = Enrolling k"
      using t by (auto split: progress.splits)
    have "l \<noteq> i" if "hb_jobs h j = Some l" for j l
      using hub_invD(2) [OF h that] p by (auto simp: entry_ok_def)
    then show ?thesis unfolding t'
      by (intro hub_inv_dispatch [OF h i]) (use ok in \<open>auto simp: dispatch_ok_def split: if_splits\<close>)
  next
    case (Write err)
    then obtain q where t': "t = set_dispatch i (?d\<lparr>dp_progress := q\<rparr>) h" and q: "result_of q = None" "enrolled q"
      using t by (auto split: progress.splits option.splits)
    show ?thesis unfolding t' by (rule move) (use ok q in \<open>simp_all add: dispatch_ok_def\<close>)
  next
    case Receive
    then obtain r where t': "t = set_dispatch i (?d\<lparr>dp_progress := Retiring (Inr r), dp_buffer := None\<rparr>) h"
      and r: "dp_buffer ?d = Some r"
      using t by (auto split: if_splits)
    show ?thesis unfolding t' by (rule move) (use ok r in \<open>simp_all add: dispatch_ok_def\<close>)
  next
    case TimeUp
    then have t': "t = set_dispatch i (?d\<lparr>dp_progress := Retiring (Inl ErrJobTimeout)\<rparr>) h"
      using t by (auto split: if_splits)
    show ?thesis unfolding t' by (rule move) (use ok in \<open>simp_all add: dispatch_ok_def\<close>)
  next
    case Retire
    then obtain r where t': "t = set_dispatch i (?d\<lparr>dp_progress := Returned r\<rparr>) (h\<lparr>hb_jobs := (hb_jobs h)(dp_job ?d := None)\<rparr>)"
      and p: "dp_progress ?d = Retiring r"
      using t by (auto split: progress.splits)
    have "l \<noteq> i" if "hb_jobs h j = Some l" "j \<noteq> dp_job ?d" for j l
      using hub_invD(2) [OF h that(1)] that(2) by (auto simp: entry_ok_def)
    then show ?thesis unfolding t'
      by (intro hub_inv_dispatch [OF h i]) (use ok p in \<open>auto simp: dispatch_ok_def enrolled_result split: if_splits\<close>)
  qed
qed

lemma hub_inv_step: "hub_inv h \<Longrightarrow> hub_step h e = Some t \<Longrightarrow> hub_inv t"
proof (cases e)
  case (Connect p)
  assume "hub_inv h" "hub_step h e = Some t"
  with Connect show ?thesis by (auto simp: Register_conn_def hub_inv_def)
next
  case (LoopEnds k)
  assume h: "hub_inv h" and t: "hub_step h e = Some t"
  then have t': "t = Unregister (cn_provider (hb_connections h ! k))
      (set_connection k ((hb_connections h ! k)\<lparr>cn_open := False\<rparr>) h)" "cn_sending (hb_connections h ! k) = None"
    using LoopEnds by (auto split: if_splits)
  have "hub_inv (set_connection k ((hb_connections h ! k)\<lparr>cn_open := False\<rparr>) h)"
    by (rule hub_inv_connection [OF h]) (simp add: sending_ok_def t'(2))
  then show ?thesis by (simp add: t'(1) Unregister_def)
next
  case (CloseProvider p)
  assume "hub_inv h" "hub_step h e = Some t"
  with CloseProvider show ?thesis by (auto simp: Unregister_def)
next
  case (StartDispatch p j)
  assume h: "hub_inv h" and "hub_step h e = Some t"
  then have t: "t = h\<lparr>hb_dispatches := hb_dispatches h @
      [\<lparr>dp_provider = p, dp_job = j, dp_progress = Seeking, dp_buffer = None\<rparr>]\<rparr>" using StartDispatch by simp
  have "sending_ok (js @ [j]) c" if "sending_ok js c" for js c
    using that by (auto simp: sending_ok_def nth_append split: option.splits)
  moreover have "entry_ok (ds @ [x]) l i" if "entry_ok ds l i" for ds x l i
    using that by (simp add: entry_ok_def nth_append)
  ultimately show ?thesis using h unfolding t hub_inv_def by (auto simp: dispatch_ok_def)
next
  case (OfDispatch i x)
  assume "hub_inv h" "hub_step h e = Some t"
  with OfDispatch dispatch_inv show ?thesis by (auto split: if_splits)
next
  case (Complete k r)
  assume h: "hub_inv h" and t: "hub_step h e = Some t"
  show ?thesis
  proof (cases "hb_jobs h (rs_JobID r)")
    case None
    with t h Complete show ?thesis by (auto split: if_splits)
  next
    case (Some i)
    with t Complete have t': "cn_open (hb_connections h ! k)"
      "t = set_connection k ((hb_connections h ! k)\<lparr>cn_sending := Some (i, r)\<rparr>) h"
      by (auto split: if_splits)
    show ?thesis unfolding t'(2) using hub_invD(2) [OF h Some] t'(1)
      by (intro hub_inv_connection [OF h]) (auto simp: sending_ok_def entry_ok_def)
  qed
next
  case (SendOn k)
  assume h: "hub_inv h" and t: "hub_step h e = Some t"
  obtain l r where k: "k < length (hb_connections h)" "cn_sending (hb_connections h ! k) = Some (l, r)"
    "l < length (hb_dispatches h)"
    and t': "t = set_dispatch l ((hb_dispatches h ! l)\<lparr>dp_buffer := Some r\<rparr>)
        (set_connection k ((hb_connections h ! k)\<lparr>cn_sending := None\<rparr>) h)"
    using t SendOn by (auto split: if_splits option.splits)
  have r: "rs_JobID r = dp_job (hb_dispatches h ! l)"
    using hub_invD(3) [OF h k(1)] k(2,3) by (simp add: sending_ok_def)
  have h': "hub_inv (set_connection k ((hb_connections h ! k)\<lparr>cn_sending := None\<rparr>) h)"
    by (rule hub_inv_connection [OF h]) (simp add: sending_ok_def)
  show ?thesis unfolding t'
    by (rule hub_inv_dispatch_same [OF h'])
      (use hub_invD(1) [OF h k(3)] k(3) r in \<open>auto simp: set_connection_def dispatch_ok_def\<close>)
qed

lemma hub_inv_start: "hub_inv NewHub"
  by (simp add: hub_inv_def NewHub_def)

interpretation hub: page_machine hub_step NewHub hub_inv
  by unfold_locales (rule hub_inv_start, rule hub_inv_step)

section \<open>Progress of a dispatch\<close>

fun steps_left :: "progress \<Rightarrow> nat" where
  "steps_left Seeking = 5"
| "steps_left (Enrolling k) = 4"
| "steps_left (Writing k) = 3"
| "steps_left Selecting = 2"
| "steps_left (Retiring r) = 1"
| "steps_left (Returned r) = 0"

text \<open>The event that a dispatch can always take.\<close>

fun way_on :: "progress \<Rightarrow> dispatch_event" where
  "way_on Seeking = Look"
| "way_on (Enrolling k) = Enrol"
| "way_on (Writing k) = Write None"
| "way_on Selecting = TimeUp"
| "way_on p = Retire"

lemma way_on_enabled: "steps_left (dp_progress d) \<noteq> 0 \<Longrightarrow> dispatch_step h i d (way_on (dp_progress d)) \<noteq> None"
  by (cases "dp_progress d") simp_all

lemma dispatch_moves:
  assumes "i < length (hb_dispatches h)" "dispatch_step h i (hb_dispatches h ! i) e = Some t"
  shows "steps_left (dp_progress (hb_dispatches t ! i)) < steps_left (dp_progress (hb_dispatches h ! i))"
    "l \<noteq> i \<Longrightarrow> hb_dispatches t ! l = hb_dispatches h ! l" "length (hb_dispatches t) = length (hb_dispatches h)"
  using assms
  by (cases e; cases "dp_progress (hb_dispatches h ! i)"; auto simp: set_dispatch_def split: option.splits if_splits)+

lemma other_progress:
  assumes "hub_step h e = Some t" "i < length (hb_dispatches h)" "\<And>x. e \<noteq> OfDispatch i x"
  shows "dp_progress (hb_dispatches t ! i) = dp_progress (hb_dispatches h ! i)"
proof (cases e)
  case (OfDispatch l x)
  with assms(3) have "i \<noteq> l" by blast
  with OfDispatch assms(1) dispatch_moves(2) [of l h x t i] show ?thesis by (auto split: if_splits)
next
  case (SendOn k)
  then obtain l r where "t = set_dispatch l ((hb_dispatches h ! l)\<lparr>dp_buffer := Some r\<rparr>)
      (set_connection k ((hb_connections h ! k)\<lparr>cn_sending := None\<rparr>) h)"
    using assms(1) by (auto split: if_splits option.splits)
  with assms(2) show ?thesis by (cases "l = i") (auto simp: set_dispatch_def set_connection_def)
qed (use assms in \<open>auto simp: Register_conn_def Unregister_def set_connection_def nth_append
       split: if_splits option.splits\<close>)

section \<open>Connections that never read again\<close>

fun over :: "progress \<Rightarrow> bool" where
  "over (Retiring r) = True"
| "over (Returned r) = True"
| "over _ = False"

definition stuck :: "nat \<Rightarrow> hub \<Rightarrow> bool" where
  "stuck k h \<longleftrightarrow> k < length (hb_connections h) \<and>
     (case cn_sending (hb_connections h ! k) of
        None \<Rightarrow> False
      | Some (i, r) \<Rightarrow> i < length (hb_dispatches h) \<and> dp_buffer (hb_dispatches h ! i) \<noteq> None
          \<and> over (dp_progress (hb_dispatches h ! i)))"

lemma over_stays:
  assumes "dispatch_step h i (hb_dispatches h ! i) e = Some t" "l < length (hb_dispatches h)" "i < length (hb_dispatches h)"
    "over (dp_progress (hb_dispatches h ! l))" "dp_buffer (hb_dispatches h ! l) \<noteq> None"
  shows "over (dp_progress (hb_dispatches t ! l)) \<and> dp_buffer (hb_dispatches t ! l) \<noteq> None
     \<and> hb_connections t = hb_connections h"
  using assms
  by (cases e; cases "l = i"; cases "dp_progress (hb_dispatches h ! i)";
      auto simp: set_dispatch_def split: option.splits if_splits)

lemma stuck_step:
  assumes "stuck k h" "hub_step h e = Some t"
  shows "stuck k t"
proof -
  obtain i r where k: "k < length (hb_connections h)" "cn_sending (hb_connections h ! k) = Some (i, r)"
    "i < length (hb_dispatches h)" "dp_buffer (hb_dispatches h ! i) \<noteq> None" "over (dp_progress (hb_dispatches h ! i))"
    using assms(1) by (auto simp: stuck_def split: option.splits)
  show ?thesis
  proof (cases e)
    case (OfDispatch l x)
    then have x: "l < length (hb_dispatches h)" "dispatch_step h l (hb_dispatches h ! l) x = Some t"
      using assms(2) by (auto split: if_splits)
    from over_stays [OF x(2) k(3) x(1) k(5,4)] dispatch_moves(3) [OF x] k show ?thesis by (simp add: stuck_def)
  next
    case (SendOn l)
    then obtain m q where m: "l < length (hb_connections h)" "cn_sending (hb_connections h ! l) = Some (m, q)"
      "dp_buffer (hb_dispatches h ! m) = None"
      and t: "t = set_dispatch m ((hb_dispatches h ! m)\<lparr>dp_buffer := Some q\<rparr>)
        (set_connection l ((hb_connections h ! l)\<lparr>cn_sending := None\<rparr>) h)"
      using assms(2) by (auto split: if_splits option.splits)
    have "l \<noteq> k" "m \<noteq> i" using m k by auto
    with k show ?thesis unfolding t by (simp add: stuck_def set_dispatch_def set_connection_def)
  next
    case (LoopEnds l)
    then have "l \<noteq> k" "t = Unregister (cn_provider (hb_connections h ! l))
        (set_connection l ((hb_connections h ! l)\<lparr>cn_open := False\<rparr>) h)"
      using assms(2) k(2) by (auto split: if_splits)
    with k show ?thesis by (simp add: stuck_def Unregister_def set_connection_def)
  next
    case (Complete l q)
    then have "l \<noteq> k" using assms(2) k(2) by (auto split: if_splits)
    with assms(2) k Complete show ?thesis
      by (auto simp: stuck_def set_connection_def split: if_splits option.splits)
  qed (use assms(2) k in \<open>auto simp: stuck_def Register_conn_def Unregister_def nth_append\<close>)
qed

lemma stuck_run: "stuck k h \<Longrightarrow> run hub_step h es = Some t \<Longrightarrow> stuck k t"
  by (induction es arbitrary: h) (auto split: option.splits dest: stuck_step)

section \<open>Properties\<close>

definition demo_result :: job_result where
  "demo_result = \<lparr>rs_JobID = ''j'', rs_Content = ''hi'', rs_FinishReason = ''stop'', rs_Usage = None,
     rs_LatencyMS = 7, rs_ErrorCode = [], rs_ErrorMessage = []\<rparr>"

text \<open>Two nodes are connected; the request of the first one is written and its dispatch waits.\<close>

definition demo_waiting :: "hub_event list" where
  "demo_waiting = [Connect ''p'', Connect ''q'', StartDispatch ''p'' ''j'', OfDispatch 0 Look, OfDispatch 0 Enrol,
     OfDispatch 0 (Write None)]"

definition demo_hub :: "hub_event list \<Rightarrow> hub" where
  "demo_hub es = the (run hub_step NewHub es)"

lemmas demo_run_simps = demo_hub_def demo_waiting_def demo_result_def NewHub_def Register_conn_def Unregister_def
  set_dispatch_def set_connection_def

text \<open>C13: A request never gets the result of another one: in every reachable state a dispatch that has
  returned a result returned one for its own job; every entry in the table of jobs belongs to a dispatch
  of that job that is under way, so that when all have returned the table is empty.\<close>

theorem hub_own_result:
  assumes "run hub_step NewHub es = Some h"
  shows "(\<forall>d \<in> set (hb_dispatches h). \<forall>r. dp_progress d = Returned (Inr r) \<longrightarrow> rs_JobID r = dp_job d)
     \<and> (\<forall>j i. hb_jobs h j = Some i \<longrightarrow> i < length (hb_dispatches h) \<and> dp_job (hb_dispatches h ! i) = j
          \<and> (\<forall>r. dp_progress (hb_dispatches h ! i) \<noteq> Returned r))
     \<and> ((\<forall>d \<in> set (hb_dispatches h). \<exists>r. dp_progress d = Returned r) \<longrightarrow> hb_jobs h = Map.empty)"
proof -
  have h: "hub_inv h" using assms by (rule hub.run_inv)
  have e: "i < length (hb_dispatches h) \<and> dp_job (hb_dispatches h ! i) = j
      \<and> (\<forall>r. dp_progress (hb_dispatches h ! i) \<noteq> Returned r)" if "hb_jobs h j = Some i" for j i
    using hub_invD(2) [OF h that] by (auto simp: entry_ok_def)
  moreover have "hb_jobs h = Map.empty" if "\<forall>d \<in> set (hb_dispatches h). \<exists>r. dp_progress d = Returned r"
    using that e by (meson nth_mem option.exhaust ext)
  moreover have "\<forall>d \<in> set (hb_dispatches h). \<forall>r. dp_progress d = Returned (Inr r) \<longrightarrow> rs_JobID r = dp_job d"
    using h by (fastforce simp: hub_inv_def dispatch_ok_def)
  ultimately show ?thesis by blast
qed

theorem hub_own_result_witness:
  "\<exists>h. run hub_step NewHub (demo_waiting @ [Complete 0 demo_result, SendOn 0, OfDispatch 0 Receive, OfDispatch 0 Retire]) = Some h
     \<and> dp_progress (hb_dispatches h ! 0) = Returned (Inr demo_result) \<and> rs_JobID demo_result = dp_job (hb_dispatches h ! 0)
     \<and> hb_jobs h = Map.empty"
proof -
  let ?es = "demo_waiting @ [Complete 0 demo_result, SendOn 0, OfDispatch 0 Receive, OfDispatch 0 Retire]"
  obtain h where h: "run hub_step NewHub ?es = Some h" "length (hb_dispatches h) = 1"
    "dp_progress (hb_dispatches h ! 0) = Returned (Inr demo_result)"
    by (simp add: demo_run_simps)
  then have "hb_dispatches h = [hb_dispatches h ! 0]" by (cases "hb_dispatches h") simp_all
  then have "set (hb_dispatches h) = {hb_dispatches h ! 0}" by (metis list.set(1,2))
  with hub_own_result [OF h(1)] h show ?thesis by auto
qed



text \<open>Delivery: a result for the job of a waiting dispatch whose channel is empty reaches it in three
  steps, unchanged, and the dispatch returns it. The connection on which it arrives need not be the one
  that the request was written to: the job of one node can be completed by another.\<close>

theorem result_delivered:
  assumes "i < length (hb_dispatches h)" "dp_progress (hb_dispatches h ! i) = Selecting"
    "dp_buffer (hb_dispatches h ! i) = None" "hb_jobs h (dp_job (hb_dispatches h ! i)) = Some i"
    "k < length (hb_connections h)" "cn_open (hb_connections h ! k)" "cn_sending (hb_connections h ! k) = None"
    "rs_JobID r = dp_job (hb_dispatches h ! i)"
  shows "\<exists>t. run hub_step h [Complete k r, SendOn k, OfDispatch i Receive, OfDispatch i Retire] = Some t
     \<and> dp_progress (hb_dispatches t ! i) = Returned (Inr r) \<and> hb_jobs t (rs_JobID r) = None
     \<and> cn_sending (hb_connections t ! k) = None"
  using assms by (simp add: set_connection_def set_dispatch_def)

theorem result_delivered_witness:
  "\<exists>t. run hub_step (demo_hub demo_waiting) [Complete 1 demo_result, SendOn 1, OfDispatch 0 Receive, OfDispatch 0 Retire] = Some t
     \<and> cn_provider (hb_connections (demo_hub demo_waiting) ! 1) = ''q''
     \<and> dp_progress (hb_dispatches t ! 0) = Returned (Inr demo_result)"
proof -
  have "cn_provider (hb_connections (demo_hub demo_waiting) ! 1) = ''q''" by (simp add: demo_run_simps)
  moreover have "\<exists>t. run hub_step (demo_hub demo_waiting) [Complete 1 demo_result, SendOn 1, OfDispatch 0 Receive, OfDispatch 0 Retire] = Some t
     \<and> dp_progress (hb_dispatches t ! 0) = Returned (Inr demo_result) \<and> hb_jobs t (rs_JobID demo_result) = None
     \<and> cn_sending (hb_connections t ! 1) = None"
    by (rule result_delivered) (simp_all add: demo_run_simps)
  ultimately show ?thesis by blast
qed

text \<open>A node that connects again can lose its registration: when the loop of an older connection of the
  node ends, the node is removed from the table although its newer connection is open, and every dispatch
  to it that starts then is refused as unavailable.\<close>

theorem reconnect_unregisters:
  assumes "run hub_step NewHub es = Some h" "k < length (hb_connections h)" "cn_open (hb_connections h ! k)"
    "cn_sending (hb_connections h ! k) = None" "cn_provider (hb_connections h ! k) = p"
  shows "\<exists>t. run hub_step h [Connect p, LoopEnds k] = Some t \<and> hb_providers t p = None
     \<and> cn_open (hb_connections t ! length (hb_connections h))
     \<and> cn_provider (hb_connections t ! length (hb_connections h)) = p
     \<and> (\<exists>u. run hub_step t [StartDispatch p j, OfDispatch (length (hb_dispatches h)) Look] = Some u
          \<and> dp_progress (hb_dispatches u ! length (hb_dispatches h)) = Returned (Inl ErrProviderUnavailable))"
  using assms by (simp add: Register_conn_def Unregister_def set_connection_def set_dispatch_def nth_append)

theorem reconnect_unregisters_witness:
  "\<exists>t. run hub_step (demo_hub [Connect ''p'']) [Connect ''p'', LoopEnds 0] = Some t \<and> hb_providers t ''p'' = None"
proof -
  have "run hub_step NewHub [Connect ''p''] = Some (demo_hub [Connect ''p''])" by (simp add: demo_hub_def)
  from reconnect_unregisters [OF this, of 0 "''p''"] show ?thesis
    by (fastforce simp: demo_run_simps)
qed



end
