(* ===== verification/ChatFront.thy ===== *)
theory ChatFront
  imports ServerKeys Catalog Hub Settlement
begin

text \<open>
  How a chat request is admitted: \<open>ChatCompletions\<close> in \<open>apps/api/internal/handler/handlers.go\<close> up to the
  creation of the job, over the keys, the catalogue and the nodes; what follows is \<open>server_step\<close> on the
  event that \<open>open_event\<close> builds. Reading the body is the framework's, an argument \<open>parse\<close>; one flag for
  each of the three lookups says whether the database serves it.
\<close>

record chat_request =
  cq_model :: string
  cq_messages :: "(string \<times> string) list"
  cq_max_tokens :: int
  cq_stream :: bool

record admission =
  dm_user :: user_row
  dm_project :: project_row
  dm_key :: string
  dm_model :: model_row
  dm_route :: route_row
  dm_request :: chat_request

definition good_message :: "string \<times> string \<Rightarrow> bool" where
  "good_message m \<longleftrightarrow> snd m \<noteq> [] \<and> (fst m = ''system'' \<or> fst m = ''user'' \<or> fst m = ''assistant'')"

definition ChatCompletions :: "(string \<Rightarrow> string) \<Rightarrow> string \<Rightarrow> (request \<Rightarrow> chat_request option) \<Rightarrow> bool \<Rightarrow> bool \<Rightarrow> bool \<Rightarrow> bool
    \<Rightarrow> string \<Rightarrow> request \<Rightarrow> key_store \<Rightarrow> catalog \<Rightarrow> node_tables \<Rightarrow> unit http + admission" where
  "ChatCompletions sha pepper parse connectors s1 s2 s3 requestID r d c t =
     (case ResolveAPIKey sha pepper s1 (bearer r) d of
        Inl e \<Rightarrow> Inl (Handle requestID () e)
      | Inr (user, project, key) \<Rightarrow> (case parse r of
          None \<Rightarrow> Inl (Error requestID 400 ''invalid_request'' ''Invalid request body.'' ())
        | Some q \<Rightarrow>
            if cq_stream q
            then Inl (Error requestID 400 ''streaming_not_implemented''
              ''Streaming chat completions are planned for V1.1. Send stream=false for V1.'' ())
            else if TrimSpace (cq_model q) = [] \<or> cq_messages q = [] \<or> \<not> list_all good_message (cq_messages q)
            then Inl (Error requestID 400 ''invalid_request'' ''Invalid request body.'' ())
            else (case ActiveModelBySlug s2 (cq_model q) c of
                Inl e \<Rightarrow> Inl (if e = ErrNotFound then Error requestID 404 ''model_not_found'' ''Requested model was not found.'' ()
                              else Handle requestID () e)
              | Inr m \<Rightarrow>
                  if md_external_only (mr_model m) \<and> \<not> connectors
                  then Inl (Error requestID 400 ''external_connectors_disabled''
                    ''This model requires an external connector, but external connectors are disabled on this deployment.'' ())
                  else (case FindProvider s3 (mr_id m) t of
                      Inl e \<Rightarrow> Inl (Error requestID 503 ''model_unavailable''
                        ''No approved online provider is currently available for this model.'' ())
                    | Inr route \<Rightarrow> Inr \<lparr>dm_user = user, dm_project = project, dm_key = key, dm_model = m,
                        dm_route = route, dm_request = q\<rparr>))))"

definition open_event :: "bool \<Rightarrow> string \<Rightarrow> admission \<Rightarrow> server_event" where
  "open_event served job a = Open served job (ur_id (dm_user a)) (np_id (fst (dm_route a)))
     (int (sum_list (map (length \<circ> snd) (cq_messages (dm_request a))))) (cq_max_tokens (dm_request a))
     (md_default_max_output_tokens (mr_model (dm_model a))) (word_of_int (md_input_credit_per_1k (mr_model (dm_model a))))
     (word_of_int (md_output_credit_per_1k (mr_model (dm_model a)))) (md_provider_reward_ratio (mr_model (dm_model a)))"

section \<open>Lemmas\<close>

lemma admitted:
  assumes "ChatCompletions sha pepper parse connectors s1 s2 s3 rid r d c t = Inr a"
  shows "ResolveAPIKey sha pepper s1 (bearer r) d = Inr (dm_user a, dm_project a, dm_key a)"
    "parse r = Some (dm_request a)" "\<not> cq_stream (dm_request a)" "cq_messages (dm_request a) \<noteq> []"
    "list_all good_message (cq_messages (dm_request a))"
    "ActiveModelBySlug s2 (cq_model (dm_request a)) c = Inr (dm_model a)"
    "md_external_only (mr_model (dm_model a)) \<longrightarrow> connectors"
    "FindProvider s3 (mr_id (dm_model a)) t = Inr (dm_route a)"
  using assms by (auto simp: ChatCompletions_def split: sum.splits option.splits if_splits prod.splits)

lemma resolved:
  assumes "ResolveAPIKey sha pepper s token d = Inr (u, p, i)"
  shows "\<exists>k \<in> set (kd_keys d). kt_id k = i \<and> kt_key_hash k = HashToken sha pepper token \<and> kt_status k = ''active''
     \<and> kt_project_id k = pt_id p" "p \<in> set (kd_projects d)" "pt_owner_user_id p = ur_id u" "pt_status p = ''active''" "\<not> pt_deleted p"
    "u \<in> set (kd_users d)" "ur_status u = ''active''" "\<not> ur_deleted u"
  using assms by (auto simp: ResolveAPIKey_def store_resolve_def project_by_id_def user_by_id_def
      dest!: find_SomeD split: if_splits option.splits)

lemma active_model:
  "ActiveModelBySlug s slug c = Inr m \<Longrightarrow> m \<in> set (mt_models c) \<and> md_slug (mr_model m) = slug
     \<and> md_status (mr_model m) = ''active'' \<and> \<not> mr_deleted m"
  by (auto simp: ActiveModelBySlug_def dest!: find_SomeD split: if_splits option.splits)


text \<open>A customer of the shop asks a node of the net for a model of the catalogue.\<close>

definition zoo :: catalog where
  "zoo = the (run catalog_step (catalog_start empty_db)
     [AddModel True ''m'' ''mdl_m'' ''now'' (net_user ''a'' ''admin'') (modelInput (patch_of zoo_form))])"

definition demo_question :: chat_request where
  "demo_question = \<lparr>cq_model = ''free'', cq_messages = [(''user'', ''Hello'')], cq_max_tokens = 10, cq_stream = False\<rparr>"

definition demo_request :: request where
  "demo_request = \<lparr>rq_url = ''/v1/chat/completions'', rq_method = ''POST'',
     rq_headers = [(''Authorization'', ''Bearer pvn_live_aa_bb'')], rq_body = None\<rparr>"

definition demo_admission :: "unit http + admission" where
  "demo_admission = ChatCompletions (\<lambda>t. t) ''s'' (\<lambda>r. Some demo_question) False True True True ''req'' demo_request shop_store zoo
     (nx_tables net)"

lemma zoo_run: "run catalog_step (catalog_start empty_db)
     [AddModel True ''m'' ''mdl_m'' ''now'' (net_user ''a'' ''admin'') (modelInput (patch_of zoo_form))] = Some zoo"
  by (simp add: zoo_def)

section \<open>Properties\<close>




end
