(* ===== verification/NodeConfig.thy ===== *)
theory NodeConfig
  imports QueryString "HOL-Library.Word"
begin

text \<open>
  The configuration of the provider node: \<open>apps/provider-node/internal/config/config.go\<close>, the \<open>init\<close>
  command of \<open>internal/node/init.go\<close>, which writes the file, and the choice of a command in
  \<open>cmd/provider-node/main.go\<close>. A file is a text or absent; the line scanner, \<open>Trim\<close>, \<open>Cut\<close>, \<open>Atoi\<close>,
  \<open>ParseBool\<close>, the verb \<open>%q\<close> and the flag parser are those of Go's standard library. Bytes from 128 on
  are taken to belong to printable text, which \<open>%q\<close> leaves as it is.
\<close>

section \<open>Texts\<close>

text \<open>\<open>strings.Trim\<close> with a set of bytes.\<close>

definition trim_set :: "string \<Rightarrow> string \<Rightarrow> string" where
  "trim_set cutset s = rev (dropWhile (\<lambda>c. c \<in> set cutset) (rev (dropWhile (\<lambda>c. c \<in> set cutset) s)))"

definition quotes :: string where
  "quotes = [CHR 0x22, CHR 0x27]"

text \<open>\<open>strings.Cut\<close> at a byte: what stands before it, and what stands behind if it occurs.\<close>

definition cut_at :: "char \<Rightarrow> string \<Rightarrow> string \<times> string option" where
  "cut_at a s = (takeWhile (\<lambda>c. c \<noteq> a) s, if a \<in> set s then Some (drop 1 (dropWhile (\<lambda>c. c \<noteq> a) s)) else None)"

definition strip_prefix :: "string \<Rightarrow> string \<Rightarrow> string" where
  "strip_prefix p s = (if prefix p s then drop (length p) s else s)"

text \<open>The lines of \<open>bufio.Scanner\<close>: a carriage return before the line feed goes, an empty rest is no
  line, and a line that does not fit the buffer with its line feed ends the scan with an error.\<close>

definition drop_cr :: "string \<Rightarrow> string" where
  "drop_cr l = (if l \<noteq> [] \<and> last l = CHR 0x0D then butlast l else l)"

definition raw_lines :: "string \<Rightarrow> string list" where
  "raw_lines s = (let ls = split_on (CHR 0x0A) s in if last ls = [] then butlast ls else ls)"

definition scan_lines :: "string \<Rightarrow> string + string list" where
  "scan_lines s =
     (if list_all (\<lambda>l. length l < 65536) (raw_lines s) then Inr (map drop_cr (raw_lines s))
      else Inl ''bufio.Scanner: token too long'')"

text \<open>\<open>strconv.Atoi\<close> with its error ignored: a text that is no number is zero, a number out of range
  the nearest bound.\<close>

definition clamp64 :: "int \<Rightarrow> int" where
  "clamp64 i = max (- (2 ^ 63)) (min (2 ^ 63 - 1) i)"

definition Atoi :: "string \<Rightarrow> 64 word" where
  "Atoi s =
     (let minus = (prefix ''-'' s);
          ds = (if minus \<or> prefix ''+'' s then tl s else s)
      in if ds = [] \<or> \<not> list_all is_digit ds then 0
         else word_of_int (clamp64 ((if minus then -1 else 1) * int (digits_value 10 0 ds))))"

definition ParseBool :: "string \<Rightarrow> bool" where
  "ParseBool s \<longleftrightarrow> s \<in> {''1'', ''t'', ''T'', ''TRUE'', ''true'', ''True''}"

text \<open>The verbs \<open>%q\<close> and \<open>%t\<close>.\<close>

definition low_hex :: "nat \<Rightarrow> char" where
  "low_hex d = (if d < 10 then digit_char d else char_of (87 + d))"

definition quote_char :: "char \<Rightarrow> string" where
  "quote_char c =
     (if c = CHR 0x22 \<or> c = CHR 0x5C then [CHR 0x5C, c]
      else if 32 \<le> (of_char c :: nat) \<and> c \<noteq> CHR 0x7F then [c]
      else if c = CHR 0x07 then [CHR 0x5C, CHR ''a'']
      else if c = CHR 0x08 then [CHR 0x5C, CHR ''b'']
      else if c = CHR 0x0C then [CHR 0x5C, CHR ''f'']
      else if c = CHR 0x0A then [CHR 0x5C, CHR ''n'']
      else if c = CHR 0x0D then [CHR 0x5C, CHR ''r'']
      else if c = CHR 0x09 then [CHR 0x5C, CHR ''t'']
      else if c = CHR 0x0B then [CHR 0x5C, CHR ''v'']
      else [CHR 0x5C, CHR ''x'', low_hex (of_char c div 16), low_hex (of_char c mod 16)])"

definition Quote :: "string \<Rightarrow> string" where
  "Quote s = [CHR 0x22] @ concat (map quote_char s) @ [CHR 0x22]"

definition show_bool :: "bool \<Rightarrow> string" where
  "show_bool b = (if b then ''true'' else ''false'')"

section \<open>The configuration\<close>

record config =
  cf_ServerURL :: string
  cf_ProviderToken :: string
  cf_ProviderName :: string
  cf_InstanceKey :: string
  cf_OllamaURL :: string
  cf_AllowAutoModelPull :: bool
  cf_MaxConcurrentJobs :: "64 word"
  cf_HeartbeatIntervalSeconds :: "64 word"
  cf_LogLevel :: string
  cf_AllowedModelSlugs :: "string list"

definition Default :: config where
  "Default = \<lparr>cf_ServerURL = ''http://localhost:18080'', cf_ProviderToken = [], cf_ProviderName = [], cf_InstanceKey = [],
     cf_OllamaURL = ''http://localhost:11434'', cf_AllowAutoModelPull = False, cf_MaxConcurrentJobs = 1,
     cf_HeartbeatIntervalSeconds = 15, cf_LogLevel = ''info'', cf_AllowedModelSlugs = []\<rparr>"

definition set_key :: "string \<Rightarrow> string \<Rightarrow> config \<Rightarrow> config" where
  "set_key key val c =
     (if key = ''server_url'' then c\<lparr>cf_ServerURL := val\<rparr>
      else if key = ''provider_token'' then c\<lparr>cf_ProviderToken := val\<rparr>
      else if key = ''provider_name'' then c\<lparr>cf_ProviderName := val\<rparr>
      else if key = ''instance_key'' then c\<lparr>cf_InstanceKey := val\<rparr>
      else if key = ''ollama_url'' then c\<lparr>cf_OllamaURL := val\<rparr>
      else if key = ''allow_auto_model_pull'' then c\<lparr>cf_AllowAutoModelPull := ParseBool val\<rparr>
      else if key = ''max_concurrent_jobs'' then c\<lparr>cf_MaxConcurrentJobs := Atoi val\<rparr>
      else if key = ''heartbeat_interval_seconds'' then c\<lparr>cf_HeartbeatIntervalSeconds := Atoi val\<rparr>
      else if key = ''log_level'' then c\<lparr>cf_LogLevel := val\<rparr>
      else c)"

text \<open>One line of the file; the flag is \<open>inAllowed\<close>.\<close>

fun load_line :: "string \<Rightarrow> bool \<times> config \<Rightarrow> bool \<times> config" where
  "load_line text (inAllowed, c) =
     (let line = TrimSpace text
      in if line = [] \<or> prefix ''#'' line then (inAllowed, c)
         else if inAllowed \<and> prefix ''-'' line
         then (inAllowed, c\<lparr>cf_AllowedModelSlugs := cf_AllowedModelSlugs c
                @ [trim_set quotes (TrimSpace (strip_prefix ''-'' line))]\<rparr>)
         else case cut_at (CHR '':'') line of
             (key, None) \<Rightarrow> (False, c)
           | (key, Some val) \<Rightarrow>
               if TrimSpace key = ''allowed_model_slugs'' then (True, c)
               else (False, set_key (TrimSpace key) (trim_set quotes (TrimSpace val)) c))"

declare load_line.simps [simp del]

text \<open>The file as it is opened: an error of the system, or its text.\<close>

definition Load :: "string + string \<Rightarrow> string + config" where
  "Load file = and_then file (\<lambda>content. and_then (scan_lines content)
     (\<lambda>ls. Inr (snd (fold load_line ls (False, Default)))))"

definition yaml_entry :: "string \<Rightarrow> string \<Rightarrow> string" where
  "yaml_entry key val = key @ '': '' @ val"

text \<open>The text that \<open>Write\<close> puts into the file, line by line.\<close>

definition config_lines :: "config \<Rightarrow> string list" where
  "config_lines c =
     [yaml_entry ''server_url'' (Quote (cf_ServerURL c)), yaml_entry ''provider_token'' (Quote (cf_ProviderToken c)),
      yaml_entry ''provider_name'' (Quote (cf_ProviderName c)), yaml_entry ''instance_key'' (Quote (cf_InstanceKey c)),
      yaml_entry ''ollama_url'' (Quote (cf_OllamaURL c)), yaml_entry ''allow_auto_model_pull'' (show_bool (cf_AllowAutoModelPull c)),
      yaml_entry ''max_concurrent_jobs'' (show_int (sint (cf_MaxConcurrentJobs c))),
      yaml_entry ''heartbeat_interval_seconds'' (show_int (sint (cf_HeartbeatIntervalSeconds c))),
      yaml_entry ''log_level'' (Quote (cf_LogLevel c)), ''allowed_model_slugs:'']
     @ map (\<lambda>slug. ''  - '' @ Quote slug) (cf_AllowedModelSlugs c)"

definition config_text :: "config \<Rightarrow> string" where
  "config_text c = concat (map (\<lambda>l. l @ [CHR 0x0A]) (config_lines c))"

definition with_key :: "string \<Rightarrow> config \<Rightarrow> config" where
  "with_key drawn c = (if cf_InstanceKey c = [] then c\<lparr>cf_InstanceKey := ''inst_'' @ drawn\<rparr> else c)"

text \<open>\<open>Write\<close>: the error of the system, or the text that the file then has; \<open>drawn\<close> is the random text.\<close>

definition Write_config :: "string option \<Rightarrow> string \<Rightarrow> config \<Rightarrow> string + string" where
  "Write_config failure drawn c = (case failure of Some e \<Rightarrow> Inl e | None \<Rightarrow> Inr (config_text (with_key drawn c)))"

definition ValidProviderToken :: "string \<Rightarrow> bool" where
  "ValidProviderToken token \<longleftrightarrow> prefix ''pvn_provider_'' token \<and> 4 \<le> length (split_on (CHR ''_'') token)"

section \<open>The command line\<close>

text \<open>\<open>filepath.Join\<close> on a clean home directory.\<close>

definition DefaultPath :: "string + string \<Rightarrow> string + string" where
  "DefaultPath home = on_value (\<lambda>h. h @ ''/.nuvonode-provider/config.yaml'') home"

text \<open>The flag parser on flags that all take a text: it ends at the first argument that is no flag.\<close>

fun parse_flags :: "string list \<Rightarrow> (string \<Rightarrow> string) \<Rightarrow> string list \<Rightarrow> string + (string \<Rightarrow> string)" where
  "parse_flags formal v [] = Inr v"
| "parse_flags formal v (s # args) =
     (if length s < 2 \<or> \<not> prefix ''-'' s \<or> s = ''--'' then Inr v
      else let name = (if prefix ''--'' s then drop 2 s else drop 1 s);
               key = takeWhile (\<lambda>c. c \<noteq> CHR ''='') name
      in if name = [] \<or> prefix ''-'' name \<or> prefix ''='' name then Inl (''bad flag syntax: '' @ s)
         else if key \<notin> set formal
         then Inl (if key = ''help'' \<or> key = ''h'' then ''flag: help requested'' else ''flag provided but not defined: -'' @ key)
         else if CHR ''='' \<in> set name then parse_flags formal (v(key := drop (Suc (length key)) name)) args
         else case args of
             [] \<Rightarrow> Inl (''flag needs an argument: -'' @ key)
           | val # rest \<Rightarrow> parse_flags formal (v(key := val)) rest)"

definition init_defaults :: "string \<Rightarrow> string" where
  "init_defaults = (\<lambda>k. [])(''server'' := ''http://localhost:18080'', ''name'' := ''Local Provider'',
     ''ollama-url'' := ''http://localhost:11434'')"

definition init_flags :: "string list" where
  "init_flags = [''server'', ''token'', ''name'', ''ollama-url'', ''config'']"

text \<open>\<open>Init\<close>: an error, or the path of the file and its text.\<close>

definition Init :: "string + string \<Rightarrow> string option \<Rightarrow> string \<Rightarrow> string list \<Rightarrow> string + string \<times> string" where
  "Init home failure drawn args = and_then (parse_flags init_flags init_defaults args) (\<lambda>v.
     if \<not> ValidProviderToken (v ''token'') then Inl ''provider token must start with pvn_provider_''
     else and_then (if v ''config'' = [] then DefaultPath home else Inr (v ''config'')) (\<lambda>path.
       on_value (Pair path) (Write_config failure drawn (Default\<lparr>cf_ServerURL := v ''server'', cf_ProviderToken := v ''token'',
         cf_ProviderName := v ''name'', cf_OllamaURL := v ''ollama-url''\<rparr>))))"

fun configArg :: "string list \<Rightarrow> string" where
  "configArg [] = []"
| "configArg (arg # args) =
     (if arg = ''--config'' \<and> args \<noteq> [] then hd args
      else if prefix ''--config='' arg then drop 9 arg
      else configArg args)"

datatype command = RunServe string | RunDoctor string | RunInit "string list" | Usage | Fatal string

text \<open>What \<open>main\<close> does with the arguments behind the name of the program.\<close>

definition main_command :: "string + string \<Rightarrow> string list \<Rightarrow> command" where
  "main_command home args =
     (let path = (let p = configArg (tl args) in if p = [] then DefaultPath home else Inr p)
      in if args = [] then Usage
         else if hd args = ''serve'' then (case path of Inl e \<Rightarrow> Fatal e | Inr p \<Rightarrow> RunServe p)
         else if hd args = ''doctor'' then (case path of Inl e \<Rightarrow> Fatal e | Inr p \<Rightarrow> RunDoctor p)
         else if hd args = ''init'' then RunInit (tl args)
         else Usage)"

section \<open>Reading back what was written\<close>

text \<open>Texts that survive: printable, without double quotes and backslashes, and not beginning or ending with
  a single quote.\<close>

definition plain_char :: "char \<Rightarrow> bool" where
  "plain_char c \<longleftrightarrow> 32 \<le> (of_char c :: nat) \<and> c \<noteq> CHR 0x7F \<and> c \<noteq> CHR 0x22 \<and> c \<noteq> CHR 0x5C"

definition plain :: "string \<Rightarrow> bool" where
  "plain s \<longleftrightarrow> list_all plain_char s \<and> (s \<noteq> [] \<longrightarrow> hd s \<noteq> CHR 0x27 \<and> last s \<noteq> CHR 0x27)"

definition plain_config :: "config \<Rightarrow> bool" where
  "plain_config c \<longleftrightarrow> list_all plain ([cf_ServerURL c, cf_ProviderToken c, cf_ProviderName c, cf_InstanceKey c,
     cf_OllamaURL c, cf_LogLevel c] @ cf_AllowedModelSlugs c)"

definition short_lines :: "config \<Rightarrow> bool" where
  "short_lines c \<longleftrightarrow> list_all (\<lambda>l. length l < 65536) (config_lines c)"

text \<open>What the texts become on the way through the file.\<close>

definition reread_text :: "string \<Rightarrow> string" where
  "reread_text s = trim_set quotes (Quote s)"

definition reread :: "config \<Rightarrow> config" where
  "reread c = c\<lparr>cf_ServerURL := reread_text (cf_ServerURL c), cf_ProviderToken := reread_text (cf_ProviderToken c),
     cf_ProviderName := reread_text (cf_ProviderName c), cf_InstanceKey := reread_text (cf_InstanceKey c),
     cf_OllamaURL := reread_text (cf_OllamaURL c), cf_LogLevel := reread_text (cf_LogLevel c),
     cf_AllowedModelSlugs := map reread_text (cf_AllowedModelSlugs c)\<rparr>"

lemma Quote_plain: "list_all plain_char s \<Longrightarrow> Quote s = [CHR 0x22] @ s @ [CHR 0x22]"
proof -
  assume "list_all plain_char s"
  then have "concat (map quote_char s) = s"
    by (induction s) (auto simp: plain_char_def quote_char_def)
  then show ?thesis by (simp add: Quote_def)
qed

lemma reread_plain: "plain s \<Longrightarrow> reread_text s = s"
proof -
  assume p: "plain s"
  have "dropWhile (\<lambda>c. c \<in> set quotes) (s @ [CHR 0x22]) = (if s = [] then [] else s @ [CHR 0x22])"
    using p by (cases s) (auto simp: plain_def plain_char_def quotes_def)
  moreover have "dropWhile (\<lambda>c. c \<in> set quotes) (rev s) = rev s"
    using p by (cases s rule: rev_cases) (auto simp: plain_def plain_char_def quotes_def)
  ultimately show ?thesis
    using p by (auto simp: reread_text_def Quote_plain plain_def trim_set_def quotes_def)
qed

text \<open>Every escape adds a backslash, and trimming takes none away.\<close>

lemma count_trim_set: "a \<notin> set cutset \<Longrightarrow> count_list (trim_set cutset s) a = count_list s a"
proof -
  assume a: "a \<notin> set cutset"
  have d: "count_list (dropWhile (\<lambda>c. c \<in> set cutset) xs) a = count_list xs a" for xs
    using a by (induction xs) auto
  show ?thesis by (simp add: trim_set_def d)
qed

lemma trim_set_clean:
  assumes "trim_set cutset s \<noteq> []"
  shows "hd (trim_set cutset s) \<notin> set cutset" "last (trim_set cutset s) \<notin> set cutset"
proof -
  let ?P = "\<lambda>c. c \<in> set cutset" and ?t = "trim_set cutset s"
  let ?d = "dropWhile ?P s"
  have ne: "dropWhile ?P (rev ?d) \<noteq> []" using assms by (simp add: trim_set_def)
  have "?d = ?t @ rev (takeWhile ?P (rev ?d))"
    by (metis rev_append rev_rev_ident takeWhile_dropWhile_id trim_set_def)
  then have "hd ?t = hd ?d" "?d \<noteq> []" using assms by (metis hd_append2, force)
  then show "hd ?t \<notin> set cutset" using hd_dropWhile [of ?P s] by (metis dropWhile.simps(1))
  show "last ?t \<notin> set cutset" using hd_dropWhile [OF ne [unfolded dropWhile_eq_Nil_conv [symmetric]]]
    using ne by (simp add: trim_set_def last_rev)
qed

lemma count_quote_char: "count_list (quote_char c) (CHR 0x5C) = count_list [c] (CHR 0x5C) + (if plain_char c then 0 else 1)"
proof -
  have "low_hex d \<noteq> CHR 0x5C" if "d < 16" for d
  proof -
    have "(of_char (low_hex d) :: nat) \<noteq> 92" using that by (auto simp: low_hex_def digit_char_def)
    then show ?thesis by auto
  qed
  moreover have "of_char c div (16::nat) < 16" by (simp add: less_mult_imp_div_less)
  ultimately show ?thesis by (auto simp: quote_char_def plain_char_def)
qed

lemma reread_plain_iff: "reread_text s = s \<longleftrightarrow> plain s"
proof
  assume r: "reread_text s = s"
  have "count_list (concat (map quote_char s)) (CHR 0x5C) = count_list s (CHR 0x5C) + length (filter (\<lambda>c. \<not> plain_char c) s)"
    by (induction s) (auto simp: count_quote_char)
  moreover have "count_list (reread_text s) (CHR 0x5C) = count_list (concat (map quote_char s)) (CHR 0x5C)"
    by (simp add: reread_text_def count_trim_set quotes_def Quote_def)
  ultimately have p: "list_all plain_char s" using r by (auto simp: filter_empty_conv list_all_iff)
  from trim_set_clean [of quotes "Quote s"] r p show "plain s" by (auto simp: plain_def reread_text_def quotes_def)
qed (rule reread_plain)

text \<open>Trimming stops at an end that no white space has.\<close>

lemma trim_with_ends:
  assumes "s \<noteq> []" "\<And>w. w \<in> set ws \<Longrightarrow> w \<noteq> [] \<and> hd w \<noteq> hd s \<and> last w \<noteq> last s"
  shows "trim_with ws s = s"
proof -
  have no: "\<not> prefix w s" "\<not> suffix w s" if "w \<in> set ws" for w
    using assms(2) [OF that] by (auto simp: prefix_def suffix_def)
  have 1: "strip ws s = s"
    by (rule strip_id) (rule no)
  have 2: "strip (map rev ws) (rev s) = rev s"
    by (rule strip_id) (auto dest: no simp: suffix_to_prefix)
  from 1 2 show ?thesis by (simp add: trim_with_def)
qed

definition solid :: "char \<Rightarrow> bool" where
  "solid c \<longleftrightarrow> 33 \<le> (of_char c :: nat) \<and> (of_char c :: nat) \<le> 126"

lemma ws_not_solid: "\<forall>w \<in> set go_ws. w \<noteq> [] \<and> \<not> solid (hd w) \<and> \<not> solid (last w)"
  by (simp add: go_ws_def ascii_ws_def unicode_ws_def solid_def)

lemma TrimSpace_solid: "s \<noteq> [] \<Longrightarrow> solid (hd s) \<Longrightarrow> solid (last s) \<Longrightarrow> TrimSpace s = s"
  unfolding TrimSpace_def by (rule trim_with_ends) (use ws_not_solid in metis)+

lemma TrimSpace_blank: "TrimSpace (CHR '' '' # s) = TrimSpace s"
proof -
  have "find (\<lambda>w. w \<noteq> [] \<and> prefix w (CHR '' '' # s)) go_ws = Some [CHR '' '']"
    by (simp add: go_ws_def ascii_ws_def)
  then show ?thesis by (simp add: TrimSpace_def trim_with_def strip_Some)
qed

lemma split_on_lines: "list_all (\<lambda>l. a \<notin> set l) ls \<Longrightarrow> split_on a (concat (map (\<lambda>l. l @ [a]) ls)) = ls @ [[]]"
  by (induction ls) (simp_all add: split_on_append)

lemma raw_lines_written: "list_all (\<lambda>l. CHR 0x0A \<notin> set l) ls \<Longrightarrow> raw_lines (concat (map (\<lambda>l. l @ [CHR 0x0A]) ls)) = ls"
  by (simp add: raw_lines_def split_on_lines)

lemma clamp64_sint: "clamp64 (sint (w :: 64 word)) = sint w"
  using sint_ge [of w] sint_lt [of w] by (simp add: clamp64_def)

lemma Atoi_show_int: "Atoi (show_int (sint w)) = w"
proof -
  have d: "list_all is_digit (show_nat n)" for n by (simp add: list_all_iff show_nat_digits)
  show ?thesis
    using clamp64_sint [of w]
    by (auto simp: Atoi_def show_int_def Let_def d show_nat_not_special digits_value_show_nat)
qed

lemma ParseBool_show: "ParseBool (show_bool b) = b"
  by (simp add: ParseBool_def show_bool_def)

definition key_char :: "char \<Rightarrow> bool" where
  "key_char c \<longleftrightarrow> is_lower c \<or> c = CHR ''_''"

lemma key_char_solid: "key_char c \<Longrightarrow> solid c \<and> c \<noteq> CHR '':'' \<and> c \<noteq> CHR ''-'' \<and> c \<noteq> CHR 0x23 \<and> c \<noteq> CHR 0x0A"
  by (auto simp: key_char_def solid_def is_lower_def byte_in_def)

lemma load_entry:
  assumes "key \<noteq> []" "list_all key_char key" "v \<noteq> []" "solid (hd v)" "solid (last v)" "key \<noteq> ''allowed_model_slugs''"
  shows "load_line (yaml_entry key v) (inAllowed, c) = (False, set_key key (trim_set quotes v) c)"
proof -
  have k: "solid (hd key)" "solid (last key)" "hd key \<noteq> CHR ''-''" "hd key \<noteq> CHR 0x23" "CHR '':'' \<notin> set key"
    using assms(1,2) key_char_solid by (auto simp: list_all_iff)
  have t: "TrimSpace (yaml_entry key v) = yaml_entry key v"
    by (rule TrimSpace_solid) (use assms k in \<open>auto simp: yaml_entry_def\<close>)
  have "cut_at (CHR '':'') (yaml_entry key v) = (key, Some (CHR '' '' # v))"
    using k(5) by (auto simp: cut_at_def yaml_entry_def takeWhile_append1 dropWhile_append)
  moreover have "\<not> prefix ''#'' (yaml_entry key v)" "\<not> prefix ''-'' (yaml_entry key v)" "yaml_entry key v \<noteq> []"
    using k assms(1) by (cases key; auto simp: yaml_entry_def)+
  moreover have "TrimSpace key = key" "TrimSpace v = v"
    using k assms by (auto intro: TrimSpace_solid)
  ultimately show ?thesis using assms(6) by (simp add: load_line.simps t TrimSpace_blank)
qed

lemma Quote_ends: "Quote s \<noteq> []" "solid (hd (Quote s))" "solid (last (Quote s))"
  by (simp_all add: Quote_def solid_def)

lemma number_char: "is_digit c \<or> c = CHR ''-'' \<Longrightarrow> solid c \<and> c \<notin> set quotes"
  by (auto simp: solid_def quotes_def is_digit_def byte_in_def)

lemma show_int_ends: "solid (hd (show_int i))" "solid (last (show_int i))" "hd (show_int i) \<notin> set quotes" "last (show_int i) \<notin> set quotes"
  using number_char show_int_chars show_int_ne hd_in_set last_in_set by metis+

lemma show_bool_ends: "show_bool b \<noteq> []" "solid (hd (show_bool b))" "solid (last (show_bool b))"
  by (simp_all add: show_bool_def solid_def)

lemma trim_set_ends: "s \<noteq> [] \<Longrightarrow> hd s \<notin> set cutset \<Longrightarrow> last s \<notin> set cutset \<Longrightarrow> trim_set cutset s = s"
  using dropWhile_eq_self_iff [of "\<lambda>c. c \<in> set cutset" s] dropWhile_eq_self_iff [of "\<lambda>c. c \<in> set cutset" "rev s"]
  by (simp add: trim_set_def hd_rev)

lemma trim_shown: "trim_set quotes (show_int i) = show_int i" "trim_set quotes (show_bool b) = show_bool b"
  by (rule trim_set_ends; simp add: show_int_ends) (simp add: trim_set_def show_bool_def quotes_def)

lemma load_slug: "load_line (''  - '' @ Quote x) (True, c)
    = (True, c\<lparr>cf_AllowedModelSlugs := cf_AllowedModelSlugs c @ [reread_text x]\<rparr>)"
proof -
  have "TrimSpace (''- '' @ Quote x) = ''- '' @ Quote x" "TrimSpace (Quote x) = Quote x"
    by (auto intro!: TrimSpace_solid simp: Quote_ends) (simp add: solid_def)
  then show ?thesis by (simp add: load_line.simps TrimSpace_blank strip_prefix_def reread_text_def)
qed

lemma load_slugs: "fold load_line (map (\<lambda>x. ''  - '' @ Quote x) xs) (True, c)
    = (True, c\<lparr>cf_AllowedModelSlugs := cf_AllowedModelSlugs c @ map reread_text xs\<rparr>)"
proof (induction xs arbitrary: c)
  case (Cons x xs)
  then show ?case by (simp add: load_slug del: append.simps)
qed simp

lemma load_header: "load_line ''allowed_model_slugs:'' (inAllowed, c) = (True, c)"
proof -
  have "TrimSpace ''allowed_model_slugs:'' = ''allowed_model_slugs:''" "TrimSpace ''allowed_model_slugs'' = ''allowed_model_slugs''"
    by (auto intro!: TrimSpace_solid simp: solid_def)
  then show ?thesis by (simp add: load_line.simps cut_at_def)
qed

lemma load_texts: "list_all key_char key \<Longrightarrow> key \<noteq> [] \<Longrightarrow> key \<noteq> ''allowed_model_slugs'' \<Longrightarrow>
    load_line (yaml_entry key (Quote s)) (inAllowed, c) = (False, set_key key (reread_text s) c)"
  by (simp add: load_entry Quote_ends reread_text_def)

lemma load_shown: "list_all key_char key \<Longrightarrow> key \<noteq> [] \<Longrightarrow> key \<noteq> ''allowed_model_slugs'' \<Longrightarrow>
    load_line (yaml_entry key (show_int i)) (inAllowed, c) = (False, set_key key (show_int i) c)"
  "list_all key_char key \<Longrightarrow> key \<noteq> [] \<Longrightarrow> key \<noteq> ''allowed_model_slugs'' \<Longrightarrow>
    load_line (yaml_entry key (show_bool b)) (inAllowed, c) = (False, set_key key (show_bool b) c)"
  by (simp_all add: load_entry show_int_ends show_bool_ends trim_shown)

lemma load_lines: "fold load_line (config_lines c) (False, Default) = (True, reread c)"
  by (simp add: config_lines_def load_texts load_shown load_header load_slugs key_char_def is_lower_def byte_in_def
      set_key_def Atoi_show_int ParseBool_show reread_def Default_def del: append.simps)

lemma low_hex_line: "d < 16 \<Longrightarrow> low_hex d \<noteq> CHR 0x0A"
proof -
  assume "d < 16"
  then have "(of_char (low_hex d) :: nat) \<noteq> 10" by (auto simp: low_hex_def digit_char_def)
  then show ?thesis by auto
qed

lemma quote_char_line: "CHR 0x0A \<notin> set (quote_char c)"
proof -
  have "low_hex (of_char c div 16) \<noteq> CHR 0x0A" "low_hex (of_char c mod 16) \<noteq> CHR 0x0A"
    by (simp_all add: low_hex_line less_mult_imp_div_less)
  moreover have "c \<noteq> CHR 0x0A" if "32 \<le> (of_char c :: nat)" using that by auto
  ultimately show ?thesis by (simp add: quote_char_def)
qed

lemma show_int_line: "CHR 0x0A \<notin> set (show_int i)"
proof
  assume "CHR 0x0A \<in> set (show_int i)"
  then have "solid (CHR 0x0A)" using show_int_chars number_char by blast
  then show False by (simp add: solid_def)
qed

lemma config_lines_ok: "list_all (\<lambda>l. CHR 0x0A \<notin> set l) (config_lines c)" "map drop_cr (config_lines c) = config_lines c"
proof -
  have q: "CHR 0x0A \<notin> set (Quote s)" for s by (simp add: Quote_def quote_char_line)
  show "list_all (\<lambda>l. CHR 0x0A \<notin> set l) (config_lines c)"
    by (simp add: config_lines_def yaml_entry_def q show_int_line show_bool_def list_all_iff)
  have "last l \<noteq> CHR 0x0D" if "solid (last l)" for l using that by (auto simp: solid_def)
  then have d: "drop_cr l = l" if "solid (last l)" for l using that by (simp add: drop_cr_def)
  have "list_all (\<lambda>l. solid (last l)) (config_lines c)"
    by (simp add: config_lines_def yaml_entry_def Quote_ends show_int_ends show_bool_ends list_all_iff last_append) (simp add: solid_def)
  with d show "map drop_cr (config_lines c) = config_lines c" by (simp add: list_all_iff map_idI)
qed

lemma written_loads: "short_lines c \<Longrightarrow> Load (Inr (config_text c)) = Inr (reread c)"
  by (simp add: Load_def scan_lines_def config_text_def raw_lines_written config_lines_ok short_lines_def load_lines)

lemma reread_id: "reread c = c \<longleftrightarrow> plain_config c"
proof -
  have m: "map reread_text xs = xs \<longleftrightarrow> list_all plain xs" for xs
    by (induction xs) (simp_all add: reread_plain_iff)
  show ?thesis by (cases c) (auto simp: reread_def plain_config_def reread_plain_iff m)
qed

lemma strip_keeps: "(\<And>w. w \<in> set ws \<Longrightarrow> x \<notin> set w) \<Longrightarrow> x \<in> set s \<Longrightarrow> x \<in> set (strip ws s)"
proof (induction ws s rule: strip.induct)
  case (1 ws s)
  show ?case
  proof (cases "find (\<lambda>w. w \<noteq> [] \<and> prefix w s) ws")
    case None
    with 1 show ?thesis by (simp add: strip_None)
  next
    case (Some w)
    then have "w \<in> set ws" "prefix w s" by (auto simp: find_Some_iff)
    with 1(2) [of w] 1(3) have "x \<in> set (drop (length w) s)" by (auto simp: prefix_def)
    with 1(1) [OF Some] 1(2) Some show ?thesis by (simp add: strip_Some)
  qed
qed

lemma TrimSpace_keeps: "solid x \<Longrightarrow> x \<in> set s \<Longrightarrow> x \<in> set (TrimSpace s)"
proof -
  assume x: "solid x" "x \<in> set s"
  have "\<forall>w \<in> set go_ws. \<forall>c \<in> set w. \<not> solid c"
    by (simp add: go_ws_def ascii_ws_def unicode_ws_def solid_def)
  with x(1) have "x \<notin> set w" if "w \<in> set go_ws" for w using that by blast
  then show ?thesis using x(2) unfolding TrimSpace_def trim_with_def by (auto intro!: strip_keeps)
qed

text \<open>A valid token stays one, and a text that begins like a key keeps its beginning.\<close>

lemma reread_prefix:
  assumes "prefix p s" "p \<noteq> []" "list_all plain_char p" "hd p \<notin> set quotes" "last p \<notin> set quotes"
  shows "prefix p (reread_text s)"
proof -
  obtain t where t: "s = p @ t" using assms(1) by (auto simp: prefix_def)
  have p: "concat (map quote_char p) = p"
    using Quote_plain [OF assms(3)] by (simp add: Quote_def)
  let ?q = "concat (map quote_char t) @ [CHR 0x22]"
  have "Quote s = [CHR 0x22] @ p @ ?q" by (simp add: Quote_def t p)
  then have "dropWhile (\<lambda>c. c \<in> set quotes) (Quote s) = p @ ?q"
    using assms(2,4) by (cases p) (simp_all add: quotes_def)
  moreover have "dropWhile (\<lambda>c. c \<in> set quotes) (rev ?q @ rev p) = dropWhile (\<lambda>c. c \<in> set quotes) (rev ?q) @ rev p"
    using assms(2,5) by (cases p rule: rev_cases) (auto simp: dropWhile_append dropWhile_eq_Nil_conv)
  ultimately show ?thesis by (simp add: reread_text_def trim_set_def)
qed

lemma count_fields_reread: "count_list (reread_text s) (CHR ''_'') = count_list s (CHR ''_'')"
proof -
  have l: "low_hex d \<noteq> CHR ''_''" if "d < 16" for d
  proof -
    have "(of_char (low_hex d) :: nat) \<noteq> 95" using that by (auto simp: low_hex_def digit_char_def)
    then show ?thesis by auto
  qed
  have "low_hex (of_char c div 16) \<noteq> CHR ''_''" "low_hex (of_char c mod 16) \<noteq> CHR ''_''" for c
    by (simp_all add: l less_mult_imp_div_less)
  then have "count_list (quote_char c) (CHR ''_'') = count_list [c] (CHR ''_'')" for c
    by (auto simp: quote_char_def)
  then have "count_list (concat (map quote_char s)) (CHR ''_'') = count_list s (CHR ''_'')"
    by (induction s) auto
  then show ?thesis by (simp add: reread_text_def count_trim_set quotes_def Quote_def)
qed

lemma length_fields: "length (split_on a s) = Suc (count_list s a)"
proof (induction s)
  case (Cons x s)
  then show ?case using split_on_ne [of a s] by (cases "split_on a s") auto
qed simp

lemma reread_key:
  assumes "cf_InstanceKey c = ''inst_'' @ drawn"
  shows "prefix ''inst_'' (cf_InstanceKey (reread c))" "TrimSpace (cf_InstanceKey (reread c)) \<noteq> []"
proof -
  show p: "prefix ''inst_'' (cf_InstanceKey (reread c))"
    by (simp add: reread_def assms, rule reread_prefix) (simp_all add: plain_char_def quotes_def)
  then have "CHR ''i'' \<in> set (TrimSpace (cf_InstanceKey (reread c)))"
    by (intro TrimSpace_keeps) (auto simp: solid_def prefix_def)
  then show "TrimSpace (cf_InstanceKey (reread c)) \<noteq> []" by auto
qed

lemma reread_token:
  assumes "ValidProviderToken t"
  shows "ValidProviderToken (reread_text t)"
proof -
  have "prefix ''pvn_provider_'' (reread_text t)"
    by (rule reread_prefix) (use assms in \<open>simp_all add: ValidProviderToken_def plain_char_def quotes_def\<close>)
  then show ?thesis using assms by (simp add: ValidProviderToken_def count_fields_reread length_fields)
qed

lemma and_then_eq_Inr: "and_then r f = Inr y \<longleftrightarrow> (\<exists>x. r = Inr x \<and> f x = Inr y)"
  by (cases r) simp_all

lemma length_Quote: "length (Quote s) \<le> 4 * length s + 2"
proof -
  have c: "length (quote_char c) \<le> 4" for c by (simp add: quote_char_def)
  have "length (concat (map quote_char s)) \<le> 4 * length s"
  proof (induction s)
    case (Cons x s)
    with c [of x] show ?case by simp
  qed simp
  then show ?thesis by (simp add: Quote_def)
qed

lemma length_show_nat: "n < 10 ^ Suc k \<Longrightarrow> length (show_nat n) \<le> Suc k"
proof (induction k arbitrary: n)
  case (Suc k)
  then have "length (show_nat (n div 10)) \<le> Suc k" by (simp add: less_mult_imp_div_less)
  then show ?case by (subst show_nat.simps) simp
qed (simp add: show_nat.simps)

text \<open>Texts of up to sixteen thousand bytes never make a line too long.\<close>

lemma short_texts:
  assumes "list_all (\<lambda>s. length s \<le> 16000) ([cf_ServerURL c, cf_ProviderToken c, cf_ProviderName c, cf_InstanceKey c,
     cf_OllamaURL c, cf_LogLevel c] @ cf_AllowedModelSlugs c)"
  shows "short_lines c"
proof -
  have q: "length (Quote s) < n" if "length s \<le> 16000" "65000 \<le> n" for s n using length_Quote [of s] that by simp
  have "nat \<bar>sint w\<bar> < 10 ^ Suc 18" for w :: "64 word" using sint_ge [of w] sint_lt [of w] by simp
  then have n: "length (show_nat (nat \<bar>sint w\<bar>)) \<le> 19" for w :: "64 word" using length_show_nat by fastforce
  have i: "length (show_int (sint w)) \<le> 20" for w :: "64 word"
    using n [of w] by (cases "sint w < 0") (simp_all add: show_int_def)
  show ?thesis
    using assms q i [of "cf_MaxConcurrentJobs c"] i [of "cf_HeartbeatIntervalSeconds c"]
    by (simp add: short_lines_def config_lines_def yaml_entry_def show_bool_def list_all_iff)
qed

text \<open>What \<open>init\<close> has put into the file: the configuration of its flags.\<close>

lemma Init_Inr:
  assumes "Init home failure drawn args = Inr (path, text)"
  obtains c where "text = config_text c" "ValidProviderToken (cf_ProviderToken c)" "cf_InstanceKey c = ''inst_'' @ drawn"
    "cf_MaxConcurrentJobs c = 1" "cf_HeartbeatIntervalSeconds c = 15" "cf_AllowedModelSlugs c = []"
    "\<exists>v. parse_flags init_flags init_defaults args = Inr v \<and> cf_ServerURL c = v ''server'' \<and> cf_ProviderToken c = v ''token''
       \<and> cf_ProviderName c = v ''name'' \<and> cf_OllamaURL c = v ''ollama-url''"
proof -
  from assms obtain v where v: "parse_flags init_flags init_defaults args = Inr v"
    by (cases "parse_flags init_flags init_defaults args") (simp_all add: Init_def)
  let ?c = "with_key drawn (Default\<lparr>cf_ServerURL := v ''server'', cf_ProviderToken := v ''token'',
     cf_ProviderName := v ''name'', cf_OllamaURL := v ''ollama-url''\<rparr>)"
  have "ValidProviderToken (v ''token'')" "text = config_text ?c"
    using assms by (auto simp: Init_def v Write_config_def and_then_eq_Inr split: if_splits option.splits)
  then show thesis
    by (intro that [of ?c] exI [of _ v]) (simp_all add: with_key_def Default_def v)
qed

lemma short_written: "list_all (\<lambda>l. length l < 65536) (raw_lines (config_text c)) = short_lines c"
  by (simp add: short_lines_def config_text_def raw_lines_written config_lines_ok)

section \<open>Properties\<close>

definition home_config :: config where
  "home_config = Default\<lparr>cf_ProviderToken := ''pvn_provider_ab_cd'', cf_ProviderName := ''Home RTX'',
     cf_InstanceKey := ''inst_1'', cf_AllowedModelSlugs := [''qwen-7b'', ''llama''], cf_HeartbeatIntervalSeconds := - 3\<rparr>"



text \<open>What \<open>init\<close> accepts, \<open>serve\<close> accepts: the file that \<open>init\<close> writes loads, whatever the flags are, to a
  configuration whose token passes the check of \<open>serve\<close>, whose instance key is one that the server does
  not refuse as blank, and which runs one job at a time with a heartbeat every fifteen seconds.\<close>

theorem init_accepted:
  assumes "Init home failure drawn args = Inr (path, text)" "list_all (\<lambda>l. length l < 65536) (raw_lines text)"
  shows "\<exists>c. Load (Inr text) = Inr c \<and> ValidProviderToken (cf_ProviderToken c)
     \<and> prefix ''inst_'' (cf_InstanceKey c) \<and> TrimSpace (cf_InstanceKey c) \<noteq> []
     \<and> cf_MaxConcurrentJobs c = 1 \<and> cf_HeartbeatIntervalSeconds c = 15 \<and> cf_AllowedModelSlugs c = []"
proof -
  from assms(1) obtain c where c: "text = config_text c" "ValidProviderToken (cf_ProviderToken c)" "cf_InstanceKey c = ''inst_'' @ drawn"
    "cf_MaxConcurrentJobs c = 1" "cf_HeartbeatIntervalSeconds c = 15" "cf_AllowedModelSlugs c = []" by (rule Init_Inr)
  have "Load (Inr text) = Inr (reread c)"
    using assms(2) c(1) by (simp add: short_written written_loads)
  moreover note reread_key [OF c(3)]
  moreover have "ValidProviderToken (cf_ProviderToken (reread c))" using c(2) by (simp add: reread_def reread_token)
  ultimately show ?thesis using c(4-6) by (auto simp: reread_def)
qed

theorem init_accepted_witness:
  "\<exists>file c. Init (Inr ''/home/a'') None ''k'' [''-token'', ''pvn_provider_ab_cd'', ''--name=Home RTX'', ''x'']
       = Inr (''/home/a/.nuvonode-provider/config.yaml'', file)
     \<and> Load (Inr file) = Inr c \<and> ValidProviderToken (cf_ProviderToken c)"
proof -
  let ?args = "[''-token'', ''pvn_provider_ab_cd'', ''--name=Home RTX'', ''x'']"
  obtain x where t: "Init (Inr ''/home/a'') None ''k'' ?args = Inr (''/home/a/.nuvonode-provider/config.yaml'', x)"
    and written: "x = config_text (Default\<lparr>cf_ProviderToken := ''pvn_provider_ab_cd'', cf_ProviderName := ''Home RTX'', cf_InstanceKey := ''inst_k''\<rparr>)"
    by (simp add: Init_def init_flags_def init_defaults_def ValidProviderToken_def DefaultPath_def Write_config_def with_key_def Default_def)
  have "list_all (\<lambda>l. length l < 65536) (raw_lines x)"
    unfolding written short_written by (simp add: short_texts Default_def)
  from init_accepted [OF t this] t show ?thesis by blast
qed

end
