(* ===== verification/NodeProgram.thy ===== *)
theory NodeProgram
  imports NodeConfig "HOL-Library.Multiset"
begin

text \<open>
  The provider node at work: \<open>internal/node/serve.go\<close> with the messages of \<open>internal/protocol/messages.go\<close>
  and the client of the local runtime in \<open>internal/ollama\<close>, and \<open>internal/node/doctor.go\<close>. A JSON text is its
  value; a struct is encoded as the object of its fields and decoded as \<open>encoding/json\<close> does, an object
  having no two keys that differ in case only. What the runtime and the network deliver, the clock and
  the random numbers are arguments or come with the events; message ids and send times are left out.
\<close>

section \<open>JSON\<close>

datatype json_value =
    VNull
  | VBool bool
  | VNum rat
  | VStr string
  | VArr "json_value list"
  | VObj "(string \<times> json_value) list"

text \<open>Reading a struct, and the field for a key. \<open>None\<close> is an error of \<open>Unmarshal\<close>; an absent text
  is one, while \<open>null\<close> leaves the zero value.\<close>

fun object_fields :: "json_value option \<Rightarrow> (string \<times> json_value) list option" where
  "object_fields (Some (VObj kvs)) = Some kvs"
| "object_fields (Some VNull) = Some []"
| "object_fields _ = None"

definition field :: "string \<Rightarrow> (string \<times> json_value) list \<Rightarrow> json_value" where
  "field name kvs = (case find (\<lambda>kv. lowercase (fst kv) = name) kvs of None \<Rightarrow> VNull | Some kv \<Rightarrow> snd kv)"

fun as_string :: "json_value \<Rightarrow> string option" where
  "as_string VNull = Some []"
| "as_string (VStr s) = Some s"
| "as_string _ = None"

fun as_bool :: "json_value \<Rightarrow> bool option" where
  "as_bool VNull = Some False"
| "as_bool (VBool b) = Some b"
| "as_bool _ = None"

fun as_int :: "json_value \<Rightarrow> int option" where
  "as_int VNull = Some 0"
| "as_int (VNum q) = (if of_int \<lfloor>q\<rfloor> = q \<and> clamp64 \<lfloor>q\<rfloor> = \<lfloor>q\<rfloor> then Some \<lfloor>q\<rfloor> else None)"
| "as_int _ = None"

fun as_float_pointer :: "json_value \<Rightarrow> rat option option" where
  "as_float_pointer VNull = Some None"
| "as_float_pointer (VNum q) = Some (Some q)"
| "as_float_pointer _ = None"

fun as_list :: "(json_value \<Rightarrow> 'a option) \<Rightarrow> json_value \<Rightarrow> 'a list option" where
  "as_list f VNull = Some []"
| "as_list f (VArr vs) = those (map f vs)"
| "as_list f _ = None"

section \<open>Messages\<close>

type_synonym envelope = "string \<times> json_value"

record job_request =
  jq_JobID :: string
  jq_ModelSlug :: string
  jq_Runtime :: string
  jq_RuntimeModelName :: string
  jq_Messages :: "(string \<times> string) list"
  jq_Temperature :: "rat option"
  jq_MaxTokens :: int
  jq_TopP :: "rat option"
  jq_TimeoutSeconds :: int

definition as_message :: "json_value \<Rightarrow> (string \<times> string) option" where
  "as_message v = Option.bind (object_fields (Some v)) (\<lambda>kvs.
     Option.bind (as_string (field ''role'' kvs)) (\<lambda>role.
     map_option (Pair role) (as_string (field ''content'' kvs))))"

definition message_value :: "string \<times> string \<Rightarrow> json_value" where
  "message_value m = VObj [(''role'', VStr (fst m)), (''content'', VStr (snd m))]"

text \<open>\<open>json.Unmarshal\<close> into \<open>JobRequestPayload\<close>.\<close>

definition read_job :: "json_value option \<Rightarrow> job_request option" where
  "read_job payload = Option.bind (object_fields payload) (\<lambda>kvs.
     Option.bind (object_fields (Some (field ''parameters'' kvs))) (\<lambda>ps.
     Option.bind (as_string (field ''job_id'' kvs)) (\<lambda>jobID.
     Option.bind (as_string (field ''model_slug'' kvs)) (\<lambda>slug.
     Option.bind (as_string (field ''runtime'' kvs)) (\<lambda>runtime.
     Option.bind (as_string (field ''runtime_model_name'' kvs)) (\<lambda>name.
     Option.bind (as_list as_message (field ''messages'' kvs)) (\<lambda>messages.
     Option.bind (as_float_pointer (field ''temperature'' ps)) (\<lambda>temperature.
     Option.bind (as_int (field ''max_tokens'' ps)) (\<lambda>maxTokens.
     Option.bind (as_float_pointer (field ''top_p'' ps)) (\<lambda>topP.
     map_option (\<lambda>timeout. \<lparr>jq_JobID = jobID, jq_ModelSlug = slug, jq_Runtime = runtime, jq_RuntimeModelName = name,
       jq_Messages = messages, jq_Temperature = temperature, jq_MaxTokens = maxTokens, jq_TopP = topP,
       jq_TimeoutSeconds = timeout\<rparr>) (as_int (field ''timeout_seconds'' kvs))))))))))))"

definition job_error_message :: "string \<Rightarrow> string \<Rightarrow> string \<Rightarrow> envelope" where
  "job_error_message jobID code message = (''provider.job_error'',
     VObj [(''job_id'', VStr jobID), (''error_code'', VStr code), (''error_message'', VStr message)])"

text \<open>Go's \<open>int\<close>, at 64 bits.\<close>

definition wrap64 :: "int \<Rightarrow> int" where
  "wrap64 i = sint (word_of_int i :: 64 word)"

definition usage_value :: "int \<Rightarrow> int \<Rightarrow> json_value" where
  "usage_value p c = VObj [(''prompt_tokens'', VNum (of_int p)), (''completion_tokens'', VNum (of_int c)),
     (''total_tokens'', VNum (of_int (wrap64 (p + c)))), (''source'', VStr ''runtime_reported'')]"

definition job_result_message :: "string \<Rightarrow> string \<Rightarrow> int \<times> int \<Rightarrow> int \<Rightarrow> envelope" where
  "job_result_message jobID content usage latency = (''provider.job_result'',
     VObj [(''job_id'', VStr jobID), (''content'', VStr content), (''finish_reason'', VStr ''stop''),
       (''usage'', usage_value (fst usage) (snd usage)), (''latency_ms'', VNum (of_int latency))])"

section \<open>The local runtime\<close>

text \<open>What a request to it comes to: no answer, or a status and the body, a JSON value or none.\<close>

datatype transport = Unanswered string | Answered_with int "string + json_value"

definition good_status :: "int \<Rightarrow> bool" where
  "good_status status \<longleftrightarrow> 200 \<le> status \<and> status \<le> 299"

definition decode_body :: "string \<Rightarrow> (json_value \<Rightarrow> string) \<Rightarrow> (json_value \<Rightarrow> 'a option) \<Rightarrow> transport \<Rightarrow> string + 'a" where
  "decode_body what type_error decode t = (case t of
       Unanswered e \<Rightarrow> Inl e
     | Answered_with status body \<Rightarrow>
         if \<not> good_status status then Inl (''ollama '' @ what @ '' status '' @ show_int status)
         else and_then body (\<lambda>v. case decode v of None \<Rightarrow> Inl (type_error v) | Some x \<Rightarrow> Inr x))"

record chat_response =
  cr_Content :: string
  cr_PromptEvalCount :: int
  cr_EvalCount :: int

definition as_chat_response :: "json_value \<Rightarrow> chat_response option" where
  "as_chat_response v = Option.bind (object_fields (Some v)) (\<lambda>kvs.
     Option.bind (as_message (field ''message'' kvs)) (\<lambda>m.
     Option.bind (as_bool (field ''done'' kvs)) (\<lambda>_.
     Option.bind (as_int (field ''prompt_eval_count'' kvs)) (\<lambda>p.
     Option.bind (as_int (field ''eval_count'' kvs)) (\<lambda>c.
     map_option (\<lambda>_. \<lparr>cr_Content = snd m, cr_PromptEvalCount = p, cr_EvalCount = c\<rparr>) (as_int (field ''total_duration'' kvs)))))))"

definition Chat :: "(json_value \<Rightarrow> string) \<Rightarrow> transport \<Rightarrow> string + chat_response" where
  "Chat type_error = decode_body ''chat'' type_error as_chat_response"

definition as_model :: "json_value \<Rightarrow> (string \<times> string \<times> int) option" where
  "as_model v = Option.bind (object_fields (Some v)) (\<lambda>kvs.
     Option.bind (as_string (field ''name'' kvs)) (\<lambda>name.
     Option.bind (as_string (field ''digest'' kvs)) (\<lambda>digest.
     map_option (\<lambda>bytes. (name, digest, bytes)) (as_int (field ''size'' kvs)))))"

definition Tags :: "(json_value \<Rightarrow> string) \<Rightarrow> transport \<Rightarrow> string + (string \<times> string \<times> int) list" where
  "Tags type_error = decode_body ''tags'' type_error (\<lambda>v. Option.bind (object_fields (Some v)) (\<lambda>kvs. as_list as_model (field ''models'' kvs)))"

text \<open>The body of the chat request that a job becomes.\<close>

definition chat_options :: "job_request \<Rightarrow> (string \<times> json_value) list" where
  "chat_options job = (if 0 < jq_MaxTokens job then [(''num_predict'', VNum (of_int (jq_MaxTokens job)))] else [])
     @ (case jq_Temperature job of None \<Rightarrow> [] | Some q \<Rightarrow> [(''temperature'', VNum q)])"

definition chat_body :: "job_request \<Rightarrow> json_value" where
  "chat_body job = VObj ([(''model'', VStr (jq_RuntimeModelName job)), (''messages'', VArr (map message_value (jq_Messages job))),
     (''stream'', VBool False)] @ (if chat_options job = [] then [] else [(''options'', VObj (chat_options job))]))"

section \<open>Jobs\<close>

text \<open>\<open>executeJob\<close>: the message that answers the request, none when the request cannot be read.\<close>

definition executeJob :: "(json_value \<Rightarrow> string) \<Rightarrow> json_value option \<Rightarrow> transport \<Rightarrow> int \<Rightarrow> envelope option" where
  "executeJob type_error payload t latency = (case read_job payload of
       None \<Rightarrow> None
     | Some job \<Rightarrow>
         if jq_Runtime job \<noteq> ''ollama''
         then Some (job_error_message (jq_JobID job) ''unsupported_runtime'' ''Only Ollama runtime is supported in V1 provider node.'')
         else (case Chat type_error t of
             Inl e \<Rightarrow> Some (job_error_message (jq_JobID job) ''ollama_failed'' e)
           | Inr r \<Rightarrow> Some (job_result_message (jq_JobID job) (cr_Content r) (cr_PromptEvalCount r, cr_EvalCount r) latency)))"

section \<open>One connection\<close>

definition trim_slashes :: "string \<Rightarrow> string" where
  "trim_slashes s = rev (dropWhile (\<lambda>c. c = CHR ''/'') (rev s))"

text \<open>The address of the server as \<open>url.Parse\<close> gives it; user and fragment stay as they are.\<close>

record server_url =
  su_Scheme :: string
  su_Host :: string
  su_Path :: string
  su_RawQuery :: string

definition providerWSURL :: "string + server_url \<Rightarrow> string + server_url" where
  "providerWSURL parsed = and_then parsed (\<lambda>u.
     let address = (\<lambda>scheme. u\<lparr>su_Scheme := scheme, su_Path := trim_slashes (su_Path u) @ ''/api/provider/ws'', su_RawQuery := []\<rparr>)
     in if su_Scheme u = ''http'' then Inr (address ''ws'')
        else if su_Scheme u = ''https'' then Inr (address ''wss'')
        else if su_Scheme u = ''ws'' \<or> su_Scheme u = ''wss'' then Inr (address (su_Scheme u))
        else Inl (''unsupported server URL scheme '' @ Quote (su_Scheme u)))"

record machine_info =
  ho_Hostname :: string
  ho_OS :: string
  ho_Arch :: string

definition hello :: "machine_info \<Rightarrow> config \<Rightarrow> envelope" where
  "hello host cfg = (''provider.hello'', VObj [(''instance_key'', VStr (cf_InstanceKey cfg)), (''app_version'', VStr ''dev''),
     (''hostname'', VStr (ho_Hostname host)), (''os'', VStr (ho_OS host)), (''arch'', VStr (ho_Arch host)),
     (''ollama_url'', VStr (cf_OllamaURL cfg))])"

definition normalizeRuntimeModelName :: "string \<Rightarrow> string" where
  "normalizeRuntimeModelName name = (if suffix '':latest'' name then take (length name - 7) name else name)"

text \<open>Fields with \<open>omitempty\<close> are left out when they are empty.\<close>

definition model_entry :: "string \<times> string \<times> int \<Rightarrow> json_value" where
  "model_entry m = (case m of (name, digest, bytes) \<Rightarrow>
     VObj ([(''runtime_model_name'', VStr (normalizeRuntimeModelName name))]
       @ (if digest = [] then [] else [(''digest'', VStr digest)])
       @ (if bytes = 0 then [] else [(''size_bytes'', VNum (of_int bytes))])))"

definition model_list :: "(string \<times> string \<times> int) list \<Rightarrow> envelope" where
  "model_list ms = (''provider.model_list'', VObj [(''runtime'', VStr ''ollama''), (''models'', VArr (map model_entry ms))])"

definition heartbeat :: envelope where
  "heartbeat = (''provider.heartbeat'', VObj [(''status'', VStr ''online''), (''current_job_id'', VNull), (''queue_depth'', VNum 0)])"

text \<open>The interval of the heartbeat in nanoseconds; the product is one of 64 bits.\<close>

definition heartbeat_interval :: "64 word \<Rightarrow> 64 word" where
  "heartbeat_interval seconds = (let interval = seconds * 1000000000 in if interval \<le>s 0 then 15 * 1000000000 else interval)"

text \<open>Where \<open>serveOnce\<close> is: before its dial, before the hello, before the model list, in its loop, returned.\<close>

datatype stage = Dialing | Greeting | Listing | Serving | Ended string

text \<open>The state of a connection: what has been written, whether \<open>readLoop\<close> still reads, the error it left, and
  the jobs under way. The last two fields are ghosts: the job requests read so far, and the jobs that are
  through, with the answer and whether it was written.\<close>

record node_session =
  ns_stage :: stage
  ns_sent :: "envelope list"
  ns_reading :: bool
  ns_failure :: "string option"
  ns_jobs :: "json_value option list"
  ns_received :: "json_value option list"
  ns_finished :: "(json_value option \<times> envelope option \<times> bool) list"

definition dialing :: node_session where
  "dialing = \<lparr>ns_stage = Dialing, ns_sent = [], ns_reading = False, ns_failure = None, ns_jobs = [], ns_received = [],
     ns_finished = []\<rparr>"

text \<open>What arrives: no envelope, or its type and its payload. With each write comes its error, if any.\<close>

datatype incoming = NotEnvelope | Incoming string "json_value option"

datatype session_event =
    Dialed "string option"
  | SendHello "string option"
  | SendModelList transport "string option"
  | Ticks "string option"
  | Reads incoming
  | ReadFails string
  | TakesError
  | ContextDone string
  | JobDone nat transport int "string option"

fun session_step :: "(json_value \<Rightarrow> string) \<Rightarrow> machine_info \<Rightarrow> config \<Rightarrow> (node_session, session_event) machine" where
  "session_step type_error host cfg s (Dialed err) =
     (if ns_stage s = Dialing then Some (s\<lparr>ns_stage := (case err of Some e \<Rightarrow> Ended e | None \<Rightarrow> Greeting)\<rparr>) else None)"
| "session_step type_error host cfg s (SendHello err) =
     (if ns_stage s = Greeting
      then Some (case err of
          Some e \<Rightarrow> s\<lparr>ns_stage := Ended e\<rparr>
        | None \<Rightarrow> s\<lparr>ns_stage := Listing, ns_sent := ns_sent s @ [hello host cfg]\<rparr>)
      else None)"
| "session_step type_error host cfg s (SendModelList t err) =
     (if ns_stage s = Listing
      then Some (s\<lparr>ns_stage := Serving, ns_reading := True,
          ns_sent := ns_sent s @ (case (Tags type_error t, err) of (Inr ms, None) \<Rightarrow> [model_list ms] | _ \<Rightarrow> [])\<rparr>)
      else None)"
| "session_step type_error host cfg s (Ticks err) =
     (if ns_stage s = Serving
      then Some (case err of
          Some e \<Rightarrow> s\<lparr>ns_stage := Ended e\<rparr>
        | None \<Rightarrow> s\<lparr>ns_sent := ns_sent s @ [heartbeat]\<rparr>)
      else None)"
| "session_step type_error host cfg s (Reads m) =
     (if ns_stage s = Serving \<and> ns_reading s
      then Some (case m of
          Incoming t payload \<Rightarrow> if t = ''server.job_request''
            then s\<lparr>ns_jobs := ns_jobs s @ [payload], ns_received := ns_received s @ [payload]\<rparr> else s
        | NotEnvelope \<Rightarrow> s)
      else None)"
| "session_step type_error host cfg s (ReadFails e) =
     (if ns_reading s then Some (s\<lparr>ns_reading := False, ns_failure := Some e\<rparr>) else None)"
| "session_step type_error host cfg s TakesError =
     (if ns_stage s = Serving then map_option (\<lambda>e. s\<lparr>ns_stage := Ended e\<rparr>) (ns_failure s) else None)"
| "session_step type_error host cfg s (ContextDone e) =
     (if ns_stage s = Serving then Some (s\<lparr>ns_stage := Ended e\<rparr>) else None)"
| "session_step type_error host cfg s (JobDone i t latency err) =
     (if i < length (ns_jobs s)
      then let answer = executeJob type_error (ns_jobs s ! i) t latency;
               written = (answer \<noteq> None \<and> err = None \<and> ns_stage s = Serving)
           in Some (s\<lparr>ns_jobs := drop_nth i (ns_jobs s), ns_finished := ns_finished s @ [(ns_jobs s ! i, answer, written)],
                ns_sent := ns_sent s @ (if written then [the answer] else [])\<rparr>)
      else None)"

section \<open>The commands\<close>

text \<open>\<open>Serve\<close>: each attempt ends with an error; with it come whether the context is done by then, the random
  part of the wait, and whether the context ends during the wait. The result is the list of the waits, in
  nanoseconds, and the error with which \<open>Serve\<close> returns, if it does.\<close>

definition next_backoff :: "int \<Rightarrow> int" where
  "next_backoff b = (if 30 * 10 ^ 9 < 2 * b then 30 * 10 ^ 9 else 2 * b)"

fun reconnects :: "bool \<Rightarrow> int \<Rightarrow> (string \<times> bool \<times> int \<times> string option) list \<Rightarrow> int list \<times> string option" where
  "reconnects once backoff [] = ([], None)"
| "reconnects once backoff ((err, over, jitter, cancelled) # attempts) =
     (if once \<or> over then ([], Some err)
      else case cancelled of
          Some e \<Rightarrow> ([], Some e)
        | None \<Rightarrow> (let (waits, result) = reconnects once (next_backoff backoff) attempts
                   in ((backoff + jitter) # waits, result)))"

definition Serve :: "string + string \<Rightarrow> bool \<Rightarrow> (string \<times> bool \<times> int \<times> string option) list \<Rightarrow> int list \<times> string option" where
  "Serve file once attempts = (case Load file of
       Inl e \<Rightarrow> ([], Some e)
     | Inr cfg \<Rightarrow> if \<not> ValidProviderToken (cf_ProviderToken cfg) then ([], Some ''provider token format invalid'')
                  else reconnects once (10 ^ 9) attempts)"

text \<open>\<open>Doctor\<close>: the verdict and the messages; the health check of the server and the runtime answer.\<close>

definition checkServer :: "transport \<Rightarrow> string option" where
  "checkServer t = (case t of
       Unanswered e \<Rightarrow> Some e
     | Answered_with status body \<Rightarrow> if good_status status then None else Some (''status '' @ show_int status))"

definition Doctor :: "(json_value \<Rightarrow> string) \<Rightarrow> string + string \<Rightarrow> transport \<Rightarrow> transport \<Rightarrow> bool \<times> string list" where
  "Doctor type_error file health tags = (case Load file of
       Inl e \<Rightarrow> (False, [''[fail] config loaded: '' @ e])
     | Inr cfg \<Rightarrow>
         (let token = ValidProviderToken (cf_ProviderToken cfg);
              server = checkServer health;
              models = Tags type_error tags
          in (token \<and> server = None \<and> \<not> isl models,
              [''[ok] config loaded'',
               if token then ''[ok] provider token format valid'' else ''[fail] provider token format invalid'',
               case server of None \<Rightarrow> ''[ok] server reachable: '' @ cf_ServerURL cfg | Some e \<Rightarrow> ''[fail] server reachable: '' @ e]
              @ (case models of
                   Inl e \<Rightarrow> [''[fail] ollama reachable: '' @ e]
                 | Inr ms \<Rightarrow> [''[ok] ollama reachable: '' @ cf_OllamaURL cfg, ''[ok] models found: '' @ show_int (int (length ms))]))))"

section \<open>Lemmas\<close>

definition in64 :: "int \<Rightarrow> bool" where
  "in64 i \<longleftrightarrow> clamp64 i = i"

lemma in64_0: "in64 0"
  by (simp add: in64_def clamp64_def)

lemma as_int_of_int: "in64 i \<Longrightarrow> as_int (VNum (of_int i)) = Some i"
  by (simp add: in64_def)

lemma as_int_0: "as_int (VNum 0) = Some 0"
  using as_int_of_int [OF in64_0] by simp

lemma as_int_range: "as_int v = Some i \<Longrightarrow> in64 i"
  by (cases v rule: as_int.cases) (auto simp: in64_def in64_0 [unfolded in64_def] split: if_splits)

declare as_int.simps(2) [simp del]
declare as_int_of_int [simp] as_int_0 [simp]

lemma tags_in64: "Tags type_error t = Inr ms \<Longrightarrow> list_all (\<lambda>m. in64 (snd (snd m))) ms"
proof -
  have "those (map as_model vs) = Some ms \<Longrightarrow> list_all (\<lambda>m. in64 (snd (snd m))) ms" for vs ms
    by (induction vs arbitrary: ms) (auto simp: as_model_def bind_eq_Some_conv as_int_range split: option.splits)
  moreover have "as_list as_model v = Some ms \<Longrightarrow> v = VNull \<and> ms = [] \<or> (\<exists>vs. v = VArr vs \<and> those (map as_model vs) = Some ms)" for v ms
    by (cases v) auto
  ultimately show "Tags type_error t = Inr ms \<Longrightarrow> list_all (\<lambda>m. in64 (snd (snd m))) ms"
    by (fastforce simp: Tags_def decode_body_def and_then_eq_Inr bind_eq_Some_conv
        split: transport.splits if_splits option.splits)
qed

definition is_answer :: "envelope \<Rightarrow> bool" where
  "is_answer m \<longleftrightarrow> fst m = ''provider.job_result'' \<or> fst m = ''provider.job_error''"

definition job_of :: "envelope \<Rightarrow> string option" where
  "job_of m = Option.bind (object_fields (Some (snd m))) (\<lambda>kvs. as_string (field ''job_id'' kvs))"

definition asked :: "json_value option \<Rightarrow> string option" where
  "asked payload = map_option jq_JobID (read_job payload)"

lemma key_lowercase: "list_all key_char s \<Longrightarrow> lowercase s = s"
  by (induction s) (auto simp: lowercase_def to_lower_def key_char_def is_lower_def is_upper_def byte_in_def)

lemma field_Cons: "list_all key_char k \<Longrightarrow> field name ((k, v) # kvs) = (if k = name then v else field name kvs)"
  by (simp add: field_def key_lowercase)

lemma field_Nil [simp]: "field name [] = VNull"
  by (simp add: field_def)

lemmas key_simps = key_char_def is_lower_def byte_in_def

lemma executeJob_Some:
  assumes "executeJob type_error payload t latency = Some m"
  shows "is_answer m" "job_of m = asked payload" "asked payload \<noteq> None"
  using assms by (auto simp: executeJob_def is_answer_def job_of_def asked_def job_error_message_def job_result_message_def
      field_Cons key_simps split: option.splits if_splits sum.splits)

lemma executeJob_None: "executeJob type_error payload t latency = None \<longleftrightarrow> asked payload = None"
  by (auto simp: executeJob_def asked_def split: option.splits if_splits sum.splits)

lemma not_answer [simp]: "\<not> is_answer (hello host cfg)" "\<not> is_answer (model_list ms)" "\<not> is_answer heartbeat"
  by (simp_all add: is_answer_def hello_def model_list_def heartbeat_def)

lemma mset_drop_nth: "i < length xs \<Longrightarrow> add_mset (xs ! i) (mset (drop_nth i xs)) = mset xs"
  by (metis drop_nth_def id_take_nth_drop mset_append mset.simps(2) union_mset_add_mset_right)

section \<open>Invariant\<close>

text \<open>The order of what is written: the hello, at most one model list, and then heartbeats and answers.\<close>

definition later_message :: "envelope \<Rightarrow> bool" where
  "later_message m \<longleftrightarrow> m = heartbeat \<or> is_answer m"

definition in_order :: "machine_info \<Rightarrow> config \<Rightarrow> envelope list \<Rightarrow> bool" where
  "in_order host cfg ms \<longleftrightarrow> (\<exists>l rest. ms = hello host cfg # l @ rest \<and> (l = [] \<or> (\<exists>es. list_all (\<lambda>m. in64 (snd (snd m))) es \<and> l = [model_list es]))
     \<and> list_all later_message rest)"

definition stage_ok :: "machine_info \<Rightarrow> config \<Rightarrow> node_session \<Rightarrow> bool" where
  "stage_ok host cfg s = (case ns_stage s of
       Dialing \<Rightarrow> ns_sent s = [] \<and> ns_jobs s = [] \<and> \<not> ns_reading s
     | Greeting \<Rightarrow> ns_sent s = [] \<and> ns_jobs s = [] \<and> \<not> ns_reading s
     | Listing \<Rightarrow> ns_sent s = [hello host cfg] \<and> ns_jobs s = [] \<and> \<not> ns_reading s
     | Serving \<Rightarrow> in_order host cfg (ns_sent s)
     | Ended e \<Rightarrow> ns_sent s = [] \<or> in_order host cfg (ns_sent s))"

definition finished_ok :: "(json_value \<Rightarrow> string) \<Rightarrow> json_value option \<times> envelope option \<times> bool \<Rightarrow> bool" where
  "finished_ok type_error f \<longleftrightarrow> (\<exists>t latency. fst (snd f) = executeJob type_error (fst f) t latency)
     \<and> (snd (snd f) \<longrightarrow> fst (snd f) \<noteq> None)"

definition written_answers :: "(json_value option \<times> envelope option \<times> bool) list \<Rightarrow> envelope list" where
  "written_answers fs = map (\<lambda>f. the (fst (snd f))) (filter (\<lambda>f. snd (snd f)) fs)"

definition session_inv :: "(json_value \<Rightarrow> string) \<Rightarrow> machine_info \<Rightarrow> config \<Rightarrow> node_session \<Rightarrow> bool" where
  "session_inv type_error host cfg s \<longleftrightarrow> stage_ok host cfg s
     \<and> mset (ns_received s) = mset (ns_jobs s) + mset (map fst (ns_finished s))
     \<and> filter is_answer (ns_sent s) = written_answers (ns_finished s)
     \<and> list_all (finished_ok type_error) (ns_finished s)"

lemma finished_okD:
  assumes "finished_ok type_error f"
  shows "fst (snd f) = None \<longleftrightarrow> asked (fst f) = None"
    "snd (snd f) \<Longrightarrow> asked (fst f) \<noteq> None \<and> job_of (the (fst (snd f))) = asked (fst f)"
proof -
  from assms obtain t latency where a: "fst (snd f) = executeJob type_error (fst f) t latency"
    and w: "snd (snd f) \<longrightarrow> fst (snd f) \<noteq> None" unfolding finished_ok_def by blast
  show "fst (snd f) = None \<longleftrightarrow> asked (fst f) = None" by (simp only: a executeJob_None)
  assume "snd (snd f)"
  with w obtain m where "fst (snd f) = Some m" by auto
  with executeJob_Some [OF this [unfolded a]]
  show "asked (fst f) \<noteq> None \<and> job_of (the (fst (snd f))) = asked (fst f)" by simp
qed

lemma in_order_append: "in_order host cfg ms \<Longrightarrow> list_all later_message xs \<Longrightarrow> in_order host cfg (ms @ xs)"
proof -
  assume "in_order host cfg ms" and x: "list_all later_message xs"
  then obtain l rest where m: "ms = hello host cfg # l @ rest" "l = [] \<or> (\<exists>es. list_all (\<lambda>m. in64 (snd (snd m))) es \<and> l = [model_list es])"
    "list_all later_message rest"
    by (auto simp: in_order_def)
  with x have "ms @ xs = hello host cfg # l @ (rest @ xs)" "list_all later_message (rest @ xs)" by simp_all
  with m(2) show ?thesis unfolding in_order_def by blast
qed

lemma in_order_start: "in_order host cfg [hello host cfg]" "list_all (\<lambda>m. in64 (snd (snd m))) ms \<Longrightarrow> in_order host cfg [hello host cfg, model_list ms]"
  unfolding in_order_def
  by (simp, rule exI [of _ "[model_list ms]"]) auto

lemma session_inv_dialing: "session_inv type_error host cfg dialing"
  by (simp add: session_inv_def dialing_def stage_ok_def written_answers_def)

lemma stage_of_job:
  assumes "stage_ok host cfg s" "i < length (ns_jobs s)"
  shows "ns_stage s = Serving \<and> in_order host cfg (ns_sent s) \<or> (\<exists>e. ns_stage s = Ended e)"
  using assms by (auto simp: stage_ok_def split: stage.splits)

lemma session_inv_step:
  assumes inv: "session_inv type_error host cfg s" and t: "session_step type_error host cfg s e = Some s'"
  shows "session_inv type_error host cfg s'"
proof (cases e)
  case (Dialed err)
  with assms show ?thesis by (auto simp: session_inv_def stage_ok_def split: if_splits option.splits)
next
  case (SendHello err)
  with assms show ?thesis by (auto simp: session_inv_def stage_ok_def split: if_splits option.splits)
next
  case (SendModelList tr err)
  with assms show ?thesis
    by (auto simp: session_inv_def stage_ok_def in_order_start dest: tags_in64 split: if_splits option.splits sum.splits)
next
  case (Ticks err)
  with assms show ?thesis
    by (auto simp: session_inv_def stage_ok_def later_message_def intro!: in_order_append split: if_splits option.splits)
next
  case (Reads m)
  with assms show ?thesis
    by (auto simp: session_inv_def stage_ok_def split: if_splits incoming.splits)
next
  case (ReadFails x)
  with assms show ?thesis by (auto simp: session_inv_def stage_ok_def split: if_splits stage.splits)
next
  case TakesError
  with assms show ?thesis by (auto simp: session_inv_def stage_ok_def split: if_splits)
next
  case (ContextDone x)
  with assms show ?thesis by (auto simp: session_inv_def stage_ok_def split: if_splits)
next
  case (JobDone i tr latency err)
  let ?p = "ns_jobs s ! i"
  let ?a = "executeJob type_error ?p tr latency"
  let ?w = "?a \<noteq> None \<and> err = None \<and> ns_stage s = Serving"
  let ?sent = "if ?w then [the ?a] else []"
  from t JobDone have i: "i < length (ns_jobs s)" by (auto split: if_splits)
  have s': "s' = s\<lparr>ns_jobs := drop_nth i (ns_jobs s), ns_finished := ns_finished s @ [(?p, ?a, ?w)], ns_sent := ns_sent s @ ?sent\<rparr>"
    using t unfolding JobDone session_step.simps if_P [OF i] Let_def option.inject by (rule sym)
  have a: "list_all is_answer ?sent" by (auto dest: executeJob_Some)
  have "stage_ok host cfg s'"
    using inv stage_of_job [OF _ i] a
    by (auto simp: session_inv_def stage_ok_def s' later_message_def intro!: in_order_append split: stage.splits)
  moreover have "mset (ns_received s') = mset (ns_jobs s') + mset (map fst (ns_finished s'))"
    using inv mset_drop_nth [OF i] by (simp add: session_inv_def s' flip: union_mset_add_mset_left)
  moreover have "filter is_answer (ns_sent s') = written_answers (ns_finished s')"
    using inv a by (cases ?w) (simp_all add: session_inv_def s' written_answers_def)
  moreover have "finished_ok type_error (?p, ?a, ?w)" by (auto simp: finished_ok_def)
  ultimately show ?thesis using inv by (simp add: session_inv_def s')
qed

interpretation node_sessions: page_machine "session_step type_error host cfg" dialing "session_inv type_error host cfg"
  by unfold_locales (rule session_inv_dialing, rule session_inv_step)

section \<open>Properties\<close>

definition lab :: machine_info where
  "lab = \<lparr>ho_Hostname = ''lab'', ho_OS = ''linux'', ho_Arch = ''amd64''\<rparr>"

text \<open>A job request and what the runtime makes of it.\<close>

definition lab_request :: json_value where
  "lab_request = VObj [(''job_id'', VStr ''j''), (''runtime'', VStr ''ollama''), (''runtime_model_name'', VStr ''m'')]"

definition lab_answer :: transport where
  "lab_answer = Answered_with 200 (Inr (VObj [(''message'', VObj [(''role'', VStr ''assistant''), (''content'', VStr ''hi'')]),
     (''done'', VBool True), (''prompt_eval_count'', VNum 3), (''eval_count'', VNum 1)]))"

definition lab_events :: "session_event list" where
  "lab_events = [Dialed None, SendHello None, SendModelList (Unanswered ''refused'') None, Ticks None,
     Reads (Incoming ''server.job_request'' (Some lab_request)), Reads (Incoming ''server.job_request'' None),
     JobDone 1 lab_answer 0 None, JobDone 0 lab_answer 9 None]"



text \<open>What a node says, and in which order: whatever happens on a connection, the first message is its hello,
  a model list can only be the second, and all others are heartbeats and answers to jobs; nothing is said
  before the connection is open.\<close>

theorem session_in_order:
  assumes "run (session_step type_error host cfg) dialing es = Some s"
  shows "ns_sent s = [] \<or> (\<exists>l rest. ns_sent s = hello host cfg # l @ rest \<and> (l = [] \<or> (\<exists>ms. l = [model_list ms]))
       \<and> list_all (\<lambda>m. m = heartbeat \<or> is_answer m) rest)"
proof -
  have "session_inv type_error host cfg s" using assms by (rule node_sessions.run_inv)
  then have "ns_sent s = [] \<or> in_order host cfg (ns_sent s)"
    by (auto simp: session_inv_def stage_ok_def in_order_start split: stage.splits)
  then show ?thesis unfolding in_order_def later_message_def [abs_def] by blast
qed

theorem session_in_order_witness:
  "\<exists>s l rest. run (session_step (\<lambda>_. []) lab Default) dialing lab_events = Some s \<and> ns_sent s = hello lab Default # l @ rest"
proof -
  obtain s where s: "run (session_step (\<lambda>_. []) lab Default) dialing lab_events = Some s" "ns_sent s \<noteq> []"
    by (simp add: lab_events_def dialing_def Let_def split: sum.splits)
  with session_in_order [OF s(1)] show ?thesis by blast
qed

text \<open>The waits between attempts double from one second to thirty.\<close>

definition patient :: "string \<times> bool \<times> int \<times> string option \<Rightarrow> bool" where
  "patient a = (case a of (err, over, jitter, cancelled) \<Rightarrow> \<not> over \<and> cancelled = None \<and> 0 \<le> jitter \<and> jitter < 10 ^ 9)"

definition backoff_at :: "nat \<Rightarrow> int" where
  "backoff_at k = min (2 ^ k) 30 * 10 ^ 9"

lemma next_backoff_at: "next_backoff (backoff_at k) = backoff_at (Suc k)"
  by (auto simp: next_backoff_def backoff_at_def min_def)

lemma reconnects_patient:
  "list_all patient attempts \<Longrightarrow> snd (reconnects False (backoff_at j) attempts) = None
     \<and> length (fst (reconnects False (backoff_at j) attempts)) = length attempts
     \<and> (\<forall>k < length attempts. backoff_at (j + k) \<le> fst (reconnects False (backoff_at j) attempts) ! k
          \<and> fst (reconnects False (backoff_at j) attempts) ! k < backoff_at (j + k) + 10 ^ 9)"
proof (induction attempts arbitrary: j)
  case (Cons a attempts)
  obtain err jitter where a: "a = (err, False, jitter, None)" "0 \<le> jitter" "jitter < 10 ^ 9"
    using Cons.prems by (auto simp: patient_def)
  from Cons.IH [of "Suc j"] Cons.prems have ih: "snd (reconnects False (backoff_at (Suc j)) attempts) = None"
    "length (fst (reconnects False (backoff_at (Suc j)) attempts)) = length attempts"
    "\<And>k. k < length attempts \<Longrightarrow> backoff_at (Suc j + k) \<le> fst (reconnects False (backoff_at (Suc j)) attempts) ! k
       \<and> fst (reconnects False (backoff_at (Suc j)) attempts) ! k < backoff_at (Suc j + k) + 10 ^ 9" by auto
  show ?case
  proof (intro conjI allI impI)
    fix k assume k: "k < length (a # attempts)"
    show "backoff_at (j + k) \<le> fst (reconnects False (backoff_at j) (a # attempts)) ! k"
      "fst (reconnects False (backoff_at j) (a # attempts)) ! k < backoff_at (j + k) + 10 ^ 9"
      using k a ih(3) [of "k - 1"] by (cases k; simp add: next_backoff_at case_prod_beta)+
  qed (use a ih in \<open>simp_all add: next_backoff_at case_prod_beta\<close>)
qed simp

text \<open>C37: The node keeps trying: with a configuration that loads and a token of the right form, as long as the
  process is not stopped no number of failed connections makes \<open>Serve\<close> return, and before the next attempt
  it waits one, two, four, eight, sixteen and then thirty seconds, each time less than a second longer. The
  waits go on growing also after connections that worked: nothing sets them back.\<close>

theorem serve_keeps_trying:
  assumes "Load file = Inr cfg" "ValidProviderToken (cf_ProviderToken cfg)" "list_all patient attempts"
  shows "snd (Serve file False attempts) = None \<and> length (fst (Serve file False attempts)) = length attempts
     \<and> (\<forall>k < length attempts. min (2 ^ k) 30 * 10 ^ 9 \<le> fst (Serve file False attempts) ! k
          \<and> fst (Serve file False attempts) ! k < (min (2 ^ k) 30 + 1) * 10 ^ 9)"
proof -
  have "Serve file False attempts = reconnects False (backoff_at 0) attempts"
    using assms(1,2) by (simp add: Serve_def backoff_at_def)
  with reconnects_patient [OF assms(3), of 0] show ?thesis
    by (simp add: backoff_at_def algebra_simps)
qed

theorem serve_keeps_trying_witness:
  "snd (Serve (Inr (config_text home_config)) False (replicate 9 (''closed'', False, 5, None))) = None"
proof -
  have "Load (Inr (config_text home_config)) = Inr home_config"
  proof -
    have "short_lines home_config" by (simp add: short_texts home_config_def Default_def)
    moreover have "plain_config home_config" by code_simp
    ultimately show ?thesis by (simp add: written_loads reread_id)
  qed
  moreover have "ValidProviderToken (cf_ProviderToken home_config)" by (simp add: ValidProviderToken_def home_config_def)
  moreover have "list_all patient (replicate 9 (''closed'', False, 5, None))" by (simp add: list_all_iff patient_def)
  ultimately show ?thesis using serve_keeps_trying by blast
qed

text \<open>The interval of the heartbeat is positive for every number in the file, as the ticker demands, also
  when the product wraps; up to nine billion seconds it is the number of the file.\<close>

theorem heartbeat_interval_positive:
  "0 <s heartbeat_interval n \<and> (0 < sint n \<and> sint n \<le> 9 * 10 ^ 9 \<longrightarrow> sint (heartbeat_interval n) = sint n * 10 ^ 9)"
proof -
  have k: "sint (word_of_int k :: 64 word) = k" if "0 \<le> k" "k < 2 ^ 63" for k
    using that by (simp add: signed_of_int signed_take_bit_int_eq_self)
  have "sint (n * 1000000000) = sint n * 10 ^ 9" if "0 < sint n" "sint n \<le> 9 * 10 ^ 9"
    using k [of "sint n * 10 ^ 9"] that by simp
  moreover have "sint (n * 1000000000) = sint n * 10 ^ 9 \<Longrightarrow> 0 < sint n \<Longrightarrow> \<not> n * 1000000000 \<le>s 0"
    by (simp add: word_sle_eq)
  ultimately show ?thesis by (auto simp: heartbeat_interval_def Let_def word_sless_alt word_sle_eq)
qed

theorem heartbeat_interval_positive_witness: "sint (heartbeat_interval 15) = 15 * 10 ^ 9"
  using heartbeat_interval_positive [of 15] by simp

lemma step_unlimited: "session_step type_error host (cfg\<lparr>cf_AllowedModelSlugs := slugs, cf_MaxConcurrentJobs := n, cf_AllowAutoModelPull := b\<rparr>) s e
    = session_step type_error host cfg s e"
  by (cases e) (simp_all add: hello_def split: option.splits)

text \<open>The limits of the configuration are not enforced: a node behaves in the same way whatever models its
  owner allows and however many jobs at a time, so that it runs a model that is not on the list, and for
  every number there is a state in which so many jobs are under way at once.\<close>

theorem limits_not_enforced:
  "run (session_step type_error host (cfg\<lparr>cf_AllowedModelSlugs := slugs, cf_MaxConcurrentJobs := n, cf_AllowAutoModelPull := b\<rparr>)) dialing es
     = run (session_step type_error host cfg) dialing es
   \<and> (\<exists>fs s. run (session_step type_error host cfg) dialing fs = Some s \<and> length (ns_jobs s) = k)"
proof
  have "session_step type_error host (cfg\<lparr>cf_AllowedModelSlugs := slugs, cf_MaxConcurrentJobs := n, cf_AllowAutoModelPull := b\<rparr>)
      = session_step type_error host cfg"
    by (intro ext) (rule step_unlimited)
  then show "run (session_step type_error host (cfg\<lparr>cf_AllowedModelSlugs := slugs, cf_MaxConcurrentJobs := n, cf_AllowAutoModelPull := b\<rparr>)) dialing es
     = run (session_step type_error host cfg) dialing es" by simp
  have more: "ns_stage s = Serving \<Longrightarrow> ns_reading s \<Longrightarrow>
      \<exists>t. run (session_step type_error host cfg) s (replicate k (Reads (Incoming ''server.job_request'' (Some lab_request)))) = Some t
        \<and> length (ns_jobs t) = length (ns_jobs s) + k" for s
  proof (induction k arbitrary: s)
    case (Suc k)
    from Suc.IH [of "s\<lparr>ns_jobs := ns_jobs s @ [Some lab_request], ns_received := ns_received s @ [Some lab_request]\<rparr>"] Suc.prems
    show ?case by auto
  qed simp
  obtain s where s: "run (session_step type_error host cfg) dialing [Dialed None, SendHello None, SendModelList (Unanswered []) None] = Some s"
    "ns_stage s = Serving" "ns_reading s" "ns_jobs s = []"
    by (simp add: dialing_def)
  from more [OF s(2,3)] s(4) obtain t where t: "length (ns_jobs t) = k"
    "run (session_step type_error host cfg) s (replicate k (Reads (Incoming ''server.job_request'' (Some lab_request)))) = Some t" by auto
  have "run (session_step type_error host cfg) dialing ([Dialed None, SendHello None, SendModelList (Unanswered []) None]
      @ replicate k (Reads (Incoming ''server.job_request'' (Some lab_request)))) = Some t"
    by (simp only: run_append s(1) t(2) option.case)
  with t(1) show "\<exists>fs s. run (session_step type_error host cfg) dialing fs = Some s \<and> length (ns_jobs s) = k" by blast
qed

end
