(* ===== verification/NodeDialog.thy ===== *)
theory NodeDialog
  imports NodeProgram Hub Nodes
begin

text \<open>
  The server and the provider node talk: the messages that \<open>ProviderWS\<close> in \<open>apps/api/internal/handler/handlers.go\<close>
  reads, with the payloads of \<open>ws/protocol.go\<close> and \<open>ws/hub.go\<close>, and the job request that \<open>Dispatch\<close> writes,
  put together with the program of the node. Both sides declare their messages on their own; the lemmas
  here show that what one writes the other reads.
\<close>

section \<open>What the server writes\<close>

text \<open>The request of a job, as the chat handler fills it in; the keys of a map are written in their order.\<close>

definition job_request_message :: "string \<Rightarrow> string \<Rightarrow> string \<Rightarrow> (string \<times> string) list \<Rightarrow> rat option \<Rightarrow> int \<Rightarrow> int \<Rightarrow> envelope" where
  "job_request_message jobID slug name messages temperature maxTokens timeout = (''server.job_request'',
     VObj [(''job_id'', VStr jobID), (''model_slug'', VStr slug), (''runtime'', VStr ''ollama''),
       (''runtime_model_name'', VStr name), (''messages'', VArr (map message_value messages)),
       (''parameters'', VObj [(''max_tokens'', VNum (of_int maxTokens)),
          (''temperature'', case temperature of None \<Rightarrow> VNull | Some q \<Rightarrow> VNum q)]),
       (''timeout_seconds'', VNum (of_int timeout))])"

section \<open>What the server reads\<close>

fun as_string_pointer :: "json_value \<Rightarrow> string option option" where
  "as_string_pointer VNull = Some None"
| "as_string_pointer (VStr s) = Some (Some s)"
| "as_string_pointer _ = None"

text \<open>The payloads, in the form in which the loop of a connection takes them; a number that it does not use must
  be one all the same.\<close>

definition read_hello :: "json_value \<Rightarrow> (string \<times> string \<times> string \<times> string \<times> string) option" where
  "read_hello v = Option.bind (object_fields (Some v)) (\<lambda>kvs.
     Option.bind (as_string (field ''instance_key'' kvs)) (\<lambda>key.
     Option.bind (as_string (field ''app_version'' kvs)) (\<lambda>version.
     Option.bind (as_string (field ''hostname'' kvs)) (\<lambda>hostname.
     Option.bind (as_string (field ''os'' kvs)) (\<lambda>os.
     Option.bind (as_string (field ''arch'' kvs)) (\<lambda>arch.
     map_option (\<lambda>_. (key, hostname, os, arch, version)) (as_string (field ''ollama_url'' kvs))))))))"

definition read_heartbeat :: "json_value \<Rightarrow> (string \<times> string option) option" where
  "read_heartbeat v = Option.bind (object_fields (Some v)) (\<lambda>kvs.
     Option.bind (as_string (field ''status'' kvs)) (\<lambda>status.
     Option.bind (as_string_pointer (field ''current_job_id'' kvs)) (\<lambda>job.
     Option.bind (as_int (field ''queue_depth'' kvs)) (\<lambda>_.
     Option.bind (as_int (field ''gpu_utilization_percent'' kvs)) (\<lambda>_.
     Option.bind (as_int (field ''gpu_temperature_c'' kvs)) (\<lambda>_.
     map_option (\<lambda>_. (status, job)) (as_int (field ''available_vram_mb'' kvs))))))))"

definition read_gpu :: "json_value \<Rightarrow> (string \<times> int \<times> string) option" where
  "read_gpu v = Option.bind (object_fields (Some v)) (\<lambda>kvs.
     Option.bind (as_string (field ''name'' kvs)) (\<lambda>name.
     Option.bind (as_int (field ''vram_mb'' kvs)) (\<lambda>vram.
     map_option (\<lambda>driver. (name, vram, driver)) (as_string (field ''driver'' kvs)))))"

definition read_hardware :: "json_value \<Rightarrow> (string \<times> int \<times> (string \<times> int \<times> string) list) option" where
  "read_hardware v = Option.bind (object_fields (Some v)) (\<lambda>kvs.
     Option.bind (as_string (field ''cpu_model'' kvs)) (\<lambda>cpu.
     Option.bind (as_int (field ''ram_mb'' kvs)) (\<lambda>ram.
     map_option (\<lambda>gpus. (cpu, ram, gpus)) (as_list read_gpu (field ''gpus'' kvs)))))"

definition read_entry :: "json_value \<Rightarrow> (string \<times> string) option" where
  "read_entry v = Option.bind (object_fields (Some v)) (\<lambda>kvs.
     Option.bind (as_string (field ''runtime_model_name'' kvs)) (\<lambda>name.
     Option.bind (as_string (field ''digest'' kvs)) (\<lambda>digest.
     map_option (\<lambda>_. (name, digest)) (as_int (field ''size_bytes'' kvs)))))"

definition read_model_list :: "json_value \<Rightarrow> (string \<times> (string \<times> string) list) option" where
  "read_model_list v = Option.bind (object_fields (Some v)) (\<lambda>kvs.
     Option.bind (as_string (field ''runtime'' kvs)) (\<lambda>runtime.
     map_option (Pair runtime) (as_list read_entry (field ''models'' kvs))))"

definition read_usage :: "json_value \<Rightarrow> (int \<times> int) option option" where
  "read_usage v = (if v = VNull then Some None
     else Option.bind (object_fields (Some v)) (\<lambda>kvs.
       Option.bind (as_int (field ''prompt_tokens'' kvs)) (\<lambda>p.
       Option.bind (as_int (field ''completion_tokens'' kvs)) (\<lambda>c.
       Option.bind (as_int (field ''total_tokens'' kvs)) (\<lambda>_.
       map_option (\<lambda>_. Some (p, c)) (as_string (field ''source'' kvs)))))))"

definition read_result :: "json_value \<Rightarrow> job_result option" where
  "read_result v = Option.bind (object_fields (Some v)) (\<lambda>kvs.
     Option.bind (as_string (field ''job_id'' kvs)) (\<lambda>jobID.
     Option.bind (as_string (field ''content'' kvs)) (\<lambda>content.
     Option.bind (as_string (field ''finish_reason'' kvs)) (\<lambda>reason.
     Option.bind (read_usage (field ''usage'' kvs)) (\<lambda>usage.
     map_option (\<lambda>latency. \<lparr>rs_JobID = jobID, rs_Content = content, rs_FinishReason = reason, rs_Usage = usage,
       rs_LatencyMS = latency, rs_ErrorCode = [], rs_ErrorMessage = []\<rparr>) (as_int (field ''latency_ms'' kvs)))))))"

definition read_error :: "json_value \<Rightarrow> job_result option" where
  "read_error v = Option.bind (object_fields (Some v)) (\<lambda>kvs.
     Option.bind (as_string (field ''job_id'' kvs)) (\<lambda>jobID.
     Option.bind (as_string (field ''error_code'' kvs)) (\<lambda>code.
     map_option (job_error jobID code) (as_string (field ''error_message'' kvs)))))"

text \<open>The reported models as the map of the handler: one entry for a name, with the last digest. The order in which
  it is visited, with the draws for each entry, is an argument.\<close>

definition model_entries :: "(string \<times> string) list \<Rightarrow> (string \<times> string) list" where
  "model_entries ms = map (\<lambda>name. (name, the (map_of (rev ms) name))) (remdups (map fst ms))"

record draws =
  dw_served :: bool
  dw_now :: int
  dw_id :: string
  dw_public_id :: string
  dw_visit :: "(string \<times> string) list \<Rightarrow> (string \<times> string \<times> bool \<times> string \<times> string) list"

text \<open>Which part of the server a message goes to: the tables of the nodes, or the hub with a result.\<close>

definition receive :: "draws \<Rightarrow> envelope \<Rightarrow> node_message + job_result option" where
  "receive w m =
     (if fst m = ''provider.hello'' then Inl (Hello (dw_served w) (dw_now w) (dw_id w) (dw_public_id w) (read_hello (snd m)))
      else if fst m = ''provider.heartbeat'' then Inl (Beat (dw_served w) (dw_now w) (read_heartbeat (snd m)))
      else if fst m = ''provider.hardware_report'' then Inl (Hardware (dw_served w) (read_hardware (snd m)))
      else if fst m = ''provider.model_list''
      then Inl (Advertise (map_option (\<lambda>(runtime, ms). (runtime, dw_visit w (model_entries ms))) (read_model_list (snd m))))
      else if fst m = ''provider.job_result'' then Inr (read_result (snd m))
      else if fst m = ''provider.job_error'' then Inr (read_error (snd m))
      else Inl Unknown)"

text \<open>The loop of a connection over the messages that arrive, without the results of jobs, which leave the
  tables and the connection alone.\<close>

fun listen :: "node_conn \<Rightarrow> node_tables \<Rightarrow> (draws \<times> envelope) list \<Rightarrow> node_reply list \<times> node_conn \<times> node_tables" where
  "listen c t [] = ([], c, t)"
| "listen c t ((w, m) # ms) =
     (case receive w m of
        Inr r \<Rightarrow> listen c t ms
      | Inl x \<Rightarrow> (let (rs, c', t') = ProviderWS c x t; (rs', c'', t'') = listen c' t' ms in (rs @ rs', c'', t'')))"

definition bearerFromHeader :: "string \<Rightarrow> string" where
  "bearerFromHeader h = (if prefix ''Bearer '' h then TrimSpace (drop 7 h) else [])"

section \<open>What one side writes the other reads\<close>

lemma in64_wrap64: "in64 (wrap64 i)"
  using sint_ge [of "word_of_int i :: 64 word"] sint_lt [of "word_of_int i :: 64 word"]
  by (simp add: in64_def clamp64_def wrap64_def)

lemmas wire_simps = field_Cons key_simps

lemma hello_read: "read_hello (snd (hello host cfg))
    = Some (cf_InstanceKey cfg, ho_Hostname host, ho_OS host, ho_Arch host, ''dev'')"
  by (simp add: read_hello_def hello_def wire_simps)

lemma heartbeat_read: "read_heartbeat (snd heartbeat) = Some (''online'', None)"
  by (simp add: read_heartbeat_def heartbeat_def wire_simps)

lemma entry_read: "in64 (snd (snd m)) \<Longrightarrow> read_entry (model_entry m) = Some (normalizeRuntimeModelName (fst m), fst (snd m))"
  by (cases m) (simp add: read_entry_def model_entry_def wire_simps)

lemma those_Some: "list_all (\<lambda>x. f x = Some (g x)) xs \<Longrightarrow> those (map f xs) = Some (map g xs)"
  by (induction xs) auto

lemma model_list_read:
  assumes "list_all (\<lambda>m. in64 (snd (snd m))) ms"
  shows "read_model_list (snd (model_list ms))
    = Some (''ollama'', map (\<lambda>m. (normalizeRuntimeModelName (fst m), fst (snd m))) ms)"
proof -
  have "list_all (\<lambda>m. read_entry (model_entry m) = Some (normalizeRuntimeModelName (fst m), fst (snd m))) ms"
    using assms by (auto simp: list_all_iff entry_read)
  then show ?thesis
    by (simp add: read_model_list_def model_list_def wire_simps those_Some comp_def)
qed

lemma message_read: "as_message (message_value m) = Some m"
  by (simp add: as_message_def message_value_def wire_simps)

lemma job_request_read:
  assumes "in64 maxTokens" "in64 timeout"
  shows "read_job (Some (snd (job_request_message jobID slug name messages temperature maxTokens timeout)))
     = Some \<lparr>jq_JobID = jobID, jq_ModelSlug = slug, jq_Runtime = ''ollama'', jq_RuntimeModelName = name,
         jq_Messages = messages, jq_Temperature = temperature, jq_MaxTokens = maxTokens, jq_TopP = None,
         jq_TimeoutSeconds = timeout\<rparr>"
proof -
  have "those (map (as_message \<circ> message_value) messages) = Some (map (\<lambda>m. m) messages)"
    by (rule those_Some) (simp add: list_all_iff message_read)
  with assms show ?thesis
    by (cases temperature) (simp_all add: read_job_def job_request_message_def wire_simps)
qed

lemma chat_in64: "Chat type_error t = Inr r \<Longrightarrow> in64 (cr_PromptEvalCount r) \<and> in64 (cr_EvalCount r)"
  by (auto simp: Chat_def decode_body_def as_chat_response_def and_then_eq_Inr bind_eq_Some_conv as_int_range
      split: transport.splits if_splits option.splits)

lemma result_read:
  assumes "in64 p" "in64 c" "in64 latency"
  shows "read_result (snd (job_result_message jobID content (p, c) latency)) = Some \<lparr>rs_JobID = jobID, rs_Content = content,
     rs_FinishReason = ''stop'', rs_Usage = Some (p, c), rs_LatencyMS = latency, rs_ErrorCode = [], rs_ErrorMessage = []\<rparr>"
proof -
  have "read_usage (usage_value p c) = Some (Some (p, c))"
    using assms by (simp add: read_usage_def usage_value_def wire_simps in64_wrap64)
  with assms show ?thesis
    by (simp add: read_result_def job_result_message_def wire_simps)
qed

lemma error_read: "read_error (snd (job_error_message jobID code message)) = Some (job_error jobID code message)"
  by (simp add: read_error_def job_error_message_def wire_simps)

text \<open>What the server reads of the answer to a job.\<close>

definition outcome_of :: "(json_value \<Rightarrow> string) \<Rightarrow> string \<Rightarrow> transport \<Rightarrow> int \<Rightarrow> job_result" where
  "outcome_of type_error jobID t latency = (case Chat type_error t of
       Inl e \<Rightarrow> job_error jobID ''ollama_failed'' e
     | Inr r \<Rightarrow> \<lparr>rs_JobID = jobID, rs_Content = cr_Content r, rs_FinishReason = ''stop'',
         rs_Usage = Some (cr_PromptEvalCount r, cr_EvalCount r), rs_LatencyMS = latency, rs_ErrorCode = [], rs_ErrorMessage = []\<rparr>)"

lemma answer_received:
  assumes "in64 maxTokens" "in64 timeout" "in64 latency"
  shows "\<exists>m. executeJob type_error (Some (snd (job_request_message jobID slug name messages temperature maxTokens timeout))) t latency
       = Some m \<and> receive w m = Inr (Some (outcome_of type_error jobID t latency))"
proof (cases "Chat type_error t")
  case (Inl e)
  then show ?thesis
    by (simp add: executeJob_def job_request_read [OF assms(1,2)] receive_def error_read outcome_of_def)
      (simp add: job_error_message_def)
next
  case (Inr r)
  with chat_in64 [OF Inr] assms(3) show ?thesis
    by (simp add: executeJob_def job_request_read [OF assms(1,2)] receive_def result_read outcome_of_def)
      (simp add: job_result_message_def)
qed

section \<open>The messages of a connection\<close>

lemma heard_heartbeat:
  assumes "wc_instance c = Some x" "receive w heartbeat = Inl y"
  shows "\<exists>t'. ProviderWS c y t = (if dw_served w then [] else [WsError ''heartbeat_failed''], c, t')"
proof -
  have "y = Beat (dw_served w) (dw_now w) (Some (''online'', None))"
    using assms(2) heartbeat_read by (simp add: receive_def) (simp add: heartbeat_def)
  with assms(1) show ?thesis by (simp add: Heartbeat_def reply_unless_def)
qed

lemma heard_model_list:
  assumes "wc_instance c = Some x" "list_all (\<lambda>m. in64 (snd (snd m))) ms"
  shows "\<exists>y rs t'. receive w (model_list ms) = Inl y \<and> ProviderWS c y t = (rs, c, t') \<and> set rs \<subseteq> {WsError ''model_list_failed''}"
proof -
  obtain vs where y: "receive w (model_list ms) = Inl (Advertise (Some (''ollama'', vs)))"
    using model_list_read [OF assms(2)] by (simp add: receive_def) (simp add: model_list_def)
  obtain r t' where "ModelList (wc_provider c) x ''ollama'' vs t = (r, t')" by fastforce
  with assms(1) have "ProviderWS c (Advertise (Some (''ollama'', vs))) t = (reply_unless ''model_list_failed'' r, c, t')" by simp
  moreover have "set (reply_unless ''model_list_failed'' r) \<subseteq> {WsError ''model_list_failed''}"
    by (cases r) (simp_all add: reply_unless_def)
  ultimately show ?thesis using y by blast
qed

lemma heard_answer: "is_answer m \<Longrightarrow> \<exists>r. receive w m = Inr r"
  by (auto simp: is_answer_def receive_def)

lemma listen_later:
  "list_all later_message ms \<Longrightarrow> wc_instance c = Some x \<Longrightarrow> length ws = length ms \<Longrightarrow> listen c t (zip ws ms) = (rs, c', t')
    \<Longrightarrow> c' = c \<and> set rs \<subseteq> {WsError ''heartbeat_failed''} \<and> (list_all dw_served ws \<longrightarrow> rs = [])"
proof (induction ms arbitrary: ws t rs c' t')
  case (Cons m ms)
  then obtain w ws' where ws: "ws = w # ws'" "length ws' = length ms" by (cases ws) auto
  show ?case
  proof (cases "is_answer m")
    case True
    then obtain r where "receive w m = Inr r" using heard_answer by blast
    with Cons ws show ?thesis by simp
  next
    case False
    with Cons.prems(1) have m: "m = heartbeat" by (simp add: later_message_def)
    obtain y where y: "receive w heartbeat = Inl y" by (simp add: receive_def heartbeat_def)
    from heard_heartbeat [OF Cons.prems(2) y, of t] obtain t1 where
      t1: "ProviderWS c y t = (if dw_served w then [] else [WsError ''heartbeat_failed''], c, t1)" ..
    obtain rs' c2 t2 where l: "listen c t1 (zip ws' ms) = (rs', c2, t2)" by (metis prod_cases3)
    from Cons.IH [OF _ Cons.prems(2) ws(2) l] Cons.prems(1,4) show ?thesis
      by (auto simp: ws m y t1 l split: if_splits)
  qed
qed simp

lemma listen_append: "listen c t (xs @ ys) = (let (rs, c', t') = listen c t xs; (rs', c'', t'') = listen c' t' ys in (rs @ rs', c'', t''))"
  by (induction xs arbitrary: c t) (auto simp: case_prod_beta Let_def split: sum.splits)

text \<open>The hello is accepted when its statement is served and the drawn ids are new.\<close>

definition fresh :: "draws \<Rightarrow> node_tables \<Rightarrow> bool" where
  "fresh w t \<longleftrightarrow> dw_served w \<and> dw_id w \<notin> ni_id ` set (nt_instances t) \<and> dw_public_id w \<notin> ni_public_id ` set (nt_instances t)"

lemma heard_hello:
  assumes "TrimSpace (cf_InstanceKey cfg) \<noteq> []" "fresh w t"
  shows "\<exists>y x t'. receive w (hello host cfg) = Inl y
     \<and> ProviderWS c y t = ([HelloAck (np_public_id (wc_provider c)) (ni_public_id x) (np_approval_status (wc_provider c))], c\<lparr>wc_instance := Some x\<rparr>, t')
     \<and> ni_provider_id x = np_id (wc_provider c) \<and> ni_instance_key x = cf_InstanceKey cfg \<and> ni_status x = ''online''
     \<and> ni_hostname x = ho_Hostname host \<and> ni_app_version x = ''dev''"
proof -
  have y: "receive w (hello host cfg) = Inl (Hello (dw_served w) (dw_now w) (dw_id w) (dw_public_id w)
      (Some (cf_InstanceKey cfg, ho_Hostname host, ho_OS host, ho_Arch host, ''dev'')))"
    using hello_read [of host cfg] by (simp add: receive_def) (simp add: hello_def)
  have k: "cf_InstanceKey cfg \<noteq> []" using assms(1) by auto
  let ?hello = "(cf_InstanceKey cfg, ho_Hostname host, ho_OS host, ho_Arch host, ''dev'')"
  have "\<exists>x t'. UpsertInstance (dw_served w) (dw_now w) (dw_id w) (dw_public_id w) (wc_provider c) ?hello t = (Inr x, t')
     \<and> ni_provider_id x = np_id (wc_provider c) \<and> ni_instance_key x = cf_InstanceKey cfg \<and> ni_status x = ''online''
     \<and> ni_hostname x = ho_Hostname host \<and> ni_app_version x = ''dev''"
  proof (cases "find (\<lambda>x. ni_provider_id x = np_id (wc_provider c) \<and> ni_instance_key x = cf_InstanceKey cfg) (nt_instances t)")
    case None
    with assms show ?thesis by (simp add: UpsertInstance_def fresh_def image_iff Let_def) metis
  next
    case (Some x)
    with find_SomeD [OF Some] assms show ?thesis by (simp add: UpsertInstance_def fresh_def Let_def)
  qed
  with y k show ?thesis by fastforce
qed

section \<open>Properties\<close>



text \<open>A node of the net with a model in its runtime talks to the server.\<close>

definition lab_tags :: transport where
  "lab_tags = Answered_with 200 (Inr (VObj [(''models'', VArr [VObj [(''name'', VStr ''qwen:latest''), (''size'', VNum 7)]])]))"

definition lab_talk :: "session_event list" where
  "lab_talk = [Dialed None, SendHello None, SendModelList lab_tags None, Ticks None]"

definition lab_session :: node_session where
  "lab_session = the (run (session_step (\<lambda>_. []) lab home_config) dialing lab_talk)"

definition lab_draws :: "string \<Rightarrow> draws" where
  "lab_draws i = \<lparr>dw_served = True, dw_now = 9, dw_id = i, dw_public_id = i, dw_visit = map (\<lambda>(n, d). (n, d, True, n, n))\<rparr>"

lemma lab_run: "run (session_step (\<lambda>_. []) lab home_config) dialing lab_talk = Some lab_session"
proof -
  have "run (session_step (\<lambda>_. []) lab home_config) dialing lab_talk \<noteq> None" by code_simp
  then show ?thesis by (auto simp: lab_session_def)
qed



section \<open>Enrolment\<close>

text \<open>The bytes of the random parts of a token.\<close>

definition token_char :: "char \<Rightarrow> bool" where
  "token_char c \<longleftrightarrow> is_word c \<or> c = CHR ''-''"

lemma token_char_plain: "token_char c \<Longrightarrow> plain_char c \<and> solid c \<and> c \<noteq> CHR 0x27"
  by (auto simp: token_char_def is_word_def is_lower_def is_upper_def is_digit_def byte_in_def plain_char_def solid_def)

lemma token_text:
  assumes "list_all token_char (pre @ secret)"
  shows "plain (provider_token pre secret)" "TrimSpace (provider_token pre secret) = provider_token pre secret"
    "ValidProviderToken (provider_token pre secret)"
proof -
  let ?t = "provider_token pre secret"
  have all: "list_all token_char ?t"
    using assms by (simp add: provider_token_def token_char_def is_word_def is_lower_def byte_in_def)
  have ne: "?t \<noteq> []" by (simp add: provider_token_def)
  have each: "plain_char c \<and> solid c \<and> c \<noteq> CHR 0x27" if "c \<in> set ?t" for c
    using all that by (simp add: list_all_iff token_char_plain)
  note ends = each [OF hd_in_set [OF ne]] each [OF last_in_set [OF ne]]
  show "plain ?t" unfolding plain_def list_all_iff using each ends by blast
  show "TrimSpace ?t = ?t" using ne ends by (blast intro: TrimSpace_solid)
  show "ValidProviderToken ?t" by (simp add: ValidProviderToken_def provider_token_def length_fields)
qed

text \<open>C17: From the dashboard to a connected node: the token that the server hands out when a node is created is
  accepted by \<open>init\<close>; the file that \<open>init\<close> then writes is accepted by \<open>serve\<close>; and the header that \<open>serve\<close>
  sends opens a connection for exactly the node that was created, with an instance key that the server
  takes.\<close>

theorem node_enrols:
  assumes "CreateProvider sha pepper dev served i pid wid pre secret user name region auto t = (Inr (p, token), t')"
    "list_all token_char (pre @ secret)"
    "parse_flags init_flags init_defaults args = Inr v" "v ''token'' = token"
  shows "\<exists>path yaml. Init (Inr home) None drawn args = Inr (path, yaml)
     \<and> (list_all (\<lambda>l. length l < 65536) (raw_lines yaml) \<longrightarrow>
         (\<exists>cfg. Load (Inr yaml) = Inr cfg \<and> ValidProviderToken (cf_ProviderToken cfg) \<and> TrimSpace (cf_InstanceKey cfg) \<noteq> []
            \<and> ResolveToken sha pepper True (bearerFromHeader (''Bearer '' @ cf_ProviderToken cfg)) t' = Inr (p\<lparr>np_wallet_id := Some wid\<rparr>)))"
proof -
  have token: "token = provider_token pre secret"
    using assms(1) by (cases rule: CreateProvider_cases [of sha pepper dev served i pid wid pre secret user name region auto t]) auto
  note tok = token_text [OF assms(2), folded token]
  obtain path yaml where yaml: "Init (Inr home) None drawn args = Inr (path, yaml)"
    using assms(3,4) tok(3) by (cases "v ''config'' = []") (simp_all add: Init_def DefaultPath_def Write_config_def)
  from yaml obtain c where c: "yaml = config_text c" "cf_InstanceKey c = ''inst_'' @ drawn"
    and t: "\<exists>w. parse_flags init_flags init_defaults args = Inr w \<and> cf_ProviderToken c = w ''token''"
    by (rule Init_Inr) blast
  have ct: "cf_ProviderToken c = token" using t assms(3,4) by simp
  have r: "ResolveToken sha pepper True (bearerFromHeader (''Bearer '' @ token)) t' = Inr (p\<lparr>np_wallet_id := Some wid\<rparr>)"
    using node_token_roundtrip [OF assms(1)] tok(2) by (simp add: bearerFromHeader_def)
  have "\<exists>cfg. Load (Inr yaml) = Inr cfg \<and> ValidProviderToken (cf_ProviderToken cfg) \<and> TrimSpace (cf_InstanceKey cfg) \<noteq> []
      \<and> ResolveToken sha pepper True (bearerFromHeader (''Bearer '' @ cf_ProviderToken cfg)) t' = Inr (p\<lparr>np_wallet_id := Some wid\<rparr>)"
    if "list_all (\<lambda>l. length l < 65536) (raw_lines yaml)"
  proof -
    have "Load (Inr yaml) = Inr (reread c)" using that c(1) by (simp add: short_written written_loads)
    moreover have "cf_ProviderToken (reread c) = token" using ct reread_plain [OF tok(1)] by (simp add: reread_def)
    moreover have "TrimSpace (cf_InstanceKey (reread c)) \<noteq> []" by (rule reread_key(2) [OF c(2)])
    ultimately show ?thesis using tok(3) r by metis
  qed
  with yaml show ?thesis by blast
qed

theorem node_enrols_witness:
  "\<exists>p token yaml cfg. fst (CreateProvider (\<lambda>t. t) [] False True ''2'' ''prv_2'' ''w2'' ''u'' ''w'' (net_user ''o'' ''user'') ''Two'' None False (nx_tables net))
       = Inr (p, token)
     \<and> Init (Inr ''/home/o'') None ''k'' [''--token'', token] = Inr (''/home/o/.nuvonode-provider/config.yaml'', yaml)
     \<and> Load (Inr yaml) = Inr cfg \<and> np_public_id p = ''prv_2''"
proof -
  let ?r = "CreateProvider (\<lambda>t. t) [] False True ''2'' ''prv_2'' ''w2'' ''u'' ''w'' (net_user ''o'' ''user'') ''Two'' None False (nx_tables net)"
  have "case fst ?r of Inl e \<Rightarrow> False | Inr (p, t) \<Rightarrow> t = ''pvn_provider_u_w'' \<and> np_public_id p = ''prv_2''" by code_simp
  then obtain p where p: "fst ?r = Inr (p, ''pvn_provider_u_w'')" "np_public_id p = ''prv_2''" by (auto split: sum.splits)
  then have r: "?r = (Inr (p, ''pvn_provider_u_w''), snd ?r)" by (simp add: prod_eq_iff)
  let ?v = "init_defaults(''token'' := ''pvn_provider_u_w'')"
  have v: "parse_flags init_flags init_defaults [''--token'', ''pvn_provider_u_w''] = Inr ?v" by (simp add: init_flags_def)
  have tc: "list_all token_char (''u'' @ ''w'')" by (simp add: token_char_def is_word_def is_lower_def byte_in_def)
  from node_enrols [OF r tc v, of "''/home/o''" "''k''"] obtain path yaml where
    i: "Init (Inr ''/home/o'') None ''k'' [''--token'', ''pvn_provider_u_w''] = Inr (path, yaml)"
    and l: "list_all (\<lambda>l. length l < 65536) (raw_lines yaml) \<longrightarrow> (\<exists>cfg. Load (Inr yaml) = Inr cfg)" by auto
  from i have f: "path = ''/home/o/.nuvonode-provider/config.yaml''"
    and written: "yaml = config_text (Default\<lparr>cf_ProviderToken := ''pvn_provider_u_w'', cf_ProviderName := ''Local Provider'', cf_InstanceKey := ''inst_k''\<rparr>)"
    unfolding Init_def v
    by (simp_all add: ValidProviderToken_def DefaultPath_def Write_config_def with_key_def Default_def init_defaults_def)
  have "list_all (\<lambda>l. length l < 65536) (raw_lines yaml)"
    unfolding written short_written by (simp add: short_texts Default_def)
  with p i l f show ?thesis by blast
qed

end
