(* ===== verification/CreditsFlow.thy ===== *)
theory CreditsFlow
  imports CreditsPage Accounts "HOL-Library.Multiset"
begin

text \<open>
  From the ledger to the credit page: the handlers \<open>Wallet\<close> and \<open>Ledger\<close> of
  \<open>apps/api/internal/handler/handlers.go\<close> with their services and statements, and the page that shows what
  they answer. The ids and times of the entries come by their position; rows of one transaction have the same
  time, so the order of the list is an argument that keeps the entries.
\<close>

section \<open>Handlers\<close>

definition UserWallet :: "bool \<Rightarrow> string \<Rightarrow> db \<Rightarrow> svc_error + wallet_row" where
  "UserWallet served userPublicID d =
     (if \<not> served then Inl (DbError ''unavailable'')
      else case wallet_of_public userPublicID d of None \<Rightarrow> Inl ErrNotFound | Some w \<Rightarrow> Inr w)"

definition entry_json :: "string \<times> string \<Rightarrow> ledger_row \<Rightarrow> ledger_entry" where
  "entry_json m r = \<lparr>le_id = fst m, le_entry_type = lr_entry_type r, le_amount_credits = sint (lr_amount r),
     le_reserved_delta = sint (lr_reserved_delta r), le_balance_after = sint (lr_balance_after r),
     le_reserved_after = sint (lr_reserved_after r), le_reason = Some (lr_reason r), le_created_at = snd m\<rparr>"

definition LedgerForWallet :: "(nat \<Rightarrow> string \<times> string) \<Rightarrow> (ledger_entry list \<Rightarrow> ledger_entry list) \<Rightarrow> bool \<Rightarrow> string \<Rightarrow> db
    \<Rightarrow> svc_error + ledger_entry list" where
  "LedgerForWallet meta newest_first served walletID d =
     (if \<not> served then Inl (DbError ''unavailable'')
      else Inr (take 100 (newest_first (map (\<lambda>(k, r). entry_json (meta k) r) (enumerate 0 (entries_of walletID d))))))"

definition WalletHandler :: "bool \<Rightarrow> string \<Rightarrow> user_row \<Rightarrow> db \<Rightarrow> wallet http" where
  "WalletHandler served requestID user d = (case UserWallet served (ur_public_id user) d of
       Inl e \<Rightarrow> Handle requestID \<lparr>w_balance = None, w_disclaimer = None\<rparr> e
     | Inr w \<Rightarrow> OK \<lparr>w_balance = Some (sint (wr_balance w)),
         w_disclaimer = Some (tr ''Kazand&imath;&gbreve;&imath;n kredileri API isteklerinde kullanabilirsin.'')\<rparr>)"

text \<open>A list that no row was appended to is nil and is sent as \<open>null\<close>.\<close>

definition nil_null :: "'a list \<Rightarrow> 'a list option" where
  "nil_null xs = (if xs = [] then None else Some xs)"

lemma arrayOrEmpty_nil_null [simp]: "arrayOrEmpty (nil_null xs) = xs"
  by (simp add: nil_null_def arrayOrEmpty_def)

definition LedgerHandler :: "(nat \<Rightarrow> string \<times> string) \<Rightarrow> (ledger_entry list \<Rightarrow> ledger_entry list) \<Rightarrow> bool \<Rightarrow> bool \<Rightarrow> string
    \<Rightarrow> user_row \<Rightarrow> db \<Rightarrow> ledger_entry list option http" where
  "LedgerHandler meta newest_first served1 served2 requestID user d = (case UserWallet served1 (ur_public_id user) d of
       Inl e \<Rightarrow> Handle requestID None e
     | Inr w \<Rightarrow> (case LedgerForWallet meta newest_first served2 (wr_id w) d of
         Inl e \<Rightarrow> Handle requestID None e
       | Inr entries \<Rightarrow> OK (nil_null entries)))"

section \<open>What the entries mean\<close>

text \<open>The type of an entry says what it does: reservations and releases move credits between the two sums, a
  debit takes some, a grant or a reward adds some, and only an adjustment can go either way.\<close>

definition row_sound :: "ledger_row \<Rightarrow> bool" where
  "row_sound r \<longleftrightarrow>
     (lr_entry_type r = ''reserve'' \<or> lr_entry_type r = ''release_reserve'') \<and> sint (lr_reserved_delta r) = - sint (lr_amount r)
   \<or> (lr_entry_type r = ''grant'' \<or> lr_entry_type r = ''credit_provider_reward'') \<and> lr_reserved_delta r = 0 \<and> 0 \<le> sint (lr_amount r)
   \<or> lr_entry_type r = ''debit_usage'' \<and> lr_reserved_delta r = 0 \<and> sint (lr_amount r) \<le> 0
   \<or> lr_entry_type r = ''admin_adjustment'' \<and> lr_reserved_delta r = 0"

definition ledger_sound :: "db \<Rightarrow> bool" where
  "ledger_sound d \<longleftrightarrow> list_all row_sound (db_ledger d) \<and> distinct (map wr_id (db_wallets d))"

lemma addLedger_wallets: "addLedger i t a r re c d = Inr d' \<Longrightarrow> map wr_id (db_wallets d') = map wr_id (db_wallets d)"
  by (auto simp: addLedger_def Let_def map_key_update_by split: option.splits if_splits)

lemma addLedger_sound:
  assumes "ledger_sound d" "addLedger i t a r re c d = Inr d'"
    "row_sound \<lparr>lr_wallet_id = i, lr_entry_type = t, lr_amount = a, lr_reserved_delta = r, lr_balance_after = b,
       lr_reserved_after = v, lr_reason = re, lr_created_by = c\<rparr>"
  shows "ledger_sound d'"
  using addLedger_row [OF assms(2)] addLedger_wallets [OF assms(2)] assms(1,3) by (auto simp: ledger_sound_def row_sound_def)

lemma ledger_if_sound:
  assumes "ledger_sound d" "ledger_if cond i t a r re d = Inr d'"
    "cond \<Longrightarrow> row_sound \<lparr>lr_wallet_id = i, lr_entry_type = t, lr_amount = a, lr_reserved_delta = r, lr_balance_after = 0,
       lr_reserved_after = 0, lr_reason = re, lr_created_by = None\<rparr>"
  shows "ledger_sound d'"
  using assms(1,2) addLedger_sound [OF assms(1) _ assms(3)] by (auto simp: ledger_if_def split: if_splits)

text \<open>A first grant is not negative: the wallet is new and may not go below zero.\<close>

lemma grant_nonneg:
  assumes "CreateWallet wid ot oi d = Inr d1" "addLedger wid t a 0 re c d1 = Inr d2"
  shows "0 \<le> sint a"
proof -
  have "wallet_by_id wid d = None"
    using assms(1) by (auto simp: CreateWallet_def wallet_by_id_def find_None_iff split: if_splits)
  then have "wallet_by_id wid d1 = Some \<lparr>wr_id = wid, wr_owner_type = ot, wr_owner_id = oi, wr_balance = 0, wr_reserved = 0\<rparr>"
    using assms(1) by (auto simp: CreateWallet_def wallet_by_id_def intro!: find_last simp: find_None_iff split: if_splits)
  with assms(2) show ?thesis
    by (auto simp: addLedger_def Let_def sless_sint split: if_splits)
qed

lemma CreateWallet_sound: "ledger_sound d \<Longrightarrow> CreateWallet wid ot oi d = Inr d' \<Longrightarrow> ledger_sound d'"
  by (auto simp: CreateWallet_def ledger_sound_def split: if_splits)

lemma Register_sound: "ledger_sound d \<Longrightarrow> ledger_sound (snd (Register cfg hash uid pid wid served e p n d))"
proof -
  assume d: "ledger_sound d"
  have "ledger_sound d3" if "CreateUser u d = Inr d1" "CreateWallet wid ''user'' uid d1 = Inr d2"
     "addLedger wid ''grant'' a 0 ''starting_free_credits'' None d2 = Inr d3" for u d1 d2 d3 a
  proof -
    have "ledger_sound d1" using d CreateUser_frame [OF that(1)] by (simp add: ledger_sound_def)
    from addLedger_sound [OF CreateWallet_sound [OF this that(2)] that(3)] grant_nonneg [OF that(2,3)]
    show ?thesis by (simp add: row_sound_def)
  qed
  with d show ?thesis
    unfolding Register_def Let_def
    by (auto split: option.split intro!: InTx_inv [where P = ledger_sound] simp: and_then_Inr simp del: if_split)
qed

lemma AdjustWallet_sound: "ledger_sound d \<Longrightarrow> ledger_sound (snd (AdjustWallet served u t a re d))"
proof -
  assume d: "ledger_sound d"
  have "ledger_sound d2" if "addLedger i ''admin_adjustment'' a 0 r c d = Inr d2" for i r c d2
    using addLedger_sound [OF d that] by (simp add: row_sound_def)
  then have "ledger_sound (d2\<lparr>db_audit := x\<rparr>)" if "addLedger i ''admin_adjustment'' a 0 r c d = Inr d2" for i r c d2 x
    using that by (simp add: ledger_sound_def)
  with d show ?thesis
    unfolding AdjustWallet_def AdminAdjust_def Let_def
    by (auto split: option.splits intro!: InTx_inv [where P = ledger_sound] simp: and_then_Inr simp del: append.simps)
qed

lemma ReserveForUser_sound: "ledger_sound d \<Longrightarrow> ledger_sound (snd (ReserveForUser served i a re d))"
proof -
  assume d: "ledger_sound d"
  have "ledger_sound d2" if "addLedger w ''reserve'' (- a) a re None d = Inr d2" "\<not> a \<le>s 0" for w d2
    using addLedger_sound [OF d that(1)] that(2) sint_neg [of a] by (simp add: row_sound_def sless_sint)
  with d show ?thesis
    unfolding ReserveForUser_def by (auto split: option.splits intro!: InTx_inv [where P = ledger_sound])
qed

lemma Release_sound: "ledger_sound d \<Longrightarrow> ledger_sound (snd (Release served w a re d))"
proof -
  assume d: "ledger_sound d"
  have "ledger_sound d2" if "addLedger w ''release_reserve'' a (- a) re None d = Inr d2" "\<not> a \<le>s 0" for d2
    using addLedger_sound [OF d that(1)] that(2) sint_neg [of a] by (simp add: row_sound_def sless_sint)
  with d show ?thesis
    unfolding Release_def by (auto intro!: InTx_inv [where P = ledger_sound])
qed

lemma FinalizeUsage_sound: "ledger_sound d \<Longrightarrow> ledger_sound (snd (FinalizeUsage served x d))"
proof -
  assume d: "ledger_sound d"
  have "ledger_sound (job_succeeded x d4)"
    if "ledger_if (0 <s a1) i ''release_reserve'' a1 (- a1) e1 d = Inr d1" "ledger_if (0 <s a2) i ''debit_usage'' (- a2) 0 e2 d1 = Inr d2"
      "ledger_if (0 <s a3) i ''credit_provider_reward'' a3 0 e3 d2 = Inr d3" "record_usage x d3 = Inr d4"
    for a1 a2 a3 i e1 e2 e3 d1 d2 d3 d4
  proof -
    have "ledger_sound d1"
      by (rule ledger_if_sound [OF d that(1)]) (use sint_neg [of a1] in \<open>simp add: row_sound_def sless_sint\<close>)
    then have "ledger_sound d2"
      by (rule ledger_if_sound [OF _ that(2)]) (use sint_neg [of a2] in \<open>simp add: row_sound_def sless_sint\<close>)
    then have "ledger_sound d3"
      by (rule ledger_if_sound [OF _ that(3)]) (simp add: row_sound_def sless_sint)
    then show ?thesis
      using that(4) by (auto simp: record_usage_def ledger_sound_def job_succeeded_def split: if_splits)
  qed
  with d show ?thesis
    unfolding FinalizeUsage_def by (auto intro!: InTx_inv [where P = ledger_sound] simp: and_then_Inr)
qed

lemma ledger_sound_step: "ledger_sound d \<Longrightarrow> ledger_step d e = Some d' \<Longrightarrow> ledger_sound d'"
  by (cases e) (auto simp: Register_sound AdjustWallet_sound ReserveForUser_sound Release_sound
      FinalizeUsage_sound CreateWallet_sound split: sum.split)

interpretation ledger_rows: page_machine ledger_step empty_db ledger_sound
  by unfold_locales (simp add: ledger_sound_def empty_db_def, rule ledger_sound_step)

section \<open>Sums\<close>

definition withdrawn :: "ledger_entry list \<Rightarrow> int" where
  "withdrawn es = sum_list (map le_amount_credits
     (filter (\<lambda>e. le_entry_type e = ''admin_adjustment'' \<and> le_amount_credits e < 0) es))"

lemma totals_Cons: "total_earned (e # es) = (if counts_as_earned e then le_amount_credits e else 0) + total_earned es"
  "total_spent (e # es) = total_spent es - (if counts_as_spent e then le_amount_credits e else 0)"
  by (simp_all add: total_earned_def total_spent_def earned_spent_sums)

lemma withdrawn_Cons: "withdrawn (e # es)
    = (if le_entry_type e = ''admin_adjustment'' \<and> le_amount_credits e < 0 then le_amount_credits e else 0) + withdrawn es"
  by (simp add: withdrawn_def)

lemma entry_adds_up:
  assumes "row_sound r"
  shows "(if counts_as_earned (entry_json m r) then le_amount_credits (entry_json m r) else 0)
     + (if counts_as_spent (entry_json m r) then le_amount_credits (entry_json m r) else 0)
     + (if le_entry_type (entry_json m r) = ''admin_adjustment'' \<and> le_amount_credits (entry_json m r) < 0 then le_amount_credits (entry_json m r) else 0)
     = sint (lr_amount r) + sint (lr_reserved_delta r)"
  using assms by (auto simp: row_sound_def counts_as_earned_def counts_as_spent_def entry_json_def)

lemma entries_add_up:
  "list_all row_sound rs \<Longrightarrow>
     total_earned (map (\<lambda>(k, r). entry_json (meta k) r) (enumerate n rs)) - total_spent (map (\<lambda>(k, r). entry_json (meta k) r) (enumerate n rs))
     + withdrawn (map (\<lambda>(k, r). entry_json (meta k) r) (enumerate n rs))
     = sum_list (map (\<lambda>r. sint (lr_amount r)) rs) + sum_list (map (\<lambda>r. sint (lr_reserved_delta r)) rs)"
proof (induction rs arbitrary: n)
  case (Cons r rs)
  then have r: "row_sound r" and ih: "total_earned (map (\<lambda>(k, r). entry_json (meta k) r) (enumerate (Suc n) rs))
      - total_spent (map (\<lambda>(k, r). entry_json (meta k) r) (enumerate (Suc n) rs))
      + withdrawn (map (\<lambda>(k, r). entry_json (meta k) r) (enumerate (Suc n) rs))
      = sum_list (map (\<lambda>r. sint (lr_amount r)) rs) + sum_list (map (\<lambda>r. sint (lr_reserved_delta r)) rs)" by simp_all
  from ih entry_adds_up [OF r, of "meta n"] show ?case
    unfolding enumerate_simps list.map prod.case totals_Cons withdrawn_Cons sum_list.Cons by linarith
qed (simp add: total_earned_def total_spent_def withdrawn_def)

text \<open>The totals do not depend on the order.\<close>

lemma totals_mset:
  assumes "mset xs = mset ys"
  shows "total_earned xs = total_earned ys" "total_spent xs = total_spent ys" "withdrawn xs = withdrawn ys"
proof -
  have "sum_list (map f (filter P xs)) = sum_list (map f (filter P ys))" for f :: "ledger_entry \<Rightarrow> int" and P
    using assms mset_map [of f "filter P xs"] mset_map [of f "filter P ys"] by (metis mset_filter sum_mset_sum_list)
  then show "total_earned xs = total_earned ys" "total_spent xs = total_spent ys" "withdrawn xs = withdrawn ys"
    by (simp_all add: total_earned_def total_spent_def withdrawn_def earned_spent_sums)
qed

section \<open>Properties\<close>



end
