(* ===== verification/RateLimit.thy ===== *)
theory RateLimit
  imports Accounts
begin

text \<open>
  The rate limit of \<open>apps/api/internal/httpx/middleware.go\<close>: a counter per client address, method, path and
  minute, kept in Redis. Times are in seconds; the text of a key is taken apart into what it is made of. An
  increment can fail before or after it has taken effect; either way the request passes.
\<close>

section \<open>Counters\<close>

type_synonym rate_key = "string \<times> string \<times> string \<times> int"

record counter =
  ct_count :: int
  ct_expires :: "int option"

definition key_at :: "int \<Rightarrow> string \<times> string \<times> string \<Rightarrow> rate_key" where
  "key_at now who = (case who of (ip, m, path) \<Rightarrow> (ip, m, path, now div 60))"

definition alive :: "int \<Rightarrow> counter option \<Rightarrow> counter option" where
  "alive now c = (case c of None \<Rightarrow> None
     | Some x \<Rightarrow> (case ct_expires x of None \<Rightarrow> Some x | Some e \<Rightarrow> if e \<le> now then None else Some x))"

definition Incr :: "int \<Rightarrow> counter option \<Rightarrow> counter" where
  "Incr now c = (case alive now c of None \<Rightarrow> \<lparr>ct_count = 1, ct_expires = None\<rparr> | Some x \<Rightarrow> x\<lparr>ct_count := ct_count x + 1\<rparr>)"

section \<open>The middleware\<close>

text \<open>How the increment ends, with whether the expiry that follows a first increment is set.\<close>

datatype incr = Lost | Unanswered_incr | Counted bool

datatype verdict = Next | TooMany

text \<open>The flag says whether there is a Redis client.\<close>

definition RateLimitMiddleware :: "bool \<Rightarrow> int \<Rightarrow> int \<Rightarrow> incr \<Rightarrow> counter option \<Rightarrow> verdict \<times> counter option" where
  "RateLimitMiddleware rdb perMinute now i c =
     (if perMinute \<le> 0 \<or> \<not> rdb then (Next, c)
      else case i of
          Lost \<Rightarrow> (Next, c)
        | Unanswered_incr \<Rightarrow> (Next, Some (Incr now c))
        | Counted expires \<Rightarrow>
            (let x = Incr now c;
                 y = (if ct_count x = 1 \<and> expires then x\<lparr>ct_expires := Some (now + 60)\<rparr> else x)
             in (if perMinute < ct_count x then TooMany else Next, Some y)))"

definition limited :: "string \<Rightarrow> verdict \<Rightarrow> unit http option" where
  "limited requestID v = (case v of Next \<Rightarrow> None
     | TooMany \<Rightarrow> Some (Error requestID 429 ''rate_limited'' ''Too many requests.'' ()))"

section \<open>Requests over time\<close>

text \<open>The counters, and a log of the requests: the key, how the increment ended, and the verdict.\<close>

record limiter =
  rl_counters :: "rate_key \<rightharpoonup> counter"
  rl_log :: "(rate_key \<times> incr \<times> verdict) list"

definition limiter_start :: limiter where
  "limiter_start = \<lparr>rl_counters = Map.empty, rl_log = []\<rparr>"

definition limiter_step :: "int \<Rightarrow> (limiter, int \<times> (string \<times> string \<times> string) \<times> incr) machine" where
  "limiter_step perMinute s e = (case e of (now, who, i) \<Rightarrow>
     (let k = key_at now who; (v, c) = RateLimitMiddleware True perMinute now i (rl_counters s k)
      in Some (s\<lparr>rl_counters := (rl_counters s)(k := c), rl_log := rl_log s @ [(k, i, v)]\<rparr>)))"

definition of_key :: "rate_key \<Rightarrow> (rate_key \<times> incr \<times> verdict) list \<Rightarrow> (incr \<times> verdict) list" where
  "of_key k l = map snd (filter (\<lambda>x. fst x = k) l)"

definition effective :: "(incr \<times> verdict) list \<Rightarrow> nat" where
  "effective l = length (filter (\<lambda>x. fst x \<noteq> Lost) l)"

fun counted :: "incr \<Rightarrow> bool" where
  "counted (Counted b) = True"
| "counted _ = False"

definition let_through :: "(incr \<times> verdict) list \<Rightarrow> nat" where
  "let_through l = length (filter (\<lambda>x. counted (fst x) \<and> snd x = Next) l)"

text \<open>A counter stands at the number of increments that took effect and does not expire within its minute.\<close>

definition counter_ok :: "int \<Rightarrow> int \<Rightarrow> (incr \<times> verdict) list \<Rightarrow> counter option \<Rightarrow> bool" where
  "counter_ok perMinute minute l c \<longleftrightarrow>
     (case c of None \<Rightarrow> effective l = 0
      | Some x \<Rightarrow> ct_count x = int (effective l) \<and> (\<forall>e. ct_expires x = Some e \<longrightarrow> 60 * (minute + 1) \<le> e))
     \<and> int (let_through l) \<le> min perMinute (int (effective l))
     \<and> (list_all (\<lambda>x. counted (fst x)) l \<longrightarrow> int (let_through l) = min perMinute (int (length l)))"

definition limiter_inv :: "int \<Rightarrow> limiter \<Rightarrow> bool" where
  "limiter_inv perMinute s \<longleftrightarrow>
     (\<forall>ip m path minute. counter_ok perMinute minute (of_key (ip, m, path, minute) (rl_log s)) (rl_counters s (ip, m, path, minute)))"

lemma of_key_append: "of_key k (l @ [(k', i, v)]) = of_key k l @ (if k' = k then [(i, v)] else [])"
  by (simp add: of_key_def)

lemma minute_end: "(now :: int) < 60 * (now div 60 + 1)"
  by presburger

lemma alive_ok:
  assumes "counter_ok perMinute (now div 60) l c"
  shows "alive now c = c"
  using assms minute_end [of now]
  by (fastforce simp: counter_ok_def alive_def split: option.splits)

lemma counted_effective: "list_all (\<lambda>x. counted (fst x)) l \<Longrightarrow> effective l = length l"
  by (induction l) (auto simp: effective_def)

lemma middleware_ok:
  assumes c: "counter_ok perMinute (now div 60) l c" and "0 < perMinute"
    and r: "RateLimitMiddleware True perMinute now i c = (v, c')"
  shows "counter_ok perMinute (now div 60) (l @ [(i, v)]) c'"
proof -
  have n: "ct_count (Incr now c) = int (effective l) + 1" "ct_expires (Incr now c) = (case c of None \<Rightarrow> None | Some x \<Rightarrow> ct_expires x)"
    using c alive_ok [OF c] by (auto simp: Incr_def counter_ok_def split: option.splits)
  have l: "int (let_through l) \<le> min perMinute (int (effective l))"
    "list_all (\<lambda>x. counted (fst x)) l \<longrightarrow> int (let_through l) = min perMinute (int (length l))"
    and e: "case c of None \<Rightarrow> True | Some x \<Rightarrow> (\<forall>e. ct_expires x = Some e \<longrightarrow> 60 * (now div 60 + 1) \<le> e)"
    using c by (auto simp: counter_ok_def split: option.splits)
  have late: "60 * (now div 60 + 1) \<le> now + 60" by presburger
  show ?thesis
  proof (cases i)
    case Lost
    with r c assms(2) show ?thesis
      by (auto simp: RateLimitMiddleware_def counter_ok_def effective_def let_through_def split: option.splits)
  next
    case Unanswered_incr
    with r assms(2) n l e show ?thesis
      by (auto simp: RateLimitMiddleware_def counter_ok_def effective_def let_through_def split: option.splits)
  next
    case (Counted b)
    then have v: "v = (if perMinute < int (effective l) + 1 then TooMany else Next)"
      and c': "\<exists>x. c' = Some x \<and> ct_count x = int (effective l) + 1 \<and> (\<forall>e. ct_expires x = Some e \<longrightarrow> 60 * (now div 60 + 1) \<le> e)"
      using r assms(2) n e late by (auto simp: RateLimitMiddleware_def Let_def split: option.splits if_splits)
    have "effective (l @ [(i, v)]) = effective l + 1" by (simp add: effective_def Counted)
    moreover have "let_through (l @ [(i, v)]) = let_through l + (if v = Next then 1 else 0)"
      by (simp add: let_through_def Counted)
    ultimately show ?thesis
      using l c' counted_effective [of l] by (auto simp: counter_ok_def v Counted)
  qed
qed

lemma limiter_inv_step:
  assumes "0 < perMinute" "limiter_inv perMinute s" "limiter_step perMinute s e = Some t"
  shows "limiter_inv perMinute t"
proof -
  obtain now ip m path i where e: "e = (now, (ip, m, path), i)" by (metis prod_cases3 prod.exhaust)
  let ?k = "(ip, m, path, now div 60)"
  obtain v c where r: "RateLimitMiddleware True perMinute now i (rl_counters s ?k) = (v, c)" by fastforce
  have t: "t = s\<lparr>rl_counters := (rl_counters s)(?k := c), rl_log := rl_log s @ [(?k, i, v)]\<rparr>"
    using assms(3) r by (simp add: e limiter_step_def key_at_def Let_def)
  have "counter_ok perMinute (now div 60) (of_key ?k (rl_log s) @ [(i, v)]) c"
    by (rule middleware_ok [OF _ assms(1) r]) (use assms(2) in \<open>simp add: limiter_inv_def\<close>)
  with assms(2) show ?thesis by (auto simp: limiter_inv_def t of_key_append)
qed

lemma limiter_inv_start: "0 < perMinute \<Longrightarrow> limiter_inv perMinute limiter_start"
  by (simp add: limiter_inv_def limiter_start_def counter_ok_def of_key_def effective_def let_through_def)

lemma limiter_inv_run:
  assumes "0 < perMinute" "limiter_inv perMinute s" "run (limiter_step perMinute) s es = Some t"
  shows "limiter_inv perMinute t"
  using assms(2,3)
proof (induction es arbitrary: s)
  case (Cons e es)
  then show ?case by (auto split: option.splits intro: limiter_inv_step [OF assms(1)])
qed simp

section \<open>Properties\<close>


definition rush :: "(int \<times> (string \<times> string \<times> string) \<times> incr) list" where
  "rush = [(0, (''1.2.3.4'', ''POST'', ''/api/auth/login''), Counted True), (59, (''1.2.3.4'', ''POST'', ''/api/auth/login''), Counted True),
     (59, (''1.2.3.4'', ''POST'', ''/api/auth/login''), Counted True), (59, (''5.6.7.8'', ''POST'', ''/api/auth/login''), Counted False)]"


end
