(* ===== verification/ServerLists.thy ===== *)
theory ServerLists
  imports ServerKeys Catalog Nodes UsagePage "HOL-Library.Multiset"
begin

text \<open>
  The search in the usage records: \<open>Usage\<close> and \<open>usageFilter\<close> of \<open>apps/api/internal/handler/handlers.go\<close>,
  \<open>UsageService.List\<close> and the statement of \<open>UsageByOwner\<close>, and the lists of the models that can be asked for.
  A join yields a row for every combination of rows that agree, as in SQL. Reading and showing times is the
  library's, as arguments; so is the order among records of the same time and of the slugs.
\<close>

section \<open>The filter\<close>

record usage_search =
  uq_project :: string
  uq_from :: "int option"
  uq_to :: "int option"
  uq_model :: string

text \<open>An empty text is no bound; \<open>None\<close> is a text that is no time.\<close>

definition time_bound :: "(string \<Rightarrow> int option) \<Rightarrow> string \<Rightarrow> int option option" where
  "time_bound parse v = (if TrimSpace v = [] then Some None else map_option Some (parse v))"

definition usageFilter :: "(string \<Rightarrow> int option) \<Rightarrow> string \<Rightarrow> usage_search option" where
  "usageFilter parse q =
     (case time_bound parse (query_get q ''from'') of None \<Rightarrow> None
      | Some a \<Rightarrow> (case time_bound parse (query_get q ''to'') of None \<Rightarrow> None
        | Some b \<Rightarrow> Some \<lparr>uq_project = query_get q ''project_id'', uq_from = a, uq_to = b, uq_model = query_get q ''model''\<rparr>))"

definition is_after :: "int option \<Rightarrow> int option \<Rightarrow> bool" where
  "is_after a b = (case (a, b) of (Some x, Some y) \<Rightarrow> y < x | _ \<Rightarrow> False)"

section \<open>The tables\<close>

record usage_data =
  ux_public_id :: string
  ux_job_id :: string
  ux_project_id :: string
  ux_model_id :: string
  ux_provider_id :: "string option"
  ux_instance_id :: "string option"
  ux_input_tokens :: int
  ux_output_tokens :: int
  ux_total_tokens :: int
  ux_token_source :: string
  ux_cost_credits :: int64
  ux_latency_ms :: "int option"
  ux_status :: string
  ux_created_at :: int

text \<open>Of a job only its id and its public id matter.\<close>

record usage_tables =
  ut_usage :: "usage_data list"
  ut_jobs :: "(string \<times> string) list"
  ut_projects :: "project_row list"
  ut_models :: "model_row list"
  ut_providers :: "provider_row list"
  ut_instances :: "instance_row list"

definition left_join :: "('a \<Rightarrow> string) \<Rightarrow> string option \<Rightarrow> 'a list \<Rightarrow> 'a option list" where
  "left_join key i xs = (case filter (\<lambda>x. i = Some (key x)) xs of [] \<Rightarrow> [None] | ys \<Rightarrow> map Some ys)"

definition usage_json :: "(int \<Rightarrow> string) \<Rightarrow> usage_data \<Rightarrow> string \<times> string \<Rightarrow> project_row \<Rightarrow> model_row \<Rightarrow> provider_row option
    \<Rightarrow> instance_row option \<Rightarrow> usage_record" where
  "usage_json stamp u j p m pr ni = \<lparr>us_id = ux_public_id u, us_job_id = snd j, us_project_id = pt_public_id p,
     us_model_id = md_id (mr_model m), us_model_slug = md_slug (mr_model m), us_provider_id = map_option np_public_id pr,
     us_provider_instance_id = map_option ni_public_id ni, us_input_tokens = ux_input_tokens u,
     us_output_tokens = ux_output_tokens u, us_total_tokens = ux_total_tokens u, us_token_source = ux_token_source u,
     us_cost_credits = sint (ux_cost_credits u), us_latency_ms = ux_latency_ms u, us_status = ux_status u,
     us_created_at = stamp (ux_created_at u)\<rparr>"

definition in_search :: "string \<Rightarrow> usage_search \<Rightarrow> usage_data \<Rightarrow> project_row \<Rightarrow> model_row \<Rightarrow> bool" where
  "in_search owner f u p m \<longleftrightarrow>
     pt_owner_user_id p = owner \<and> (uq_project f = [] \<or> pt_public_id p = uq_project f)
     \<and> (case uq_from f of None \<Rightarrow> True | Some a \<Rightarrow> a \<le> ux_created_at u)
     \<and> (case uq_to f of None \<Rightarrow> True | Some b \<Rightarrow> ux_created_at u \<le> b)
     \<and> (uq_model f = [] \<or> md_slug (mr_model m) = uq_model f)"

definition usage_join :: "(int \<Rightarrow> string) \<Rightarrow> string \<Rightarrow> usage_search \<Rightarrow> usage_tables \<Rightarrow> (int \<times> usage_record) list" where
  "usage_join stamp owner f d =
     concat (map (\<lambda>u. concat (map (\<lambda>j. concat (map (\<lambda>p. concat (map (\<lambda>m. concat (map (\<lambda>pr. map (\<lambda>ni.
         (ux_created_at u, usage_json stamp u j p m pr ni))
       (left_join ni_id (ux_instance_id u) (ut_instances d)))
       (left_join np_id (ux_provider_id u) (ut_providers d))))
       (filter (\<lambda>m. mr_id m = ux_model_id u \<and> in_search owner f u p m) (ut_models d))))
       (filter (\<lambda>p. pt_id p = ux_project_id u) (ut_projects d))))
       (filter (\<lambda>j. fst j = ux_job_id u) (ut_jobs d))))
       (ut_usage d))"

definition UsageByOwner :: "(int \<Rightarrow> string) \<Rightarrow> ((int \<times> usage_record) list \<Rightarrow> (int \<times> usage_record) list) \<Rightarrow> bool \<Rightarrow> string
    \<Rightarrow> usage_search \<Rightarrow> usage_tables \<Rightarrow> svc_error + (int \<times> usage_record) list" where
  "UsageByOwner stamp newest_first served ownerUserID f d =
     (if \<not> served then Inl (DbError ''unavailable'') else Inr (take 100 (newest_first (usage_join stamp ownerUserID f d))))"

definition UsageList :: "(int \<Rightarrow> string) \<Rightarrow> ((int \<times> usage_record) list \<Rightarrow> (int \<times> usage_record) list) \<Rightarrow> bool \<Rightarrow> user_row
    \<Rightarrow> usage_search \<Rightarrow> usage_tables \<Rightarrow> svc_error + (int \<times> usage_record) list" where
  "UsageList stamp newest_first served user f d =
     (let f = f\<lparr>uq_project := TrimSpace (uq_project f), uq_model := TrimSpace (uq_model f)\<rparr>
      in if is_after (uq_from f) (uq_to f) then Inl ErrInvalidInput
         else UsageByOwner stamp newest_first served (ur_id user) f d)"

definition UsageHandler :: "(string \<Rightarrow> int option) \<Rightarrow> (int \<Rightarrow> string) \<Rightarrow> ((int \<times> usage_record) list \<Rightarrow> (int \<times> usage_record) list)
    \<Rightarrow> bool \<Rightarrow> string \<Rightarrow> user_row \<Rightarrow> string \<Rightarrow> usage_tables \<Rightarrow> usage_record list option http" where
  "UsageHandler parse stamp newest_first served requestID user q d =
     (case usageFilter parse q of
        None \<Rightarrow> Error requestID 400 ''invalid_request'' ''Invalid request body.'' None
      | Some f \<Rightarrow> answer_with requestID None (\<lambda>rows. Some (map snd rows)) (UsageList stamp newest_first served user f d))"

section \<open>Models on offer\<close>

text \<open>The order of the slugs is the collation of the database, an argument.\<close>

definition ActiveModels :: "(model_row list \<Rightarrow> model_row list) \<Rightarrow> bool \<Rightarrow> catalog \<Rightarrow> svc_error + model_row list" where
  "ActiveModels by_slug served c =
     (if \<not> served then Inl (DbError ''unavailable'')
      else Inr (by_slug (filter (\<lambda>r. md_status (mr_model r) = ''active'' \<and> \<not> mr_deleted r) (mt_models c))))"

definition ModelsHandler :: "(model_row list \<Rightarrow> model_row list) \<Rightarrow> bool \<Rightarrow> string \<Rightarrow> catalog \<Rightarrow> model list option http" where
  "ModelsHandler by_slug served requestID c = answer_with requestID None (\<lambda>rows. Some (map mr_model rows)) (ActiveModels by_slug served c)"

definition OpenAIModels :: "(string \<Rightarrow> string) \<Rightarrow> string \<Rightarrow> (model_row list \<Rightarrow> model_row list) \<Rightarrow> bool \<Rightarrow> bool \<Rightarrow> string \<Rightarrow> string
    \<Rightarrow> key_store \<Rightarrow> catalog \<Rightarrow> string list option http" where
  "OpenAIModels sha pepper by_slug s1 s2 requestID token d c =
     (case ResolveAPIKey sha pepper s1 token d of
        Inl e \<Rightarrow> Handle requestID None e
      | Inr _ \<Rightarrow> answer_with requestID None (\<lambda>rows. Some (map (\<lambda>r. md_slug (mr_model r)) rows)) (ActiveModels by_slug s2 c))"

section \<open>What a search finds\<close>

text \<open>An order that the database may choose: the same records, newest first.\<close>

definition newest_order :: "((int \<times> usage_record) list \<Rightarrow> (int \<times> usage_record) list) \<Rightarrow> bool" where
  "newest_order by \<longleftrightarrow> (\<forall>xs. mset (by xs) = mset xs \<and> sorted_wrt (\<lambda>x y. fst y \<le> fst x) (by xs))"

text \<open>A record that a user may see and asked for, with the rows it is made of: the project is the user's and has
  the id asked for, the model has the slug asked for, and the time is within the bounds.\<close>

definition usage_found :: "(int \<Rightarrow> string) \<Rightarrow> string \<Rightarrow> usage_search \<Rightarrow> usage_tables \<Rightarrow> (int \<times> usage_record) set" where
  "usage_found stamp owner f d = {(ux_created_at u, usage_json stamp u j p m pr ni) | u j p m pr ni.
     u \<in> set (ut_usage d) \<and> j \<in> set (ut_jobs d) \<and> fst j = ux_job_id u
     \<and> p \<in> set (ut_projects d) \<and> pt_id p = ux_project_id u \<and> m \<in> set (ut_models d) \<and> mr_id m = ux_model_id u
     \<and> pt_owner_user_id p = owner \<and> uq_project f \<in> {[], pt_public_id p} \<and> uq_model f \<in> {[], md_slug (mr_model m)}
     \<and> (\<forall>a. uq_from f = Some a \<longrightarrow> a \<le> ux_created_at u) \<and> (\<forall>b. uq_to f = Some b \<longrightarrow> ux_created_at u \<le> b)
     \<and> pr \<in> set (left_join np_id (ux_provider_id u) (ut_providers d))
     \<and> ni \<in> set (left_join ni_id (ux_instance_id u) (ut_instances d))}"

lemma in_search_iff: "in_search owner f u p m \<longleftrightarrow>
     pt_owner_user_id p = owner \<and> uq_project f \<in> {[], pt_public_id p} \<and> uq_model f \<in> {[], md_slug (mr_model m)}
     \<and> (\<forall>a. uq_from f = Some a \<longrightarrow> a \<le> ux_created_at u) \<and> (\<forall>b. uq_to f = Some b \<longrightarrow> ux_created_at u \<le> b)"
  by (auto simp: in_search_def split: option.splits)

lemma found_in_search:
  "usage_found stamp owner f d = {(ux_created_at u, usage_json stamp u j p m pr ni) | u j p m pr ni.
     u \<in> set (ut_usage d) \<and> j \<in> set (ut_jobs d) \<and> fst j = ux_job_id u
     \<and> p \<in> set (ut_projects d) \<and> pt_id p = ux_project_id u \<and> m \<in> set (ut_models d) \<and> mr_id m = ux_model_id u
     \<and> in_search owner f u p m
     \<and> pr \<in> set (left_join np_id (ux_provider_id u) (ut_providers d))
     \<and> ni \<in> set (left_join ni_id (ux_instance_id u) (ut_instances d))}"
  unfolding usage_found_def in_search_iff conj_assoc by (rule refl)

lemma usage_join_found: "set (usage_join stamp owner f d) = usage_found stamp owner f d"
proof (rule set_eqI)
  fix x
  show "x \<in> set (usage_join stamp owner f d) \<longleftrightarrow> x \<in> usage_found stamp owner f d"
    unfolding usage_join_def found_in_search set_concat set_map set_filter Union_iff mem_Collect_eq bex_simps image_iff
    by blast
qed

lemma left_join_some: "Some x \<in> set (left_join key i xs) \<longleftrightarrow> x \<in> set xs \<and> i = Some (key x)"
proof -
  have "x \<in> set (filter (\<lambda>x. i = Some (key x)) xs) \<longleftrightarrow> x \<in> set xs \<and> i = Some (key x)" by auto
  then show ?thesis unfolding left_join_def by (cases "filter (\<lambda>x. i = Some (key x)) xs") auto
qed

lemma left_join_ne: "left_join key i xs \<noteq> []"
  by (simp add: left_join_def split: list.splits)

lemma newest_first_take:
  assumes "sorted_wrt (\<lambda>x y. fst y \<le> (fst x :: int)) xs" "x \<in> set xs" "x \<notin> set (take n xs)" "y \<in> set (take n xs)"
  shows "n \<le> length (take n xs) \<and> fst x \<le> fst y"
proof -
  have "x \<in> set (drop n xs)" using assms(2,3) by (metis Un_iff append_take_drop_id set_append)
  moreover have "\<forall>y \<in> set (take n xs). \<forall>x \<in> set (drop n xs). fst x \<le> fst y"
    using assms(1) sorted_wrt_append [of "\<lambda>x y. fst y \<le> fst x" "take n xs" "drop n xs"] by simp
  ultimately show ?thesis using assms(4) by (cases "n \<le> length xs") auto
qed

definition search_answer :: "(int \<times> usage_record) set \<Rightarrow> (int \<times> usage_record) list \<Rightarrow> bool" where
  "search_answer wanted rows \<longleftrightarrow>
     set rows \<subseteq> wanted \<and> length rows \<le> 100 \<and> sorted_wrt (\<lambda>x y. fst y \<le> fst x) rows
     \<and> (\<forall>x \<in> wanted - set rows. length rows = 100 \<and> (\<forall>y \<in> set rows. fst x \<le> fst y))"

lemma UsageByOwner_answer:
  assumes "newest_order by"
  shows "\<exists>rows. UsageByOwner stamp by True owner f d = Inr rows \<and> search_answer (usage_found stamp owner f d) rows"
proof -
  let ?all = "by (usage_join stamp owner f d)"
  have order: "mset ?all = mset (usage_join stamp owner f d)" and sorted_all: "sorted_wrt (\<lambda>x y. fst y \<le> fst x) ?all"
    using assms by (simp_all add: newest_order_def)
  have all: "set ?all = usage_found stamp owner f d" using mset_eq_setD [OF order] by (simp add: usage_join_found)
  have "length (take 100 ?all) = 100 \<and> (\<forall>y \<in> set (take 100 ?all). fst x \<le> fst y)"
    if "x \<in> usage_found stamp owner f d - set (take 100 ?all)" for x
  proof -
    have x: "x \<in> set ?all" "x \<notin> set (take 100 ?all)" using that all by auto
    then have "100 \<le> length ?all" by (metis nle_le take_all)
    with newest_first_take [OF sorted_all x] show ?thesis by auto
  qed
  moreover have "set (take 100 ?all) \<subseteq> usage_found stamp owner f d" using all set_take_subset by metis
  ultimately show ?thesis
    using sorted_wrt_take [OF sorted_all] by (auto simp: UsageByOwner_def search_answer_def)
qed

lemma usageFilter_page:
  "usageFilter parse (query_of (c_path (listUsage flt))) =
     (case (time_bound parse (uf_from flt), time_bound parse (uf_to flt)) of
        (Some a, Some b) \<Rightarrow> Some \<lparr>uq_project = uf_projectID flt, uq_from = a, uq_to = b, uq_model = uf_model flt\<rparr>
      | _ \<Rightarrow> None)"
  by (simp add: usageFilter_def usage_query query_get_def parse_query_params usage_params_def showIf_def split: option.splits)

text \<open>Every model that is listed is found by its slug when a chat request asks for it, and no other.\<close>

lemma listed_models_resolve:
  assumes "\<forall>xs. set (by_slug xs) = set xs" "ActiveModels by_slug True c = Inr rows"
  shows "(\<exists>r \<in> set rows. md_slug (mr_model r) = slug) \<longleftrightarrow> (\<exists>m. ActiveModelBySlug True slug c = Inr m)"
proof -
  have "set rows = {r \<in> set (mt_models c). md_status (mr_model r) = ''active'' \<and> \<not> mr_deleted r}"
    using assms by (auto simp: ActiveModels_def)
  then show ?thesis by (auto simp: ActiveModelBySlug_def find_None_iff split: option.splits dest: find_SomeD)
qed

section \<open>Properties\<close>

text \<open>C30: A search from the page to the tables and back: whatever the filter of the page holds, the server reads
  exactly it, and the answer shows only records of projects of this user that meet every part of the filter, newest
  first, at most a hundred; a record that is missing although it meets the filter is no newer than any of a hundred
  shown. A bound that is no time, or a start after the end, is refused as an invalid request.\<close>

theorem usage_search_exact:
  assumes "newest_order by"
  shows "case (time_bound parse (uf_from flt), time_bound parse (uf_to flt)) of
     (Some a, Some b) \<Rightarrow>
       if is_after a b
       then UsageHandler parse stamp by True requestID user (query_of (c_path (listUsage flt))) d
            = Error requestID 400 ''invalid_request'' ''Invalid request body.'' None
       else \<exists>rows. UsageHandler parse stamp by True requestID user (query_of (c_path (listUsage flt))) d = OK (Some (map snd rows))
            \<and> search_answer (usage_found stamp (ur_id user)
                \<lparr>uq_project = TrimSpace (uf_projectID flt), uq_from = a, uq_to = b, uq_model = TrimSpace (uf_model flt)\<rparr> d) rows
   | _ \<Rightarrow> UsageHandler parse stamp by True requestID user (query_of (c_path (listUsage flt))) d
            = Error requestID 400 ''invalid_request'' ''Invalid request body.'' None"
proof (cases "time_bound parse (uf_from flt)")
  case from_time: (Some a)
  show ?thesis
  proof (cases "time_bound parse (uf_to flt)")
    case (Some b)
    show ?thesis
    proof (cases "is_after a b")
      case True
      then show ?thesis
        by (simp add: UsageHandler_def usageFilter_page from_time Some UsageList_def answer_with_def Handle_def)
    next
      case False
      obtain rows where "UsageByOwner stamp by True (ur_id user)
          \<lparr>uq_project = TrimSpace (uf_projectID flt), uq_from = a, uq_to = b, uq_model = TrimSpace (uf_model flt)\<rparr> d = Inr rows"
        "search_answer (usage_found stamp (ur_id user)
          \<lparr>uq_project = TrimSpace (uf_projectID flt), uq_from = a, uq_to = b, uq_model = TrimSpace (uf_model flt)\<rparr> d) rows"
        using UsageByOwner_answer [OF assms] by blast
      with False show ?thesis
        by (auto simp: UsageHandler_def usageFilter_page from_time Some UsageList_def answer_with_def)
    qed
  qed (simp add: UsageHandler_def usageFilter_page from_time)
qed (simp add: UsageHandler_def usageFilter_page)

text \<open>Two users, each with a record of the same second; the first asks for all of a model.\<close>

definition usage_example :: usage_tables where
  "usage_example =
     (let u = \<lparr>ux_public_id = ''usage_1'', ux_job_id = ''j1'', ux_project_id = ''p1'', ux_model_id = ''m1'', ux_provider_id = Some ''n1'',
        ux_instance_id = None, ux_input_tokens = 3, ux_output_tokens = 4, ux_total_tokens = 7, ux_token_source = ''runtime_reported'',
        ux_cost_credits = 1, ux_latency_ms = Some 20, ux_status = ''settled'', ux_created_at = 5\<rparr>;
        p = \<lparr>pt_id = ''p1'', pt_public_id = ''proj_1'', pt_owner_user_id = ''u1'', pt_name = ''a'', pt_status = ''active'',
          pt_monthly_credit_limit = None, pt_deleted = False\<rparr>
      in \<lparr>ut_usage = [u, u\<lparr>ux_public_id := ''usage_2'', ux_job_id := ''j2'', ux_project_id := ''p2''\<rparr>],
          ut_jobs = [(''j1'', ''job_1''), (''j2'', ''job_2'')],
          ut_projects = [p, p\<lparr>pt_id := ''p2'', pt_public_id := ''proj_2'', pt_owner_user_id := ''u2''\<rparr>],
          ut_models = [\<lparr>mr_id = ''m1'', mr_model = model_of ''model_1'' ''t'' \<lparr>mi_slug = ''llama3'', mi_display_name = ''Llama'',
            mi_description = [], mi_family = ''llama'', mi_modality = ''chat'', mi_status = ''active'', mi_context_length = 8192,
            mi_default_max_output_tokens = 1024, mi_input_credit_per_1k = 1, mi_output_credit_per_1k = 2, mi_provider_reward_ratio = 0,
            mi_min_vram_mb = 0, mi_recommended_vram_mb = 0, mi_license_name = ''x'', mi_license_url = None, mi_license_notes = [],
            mi_community_allowed = True, mi_external_only = False\<rparr>, mr_deleted = False\<rparr>],
          ut_providers = [], ut_instances = []\<rparr>)"

lemma sorted_desc: "newest_order (\<lambda>xs. rev (sort_key fst xs))"
proof -
  have "sorted_wrt (\<lambda>x y. fst y \<le> fst x) (rev (sort_key fst (xs :: (int \<times> usage_record) list)))" for xs
    using sorted_sort_key [of fst xs] by (simp add: sorted_wrt_rev sorted_map)
  then show ?thesis by (simp add: newest_order_def)
qed

definition searcher :: user_row where
  "searcher = \<lparr>ur_id = ''u1'', ur_public_id = ''user_1'', ur_email = ''a@b.c'', ur_password_hash = [], ur_display_name = ''a'',
     ur_role = ''user'', ur_status = ''active'', ur_deleted = False\<rparr>"

theorem usage_search_exact_witness:
  "\<exists>rows :: (int \<times> usage_record) list. UsageHandler (\<lambda>_. None) (\<lambda>_. ''t'') (\<lambda>xs. rev (sort_key fst xs)) True ''r'' searcher
       (query_of (c_path (listUsage \<lparr>uf_projectID = [], uf_from = [], uf_to = [], uf_model = '' llama3 ''\<rparr>))) usage_example
     = OK (Some (map snd rows)) \<and> length rows = 1"
proof -
  let ?f = "\<lparr>uf_projectID = [], uf_from = [], uf_to = [], uf_model = '' llama3 ''\<rparr>"
  let ?one = "\<lparr>us_id = ''usage_1'', us_job_id = ''job_1'', us_project_id = ''proj_1'', us_model_id = ''model_1'',
          us_model_slug = ''llama3'', us_provider_id = None, us_provider_instance_id = None, us_input_tokens = 3,
          us_output_tokens = 4, us_total_tokens = 7, us_token_source = ''runtime_reported'', us_cost_credits = 1,
          us_latency_ms = Some 20, us_status = ''settled'', us_created_at = ''t''\<rparr>"
  have m: "time_bound (\<lambda>_. None) [] = Some None" by code_simp
  obtain rows :: "(int \<times> usage_record) list" where r: "UsageHandler (\<lambda>_. None) (\<lambda>_. ''t'') (\<lambda>xs. rev (sort_key fst xs)) True ''r'' searcher
      (query_of (c_path (listUsage ?f))) usage_example = OK (Some (map snd rows))"
    using usage_search_exact [OF sorted_desc, where parse = "\<lambda>_. None" and flt = ?f and stamp = "\<lambda>_. ''t''"
      and requestID = "''r''" and user = searcher and d = usage_example]
    by (simp add: m is_after_def) blast
  have "UsageHandler (\<lambda>_. None) (\<lambda>_. ''t'') (\<lambda>xs. rev (sort_key fst xs)) True ''r'' searcher
      (query_of (c_path (listUsage ?f))) usage_example
      = OK (Some [?one])"
    by code_simp
  with r have "map snd rows = [?one]" by (simp add: OK_def)
  from arg_cong [OF this, of length] have "length rows = 1" by simp
  with r show ?thesis by blast
qed

end
