(* ===== verification/Spec2Isabelle.thy ===== *)
theory Spec2Isabelle
  imports Site Forms Router Schema ChatFront NodeDialog CreditsFlow RateLimit ServerLists
begin

text \<open>
  Nuvonode is a marketplace for language-model inference: customers call models through an HTTP API
  and pay in credits, owners of nodes run the models, administrators approve nodes and models. The
  repository holds a web client in TypeScript (\<open>src/apps/web\<close>), an API server in Go (\<open>src/apps/api\<close>),
  a node program in Go (\<open>src/apps/provider-node\<close>) and the schema of the database
  (\<open>src/database/migrations\<close>). This development models the web client completely, the node program,
  and the operations of the server that keep state or decide something.

  \<^bold>\<open>The web client.\<close> Every page is a React component under \<open>app/\<close>, rendered inside the layout of its
  directory and, when signed in, inside the frame \<open>components/AppShell.tsx\<close>. A page calls the endpoint
  functions of \<open>lib/api.ts\<close>, all of which go through \<open>apiFetch\<close>; that function reads the token that
  \<open>lib/session.ts\<close> keeps in the local storage, and the sign-in pages write it.

  \<^item> \<open>Prelude\<close>: results, conditional rendering, lists addressed by id, promises in flight, machines
    with their runs, and the locale \<open>page_machine\<close> of machines with an invariant. \<open>JsText\<close>, \<open>JsNumber\<close>:
    texts and numbers of the language. \<open>Html\<close>: rendered trees and the events, forms and links they offer.
  \<^item> \<open>Session\<close> (\<open>lib/session.ts\<close>), \<open>Api\<close> and \<open>Endpoints\<close> (\<open>lib/api.ts\<close>), \<open>Widgets\<close> (the small
    components), \<open>AppShell\<close>, \<open>Pages\<close> (the machine of a page that loads one list).
  \<^item> One theory per page: \<open>AuthPages\<close>, \<open>PublicPages\<close>, \<open>DashboardHome\<close>, \<open>ApiKeysPage\<close>,
    \<open>ProjectsPage\<close>, \<open>ModelsPage\<close>, \<open>UsagePage\<close>, \<open>CreditsPage\<close>, \<open>ProvidersPage\<close>, \<open>AdminHome\<close>,
    \<open>AdminReview\<close> (\<open>app/admin/providers\<close>), \<open>AdminProviderModels\<close>, \<open>AdminModels\<close>, \<open>AdminWallets\<close>,
    \<open>AdminJobs\<close>, \<open>AdminUsage\<close>, \<open>AdminAudit\<close>.
  \<^item> \<open>Forms\<close>: the six pages with a form refine one abstract slot for a request in flight. \<open>Site\<close>: the
    layouts, the served paths and the links. \<open>QueryString\<close>: the query of \<open>listUsage\<close> and its parser.

  \<^bold>\<open>The API server\<close> (\<open>src/apps/api/internal\<close>). A request passes the rate limit and the check of its token,
  reaches a handler of \<open>handler/handlers.go\<close>, which calls a service of \<open>service/services.go\<close>, which calls
  statements of \<open>repository/store.go\<close>. Nodes hold a WebSocket each, kept in the hub.

  \<^item> Money: \<open>Ledger\<close> (wallets, registration, adjustments, settlement, as transactions of \<open>database/tx.go\<close>),
    \<open>Float64\<close> and \<open>Metering\<close> (\<open>metering/estimator.go\<close>, \<open>PriceCredits\<close>, \<open>ProviderReward\<close>), \<open>ChatRequest\<close> (the
    second half of \<open>ChatCompletions\<close>, one database call a step) and \<open>Settlement\<close> (what its interleaved
    requests guarantee), \<open>Schema\<close> (the enumerated columns of the tables).
  \<^item> The way in: \<open>Router\<close> (\<open>router/router.go\<close>), \<open>Accounts\<close> (\<open>httpx/errors.go\<close>, the bearer check, sign-in),
    \<open>RateLimit\<close> (\<open>httpx/middleware.go\<close>), \<open>ServerKeys\<close> (projects and API keys), \<open>ChatFront\<close> (what admits a
    chat request).
  \<^item> What is offered: \<open>Catalog\<close> (models: creation, patches, pausing), \<open>Nodes\<close> (nodes, their tokens, messages,
    approvals, timeouts and the choice of a node), \<open>Hub\<close> (\<open>ws/hub.go\<close>: concurrent dispatches and connections).
  \<^item> What is shown: \<open>CreditsFlow\<close> (wallet and ledger, up to the credit page), \<open>ServerLists\<close> (the search in the
    usage records and the models on offer).

  \<^bold>\<open>The node program\<close> (\<open>src/apps/provider-node\<close>). \<open>NodeConfig\<close>: the configuration file, \<open>init\<close> and the choice of
  a command. \<open>NodeProgram\<close>: the connection (\<open>internal/node/serve.go\<close>) with its read loop, heartbeats and jobs,
  the client of the runtime (\<open>internal/ollama\<close>), the retries and \<open>doctor\<close>. \<open>NodeDialog\<close>: its messages as the
  server reads them and the server's as it reads them (\<open>ws/protocol.go\<close>, \<open>protocol/messages.go\<close>), composed with
  \<open>Nodes\<close> and \<open>Hub\<close>.

  \<^bold>\<open>Conventions for the client.\<close> The state of a component is a record with one field per \<open>useState\<close>
  (a prefix per page), plus the promises in flight, the places it navigated to (\<open>visits\<close>) and the
  storage, where it has them. A step takes an event: an action of the user or the settlement of a promise,
  with the answer of the network inside it. Promises of one kind are addressed by their position, so that
  answers may arrive in any order. \<open>None\<close> means that the event cannot happen: its control is disabled
  or not rendered, or no such promise is pending; the answer to a \<open>confirm\<close> dialog is part of its event.
  A handler that raises where nothing catches it sets a \<open>crashed\<close> flag. \<open>_view\<close> is the rendered tree.
  Effects run once, as in a production build. Of the validation by the browser only \<open>required\<close> is
  modelled; other constraints of an input could only forbid further events. \<open>fetch\<close>, \<open>JSON.parse\<close>, the
  clipboard, the clock and the environment variable for the base URL are arguments. Texts are lists of
  bytes in UTF-8, and changes of case concern ASCII letters. Numbers that are credits, counts or finite
  values of \<open>Number\<close> are exact integers or rationals.

  \<^bold>\<open>Conventions for the server.\<close> Credits are 64-bit words that wrap. The tables are lists in records; a
  transaction is a function on them, undone as a whole on an error, and its flag \<open>served\<close> says whether the
  database carries it out at all. Row locks serialise the transactions on a wallet, so a history is a list
  of transactions, and every database call of a chat request is one step of its own; in the hub and in the
  node program a step is one blocking operation of a goroutine. A statement that expects one row takes the
  first that matches; the joins of \<open>ServerLists\<close> yield every combination, as in SQL. What an \<open>ORDER BY\<close>
  leaves open is an argument that keeps the rows. \<open>fl\<close> is the rounding of \<open>float64\<close> to 53 bits; \<open>oor\<close> is what
  converting a float outside the range of \<open>int64\<close> yields, which the language leaves open. Random ids, digests
  (\<open>sha\<close>), password hashes, the signing of tokens, the matching of paths and the reading of bodies and times
  (\<open>parse\<close>) are arguments. Times are whole seconds where only their order matters. The audit log is part of
  the tables and serves as a specification of the approvals. The fields \<open>sv_leaked\<close>, \<open>ns_received\<close>,
  \<open>ns_finished\<close> and \<open>rl_log\<close> are ghosts.

  \<^bold>\<open>Conventions for the node program.\<close> JSON is a tree of values; a field that is missing is \<open>null\<close>, and a value
  of the wrong type refuses the whole message, as \<open>encoding/json\<close> does. Integers of messages are exact and
  bounded by 64 bits where they are decoded; those of the configuration are 64-bit words. The answers of the
  network and of the runtime, the host and the random parts are arguments or inside the events.

  \<^bold>\<open>What is shown.\<close>
  \<^item> Credits: the ledger operation refines an unbounded counter; the books balance; every reserved
    credit is accounted for; a request is billed at most once, a settlement is never refused, and every
    request ends within five steps; prices are exact below \<open>2 ^ 53\<close>; charged token counts are plausible;
    the credit page adds up with the books.
  \<^item> Signing in, through both programs: pages are shown only behind a stored token and an accepted user; a
    registration ends signed in; refusals reach the client whole; every request of the client is routed.
  \<^item> Keys and models: keys of one user are closed to others and stay revoked; what the pages show after a
    creation is what the server stored; the catalogue keeps its ranges; a chat request is admitted only with an
    active key, an active model and an approved node.
  \<^item> Nodes: approvals and statuses are the replay of the audit log; a disabled node stays out; nodes cannot
    touch each other's rows; a dispatch returns its own result and always returns. A new node can be set up
    from its token; the two programs understand each other's messages; each job is answered once, and its
    answer reaches the waiting dispatch; the node keeps trying with bounded waits.
  \<^item> Requests: the limit per minute is exact; a search in the usage records is answered exactly.
  \<^item> Pages: what a page renders as enabled is what its handlers accept; at most one request of a form is
    in flight, and its answer frees the form; payloads carry what was typed; decisions change exactly
    the row they name; lists, totals and proposals are those of the loaded data; no link is dead.
  \<^item> Some theorems pin down behaviour that is a defect: answers out of order show the keys or records
    of another selection, an administration page is rendered for a user without that role, a response
    without a token signs in with the text \<open>undefined\<close>, a second result of a job can block a connection, and
    the node enforces neither of its limits.

  \<^bold>\<open>Bounds.\<close> No definition uses fuel: machines are total step functions, runs are over finite lists of
  events, and the scanners of texts recurse on a shrinking list. A chat request and a dispatch carry a rank
  that every step lowers.

  \<^bold>\<open>Not modelled.\<close> Styling, the texts of static pages beyond what the components return, and the build
  configuration. Of the server: the lists for administrators, which are single statements without conditions
  whose answers are arguments of the client; the health check, the log, the reading of environment variables
  and the opening of connections; the statistics of providers, which are updated twice in one statement with a
  result that the database leaves open; the indexes and the tables that no operation uses. Of the messages
  their ids and times of sending, and of the node program the writing of files and the printing of lines.
\<close>

section \<open>Properties across components\<close>

text \<open>C2: Signing in: when the pending request of the login or registration page is answered with a
  non-empty token, the page sends the visitor to the dashboard and the frame mounted on the storage it
  leaves asks the API who is signed in with exactly that token, navigates nowhere, and shows the
  dashboard for whatever user the API answers with.\<close>

theorem sign_in_flow:
  assumes "run (auth_step c) (auth_start st) es = Some s" "i < length (lg_pending s)"
    "c_settle (c (fst (lg_pending s ! i)) (snd (lg_pending s ! i))) h = Inr res"
    "ar_access_token res = Some tok" "tok \<noteq> []"
  shows "\<exists>t. auth_step c s (AuthSettled i h) = Some t \<and> last (lg_visits t) = ''/dashboard''
     \<and> lg_pending t = [] \<and> \<not> lg_loading t
     \<and> get_header ''Authorization'' (rq_headers (api_request base (getToken True (lg_storage t))
           (c_path me) (c_init me))) = Some (''Bearer '' @ tok)
     \<and> (let sh = DashboardLayout p (lg_storage t) in sh_visits sh = [] \<and>
         (\<forall>u. \<exists>sh'. shell_step sh (MeSettled (ok_body (Some u))) = Some sh' \<and> sh_user sh' = Some u
                \<and> children_shown sh' \<and> sh_visits sh' = []))"
proof -
  let ?t = "auth_settled i (Inr res) s"
  have "auth_inv st s" using assms(1) by (rule auth_page.run_inv)
  then have d: "drop_nth i (lg_pending s) = []"
    using assms(2) drop_nth_one unfolding auth_inv_def by blast
  have tok: "getToken True (lg_storage ?t) = tok"
    using assms(4) by (simp add: auth_settled_def Let_def local_storage.get_put)
  have "auth_step c s (AuthSettled i h) = Some ?t" using assms(2,3) by simp
  moreover have "last (lg_visits ?t) = ''/dashboard''" "lg_pending ?t = []" "\<not> lg_loading ?t"
    using d by (simp_all add: auth_settled_def Let_def)
  moreover have "get_header ''Authorization'' (rq_headers (api_request base tok (c_path me) (c_init me)))
      = Some (''Bearer '' @ tok)"
    using assms(5) by (simp add: api_request_def Let_def get_set_header)
  moreover have "let sh = DashboardLayout p (lg_storage ?t) in sh_visits sh = [] \<and>
         (\<forall>u. \<exists>sh'. shell_step sh (MeSettled (ok_body (Some u))) = Some sh' \<and> sh_user sh' = Some u
                \<and> children_shown sh' \<and> sh_visits sh' = [])"
    using assms(5) tok
    by (simp add: DashboardLayout_def shell_start_def shell_settled_def shell_accepted_def me_def
        children_shown_def)
  ultimately show ?thesis using tok by auto
qed

theorem sign_in_flow_witness:
  "\<exists>t. auth_step login (auth_start Map.empty\<lparr>lg_email := ''e'', lg_password := ''p'', lg_loading := True,
            lg_pending := [(''e'', ''p'')]\<rparr>)
         (AuthSettled 0 (ok_body \<lparr>ar_user = None, ar_access_token = Some ''jwt''\<rparr>)) = Some t
     \<and> last (lg_visits t) = ''/dashboard''"
proof -
  let ?s = "auth_start Map.empty\<lparr>lg_email := ''e'', lg_password := ''p'', lg_loading := True,
            lg_pending := [(''e'', ''p'')]\<rparr>"
  have "run (auth_step login) (auth_start Map.empty) [SetEmail ''e'', SetPassword ''p'', SubmitAuth] = Some ?s"
    by (simp add: auth_start_def can_authenticate_def auth_submit_def)
  moreover have "0 < length (lg_pending ?s)" by simp
  moreover have "c_settle (login (fst (lg_pending ?s ! 0)) (snd (lg_pending ?s ! 0)))
      (ok_body \<lparr>ar_user = None, ar_access_token = Some ''jwt''\<rparr>)
      = Inr \<lparr>ar_user = None, ar_access_token = Some ''jwt''\<rparr>"
    by (simp add: login_def)
  moreover have "ar_access_token \<lparr>ar_user = None, ar_access_token = Some ''jwt''\<rparr> = Some ''jwt''" by simp
  moreover have "''jwt'' \<noteq> []" by simp
  ultimately show ?thesis
    using sign_in_flow [where base = None and p = "''/dashboard''"] by blast
qed

text \<open>C3: From the registration form to the dashboard, through both programs: when the server accepts the
  form that the page has sent, the page stores a token with which the server, for the next day, answers
  that the new user is signed in, with the address of the form and as an administrator exactly when it is
  the first user and the configuration says so; the user's wallet holds the starting credits, and the
  frame shows the dashboard.\<close>

theorem registration_end_to_end:
  assumes page: "run (auth_step (register ''User'')) (auth_start st) es = Some s" "i < length (lg_pending s)"
      "lg_pending s ! i = (e, p)"
    and books: "run ledger_step empty_db txs = Some d"
    and server: "RegisterHandler env now cfg uid pid wid served req1
        (api_request base tok path (c_init (register ''User'' e p))) d = (Response 200 body, d')"
    and jwt: "\<And>c t. ae_SignJWT env (ae_JWTSecret env) c = Some t \<Longrightarrow> t \<noteq> [] \<and> TrimSpace t = t
        \<and> (\<forall>clock < cl_ExpiresAt c. \<exists>c'. ae_ParseJWT env clock (ae_JWTSecret env) t = Some c' \<and> cl_UserID c' = cl_UserID c)"
    and day: "later < now + 24 * 60 * 60"
  shows "\<exists>t u. auth_step (register ''User'') s (AuthSettled i (Response 200 body)) = Some t
     \<and> last (lg_visits t) = ''/dashboard''
     \<and> MeHandler env later True req2
         (api_request base (getToken True (lg_storage t)) (c_path me) (c_init me)) d' = OK (Some u)
     \<and> u_email u = lowercase (TrimSpace e)
     \<and> u_role u = (if CountUsers d = 0 \<and> cfg_BootstrapFirstUserAdmin cfg then ''admin'' else ''user'')
     \<and> funds d' wid = Some (sint (cfg_StartingFreeCredits cfg), 0)
     \<and> (\<exists>sh. shell_step (DashboardLayout here (lg_storage t)) (MeSettled (OK (Some u))) = Some sh
          \<and> sh_user sh = Some u \<and> children_shown sh)"
proof -
  obtain out where out: "AuthRegister env now cfg uid pid wid served e p ''User'' d = (out, d')"
    "respond req1 out = Response 200 body"
    using server by (auto simp: RegisterHandler_def client_register_fields split: prod.splits)
  obtain u tk where o: "out = Inr (u, tk)" "Response 200 body = OK (authResponse (u, tk))"
  proof (cases out)
    case (Inl x)
    with out(2) show ?thesis by (auto simp: respond_def Handle_def Error_def split: if_splits)
  next
    case (Inr x)
    with out(2) show ?thesis by (intro that [of "fst x" "snd x"]) (simp_all add: respond_def)
  qed
  have reg: "Register cfg (ae_HashPassword env) uid pid wid served e p ''User'' d = (Inr u, d')"
    and sign: "ae_SignJWT env (ae_JWTSecret env) (claims_of now u) = Some tk"
    using out(1) o(1) by (auto simp: AuthRegister_def sign_in_user split: prod.splits)
  note new = Register_users [OF reg]
  have tk: "tk \<noteq> []" "TrimSpace tk = tk" using jwt [OF sign] by blast+
  obtain c where c: "ae_ParseJWT env later (ae_JWTSecret env) tk = Some c" "cl_UserID c = ur_public_id u"
    using jwt [OF sign] day by (auto simp: claims_of_def)
  let ?t = "auth_settled i (Inr (authResponse (u, tk))) s"
  have "auth_step (register ''User'') s (AuthSettled i (Response 200 body)) = Some ?t"
    using page(2,3) unfolding o(2) by (simp add: register_def object_result_def OK_def res_ok_def)
  moreover have "last (lg_visits ?t) = ''/dashboard''" by (simp add: auth_settled_def Let_def authResponse_def)
  moreover have st: "getToken True (lg_storage ?t) = tk"
    by (simp add: auth_settled_def Let_def authResponse_def local_storage.get_put)
  moreover have "MeHandler env later True req2 (api_request base tk (c_path me) (c_init me)) d' = OK (Some (userResponse u))"
    using Me_answer [OF client_bearer [OF tk] tk(1) c(1)] registered_found(1) [OF reg] c(2) by simp
  moreover have "funds d' wid = Some (sint (cfg_StartingFreeCredits cfg), 0)"
    using Register_funds [OF ledger.run_inv [OF books] reg] by simp
  moreover have "\<exists>sh. shell_step (DashboardLayout here (lg_storage ?t)) (MeSettled (OK (Some (userResponse u)))) = Some sh
      \<and> sh_user sh = Some (userResponse u) \<and> children_shown sh"
    using tk(1) st by (simp add: DashboardLayout_def shell_start_def shell_settled_def shell_accepted_def me_def
        children_shown_def OK_def field_result_def res_ok_def)
  ultimately show ?thesis
    using new by (intro exI [of _ ?t] exI [of _ "userResponse u"]) (simp add: userResponse_def)
qed

definition demo_signup :: auth_page where
  "demo_signup = auth_start Map.empty\<lparr>lg_email := ''A@b'', lg_password := ''password'', lg_loading := True,
     lg_pending := [(''A@b'', ''password'')]\<rparr>"

definition demo_answer :: "auth_response http \<times> db" where
  "demo_answer = RegisterHandler demo_env 0 demo_cfg ''uid'' ''pub'' ''wid'' True ''req_1''
     (api_request None [] [] (c_init (register ''User'' ''A@b'' ''password''))) empty_db"

theorem registration_end_to_end_witness:
  "\<exists>t. auth_step (register ''User'') demo_signup (AuthSettled 0 (fst demo_answer)) = Some t
     \<and> last (lg_visits t) = ''/dashboard'' \<and> funds (snd demo_answer) ''wid'' = Some (1000, 0)"
proof -
  have r: "run (auth_step (register ''User'')) (auth_start Map.empty)
      [SetEmail ''A@b'', SetPassword ''password'', SubmitAuth] = Some demo_signup"
    by (simp add: demo_signup_def auth_start_def can_authenticate_def auth_submit_def)
  have "case fst demo_answer of Response st body \<Rightarrow> st = 200 | _ \<Rightarrow> False" by code_simp
  then obtain body where b: "fst demo_answer = Response 200 body" by (auto split: http.splits)
  then have h: "RegisterHandler demo_env 0 demo_cfg ''uid'' ''pub'' ''wid'' True ''req_1''
     (api_request None [] [] (c_init (register ''User'' ''A@b'' ''password''))) empty_db = (Response 200 body, snd demo_answer)"
    by (simp add: demo_answer_def prod_eq_iff)
  have "run ledger_step empty_db [] = Some empty_db" by simp
  from registration_end_to_end [OF r _ _ this h demo_jwt, of 0 60] b show ?thesis
    by (auto simp: demo_signup_def demo_cfg_def)
qed

text \<open>A login answered with an accepted but empty response stores the text \<open>undefined\<close> as the token:
  the dashboard's frame then takes the visitor for signed in and asks the API with that text.\<close>

theorem login_without_token:
  assumes "i < length (lg_pending s)" "res_ok status" "status \<noteq> 204"
  shows "\<exists>t. auth_step login s (AuthSettled i (Response status EmptyText)) = Some t
     \<and> getToken True (lg_storage t) = ''undefined'' \<and> last (lg_visits t) = ''/dashboard''
     \<and> sh_pending (DashboardLayout p (lg_storage t)) \<and> sh_visits (DashboardLayout p (lg_storage t)) = []"
  using assms by (simp add: auth_settled_def login_def object_result_def no_auth_def Let_def
      local_storage.get_put DashboardLayout_def shell_start_def)

theorem login_without_token_witness:
  "\<exists>t. auth_step login (auth_start Map.empty\<lparr>lg_pending := [(''e'', ''p'')]\<rparr>)
         (AuthSettled 0 (Response 200 EmptyText)) = Some t
     \<and> getToken True (lg_storage t) = ''undefined''"
  using login_without_token [of 0 "auth_start Map.empty\<lparr>lg_pending := [(''e'', ''p'')]\<rparr>" 200]
  by (fastforce simp: res_ok_def)

end
